(* ===== verification/PyValue.thy ===== *)
theory PyValue
  imports Prelude
begin

text \<open>
  JSON documents as the sources hold them after \<open>json.loads\<close>, and the Python
  operations applied to such values: truth, \<open>isinstance\<close>, \<open>dict.get\<close>,
  \<open>str\<close> and \<open>repr\<close>.  A float is its value together with the text Python
  prints for it.  A \<open>dict\<close> is an association list in insertion order.
\<close>

section \<open>Values\<close>

datatype json =
    JNull
  | JBool bool
  | JInt int
  | JFloat rat string
  | JStr string
  | JArr "json list"
  | JObj "(string \<times> json) list"

type_synonym json_obj = "(string \<times> json) list"

text \<open>\<open>d.get(k)\<close>, \<open>d.get(k, default)\<close> and \<open>k in d\<close>.\<close>

definition jget :: "json_obj \<Rightarrow> string \<Rightarrow> json" where
  "jget d k = (case map_of d k of None \<Rightarrow> JNull | Some v \<Rightarrow> v)"

definition jget_or :: "json_obj \<Rightarrow> string \<Rightarrow> json \<Rightarrow> json" where
  "jget_or d k dflt = (case map_of d k of None \<Rightarrow> dflt | Some v \<Rightarrow> v)"

definition jhas :: "json_obj \<Rightarrow> string \<Rightarrow> bool" where
  "jhas d k \<longleftrightarrow> map_of d k \<noteq> None"

text \<open>\<open>bool(v)\<close>\<close>

fun truthy :: "json \<Rightarrow> bool" where
  "truthy JNull = False"
| "truthy (JBool b) = b"
| "truthy (JInt i) = (i \<noteq> 0)"
| "truthy (JFloat r t) = (r \<noteq> 0)"
| "truthy (JStr s) = (s \<noteq> [])"
| "truthy (JArr xs) = (xs \<noteq> [])"
| "truthy (JObj d) = (d \<noteq> [])"

text \<open>\<open>isinstance(v, int)\<close> holds of booleans as well; \<open>as_int\<close> is the integer such a value is.\<close>

fun as_int :: "json \<Rightarrow> int option" where
  "as_int (JInt i) = Some i"
| "as_int (JBool b) = Some (if b then 1 else 0)"
| "as_int _ = None"

fun as_str :: "json \<Rightarrow> string option" where
  "as_str (JStr s) = Some s"
| "as_str _ = None"

fun as_list :: "json \<Rightarrow> json list option" where
  "as_list (JArr xs) = Some xs"
| "as_list _ = None"

fun as_obj :: "json \<Rightarrow> json_obj option" where
  "as_obj (JObj d) = Some d"
| "as_obj _ = None"

text \<open>\<open>v == n\<close> for an integer literal: \<open>True == 1\<close> and \<open>1.0 == 1\<close> in Python.\<close>

fun eq_int :: "json \<Rightarrow> int \<Rightarrow> bool" where
  "eq_int (JInt i) n = (i = n)"
| "eq_int (JBool b) n = (n = (if b then 1 else 0))"
| "eq_int (JFloat r t) n = (r = of_int n)"
| "eq_int _ n = False"

section \<open>str and repr\<close>

definition hex_digit :: "nat \<Rightarrow> char" where
  "hex_digit n = (if n < 10 then char_of (48 + n) else char_of (87 + n))"

definition is_printable :: "char \<Rightarrow> bool" where
  "is_printable c \<longleftrightarrow> (32 \<le> code c \<and> code c \<le> 126) \<or> (161 \<le> code c \<and> code c \<noteq> 173)"

definition repr_char :: "char \<Rightarrow> char \<Rightarrow> string" where
  "repr_char q c =
     (if c = q \<or> c = CHR 0x5C then [CHR 0x5C, c]
      else if code c = 10 then [CHR 0x5C, CHR ''n'']
      else if code c = 13 then [CHR 0x5C, CHR ''r'']
      else if code c = 9 then [CHR 0x5C, CHR ''t'']
      else if is_printable c then [c]
      else [CHR 0x5C, CHR ''x'', hex_digit (code c div 16), hex_digit (code c mod 16)])"

text \<open>Single quotes, unless the text holds a single quote and no double quote.\<close>

definition repr_str :: "string \<Rightarrow> string" where
  "repr_str s =
     (let sq = CHR 0x27; dq = CHR 0x22;
          q = (if sq \<in> set s \<and> dq \<notin> set s then dq else sq)
      in q # concat (map (repr_char q) s) @ [q])"

fun repr :: "json \<Rightarrow> string" where
  "repr JNull = ''None''"
| "repr (JBool b) = (if b then ''True'' else ''False'')"
| "repr (JInt i) = show_int i"
| "repr (JFloat r t) = t"
| "repr (JStr s) = repr_str s"
| "repr (JArr xs) = ''['' @ join '', '' (map repr xs) @ '']''"
| "repr (JObj d) = ''{'' @ join '', '' (map (\<lambda>(k, v). repr_str k @ '': '' @ repr v) d) @ ''}''"

text \<open>\<open>str(v)\<close>, and the text an f-string \<open>{v}\<close> inserts.\<close>

fun py_str :: "json \<Rightarrow> string" where
  "py_str (JStr s) = s"
| "py_str v = repr v"

text \<open>The name \<open>type(v).__name__\<close>.\<close>

fun type_name :: "json \<Rightarrow> string" where
  "type_name JNull = ''NoneType''"
| "type_name (JBool b) = ''bool''"
| "type_name (JInt i) = ''int''"
| "type_name (JFloat r t) = ''float''"
| "type_name (JStr s) = ''str''"
| "type_name (JArr xs) = ''list''"
| "type_name (JObj d) = ''dict''"

section \<open>Optional fields as JSON\<close>

definition jopt :: "('a \<Rightarrow> json) \<Rightarrow> 'a option \<Rightarrow> json" where
  "jopt f x = (case x of None \<Rightarrow> JNull | Some a \<Rightarrow> f a)"

definition show_opt :: "('a \<Rightarrow> string) \<Rightarrow> 'a option \<Rightarrow> string" where
  "show_opt f x = (case x of None \<Rightarrow> ''None'' | Some a \<Rightarrow> f a)"

lemma jopt_simps [simp]: "jopt f None = JNull" "jopt f (Some a) = f a"
  by (simp_all add: jopt_def)

lemma show_opt_simps [simp]: "show_opt f None = ''None''" "show_opt f (Some a) = f a"
  by (simp_all add: show_opt_def)

lemma jget_simps [simp]:
  "jget [] k = JNull"
  "jget ((k', v) # d) k = (if k = k' then v else jget d k)"
  by (simp_all add: jget_def)

lemma jget_or_simps [simp]:
  "jget_or [] k z = z"
  "jget_or ((k', v) # d) k z = (if k = k' then v else jget_or d k z)"
  by (simp_all add: jget_or_def)

lemma jhas_simps [simp]:
  "jhas [] k = False"
  "jhas ((k', v) # d) k = (k = k' \<or> jhas d k)"
  by (simp_all add: jhas_def)

lemma jget_or_JNull: "jget_or d k JNull = jget d k"
  by (simp add: jget_def jget_or_def)

lemma truthy_not_null: "truthy v \<Longrightarrow> v \<noteq> JNull"
  by auto

section \<open>Numbers from values\<close>

text \<open>The digits of \<open>int()\<close>'s text, at most the interpreter's default limit of 4300.\<close>

definition digit_groups :: "string \<Rightarrow> nat option" where
  "digit_groups s =
     (let gs = split_on CHR ''_'' s in
      if list_all (\<lambda>g. g \<noteq> [] \<and> list_all is_digit g) gs \<and> length (concat gs) \<le> 4300
      then Some (digits_value 0 (concat gs)) else None)"

text \<open>\<open>int(v)\<close>: \<open>None\<close> for the \<open>TypeError\<close> or \<open>ValueError\<close> it raises.\<close>

definition parse_int :: "string \<Rightarrow> int option" where
  "parse_int s =
     (case strip s of
        [] \<Rightarrow> None
      | c # cs \<Rightarrow>
          if c = CHR ''-'' then map_option (\<lambda>n. - int n) (digit_groups cs)
          else if c = CHR ''+'' then map_option int (digit_groups cs)
          else map_option int (digit_groups (c # cs)))"

fun to_int :: "json \<Rightarrow> int option" where
  "to_int (JInt i) = Some i"
| "to_int (JBool b) = Some (if b then 1 else 0)"
| "to_int (JFloat r t) = Some (if 0 \<le> r then \<lfloor>r\<rfloor> else \<lceil>r\<rceil>)"
| "to_int (JStr s) = parse_int s"
| "to_int _ = None"

text \<open>\<open>float(v)\<close>: what it makes of a text is the argument \<open>pf\<close>; \<open>None\<close> for what raises.\<close>

fun to_float :: "(string \<Rightarrow> rat option) \<Rightarrow> json \<Rightarrow> rat option" where
  "to_float pf (JInt i) = Some (of_int i)"
| "to_float pf (JBool b) = Some (if b then 1 else 0)"
| "to_float pf (JFloat r t) = Some r"
| "to_float pf (JStr s) = pf s"
| "to_float pf _ = None"

text \<open>\<open>round(x)\<close>: to the nearest integer, a half to the even one.\<close>

definition py_round :: "rat \<Rightarrow> int" where
  "py_round x =
     (let f = \<lfloor>x\<rfloor>; d = x - of_int f in
      if d < 1 / 2 then f else if 1 / 2 < d then f + 1 else if even f then f else f + 1)"

end
