(* ===== verification/Url.thy ===== *)
theory Url
  imports PyValue
begin

text \<open>
  What the sources use of \<open>urllib.parse.urlsplit\<close> and \<open>ipaddress\<close>: a URL's
  five parts, its \<open>hostname\<close> and \<open>port\<close>, the \<open>ValueError\<close>s they raise, and
  the numeric value of an IPv4 or IPv6 literal.  The IDNA/NFKC check of
  \<open>urlsplit\<close> never fires on code points below 256 and is left out.
\<close>

section \<open>IP literals\<close>

definition ipv4_octet :: "string \<Rightarrow> nat option" where
  "ipv4_octet s =
     (if s = [] \<or> \<not> list_all is_digit s \<or> 3 < length s
         \<or> (1 < length s \<and> hd s = CHR ''0'') \<or> 255 < digits_value 0 s
      then None else Some (digits_value 0 s))"

definition parse_ipv4 :: "string \<Rightarrow> nat option" where
  "parse_ipv4 s =
     (case map ipv4_octet (split_on CHR ''.'' s) of
        [Some a, Some b, Some c, Some d] \<Rightarrow> Some (((a * 256 + b) * 256 + c) * 256 + d)
      | _ \<Rightarrow> None)"

definition hex_value :: "char \<Rightarrow> nat" where
  "hex_value c = (if is_digit c then code c - 48
     else if 97 \<le> code c then code c - 87 else code c - 55)"

definition parse_hextet :: "string \<Rightarrow> nat option" where
  "parse_hextet s =
     (if s = [] \<or> 4 < length s \<or> \<not> list_all is_hex s then None
      else Some (foldl (\<lambda>acc c. 16 * acc + hex_value c) 0 s))"

text \<open>The hextets of the part before and after the \<open>::\<close>, if any.\<close>

definition hextets_value :: "string list \<Rightarrow> nat option" where
  "hextets_value ps =
     foldl (\<lambda>acc p. case (acc, parse_hextet p) of (Some n, Some h) \<Rightarrow> Some (65536 * n + h) | _ \<Rightarrow> None)
       (Some 0) ps"

text \<open>The indices of the empty inner parts: at most one, the place of \<open>::\<close>.\<close>

definition inner_empty :: "string list \<Rightarrow> nat list" where
  "inner_empty ps = List.filter (\<lambda>i. ps ! i = []) [1..<length ps - 1]"

text \<open>The high and low parts a \<open>::\<close> at index \<open>i\<close> leaves; a lone colon at an end is an error.\<close>

definition skip_split :: "string list \<Rightarrow> nat \<Rightarrow> (string list \<times> string list) option" where
  "skip_split ps i =
     (let hi = take i ps; lo = drop (Suc i) ps;
          hi' = (if hd ps = [] then tl hi else hi);
          lo' = (if last ps = [] then butlast lo else lo)
      in if (hd ps = [] \<and> hi' \<noteq> []) \<or> (last ps = [] \<and> lo' \<noteq> [])
            \<or> 8 < Suc (length hi' + length lo') then None
         else Some (hi', lo'))"

text \<open>The text of an IPv4 suffix as two hextets.\<close>

fun show_hex :: "nat \<Rightarrow> string" where
  "show_hex n = (if n < 16 then [hex_digit n] else show_hex (n div 16) @ [hex_digit (n mod 16)])"

declare show_hex.simps [simp del]

definition ipv6_parts :: "string \<Rightarrow> string list option" where
  "ipv6_parts s =
     (let ps = split_on CHR '':'' s in
      if length ps < 3 then None
      else if CHR ''.'' \<in> set (last ps) then
        (case parse_ipv4 (last ps) of None \<Rightarrow> None
         | Some v \<Rightarrow> Some (butlast ps @ [show_hex (v div 65536), show_hex (v mod 65536)]))
      else Some ps)"

definition ipv6_int :: "string \<Rightarrow> nat option" where
  "ipv6_int s =
     (case ipv6_parts s of None \<Rightarrow> None
      | Some ps \<Rightarrow>
          if 9 < length ps then None
          else (case inner_empty ps of
              [] \<Rightarrow> if length ps \<noteq> 8 then None else hextets_value ps
            | [i] \<Rightarrow> (case skip_split ps i of None \<Rightarrow> None
                | Some (hi, lo) \<Rightarrow>
                    (case (hextets_value hi, hextets_value lo) of
                       (Some h, Some l) \<Rightarrow> Some (h * 65536 ^ (8 - length hi) + l)
                     | _ \<Rightarrow> None))
            | _ \<Rightarrow> None))"

definition parse_ipv6 :: "string \<Rightarrow> nat option" where
  "parse_ipv6 s =
     (if CHR ''/'' \<in> set s then None
      else (case partition_at CHR ''%'' s of (addr, found, zone) \<Rightarrow>
        if found \<and> (zone = [] \<or> CHR ''%'' \<in> set zone) then None
        else ipv6_int addr))"

section \<open>urlsplit\<close>

record split_url =
  su_scheme :: string
  su_netloc :: string
  su_path :: string
  su_query :: string
  su_fragment :: string

definition is_scheme_char :: "char \<Rightarrow> bool" where
  "is_scheme_char c \<longleftrightarrow> is_ascii_alpha c \<or> is_digit c \<or> c \<in> {CHR ''+'', CHR ''-'', CHR ''.''}"

definition split_scheme :: "string \<Rightarrow> string \<times> string" where
  "split_scheme url =
     (case partition_at CHR '':'' url of (a, found, b) \<Rightarrow>
        if found \<and> a \<noteq> [] \<and> is_ascii_alpha (hd a) \<and> list_all is_scheme_char a
        then (py_lower a, b) else ([], url))"

definition is_netloc_end :: "char \<Rightarrow> bool" where
  "is_netloc_end c \<longleftrightarrow> c \<in> {CHR ''/'', CHR ''?'', CHR ''#''}"

definition check_bracketed_host :: "string \<Rightarrow> string option" where
  "check_bracketed_host h =
     (if prefix ''v'' h then
        (let rest = dropWhile is_hex (tl h) in
         if takeWhile is_hex (tl h) = [] \<or> \<not> prefix ''.'' rest \<or> tl rest = []
         then Some ''IPvFuture address is invalid'' else None)
      else if parse_ipv4 h \<noteq> None then Some ''An IPv4 address cannot be in brackets''
      else if parse_ipv6 h = None
        then Some (repr_str h @ '' does not appear to be an IPv4 or IPv6 address'')
      else None)"

definition check_bracketed_netloc :: "string \<Rightarrow> string option" where
  "check_bracketed_netloc n =
     (case partition_at CHR ''['' (after_last CHR ''@'' n) of (before, found, bracketed) \<Rightarrow>
        if found then
          (if before \<noteq> [] then Some ''Invalid IPv6 URL''
           else (case partition_at CHR '']'' bracketed of (host, _, port) \<Rightarrow>
             if port \<noteq> [] \<and> \<not> prefix '':'' port then Some ''Invalid IPv6 URL''
             else check_bracketed_host host))
        else (case partition_at CHR '':'' (after_last CHR ''@'' n) of (host, _, _) \<Rightarrow>
          check_bracketed_host host))"

definition netloc_problem :: "string \<Rightarrow> string option" where
  "netloc_problem n =
     (if (CHR ''['' \<in> set n) \<noteq> (CHR '']'' \<in> set n) then Some ''Invalid IPv6 URL''
      else if CHR ''['' \<in> set n then check_bracketed_netloc n
      else None)"

definition split_tail :: "string \<Rightarrow> string \<Rightarrow> string \<Rightarrow> split_url" where
  "split_tail scheme netloc rest =
     (case partition_at CHR ''#'' rest of (before, _, fragment) \<Rightarrow>
      case partition_at CHR ''?'' before of (path, _, query) \<Rightarrow>
        \<lparr>su_scheme = scheme, su_netloc = netloc, su_path = path, su_query = query,
         su_fragment = fragment\<rparr>)"

definition clean_url :: "string \<Rightarrow> string" where
  "clean_url url =
     List.filter (\<lambda>c. code c \<noteq> 9 \<and> code c \<noteq> 10 \<and> code c \<noteq> 13) (lstrip (\<lambda>c. code c \<le> 32) url)"

definition urlsplit :: "string \<Rightarrow> string + split_url" where
  "urlsplit url0 =
     (case split_scheme (clean_url url0) of (scheme, url) \<Rightarrow>
        if prefix ''//'' url then
          (let netloc = takeWhile (\<lambda>c. \<not> is_netloc_end c) (drop 2 url);
               rest = dropWhile (\<lambda>c. \<not> is_netloc_end c) (drop 2 url)
           in case netloc_problem netloc of
                Some m \<Rightarrow> Inl m
              | None \<Rightarrow> Inr (split_tail scheme netloc rest))
        else Inr (split_tail scheme [] url))"

section \<open>hostname and port\<close>

definition hostinfo :: "split_url \<Rightarrow> string \<times> string" where
  "hostinfo u =
     (let info = after_last CHR ''@'' (su_netloc u) in
      case partition_at CHR ''['' info of (_, found, bracketed) \<Rightarrow>
        if found then
          (case partition_at CHR '']'' bracketed of (host, _, port) \<Rightarrow>
             (host, snd (snd (partition_at CHR '':'' port))))
        else (case partition_at CHR '':'' info of (host, _, port) \<Rightarrow> (host, port)))"

text \<open>\<open>parts.hostname\<close>: lower case but for an IPv6 zone; \<open>None\<close> when empty.\<close>

definition url_hostname :: "split_url \<Rightarrow> string option" where
  "url_hostname u =
     (let h = fst (hostinfo u) in
      if h = [] then None
      else (case partition_at CHR ''%'' h of (name, found, zone) \<Rightarrow>
        Some (py_lower name @ (if found then CHR ''%'' # zone else []))))"

text \<open>\<open>parts.port\<close>: absent, a number, or a \<open>ValueError\<close>.\<close>

definition url_port :: "split_url \<Rightarrow> string + nat option" where
  "url_port u =
     (let p = snd (hostinfo u) in
      if p = [] then Inr None
      else if \<not> list_all is_digit p
        then Inl (''Port could not be cast to integer value as '' @ repr_str p)
      else if 65535 < digits_value 0 p then Inl ''Port out of range 0-65535''
      else Inr (Some (digits_value 0 p)))"

section \<open>Facts about the parts\<close>

lemma split_tail_no_hash: "CHR ''#'' \<notin> set (su_query (split_tail s n r))"
proof -
  obtain b f fr where 1: "partition_at CHR ''#'' r = (b, f, fr)" by (cases "partition_at CHR ''#'' r")
  have b: "CHR ''#'' \<notin> set b"
    using 1 partition_at_eq [of "CHR ''#''" r b fr] partition_at_None [of "CHR ''#''" r]
    by (cases f) (auto simp: partition_at_missing)
  obtain p g q where 2: "partition_at CHR ''?'' b = (p, g, q)" by (cases "partition_at CHR ''?'' b")
  have "set q \<subseteq> set b"
    using 2 partition_at_eq [of "CHR ''?''" b p q] partition_at_None [of "CHR ''?''" b]
    by (cases g) (auto simp: partition_at_missing)
  with b show ?thesis
    by (auto simp: split_tail_def 1 2)
qed

lemma split_tail_path_no_query: "CHR ''?'' \<notin> set (su_path (split_tail s n r))"
proof -
  obtain b f fr where 1: "partition_at CHR ''#'' r = (b, f, fr)" by (cases "partition_at CHR ''#'' r")
  obtain p g q where 2: "partition_at CHR ''?'' b = (p, g, q)" by (cases "partition_at CHR ''?'' b")
  have "CHR ''?'' \<notin> set p"
    using 2 partition_at_eq [of "CHR ''?''" b p q] partition_at_None [of "CHR ''?''" b]
    by (cases g) (auto simp: partition_at_missing)
  then show ?thesis by (auto simp: split_tail_def 1 2)
qed

lemma urlsplit_InrE:
  assumes "urlsplit url = Inr u"
  obtains s n r where "u = split_tail s n r"
  using assms by (auto simp: urlsplit_def Let_def split: prod.splits if_splits option.splits)

end
