(* ===== verification/Models.thy ===== *)
theory Models
  imports Url
begin

text \<open>
  \<open>job/models.py\<close>: the job spec with its field validators, the plan, and the
  envelope with its four orthogonal status fields, the \<open>done\<close> and \<open>ok\<close>
  predicates and \<open>record_failure\<close>.  Pydantic itself (parsing, \<open>model_dump\<close>) is
  not modelled; the validators it calls are.  A validator returns the error
  message it raises or the value it keeps.
\<close>

section \<open>Status enumerations\<close>

datatype workload = W_Pending | W_Running | W_Succeeded | W_Failed | W_Cancelled | W_Unknown

definition workload_terminal :: "workload \<Rightarrow> bool" where
  "workload_terminal w \<longleftrightarrow> w \<in> {W_Succeeded, W_Failed, W_Cancelled, W_Unknown}"

fun workload_value :: "workload \<Rightarrow> string" where
  "workload_value W_Pending = ''pending''"
| "workload_value W_Running = ''running''"
| "workload_value W_Succeeded = ''succeeded''"
| "workload_value W_Failed = ''failed''"
| "workload_value W_Cancelled = ''cancelled''"
| "workload_value W_Unknown = ''unknown''"

datatype offload = O_Pending | O_Running | O_Ok | O_Not_Required | O_Skipped | O_Failed

definition offload_terminal :: "offload \<Rightarrow> bool" where
  "offload_terminal x \<longleftrightarrow> x \<in> {O_Ok, O_Not_Required, O_Skipped, O_Failed}"

fun offload_value :: "offload \<Rightarrow> string" where
  "offload_value O_Pending = ''pending''"
| "offload_value O_Running = ''running''"
| "offload_value O_Ok = ''ok''"
| "offload_value O_Not_Required = ''not_required''"
| "offload_value O_Skipped = ''skipped''"
| "offload_value O_Failed = ''failed''"

datatype cleanup = C_Pending | C_Running | C_Released | C_Already_Absent | C_Left_Up | C_Failed

definition cleanup_terminal :: "cleanup \<Rightarrow> bool" where
  "cleanup_terminal c \<longleftrightarrow> c \<in> {C_Released, C_Already_Absent, C_Left_Up, C_Failed}"

fun cleanup_value :: "cleanup \<Rightarrow> string" where
  "cleanup_value C_Pending = ''pending''"
| "cleanup_value C_Running = ''running''"
| "cleanup_value C_Released = ''released''"
| "cleanup_value C_Already_Absent = ''already_absent''"
| "cleanup_value C_Left_Up = ''left_up''"
| "cleanup_value C_Failed = ''failed''"

datatype supervisor = S_Running | S_Degraded | S_Finished | S_Interrupted

definition supervisor_terminal :: "supervisor \<Rightarrow> bool" where
  "supervisor_terminal s \<longleftrightarrow> s \<in> {S_Finished, S_Interrupted}"

fun supervisor_value :: "supervisor \<Rightarrow> string" where
  "supervisor_value S_Running = ''running''"
| "supervisor_value S_Degraded = ''degraded''"
| "supervisor_value S_Finished = ''finished''"
| "supervisor_value S_Interrupted = ''interrupted''"

datatype retry_class =
  Fix_Code | Fix_Human | Retry_Same | Retry_Different | Refresh_Urls | Do_Not_Retry

fun retry_value :: "retry_class \<Rightarrow> string" where
  "retry_value Fix_Code = ''fix_code''"
| "retry_value Fix_Human = ''fix_human''"
| "retry_value Retry_Same = ''retry_same''"
| "retry_value Retry_Different = ''retry_different''"
| "retry_value Refresh_Urls = ''refresh_urls''"
| "retry_value Do_Not_Retry = ''do_not_retry''"

datatype phase =
  P_Plan | P_Provision | P_Install | P_Restart | P_Verify | P_Stage | P_Run | P_Offload | P_Cleanup

fun phase_value :: "phase \<Rightarrow> string" where
  "phase_value P_Plan = ''plan''"
| "phase_value P_Provision = ''provision''"
| "phase_value P_Install = ''install''"
| "phase_value P_Restart = ''restart''"
| "phase_value P_Verify = ''verify''"
| "phase_value P_Stage = ''stage''"
| "phase_value P_Run = ''run''"
| "phase_value P_Offload = ''offload''"
| "phase_value P_Cleanup = ''cleanup''"

text \<open>\<open>Workload(text)\<close> and \<open>Phase(text)\<close>: \<open>None\<close> is the \<open>ValueError\<close> of an unknown value.\<close>

definition workload_of :: "string \<Rightarrow> workload option" where
  "workload_of s = find (\<lambda>w. workload_value w = s)
     [W_Pending, W_Running, W_Succeeded, W_Failed, W_Cancelled, W_Unknown]"

definition phase_of :: "string \<Rightarrow> phase option" where
  "phase_of s = find (\<lambda>p. phase_value p = s)
     [P_Plan, P_Provision, P_Install, P_Restart, P_Verify, P_Stage, P_Run, P_Offload, P_Cleanup]"

lemma workload_of_value [simp]: "workload_of (workload_value w) = Some w"
  by (cases w) (simp_all add: workload_of_def)

lemma phase_of_value [simp]: "phase_of (phase_value p) = Some p"
  by (cases p) (simp_all add: phase_of_def)

lemma workload_of_SomeD: "workload_of s = Some w \<Longrightarrow> workload_value w = s"
  by (auto simp: workload_of_def split: if_splits)

lemma phase_of_SomeD: "phase_of s = Some p \<Longrightarrow> phase_value p = s"
  by (auto simp: phase_of_def split: if_splits)

section \<open>Field validators\<close>

definition lower_ascii :: "char \<Rightarrow> char" where
  "lower_ascii c = (if 65 \<le> code c \<and> code c \<le> 90 then char_of (code c + 32) else c)"

text \<open>The length of an \<open>https?://\<close> at the head of the text, letters in either case.\<close>

definition http_prefix :: "string \<Rightarrow> nat option" where
  "http_prefix s =
     (if map lower_ascii (take 7 s) = ''http://'' then Some 7
      else if map lower_ascii (take 8 s) = ''https://'' then Some 8 else None)"

lemma http_prefix_pos: "http_prefix s = Some n \<Longrightarrow> 0 < n"
  by (auto simp: http_prefix_def split: if_splits)

text \<open>\<open>_HTTP_URL.findall\<close>\<close>

function find_http_urls :: "string \<Rightarrow> string list" where
  "find_http_urls [] = []"
| "find_http_urls (c # cs) =
     (case http_prefix (c # cs) of
        Some n \<Rightarrow>
          (let body = drop n (c # cs) in
           if takeWhile (\<lambda>x. \<not> is_space x) body \<noteq> []
           then (take n (c # cs) @ takeWhile (\<lambda>x. \<not> is_space x) body)
                # find_http_urls (dropWhile (\<lambda>x. \<not> is_space x) body)
           else find_http_urls cs)
      | None \<Rightarrow> find_http_urls cs)"
  by pat_completeness auto
termination
  by (relation "measure length")
    (auto dest!: http_prefix_pos intro!: le_less_trans [OF length_dropWhile_le])

definition trailing_url_char :: "char \<Rightarrow> bool" where
  "trailing_url_char c \<longleftrightarrow>
     c = CHR 0x27 \<or> c \<in> {CHR 0x22, CHR '')'', CHR '']'', CHR ''}'', CHR ''>'', CHR '','', CHR '';''}"

text \<open>Whether a URL has a query; one that does not parse has one when it holds a \<open>?\<close>.\<close>

definition has_url_query :: "string \<Rightarrow> bool" where
  "has_url_query url =
     (case urlsplit url of Inl _ \<Rightarrow> CHR ''?'' \<in> set url | Inr p \<Rightarrow> su_query p \<noteq> [])"

definition contains_query_url :: "string list \<Rightarrow> bool" where
  "contains_query_url values =
     list_ex (\<lambda>v. list_ex (\<lambda>u. has_url_query (rstrip trailing_url_char u)) (find_http_urls v)) values"

definition args_do_not_embed_signed_urls :: "string list \<Rightarrow> (string, string list) outcome" where
  "args_do_not_embed_signed_urls values =
     (if contains_query_url values
      then Inl ''code arguments must not contain URLs with query credentials'' else Inr values)"

definition deps_do_not_embed_signed_urls :: "string list \<Rightarrow> (string, string list) outcome" where
  "deps_do_not_embed_signed_urls values =
     (if contains_query_url values
      then Inl ''dependencies must not contain URLs with query credentials'' else Inr values)"

text \<open>
  \<open>packaging.Requirement\<close> is not under the sources: \<open>requirement\<close> is the error it
  raises for a text, if any.  The values are kept as they were, not stripped.
\<close>

fun deps_are_valid :: "(string \<Rightarrow> string option) \<Rightarrow> string list \<Rightarrow> string option" where
  "deps_are_valid requirement [] = None"
| "deps_are_valid requirement (dep # deps) =
     (let d = strip dep in
      if d = [] then Some ''empty dependency string is not allowed''
      else (case requirement d of
          Some e \<Rightarrow> Some (''invalid dependency '' @ repr_str d @ '': '' @ e)
        | None \<Rightarrow> deps_are_valid requirement deps))"

definition entry_is_relative_for_bundles :: "string \<Rightarrow> (string, string) outcome" where
  "entry_is_relative_for_bundles v =
     (if prefix ''/'' v \<or> ''..'' \<in> set (split_on CHR ''/'' v)
      then Inl (''entry must be a relative path without '' @ [CHR 0x27] @ ''..''
        @ [CHR 0x27] @ '' -- it is joined against the remote bundle root'')
      else Inr v)"

definition name_is_path_safe :: "string \<Rightarrow> (string, string) outcome" where
  "name_is_path_safe v =
     (if v = [] \<or> CHR ''/'' \<in> set v \<or> prefix ''.'' v
      then Inl (''name must be non-empty, contain no '' @ [CHR 0x27] @ ''/''
        @ [CHR 0x27] @ '', and not start with '' @ [CHR 0x27] @ ''.''
        @ [CHR 0x27] @ '' -- it becomes a directory component on both sides'')
      else Inr v)"

definition sha256_is_full_hex_digest :: "string \<Rightarrow> (string, string) outcome" where
  "sha256_is_full_hex_digest value =
     (if length value \<noteq> 64 \<or> \<not> list_all is_hex value
      then Inl ''sha256 must contain exactly 64 hexadecimal characters''
      else Inr (py_lower value))"

definition data_sha256 :: "string option \<Rightarrow> (string, string option) outcome" where
  "data_sha256 value = (case value of None \<Rightarrow> Inr None
     | Some v \<Rightarrow> (case sha256_is_full_hex_digest v of Inl e \<Rightarrow> Inl e | Inr d \<Rightarrow> Inr (Some d)))"

definition relative_posix_path :: "string \<Rightarrow> (string, string) outcome" where
  "relative_posix_path value =
     (if value = [] \<or> prefix ''/'' value \<or> CHR 0x5C \<in> set value
      then Inl ''source path must be a relative POSIX path''
      else if list_ex (\<lambda>p. p = [] \<or> p = ''.'' \<or> p = ''..'') (split_on CHR ''/'' value)
      then Inl ''source path must not contain empty or parent segments''
      else Inr value)"

definition non_negative_size :: "int \<Rightarrow> (string, int) outcome" where
  "non_negative_size value = (if value < 0 then Inl ''size_bytes must be >= 0'' else Inr value)"

section \<open>The job spec\<close>

record accelerator =
  acc_prefer :: "string list"
  acc_accept_cpu :: bool

datatype code_kind = Kind_File | Kind_Bundle

record code_spec =
  cs_kind :: code_kind
  cs_root :: "string option"
  cs_entry :: string
  cs_args :: "string list"

record data_item =
  di_url :: string
  di_dest :: string
  di_sha256 :: "string option"
  di_size_bytes :: "int option"

record artifact_item =
  ai_path :: string
  ai_url :: string
  ai_required :: bool
  ai_size_bytes :: "int option"

record control_channel =
  ch_put_url :: string
  ch_get_url :: string

record control =
  ctl_result :: "control_channel option"
  ctl_log :: "control_channel option"

record budgets =
  bud_wall_clock :: int
  bud_artifact_sync_interval :: "int option"

datatype retry_mode = Mode_Recreate | Mode_Resume

record retry =
  rt_when :: "retry_class list"
  rt_max_attempts :: int
  rt_budget_seconds :: int
  rt_mode :: retry_mode

datatype on_offload_fail = Leave_Up | Destroy

datatype on_run_fail = Offload_Anyway | Skip

record job_spec =
  sp_name :: string
  sp_code :: code_spec
  sp_accelerator :: accelerator
  sp_deps :: "string list"
  sp_data :: "data_item list"
  sp_artifacts :: "artifact_item list"
  sp_control :: control
  sp_budgets :: budgets
  sp_retry :: retry
  sp_ignore_warnings :: bool
  sp_on_offload_fail :: on_offload_fail
  sp_on_run_fail :: on_run_fail

text \<open>The declared defaults: a spec that gives only a name and an entry.\<close>

definition default_accelerator :: accelerator where
  "default_accelerator = \<lparr>acc_prefer = [''T4''], acc_accept_cpu = False\<rparr>"

definition default_budgets :: budgets where
  "default_budgets = \<lparr>bud_wall_clock = 3600, bud_artifact_sync_interval = None\<rparr>"

definition default_retry :: retry where
  "default_retry = \<lparr>rt_when = [Retry_Same], rt_max_attempts = 1, rt_budget_seconds = 14400,
     rt_mode = Mode_Recreate\<rparr>"

definition default_spec :: "string \<Rightarrow> string \<Rightarrow> job_spec" where
  "default_spec name entry =
     \<lparr>sp_name = name,
      sp_code = \<lparr>cs_kind = Kind_File, cs_root = None, cs_entry = entry, cs_args = []\<rparr>,
      sp_accelerator = default_accelerator, sp_deps = [], sp_data = [], sp_artifacts = [],
      sp_control = \<lparr>ctl_result = None, ctl_log = None\<rparr>, sp_budgets = default_budgets,
      sp_retry = default_retry, sp_ignore_warnings = False,
      sp_on_offload_fail = Leave_Up, sp_on_run_fail = Offload_Anyway\<rparr>"

section \<open>Diagnostics and plan\<close>

datatype severity = Sev_Error | Sev_Warn | Sev_Info

record diagnostic =
  dg_severity :: severity
  dg_code :: string
  dg_message :: string
  dg_retry_class :: "retry_class option"
  dg_hint :: "string option"

record source_file_lock =
  sf_path :: string
  sf_size_bytes :: int
  sf_sha256 :: string

record plan =
  pl_schema_version :: string
  pl_job_id :: string
  pl_spec_hash :: string
  pl_created_at :: string
  pl_spec :: job_spec
  pl_diagnostics :: "diagnostic list"
  pl_url_expiry :: "(string \<times> string option) list"
  pl_probed_size_bytes :: "(string \<times> int) list"
  pl_source_spec_path :: "string option"
  pl_source_files :: "source_file_lock list"

definition has_errors :: "plan \<Rightarrow> bool" where
  "has_errors p = list_ex (\<lambda>d. dg_severity d = Sev_Error) (pl_diagnostics p)"

definition has_warnings :: "plan \<Rightarrow> bool" where
  "has_warnings p = list_ex (\<lambda>d. dg_severity d = Sev_Warn) (pl_diagnostics p)"

text \<open>The key \<open>data[i]\<close> a measured size is stored under.\<close>

definition data_key :: "nat \<Rightarrow> string" where
  "data_key i = ''data['' @ show_nat i @ '']''"

definition input_bytes :: "plan \<Rightarrow> int" where
  "input_bytes p =
     sum_list (map (\<lambda>(i, item). case di_size_bytes item of
          Some n \<Rightarrow> n
        | None \<Rightarrow> (case map_of (pl_probed_size_bytes p) (data_key i) of Some n \<Rightarrow> n | None \<Rightarrow> 0))
       (List.enumerate 0 (sp_data (pl_spec p))))"

section \<open>Fields a newer writer added\<close>

text \<open>
  A record read with \<open>extra="allow"\<close>: the names of its undefined fields, and its
  defined fields in order, each a record, a list (of records or other values)
  or another value.
\<close>

datatype py_model = Py_Model "string list" "(string \<times> py_field) list"
  and py_field = F_Model py_model | F_List "py_model option list" | F_Other

fun unknown_fields :: "py_model \<Rightarrow> string \<Rightarrow> string list"
and unknown_in_field :: "string \<Rightarrow> py_field \<Rightarrow> string \<Rightarrow> string list"
and unknown_in_items :: "string \<Rightarrow> nat \<Rightarrow> py_model option list \<Rightarrow> string \<Rightarrow> string list"
and unknown_in_fields :: "(string \<times> py_field) list \<Rightarrow> string \<Rightarrow> string list" where
  "unknown_fields (Py_Model extra fs) pre =
     map (\<lambda>n. pre @ n) extra @ unknown_in_fields fs pre"
| "unknown_in_fields [] pre = []"
| "unknown_in_fields ((name, f) # fs) pre =
     unknown_in_field name f pre @ unknown_in_fields fs pre"
| "unknown_in_field name (F_Model m) pre = unknown_fields m (pre @ name @ ''.'')"
| "unknown_in_field name (F_List items) pre = unknown_in_items name 0 items pre"
| "unknown_in_field name F_Other pre = []"
| "unknown_in_items name i [] pre = []"
| "unknown_in_items name i (None # items) pre = unknown_in_items name (Suc i) items pre"
| "unknown_in_items name i (Some m # items) pre =
     unknown_fields m (pre @ name @ ''['' @ show_nat i @ ''].'')
     @ unknown_in_items name (Suc i) items pre"

section \<open>Transfer, artifact, input, provision and install records\<close>

datatype transfer_category =
  Cat_Http | Cat_Network | Cat_Checksum | Cat_Size | Cat_Local | Cat_Blocked | Cat_Setup | Cat_Error

fun category_value :: "transfer_category \<Rightarrow> string" where
  "category_value Cat_Http = ''http''"
| "category_value Cat_Network = ''network''"
| "category_value Cat_Checksum = ''checksum''"
| "category_value Cat_Size = ''size''"
| "category_value Cat_Local = ''local''"
| "category_value Cat_Blocked = ''blocked''"
| "category_value Cat_Setup = ''setup''"
| "category_value Cat_Error = ''error''"

record transfer_error =
  te_exception :: string
  te_reason :: string
  te_http_status :: "int option"
  te_body :: "string option"
  te_category :: "transfer_category option"
  te_extra :: json_obj

definition transfer_summary :: "transfer_error \<Rightarrow> string" where
  "transfer_summary e =
     (case te_http_status e of
        Some _ \<Rightarrow> te_reason e
      | None \<Rightarrow> te_exception e @ '': '' @ te_reason e)"

datatype artifact_status = A_Ok | A_Failed | A_Missing

record artifact_result =
  ar_path :: string
  ar_url_id :: string
  ar_status :: artifact_status
  ar_sha256 :: "string option"
  ar_bytes :: "int option"
  ar_error :: "transfer_error option"
  ar_extra :: json_obj

datatype input_status = I_Ok | I_Failed

record input_result =
  ir_dest :: string
  ir_url_id :: string
  ir_status :: input_status
  ir_sha256 :: "string option"
  ir_bytes :: "int option"
  ir_error :: "transfer_error option"
  ir_extra :: json_obj

record compute_unit_reading =
  cu_at :: string
  cu_balance :: rat
  cu_rate_hourly :: rat
  cu_assignments :: int

datatype attempt_outcome = Granted | Attempt_Failed | Refused_Cpu

record provision_attempt =
  pa_accelerator :: string
  pa_outcome :: attempt_outcome
  pa_granted :: "string option"
  pa_http_status :: "int option"
  pa_error :: "string option"
  pa_body :: "string option"
  pa_retry_class :: "retry_class option"

definition provision_summary :: "provision_attempt \<Rightarrow> string" where
  "provision_summary a =
     (case pa_outcome a of
        Granted \<Rightarrow> pa_accelerator a @ '': granted as '' @ show_opt id (pa_granted a)
      | Refused_Cpu \<Rightarrow> pa_accelerator a @ '': granted as '' @ show_opt id (pa_granted a)
          @ '' and released, because accept_cpu is false''
      | Attempt_Failed \<Rightarrow> pa_accelerator a @ '': '' @ show_opt id (pa_error a))"

datatype installer = Uv | Pip

datatype install_failure = IF_Resolution | IF_Build | IF_Auth | IF_Transient | IF_Timeout | IF_Unknown

record install_attempt =
  ia_installer :: installer
  ia_version :: string
  ia_command :: "string list"
  ia_index :: "(string \<times> string) list"
  ia_exit_code :: "int option"
  ia_timed_out :: bool
  ia_seconds :: rat
  ia_failure :: "install_failure option"
  ia_key_lines :: "string list"

section \<open>The envelope\<close>

record job_envelope =
  env_schema_version :: string
  env_cli_version :: string
  env_runtime_payload_version :: string
  env_job_id :: string
  env_phase :: phase
  env_failed_phase :: "phase option"
  env_workload :: workload
  env_offload :: offload
  env_cleanup :: cleanup
  env_supervisor :: supervisor
  env_session :: "string option"
  env_endpoint :: "string option"
  env_requested_accelerator :: "string option"
  env_actual_accelerator :: "string option"
  env_exit_code :: "int option"
  env_signal :: "int option"
  env_exception :: "(string \<times> string) list option"
  env_surviving_descendants :: "int list"
  env_inputs :: "input_result list"
  env_artifacts :: "artifact_result list"
  env_install_attempts :: "install_attempt list"
  env_provision_attempts :: "provision_attempt list"
  env_retry_class :: "retry_class option"
  env_reason :: "string option"
  env_hints :: "string list"
  env_leave_up :: bool
  env_compute_units_at_provision :: "compute_unit_reading option"
  env_compute_units_at_release :: "compute_unit_reading option"
  env_keep_alive_disabled :: bool
  env_attempt :: int
  env_next_poll_after :: int
  env_started_at :: "string option"
  env_finished_at :: "string option"
  env_extra :: json_obj

definition record_failure :: "phase \<Rightarrow> job_envelope \<Rightarrow> job_envelope" where
  "record_failure p env =
     (if env_failed_phase env = None then env\<lparr>env_failed_phase := Some p\<rparr> else env)"

definition env_done :: "job_envelope \<Rightarrow> bool" where
  "env_done env \<longleftrightarrow>
     workload_terminal (env_workload env) \<and> offload_terminal (env_offload env)
     \<and> cleanup_terminal (env_cleanup env) \<and> supervisor_terminal (env_supervisor env)"

definition env_ok :: "job_envelope \<Rightarrow> bool" where
  "env_ok env \<longleftrightarrow>
     env_workload env = W_Succeeded \<and> env_offload env \<in> {O_Ok, O_Not_Required}
     \<and> env_cleanup env \<in> {C_Released, C_Already_Absent, C_Left_Up}"

text \<open>The envelope a job starts with: the class defaults.\<close>

definition new_envelope :: "string \<Rightarrow> string \<Rightarrow> string \<Rightarrow> job_envelope" where
  "new_envelope cli payload job_id =
     \<lparr>env_schema_version = ''2'', env_cli_version = cli, env_runtime_payload_version = payload,
      env_job_id = job_id, env_phase = P_Plan, env_failed_phase = None,
      env_workload = W_Pending, env_offload = O_Pending, env_cleanup = C_Pending,
      env_supervisor = S_Running, env_session = None, env_endpoint = None,
      env_requested_accelerator = None, env_actual_accelerator = None,
      env_exit_code = None, env_signal = None, env_exception = None,
      env_surviving_descendants = [], env_inputs = [], env_artifacts = [],
      env_install_attempts = [], env_provision_attempts = [],
      env_retry_class = None, env_reason = None, env_hints = [], env_leave_up = False,
      env_compute_units_at_provision = None, env_compute_units_at_release = None,
      env_keep_alive_disabled = False, env_attempt = 1, env_next_poll_after = 15,
      env_started_at = None, env_finished_at = None, env_extra = []\<rparr>"

lemma record_failure_first:
  "env_failed_phase (record_failure p env) =
     (case env_failed_phase env of None \<Rightarrow> Some p | Some q \<Rightarrow> Some q)"
  by (simp add: record_failure_def split: option.splits)

lemma record_failure_frame [env_frame, simp]:
  "env_workload (record_failure p env) = env_workload env"
  "env_offload (record_failure p env) = env_offload env"
  "env_cleanup (record_failure p env) = env_cleanup env"
  "env_supervisor (record_failure p env) = env_supervisor env"
  "env_endpoint (record_failure p env) = env_endpoint env"
  "env_reason (record_failure p env) = env_reason env"
  "env_retry_class (record_failure p env) = env_retry_class env"
  "env_hints (record_failure p env) = env_hints env"
  "env_job_id (record_failure p env) = env_job_id env"
  "env_surviving_descendants (record_failure p env) = env_surviving_descendants env"
  "env_phase (record_failure p env) = env_phase env"
  "env_artifacts (record_failure p env) = env_artifacts env"
  "env_extra (record_failure p env) = env_extra env"
  by (simp_all add: record_failure_def)

end
