(* ===== verification/Redact.thy ===== *)
theory Redact
  imports Url
begin

text \<open>
  \<open>job/runtime_payload/redact.py\<close>: the removal of credentials from text before
  it is persisted, logged or shown.  The two regular expressions are written
  as scanners: \<open>_QUERY\<close> replaces every \<open>?\<close>-run that holds an \<open>=\<close>, \<open>_USERINFO\<close>
  the part between \<open>scheme://\<close> and \<open>@\<close>.
\<close>

section \<open>The two patterns\<close>

text \<open>\<open>[^\\s'"<>,)]\<close>, the characters a query run is made of.\<close>

definition query_char :: "char \<Rightarrow> bool" where
  "query_char c \<longleftrightarrow>
     \<not> is_space c \<and> c \<noteq> CHR 0x27 \<and> c \<notin> {CHR 0x22, CHR ''<'', CHR ''>'', CHR '','', CHR '')''}"

function redact_query :: "string \<Rightarrow> string" where
  "redact_query [] = []"
| "redact_query (c # cs) =
     (if c = CHR ''?'' \<and> CHR ''='' \<in> set (takeWhile query_char cs)
      then ''?<redacted>'' @ redact_query (dropWhile query_char cs)
      else c # redact_query cs)"
  by pat_completeness auto
termination
  by (relation "measure length") (auto simp: le_imp_less_Suc length_dropWhile_le)

text \<open>\<open>[^\\s/@'"<>]\<close>, the characters of a userinfo.\<close>

definition userinfo_char :: "char \<Rightarrow> bool" where
  "userinfo_char c \<longleftrightarrow>
     \<not> is_space c \<and> c \<noteq> CHR 0x27 \<and> c \<notin> {CHR ''/'', CHR ''@'', CHR 0x22, CHR ''<'', CHR ''>''}"

text \<open>The match of \<open>_USERINFO\<close> at the head of \<open>s\<close>, after a word boundary: scheme and what follows the \<open>@\<close>.\<close>

definition userinfo_match :: "string \<Rightarrow> (string \<times> string) option" where
  "userinfo_match s =
     (case s of [] \<Rightarrow> None
      | c # _ \<Rightarrow>
          (let scheme = takeWhile is_scheme_char s; rest = dropWhile is_scheme_char s in
           if is_ascii_alpha c \<and> prefix ''://'' rest then
             (let body = drop 3 rest; info = takeWhile userinfo_char body;
                  after = dropWhile userinfo_char body
              in if info \<noteq> [] \<and> prefix ''@'' after then Some (scheme, tl after) else None)
           else None))"

lemma userinfo_match_shorter: "userinfo_match s = Some (sch, rest) \<Longrightarrow> length rest < length s"
proof (cases s)
  case (Cons c cs)
  assume m: "userinfo_match s = Some (sch, rest)"
  let ?d = "dropWhile is_scheme_char s"
  from m Cons have "rest = tl (dropWhile userinfo_char (drop 3 ?d))"
    by (auto simp: userinfo_match_def Let_def split: if_splits)
  then have "length rest \<le> length ?d - 3"
    using length_dropWhile_le [of userinfo_char "drop 3 ?d"] by simp
  moreover have "prefix ''://'' ?d"
    using m Cons by (simp add: userinfo_match_def Let_def split: if_splits)
  then have "?d \<noteq> []" by (metis list.distinct(1) prefix_Nil)
  moreover have "length ?d \<le> length s" by (rule length_dropWhile_le)
  ultimately show ?thesis by (cases "?d") auto
qed (simp add: userinfo_match_def)

text \<open>\<open>boundary\<close> says whether the character before is not a word character (\<open>\\b\<close> before a letter).\<close>

function redact_userinfo_at :: "bool \<Rightarrow> string \<Rightarrow> string" where
  "redact_userinfo_at boundary [] = []"
| "redact_userinfo_at boundary (c # cs) =
     (case (if boundary then userinfo_match (c # cs) else None) of
        Some (scheme, rest) \<Rightarrow> scheme @ ''://***@'' @ redact_userinfo_at True rest
      | None \<Rightarrow> c # redact_userinfo_at (\<not> is_word c) cs)"
  by pat_completeness auto
termination
  by (relation "measure (\<lambda>(b, s). length s)")
    (auto dest: userinfo_match_shorter split: if_splits)

definition redact_userinfo :: "string \<Rightarrow> string" where
  "redact_userinfo s = redact_userinfo_at True s"

definition redact_credentials :: "string \<Rightarrow> string" where
  "redact_credentials text = redact_query (redact_userinfo text)"

definition redact_url :: "string \<Rightarrow> string option \<Rightarrow> string \<Rightarrow> string" where
  "redact_url text url identity =
     redact_credentials
       (case url of None \<Rightarrow> text
        | Some u \<Rightarrow>
            if u = [] then text
            else (let text1 = replace_all u identity text;
                      query = (case urlsplit u of Inl _ \<Rightarrow> [] | Inr p \<Rightarrow> su_query p)
                  in if query \<noteq> [] then replace_all query ''<redacted>'' text1 else text1))"

definition describe_error :: "py_error \<Rightarrow> string" where
  "describe_error e = err_type e @ '': '' @ redact_credentials (err_msg e)"

section \<open>No query credential survives\<close>

text \<open>A text leaks a query when some \<open>?\<close> starts a run of query characters that holds an \<open>=\<close>.\<close>

fun leaks_query :: "string \<Rightarrow> bool" where
  "leaks_query [] \<longleftrightarrow> False"
| "leaks_query (c # cs) \<longleftrightarrow>
     (c = CHR ''?'' \<and> CHR ''='' \<in> set (takeWhile query_char cs)) \<or> leaks_query cs"

lemma query_char_eq_sign [simp]: "query_char CHR ''=''"
  by (simp add: query_char_def is_space_def code_def)

lemma query_char_question [simp]: "query_char CHR ''?''"
  by (simp add: query_char_def is_space_def code_def)

lemma not_query_char_lt [simp]: "\<not> query_char CHR ''<''"
  by (simp add: query_char_def)

lemma redact_query_span:
  "CHR ''='' \<notin> set (takeWhile query_char s) \<Longrightarrow>
   takeWhile query_char (redact_query s) = takeWhile query_char s"
proof (induction s rule: redact_query.induct)
  case (2 c cs)
  show ?case
  proof (cases "query_char c")
    case True
    with "2.prems" have cs: "CHR ''='' \<notin> set (takeWhile query_char cs)" by auto
    with "2.IH"(2) True show ?thesis by simp
  next
    case False
    then have "c \<noteq> CHR ''?''" by auto
    with False show ?thesis by simp
  qed
qed simp

lemma redact_query_no_leak: "\<not> leaks_query (redact_query s)"
proof (induction s rule: redact_query.induct)
  case (2 c cs)
  show ?case
  proof (cases "c = CHR ''?'' \<and> CHR ''='' \<in> set (takeWhile query_char cs)")
    case True
    with "2.IH"(1) show ?thesis by simp
  next
    case False
    then have "c = CHR ''?'' \<Longrightarrow> CHR ''='' \<notin> set (takeWhile query_char (redact_query cs))"
      using redact_query_span [of cs] by auto
    with "2.IH"(2) False show ?thesis by auto
  qed
qed simp

lemma redact_query_idle: "\<not> leaks_query s \<Longrightarrow> redact_query s = s"
  by (induction s rule: redact_query.induct) auto

section \<open>Leaks and concatenation\<close>

lemma leaks_query_cut:
  "\<not> query_char c \<Longrightarrow> leaks_query (xs @ c # ys) \<longleftrightarrow> leaks_query xs \<or> leaks_query ys"
proof (induction xs)
  case Nil
  then have "c \<noteq> CHR ''?''" by auto
  with Nil show ?case by simp
qed (simp add: takeWhile_tail)

lemma leaks_query_append_left: "leaks_query xs \<Longrightarrow> leaks_query (xs @ ys)"
  by (induction xs) (auto simp: takeWhile_append dest: set_takeWhileD)

lemma leaks_query_append_right: "leaks_query ys \<Longrightarrow> leaks_query (xs @ ys)"
  by (induction xs) auto

lemma leaks_query_sublist: "sublist xs ys \<Longrightarrow> leaks_query xs \<Longrightarrow> leaks_query ys"
  by (auto simp: sublist_def leaks_query_append_left leaks_query_append_right)

lemma leaks_query_no_eq_tail:
  "CHR ''='' \<notin> set ys \<Longrightarrow> leaks_query (xs @ ys) \<longleftrightarrow> leaks_query xs"
proof (induction xs)
  case Nil
  then show ?case by (induction ys) (auto dest: set_takeWhileD)
next
  case (Cons c xs)
  have all: "\<forall>x \<in> set xs. query_char x \<Longrightarrow> takeWhile query_char xs = xs"
    by (simp add: takeWhile_eq_all_conv)
  from Cons show ?case by (auto simp: takeWhile_append all split: if_splits dest: set_takeWhileD)
qed

lemma leaks_query_no_question: "CHR ''?'' \<notin> set xs \<Longrightarrow> leaks_query (xs @ ys) \<longleftrightarrow> leaks_query ys"
  by (induction xs) auto

lemma leaks_query_neither: "CHR ''?'' \<notin> set xs \<Longrightarrow> \<not> leaks_query xs"
  using leaks_query_no_question [of xs "[]"] by simp

text \<open>A separator with a character that ends a query run keeps the parts apart.\<close>

lemma leaks_query_sep:
  assumes "\<not> query_char c" "CHR ''='' \<notin> set a" "CHR ''?'' \<notin> set b"
  shows "leaks_query (xs @ a @ c # b @ ys) \<longleftrightarrow> leaks_query xs \<or> leaks_query ys"
proof -
  have "leaks_query ((xs @ a) @ c # (b @ ys)) \<longleftrightarrow> leaks_query (xs @ a) \<or> leaks_query (b @ ys)"
    by (rule leaks_query_cut [OF assms(1)])
  with assms show ?thesis by (simp add: leaks_query_no_eq_tail leaks_query_no_question)
qed

lemma leaks_query_join:
  assumes "\<not> query_char c" "CHR ''='' \<notin> set a" "CHR ''?'' \<notin> set b"
  shows "leaks_query (join (a @ c # b) xs) \<longleftrightarrow> (\<exists>x \<in> set xs. leaks_query x)"
proof (induction xs)
  case (Cons x xs)
  then show ?case
    using leaks_query_sep [OF assms, of x "join (a @ c # b) xs"] by (cases xs) simp_all
qed simp

lemma not_query_char_space [simp]: "\<not> query_char CHR '' ''"
  by (simp add: query_char_def is_space_def code_def)

lemma not_query_char_newline [simp]: "\<not> query_char CHR 0x0A"
  by (simp add: query_char_def is_space_def code_def)

lemma redact_url_leak_free: "\<not> leaks_query (redact_url t url uid)"
  by (simp add: redact_url_def redact_credentials_def redact_query_no_leak)

lemma show_nat_no_question [simp]: "CHR ''?'' \<notin> set (show_nat n)"
  using show_nat_digits [of n] by (auto simp: is_digit_def code_def)

lemma show_int_no_question [simp]: "CHR ''?'' \<notin> set (show_int i)"
  by (simp add: show_int_def)

text \<open>
  No text that went through \<open>redact_credentials\<close> still has a query string
  with a value, whatever the exception message quoted.
\<close>

theorem redacted_has_no_query: "\<not> leaks_query (redact_credentials text)"
  by (simp add: redact_credentials_def redact_query_no_leak)

end
