(* ===== verification/Install.thy ===== *)
theory Install
  imports Models Redact
begin

text \<open>
  \<open>job/install.py\<close>: the dependency install, uv first and pip as the fallback.
  The kernel code that runs on the VM is modelled over a function that says how
  each installer ran (the processes themselves are not); the classification of
  an attempt, the verdict over all attempts and the reason are as written.
\<close>

section \<open>Attempts\<close>

record raw_attempt =
  ra_installer :: installer
  ra_version :: string
  ra_command :: "string list"
  ra_index :: "(string \<times> string) list"
  ra_exit_code :: "int option"
  ra_timed_out :: bool
  ra_seconds :: rat
  ra_output_head :: string
  ra_output_tail :: string

fun installer_name :: "installer \<Rightarrow> string" where
  "installer_name Uv = ''uv''"
| "installer_name Pip = ''pip''"

fun failure_name :: "install_failure \<Rightarrow> string" where
  "failure_name IF_Resolution = ''resolution''"
| "failure_name IF_Build = ''build''"
| "failure_name IF_Auth = ''auth''"
| "failure_name IF_Transient = ''transient''"
| "failure_name IF_Timeout = ''timeout''"
| "failure_name IF_Unknown = ''unknown''"

definition install_attempt_timeout :: nat where "install_attempt_timeout = 1500"
definition install_probe_timeout :: nat where "install_probe_timeout = 60"

definition install_kernel_timeout :: nat where
  "install_kernel_timeout = 2 * install_attempt_timeout + 3 * install_probe_timeout + 120"

definition output_head :: nat where "output_head = 4000"
definition output_tail :: nat where "output_tail = 12000"

fun failure_retry :: "install_failure \<Rightarrow> retry_class" where
  "failure_retry IF_Auth = Fix_Human"
| "failure_retry IF_Transient = Retry_Same"
| "failure_retry IF_Timeout = Fix_Code"
| "failure_retry IF_Build = Fix_Code"
| "failure_retry IF_Resolution = Fix_Code"
| "failure_retry IF_Unknown = Fix_Code"

fun failure_hint :: "install_failure \<Rightarrow> string" where
  "failure_hint IF_Resolution =
     ''no version satisfies the pins in `deps`: check each name and version on the package index, and for conflicts with packages Colab preinstalls''"
| "failure_hint IF_Build =
     ''a package had to be built from source and the build failed: pin a version that ships a prebuilt wheel for this Python, or add its build dependencies''"
| "failure_hint IF_Auth =
     ''the package index refused the request (401/403): check the index URL and its credentials''"
| "failure_hint IF_Transient =
     ''the package index was unreachable or failing (DNS, connection, 429, 5xx): retrying the same job is expected to work''"
| "failure_hint IF_Timeout =
     ''an installer ran past its budget, usually a source build: pin a version with a prebuilt wheel or install fewer packages''"
| "failure_hint IF_Unknown =
     ''the installer failed in a way not recognised here: read install.log''"

definition uv_rules :: "(install_failure \<times> string list) list" where
  "uv_rules =
     [(IF_Auth, [''(401 Unauthorized)'', ''lack of valid authentication credentials'', ''403 Forbidden'']),
      (IF_Transient, [''Request failed after'', ''dns error'', ''tcp connect error'',
         ''Connection refused'', ''HTTP status server error'', ''429 Too Many Requests'',
         ''operation timed out'']),
      (IF_Build, [''The build backend returned an error'', ''Failed to build'']),
      (IF_Resolution, [''No solution found when resolving dependencies'',
         ''not found in the package registry''])]"

definition pip_rules :: "(install_failure \<times> string list) list" where
  "pip_rules =
     [(IF_Auth, [''_prompt_for_password'', ''401 Client Error'', ''403 Client Error'']),
      (IF_Transient, [''Retry(total=0'', ''Max retries exceeded'']),
      (IF_Build, [''subprocess-exited-with-error'', ''metadata-generation-failed'',
         ''Failed building wheel'', ''Failed to build'']),
      (IF_Resolution, [''No matching distribution found'', ''ResolutionImpossible'',
         ''Could not find a version that satisfies''])]"

definition max_key_lines :: nat where "max_key_lines = 8"

section \<open>Key lines\<close>

definition starts_with_any :: "string list \<Rightarrow> string \<Rightarrow> bool" where
  "starts_with_any ps s = list_ex (\<lambda>p. prefix p s) ps"

definition pip_block :: "string list \<Rightarrow> nat \<Rightarrow> string list" where
  "pip_block lines index =
     List.filter (\<lambda>l. \<not> starts_with_any [''Processing'', ''Preparing''] l)
       (List.filter (\<lambda>l. l \<noteq> []) (map strip (drop (index - 4) (take index lines))))"

definition keep_line :: "installer \<Rightarrow> string \<Rightarrow> bool" where
  "keep_line i stripped =
     (case i of
        Uv \<Rightarrow> starts_with_any [''error:'', ''cause:'', ''hint:''] stripped
      | Pip \<Rightarrow> starts_with_any [''ERROR:'', ''error:'', [CHR 0xD7], ''EOFError''] stripped
          \<or> py_in ''Retry(total=0'' stripped)"

definition picked_at :: "installer \<Rightarrow> string list \<Rightarrow> nat \<Rightarrow> string list" where
  "picked_at i lines index =
     (let stripped = strip (lines ! index) in
      (if i = Pip \<and> stripped = ''error: subprocess-exited-with-error''
       then pip_block lines index else [])
      @ (if keep_line i stripped then [stripped] else []))"

fun dedupe :: "string list \<Rightarrow> string list \<Rightarrow> string list" where
  "dedupe acc [] = acc"
| "dedupe acc (l # ls) = dedupe (if l \<in> set acc then acc else acc @ [l]) ls"

definition key_lines :: "installer \<Rightarrow> string \<Rightarrow> string list" where
  "key_lines i output =
     (let lines = splitlines output in
      take max_key_lines (dedupe [] (concat (map (picked_at i lines) [0..<length lines]))))"

section \<open>Classification and verdict\<close>

definition rules_for :: "installer \<Rightarrow> (install_failure \<times> string list) list" where
  "rules_for i = (case i of Uv \<Rightarrow> uv_rules | Pip \<Rightarrow> pip_rules)"

definition match_rules :: "(install_failure \<times> string list) list \<Rightarrow> string \<Rightarrow> install_failure option" where
  "match_rules rules output =
     map_option fst (find (\<lambda>(f, markers). list_ex (\<lambda>m. py_in m output) markers) rules)"

definition attempt_output :: "raw_attempt \<Rightarrow> string" where
  "attempt_output a = ra_output_head a @ [CHR 0x0A] @ ra_output_tail a"

definition classify_attempt :: "raw_attempt \<Rightarrow> install_failure option \<times> string list" where
  "classify_attempt a =
     (let output = attempt_output a; lines = key_lines (ra_installer a) output in
      if ra_timed_out a then
        (Some IF_Timeout, if lines \<noteq> [] then lines
           else [''no exit within '' @ show_nat install_attempt_timeout @ ''s''])
      else if ra_exit_code a = Some 0 then (None, lines)
      else (case match_rules (rules_for (ra_installer a)) output of
          Some f \<Rightarrow> (Some f, lines)
        | None \<Rightarrow> (Some IF_Unknown,
            if lines \<noteq> [] then lines else last_n 3 (splitlines (strip output)))))"

definition install_verdict :: "install_failure option list \<Rightarrow> retry_class \<times> install_failure" where
  "install_verdict failures0 =
     (let failures = concat (map (\<lambda>f. case f of None \<Rightarrow> [] | Some x \<Rightarrow> [x]) failures0);
          chosen = (case find (\<lambda>f. f \<in> set failures) [IF_Auth, IF_Transient, IF_Timeout] of
              Some f \<Rightarrow> f
            | None \<Rightarrow> (case failures of [] \<Rightarrow> IF_Unknown | f # _ \<Rightarrow> f))
      in (failure_retry chosen, chosen))"

definition redact_attempt :: "raw_attempt \<Rightarrow> raw_attempt" where
  "redact_attempt a =
     a\<lparr>ra_version := redact_credentials (ra_version a),
       ra_command := map redact_credentials (ra_command a),
       ra_index := map (\<lambda>(k, v). (k, redact_credentials v)) (ra_index a),
       ra_output_head := redact_credentials (ra_output_head a),
       ra_output_tail := redact_credentials (ra_output_tail a)\<rparr>"

definition short_version :: "string \<Rightarrow> string" where
  "short_version version = join '' '' (take 2 (py_words version))"

text \<open>The attempt with its class and key lines, as the supervisor keeps it.\<close>

record classified_attempt = raw_attempt +
  ca_failure :: "install_failure option"
  ca_key_lines :: "string list"

definition reason_part :: "classified_attempt \<Rightarrow> string" where
  "reason_part a =
     short_version (ra_version a) @ '' ''
     @ (if ra_timed_out a then ''timed out'' else ''exit '' @ show_opt show_int (ra_exit_code a))
     @ '' ('' @ show_opt failure_name (ca_failure a) @ ''): ''
     @ join '' / '' (take 3 (ca_key_lines a))"

definition failure_reason :: "string list \<Rightarrow> classified_attempt list \<Rightarrow> install_failure \<Rightarrow> string" where
  "failure_reason packages attempts failure =
     (let text = ''dependency install failed ('' @ failure_name failure @ '') for ''
            @ redact_credentials (join '' '' packages) @ '': ''
            @ join ''; '' (map reason_part attempts)
      in if length text \<le> 1500 then text else take 1497 text @ ''...'')"

definition result_tag :: string where "result_tag = ''INSTALL_RESULT=''"

text \<open>The payload of the first tagged line, before \<open>json.loads\<close>.\<close>

definition install_result_payload :: "string \<Rightarrow> string option" where
  "install_result_payload text =
     map_option (drop (length result_tag)) (find (prefix result_tag) (splitlines text))"

section \<open>The kernel code on the VM\<close>

text \<open>How one installer ran: no exit code is its timeout.\<close>

record install_run =
  run_version :: string
  run_index :: "(string \<times> string) list"
  run_exit_code :: "int option"
  run_output :: string
  run_seconds :: rat

definition install_plan :: "string option \<Rightarrow> string \<Rightarrow> string list \<Rightarrow> (installer \<times> string list) list" where
  "install_plan uv python pkgs =
     (case uv of None \<Rightarrow> [] | Some u \<Rightarrow> [(Uv, [u, ''pip'', ''install'', ''--system''] @ pkgs)])
     @ [(Pip, [python, ''-m'', ''pip'', ''install'', ''-v'', ''--upgrade-strategy'',
               ''only-if-needed''] @ pkgs)]"

definition attempt_of :: "installer \<Rightarrow> string list \<Rightarrow> install_run \<Rightarrow> raw_attempt" where
  "attempt_of i command r =
     \<lparr>ra_installer = i, ra_version = run_version r,
      ra_command = map redact_credentials command,
      ra_index = map (\<lambda>(k, v). (k, redact_credentials v)) (run_index r),
      ra_exit_code = run_exit_code r, ra_timed_out = (run_exit_code r = None),
      ra_seconds = run_seconds r,
      ra_output_head = redact_credentials (take output_head (run_output r)),
      ra_output_tail = redact_credentials (last_n output_tail (run_output r))\<rparr>"

fun run_plan :: "(installer \<Rightarrow> install_run) \<Rightarrow> (installer \<times> string list) list \<Rightarrow> raw_attempt list" where
  "run_plan run [] = []"
| "run_plan run ((i, command) # plan) =
     (let a = attempt_of i command (run i) in
      if ra_exit_code a = Some 0 then [a] else a # run_plan run plan)"

section \<open>The verdict\<close>

definition known_failures :: "install_failure option list \<Rightarrow> install_failure list" where
  "known_failures fs = concat (map (\<lambda>f. case f of None \<Rightarrow> [] | Some x \<Rightarrow> [x]) fs)"

lemma set_known_failures: "set (known_failures fs) = {f. Some f \<in> set fs}"
  by (induction fs) (auto simp: known_failures_def split: option.splits)

lemma known_failures_eq_Nil: "known_failures fs = [] \<Longrightarrow> Some f \<notin> set fs"
  using set_known_failures [of fs] by auto

lemma install_verdict_class: "fst (install_verdict fs) = failure_retry (snd (install_verdict fs))"
  by (simp add: install_verdict_def Let_def)

lemma install_verdict_known:
  "snd (install_verdict fs) =
     (if Some IF_Auth \<in> set fs then IF_Auth
      else if Some IF_Transient \<in> set fs then IF_Transient
      else if Some IF_Timeout \<in> set fs then IF_Timeout
      else (case known_failures fs of [] \<Rightarrow> IF_Unknown | f # _ \<Rightarrow> f))"
  using set_known_failures [of fs]
  by (simp add: install_verdict_def Let_def known_failures_def [symmetric])

lemma hd_known_failures: "known_failures fs = f # r \<Longrightarrow> Some f \<in> set fs"
  using set_known_failures [of fs] by auto

text \<open>
  The class of a failed install is the most specific cause over all
  attempts: the caller is told to wait for a human exactly when some installer
  saw an authentication failure, and to retry the same job exactly when one saw
  a transient failure and none an authentication failure; a failed install
  never tells the caller anything else than to fix the code.
\<close>

theorem install_verdict_precedence:
  "(fst (install_verdict fs) = Fix_Human \<longleftrightarrow> Some IF_Auth \<in> set fs)
   \<and> (fst (install_verdict fs) = Retry_Same \<longleftrightarrow> Some IF_Transient \<in> set fs \<and> Some IF_Auth \<notin> set fs)
   \<and> (fst (install_verdict fs) = Fix_Code \<longleftrightarrow> Some IF_Transient \<notin> set fs \<and> Some IF_Auth \<notin> set fs)
   \<and> (snd (install_verdict fs) = IF_Unknown
        \<longleftrightarrow> set fs \<inter> {Some IF_Auth, Some IF_Transient, Some IF_Timeout} = {}
            \<and> known_failures fs \<in> {[]} \<union> range (Cons IF_Unknown))"
proof -
  note known = install_verdict_known [of fs]
  show ?thesis
  proof (cases "known_failures fs")
    case Nil
    with known show ?thesis
      using known_failures_eq_Nil [OF Nil] by (simp add: install_verdict_class)
  next
    case (Cons f r)
    with known show ?thesis
      using hd_known_failures [OF Cons]
      by (cases f) (auto simp: install_verdict_class)
  qed
qed

section \<open>One attempt\<close>

lemma length_key_lines: "length (key_lines i out) \<le> max_key_lines"
  by (simp add: key_lines_def Let_def)

lemma distinct_dedupe: "distinct acc \<Longrightarrow> distinct (dedupe acc ls)"
  by (induction acc ls rule: dedupe.induct) auto

lemma set_dedupe: "set (dedupe acc ls) = set acc \<union> set ls"
  by (induction acc ls rule: dedupe.induct) auto

lemma distinct_key_lines: "distinct (key_lines i out)"
  by (simp add: key_lines_def Let_def distinct_dedupe distinct_take)

lemma classify_attempt_None:
  "fst (classify_attempt a) = None \<longleftrightarrow> \<not> ra_timed_out a \<and> ra_exit_code a = Some 0"
  by (auto simp: classify_attempt_def Let_def split: option.splits)

section \<open>The run over the installers\<close>

lemma attempt_of_exit [simp]: "ra_exit_code (attempt_of i c r) = run_exit_code r"
  by (simp add: attempt_of_def)

lemma attempt_of_installer [simp]: "ra_installer (attempt_of i c r) = i"
  by (simp add: attempt_of_def)

text \<open>
  The install runs uv when it is there and pip exactly when uv is absent or
  did not exit 0; only the last attempt can have succeeded, so the supervisor's
  look at the last exit code decides the whole install.
\<close>

theorem install_run_shape:
  "map ra_installer (run_plan run (install_plan uv python pkgs)) =
     (if uv = None then [Pip]
      else if run_exit_code (run Uv) = Some 0 then [Uv] else [Uv, Pip])
   \<and> Some 0 \<notin> ra_exit_code ` set (butlast (run_plan run (install_plan uv python pkgs)))
   \<and> (ra_exit_code (last (run_plan run (install_plan uv python pkgs))) = Some 0
        \<longleftrightarrow> Some 0 \<in> ra_exit_code ` set (run_plan run (install_plan uv python pkgs)))"
  by (auto simp: install_plan_def Let_def split: option.splits)

section \<open>No credential in what is kept\<close>

lemma sublist_appendL: "sublist l ys \<Longrightarrow> sublist l (xs @ ys)"
  by (metis sublist_append_leftI sublist_order.dual_order.trans)

lemma splitlines_acc_sublist: "l \<in> set (lines_acc acc s) \<Longrightarrow> sublist l (rev acc @ s)"
proof (induction acc s rule: lines_acc.induct)
  case (3 acc x y xs)
  have tail: "sublist l (rev acc @ x # y # xs)" if "sublist l xs \<or> sublist l (y # xs)"
    using that by (auto intro!: sublist_appendL simp: sublist_Cons_right)
  show ?case
  proof (cases "code x = 13 \<and> code y = 10")
    case True
    with "3.prems" have "l = rev acc \<or> l \<in> set (lines_acc [] xs)" by auto
    with "3.IH"(1) True tail show ?thesis by auto
  next
    case False
    show ?thesis
    proof (cases "is_line_break x")
      case True
      with False "3.prems" have "l = rev acc \<or> l \<in> set (lines_acc [] (y # xs))" by auto
      with "3.IH"(2) True False tail show ?thesis by auto
    next
      case nl: False
      with False "3.prems" "3.IH"(3) show ?thesis by auto
    qed
  qed
qed (auto split: if_splits)

lemma splitlines_sublist: "l \<in> set (splitlines s) \<Longrightarrow> sublist l s"
  using splitlines_acc_sublist [of l "[]" s] by (simp add: splitlines_def)

lemma words_acc_sublist: "w \<in> set (words_acc acc s) \<Longrightarrow> sublist w (rev acc @ s)"
proof (induction acc s rule: words_acc.induct)
  case (2 acc x xs)
  have tail: "sublist w (rev acc @ x # xs)" if "sublist w xs"
    using that by (auto intro!: sublist_appendL simp: sublist_Cons_right)
  show ?case
  proof (cases "is_space x")
    case True
    with "2.prems" have "w = rev acc \<or> w \<in> set (words_acc [] xs)" by (auto split: if_splits)
    with "2.IH"(1,2) True tail show ?thesis by (cases "acc = []") auto
  next
    case False
    with "2.prems" "2.IH"(3) show ?thesis by auto
  qed
qed (auto split: if_splits)

lemma sublist_rstrip: "sublist (rstrip p s) s"
  by (metis rstrip_def suffix_dropWhile prefix_imp_sublist rev_rev_ident suffix_to_prefix)

lemma sublist_strip: "sublist (strip s) s"
  using sublist_rstrip [of is_space "dropWhile is_space s"] suffix_dropWhile [of is_space s]
  by (metis lstrip_def strip_def suffix_imp_sublist sublist_order.order_trans)

text \<open>The parts of \<open>a\<close> that reach the reason, before and after the supervisor's redaction.\<close>

definition leak_free :: "string \<Rightarrow> bool" where
  "leak_free s \<longleftrightarrow> \<not> leaks_query s"

lemma leak_free_redacted [simp]: "leak_free (redact_credentials s)"
  by (simp add: leak_free_def redact_credentials_def redact_query_no_leak)

lemma leak_free_sublist: "sublist x s \<Longrightarrow> leak_free s \<Longrightarrow> leak_free x"
  unfolding leak_free_def using leaks_query_sublist by blast

lemma leak_free_split_lines:
  "leak_free s \<Longrightarrow> l \<in> set (splitlines s) \<Longrightarrow> leak_free l \<and> leak_free (strip l)"
  by (metis leak_free_sublist splitlines_sublist sublist_strip)

lemma picked_at_from_lines:
  "index < length lines \<Longrightarrow> x \<in> set (picked_at i lines index) \<Longrightarrow> \<exists>l \<in> set lines. x = strip l"
  by (auto simp: picked_at_def pip_block_def Let_def dest!: in_set_dropD in_set_takeD
      split: if_splits)

lemma key_lines_leak_free:
  assumes "leak_free out" "x \<in> set (key_lines i out)"
  shows "leak_free x"
proof -
  let ?ls = "splitlines out"
  from assms(2) have "x \<in> set (concat (map (picked_at i ?ls) [0..<length ?ls]))"
    by (auto simp: key_lines_def Let_def set_dedupe dest!: in_set_takeD)
  then obtain n where "n < length ?ls" "x \<in> set (picked_at i ?ls n)" by auto
  then obtain l where "l \<in> set ?ls" "x = strip l"
    using picked_at_from_lines by blast
  with assms(1) show ?thesis using leak_free_split_lines by blast
qed

lemma classify_attempt_leak_free:
  assumes "leak_free (attempt_output a)" "x \<in> set (snd (classify_attempt a))"
  shows "leak_free x"
proof -
  let ?out = "attempt_output a"
  have "x \<in> set (key_lines (ra_installer a) ?out) \<or> x \<in> set (splitlines (strip ?out))
      \<or> x = ''no exit within '' @ show_nat install_attempt_timeout @ ''s''"
    using assms(2)
    by (auto simp: classify_attempt_def Let_def last_n_def dest!: in_set_dropD
        split: if_splits option.splits)
  moreover have "leak_free (''no exit within '' @ show_nat install_attempt_timeout @ ''s'')"
    by (simp add: leak_free_def leaks_query_neither)
  moreover have "leak_free (strip ?out)"
    using assms(1) leak_free_sublist sublist_strip by blast
  ultimately show ?thesis
    using assms(1) key_lines_leak_free leak_free_split_lines by blast
qed

text \<open>\<open>Orchestrator.install\<close>: each reported attempt redacted first, then classified.\<close>

definition classified :: "raw_attempt \<Rightarrow> classified_attempt" where
  "classified raw =
     (let a = redact_attempt raw in
      case classify_attempt a of (f, ks) \<Rightarrow>
        \<lparr>ra_installer = ra_installer a, ra_version = ra_version a, ra_command = ra_command a,
         ra_index = ra_index a, ra_exit_code = ra_exit_code a, ra_timed_out = ra_timed_out a,
         ra_seconds = ra_seconds a, ra_output_head = ra_output_head a,
         ra_output_tail = ra_output_tail a, ca_failure = f, ca_key_lines = ks\<rparr>)"

lemma classified_version: "ra_version (classified raw) = redact_credentials (ra_version raw)"
  by (simp add: classified_def Let_def redact_attempt_def split: prod.splits)

lemma classified_key_lines: "x \<in> set (ca_key_lines (classified raw)) \<Longrightarrow> leak_free x"
proof -
  assume "x \<in> set (ca_key_lines (classified raw))"
  then have x: "x \<in> set (snd (classify_attempt (redact_attempt raw)))"
    by (simp add: classified_def Let_def split: prod.splits)
  have "leak_free (attempt_output (redact_attempt raw))"
    by (simp add: attempt_output_def redact_attempt_def leak_free_def leaks_query_cut
        redact_credentials_def redact_query_no_leak)
  with x show ?thesis by (rule classify_attempt_leak_free [rotated])
qed

lemma leak_free_join:
  assumes "\<not> query_char c" "CHR ''='' \<notin> set a" "CHR ''?'' \<notin> set b"
    and "\<And>x. x \<in> set xs \<Longrightarrow> leak_free x"
  shows "leak_free (join (a @ c # b) xs)"
  using assms leaks_query_join [OF assms(1-3)] by (simp add: leak_free_def)

lemma leak_free_sep:
  assumes "\<not> query_char c" "CHR ''='' \<notin> set a" "CHR ''?'' \<notin> set b" "leak_free x" "leak_free y"
  shows "leak_free (x @ a @ c # b @ y)"
  using assms leaks_query_sep [OF assms(1-3)] by (simp add: leak_free_def)

lemma leak_free_short_version: "leak_free v \<Longrightarrow> leak_free (short_version v)"
  unfolding short_version_def
  using leak_free_join [of "CHR '' ''" "[]" "[]" "take 2 (py_words v)"]
    words_acc_sublist [of _ "[]" v] leak_free_sublist [of _ v]
  by (auto simp: py_words_def dest: in_set_takeD)

lemma failure_name_no_question: "CHR ''?'' \<notin> set (failure_name f)"
  by (cases f) auto

lemma reason_part_leak_free: "leak_free (reason_part (classified raw))"
proof -
  let ?a = "classified raw"
  let ?mid = "(if ra_timed_out ?a then ''timed out'' else ''exit '' @ show_opt show_int (ra_exit_code ?a))
      @ '' ('' @ show_opt failure_name (ca_failure ?a) @ ''): ''"
  have lines: "leak_free (join ('' / '') (take 3 (ca_key_lines ?a)))"
    using leak_free_join [of "CHR '' ''" "[]" "''/ ''" "take 3 (ca_key_lines ?a)"]
      classified_key_lines [of _ raw] by (auto dest: in_set_takeD)
  have "CHR ''?'' \<notin> set ?mid"
    using failure_name_no_question
    by (cases "ra_exit_code ?a"; cases "ca_failure ?a") simp_all
  moreover have "leak_free (short_version (ra_version ?a))"
    by (simp add: leak_free_short_version classified_version)
  ultimately show ?thesis
    using leak_free_sep [of "CHR '' ''" "[]" ?mid _ "join '' / '' (take 3 (ca_key_lines ?a))"] lines
    by (simp add: reason_part_def)
qed

text \<open>
  C29. The reason of a failed install is one bounded line, and neither it nor any
  key line shown to the user quotes a query credential, whatever the installers
  printed, the VM reported or the dependencies named.
\<close>

theorem failure_reason_bounded_and_leak_free:
  "length (failure_reason packages (map classified raws) failure) \<le> 1500
   \<and> \<not> leaks_query (failure_reason packages (map classified raws) failure)
   \<and> (\<Union>a \<in> set (map classified raws). set (ca_key_lines a)) \<subseteq> {line. \<not> leaks_query line}"
proof -
  let ?text = "''dependency install failed ('' @ failure_name failure @ '') for ''
       @ redact_credentials (join '' '' packages) @ '': ''
       @ join ''; '' (map reason_part (map classified raws))"
  have parts: "leak_free (join ''; '' (map reason_part (map classified raws)))"
    using leak_free_join [of "CHR '' ''" "'';''" "[]" "map reason_part (map classified raws)"]
      reason_part_leak_free by auto
  have "leak_free (redact_credentials (join '' '' packages) @ '': ''
       @ join ''; '' (map reason_part (map classified raws)))"
    using leak_free_sep [of "CHR '' ''" "'':''" "[]", OF _ _ _ leak_free_redacted parts] by simp
  then have whole: "leak_free ?text"
    using failure_name_no_question [of failure]
      leaks_query_no_question [of "''dependency install failed ('' @ failure_name failure @ '') for ''"]
    by (simp add: leak_free_def)
  have cut: "leak_free (take 1497 ?text @ ''...'')"
    using leak_free_sublist [OF _ whole, of "take 1497 ?text"]
    by (simp only: leak_free_def) (subst leaks_query_no_eq_tail, simp,
        meson prefix_imp_sublist take_is_prefix)
  from whole cut have "leak_free (failure_reason packages (map classified raws) failure)"
    by (simp only: failure_reason_def Let_def split: if_splits) simp
  moreover have "length (failure_reason packages (map classified raws) failure) \<le> 1500"
  proof -
    have "length (if length t \<le> 1500 then t else take 1497 t @ ''...'') \<le> 1500" for t :: string
      by simp
    then show ?thesis by (simp only: failure_reason_def Let_def)
  qed
  ultimately show ?thesis
    using classified_key_lines by (auto simp: leak_free_def)
qed

end
