(* ===== verification/State.thy ===== *)
theory State
  imports PyValue
begin

text \<open>
  \<open>state.py\<close>: the session record and the locked session store.  The file's text
  is a parameter: \<open>parse\<close> reads it (\<open>None\<close> for anything that raises) and \<open>dump\<close>
  writes it, pydantic and \<open>json\<close> doing the work.  The read/write lock makes each
  operation atomic, so an operation is a function on the file.
\<close>

record session_state =
  ss_name :: string
  ss_token :: string
  ss_url :: string
  ss_endpoint :: string
  ss_variant :: string
  ss_accelerator :: string
  ss_machine_shape :: string
  ss_kernel_id :: "string option"
  ss_session_id :: "string option"
  ss_last_execution :: "(string \<times> string option \<times> string) option"
  ss_running :: "string option"
  ss_keep_alive_pid :: "int option"
  ss_last_keep_alive_ping :: "string option"
  ss_keep_alive_failures :: int
  ss_keep_alive_disabled :: bool
  ss_exec_pid :: "int option"
  ss_exec_log_path :: "string option"

definition new_session :: "string \<Rightarrow> string \<Rightarrow> string \<Rightarrow> string \<Rightarrow> session_state" where
  "new_session name token url endpoint =
     \<lparr>ss_name = name, ss_token = token, ss_url = url, ss_endpoint = endpoint,
      ss_variant = ''DEFAULT'', ss_accelerator = ''NONE'', ss_machine_shape = ''STANDARD'',
      ss_kernel_id = None, ss_session_id = None, ss_last_execution = None, ss_running = None,
      ss_keep_alive_pid = None, ss_last_keep_alive_ping = None, ss_keep_alive_failures = 0,
      ss_keep_alive_disabled = False, ss_exec_pid = None, ss_exec_log_path = None\<rparr>"

type_synonym sessions = "(string \<times> session_state) list"

text \<open>The file, if it exists; a blank or unreadable one holds no session.\<close>

definition load_raw :: "(string \<Rightarrow> sessions option) \<Rightarrow> string \<Rightarrow> sessions" where
  "load_raw parse content =
     (if content = [] \<or> list_all is_space content then []
      else (case parse content of Some m \<Rightarrow> m | None \<Rightarrow> []))"

text \<open>\<open>open(path, "a+")\<close> creates the file, so the exclusive operations see an empty text.\<close>

definition opened :: "string option \<Rightarrow> string" where
  "opened f = (case f of None \<Rightarrow> [] | Some c \<Rightarrow> c)"

definition store_add ::
  "(string \<Rightarrow> sessions option) \<Rightarrow> (sessions \<Rightarrow> string) \<Rightarrow> session_state \<Rightarrow> string option \<Rightarrow> string option" where
  "store_add parse dump s f =
     Some (dump (dict_set (ss_name s) s (load_raw parse (opened f))))"

definition store_list :: "(string \<Rightarrow> sessions option) \<Rightarrow> string option \<Rightarrow> sessions" where
  "store_list parse f = (case f of None \<Rightarrow> [] | Some c \<Rightarrow> load_raw parse c)"

definition store_get ::
  "(string \<Rightarrow> sessions option) \<Rightarrow> string \<Rightarrow> string option \<Rightarrow> session_state option" where
  "store_get parse name f =
     (case f of None \<Rightarrow> None | Some c \<Rightarrow> map_of (load_raw parse c) name)"

definition store_remove ::
  "(string \<Rightarrow> sessions option) \<Rightarrow> (sessions \<Rightarrow> string) \<Rightarrow> string \<Rightarrow> string option \<Rightarrow> string option" where
  "store_remove parse dump name f =
     (let m = load_raw parse (opened f) in
      if map_of m name \<noteq> None then Some (dump (List.filter (\<lambda>(k, _). k \<noteq> name) m))
      else Some (opened f))"

end
