(* ===== verification/Sha256.thy ===== *)
theory Sha256
  imports Prelude "HOL-Library.Word"
begin

text \<open>
  \<open>hashlib.sha256(...).hexdigest()\<close> on bytes (characters), and the URL identities
  built from it.  The compression function is FIPS 180-4 on \<open>32 word\<close>.
\<close>

unbundle bit_operations_syntax

type_synonym w32 = "32 word"

definition rotr :: "nat \<Rightarrow> w32 \<Rightarrow> w32" where
  "rotr n x = drop_bit n x OR push_bit (32 - n) x"

text \<open>
  The round constants and the initial state are the first 32 bits of the
  fractional parts of roots of the first primes.  \<open>root_bits k n\<close> is the largest
  number below \<open>2^36\<close> whose \<open>k\<close>-th power is at most \<open>n\<close>, found bit by bit.
\<close>

fun root_bits_from :: "nat \<Rightarrow> nat \<Rightarrow> nat \<Rightarrow> nat \<Rightarrow> nat" where
  "root_bits_from k n 0 r = r"
| "root_bits_from k n (Suc i) r =
     root_bits_from k n i (if (r + 2 ^ i) ^ k \<le> n then r + 2 ^ i else r)"

definition fraction_word :: "nat \<Rightarrow> nat \<Rightarrow> w32" where
  "fraction_word k p = of_nat (root_bits_from k (p * 2 ^ (32 * k)) 36 0)"

definition is_prime :: "nat \<Rightarrow> bool" where
  "is_prime p \<longleftrightarrow> 2 \<le> p \<and> list_all (\<lambda>d. p mod d \<noteq> 0) [2..<p]"

definition sha_k :: "w32 list" where
  "sha_k = map (fraction_word 3) (List.filter is_prime [0..<312])"

definition sha_h0 :: "w32 list" where
  "sha_h0 = map (fraction_word 2) [2, 3, 5, 7, 11, 13, 17, 19]"

text \<open>The message with its padding, a multiple of 64 bytes.\<close>

definition be_bytes :: "nat \<Rightarrow> nat \<Rightarrow> nat list" where
  "be_bytes k n = map (\<lambda>i. n div 256 ^ (k - 1 - i) mod 256) [0..<k]"

definition sha_pad :: "string \<Rightarrow> nat list" where
  "sha_pad m = map code m @ [128] @ replicate ((119 - length m mod 64) mod 64) 0
     @ be_bytes 8 (8 * length m)"

definition be_word :: "nat list \<Rightarrow> w32" where
  "be_word bs = word_of_nat (foldl (\<lambda>acc b. acc * 256 + b) 0 bs)"

fun groups :: "nat \<Rightarrow> 'a list \<Rightarrow> 'a list list" where
  "groups k [] = []"
| "groups k (x # xs) = (x # take (k - 1) xs) # groups k (drop (k - 1) xs)"

fun sha_extend :: "nat \<Rightarrow> w32 list \<Rightarrow> w32 list" where
  "sha_extend 0 w = w"
| "sha_extend (Suc n) w =
     (let l = length w; w15 = w ! (l - 15); w2 = w ! (l - 2);
          s0 = rotr 7 w15 XOR rotr 18 w15 XOR drop_bit 3 w15;
          s1 = rotr 17 w2 XOR rotr 19 w2 XOR drop_bit 10 w2
      in sha_extend n (w @ [w ! (l - 16) + s0 + w ! (l - 7) + s1]))"

fun sha_round :: "w32 list \<Rightarrow> w32 \<times> w32 \<Rightarrow> w32 list" where
  "sha_round [a, b, c, d, e, f, g, h] (k, w) =
     (let s1 = rotr 6 e XOR rotr 11 e XOR rotr 25 e;
          ch = (e AND f) XOR (NOT e AND g);
          t1 = h + s1 + ch + k + w;
          s0 = rotr 2 a XOR rotr 13 a XOR rotr 22 a;
          maj = (a AND b) XOR (a AND c) XOR (b AND c)
      in [t1 + (s0 + maj), a, b, c, d + t1, e, f, g])"
| "sha_round st kw = st"

definition sha_block :: "w32 list \<Rightarrow> nat list \<Rightarrow> w32 list" where
  "sha_block h block =
     map2 (+) h (foldl sha_round h (zip sha_k (sha_extend 48 (map be_word (groups 4 block)))))"

definition sha256_words :: "string \<Rightarrow> w32 list" where
  "sha256_words m = foldl sha_block sha_h0 (groups 64 (sha_pad m))"

definition hex_char :: "nat \<Rightarrow> char" where
  "hex_char d = (if d < 10 then char_of (48 + d) else char_of (87 + d))"

definition hex_word :: "w32 \<Rightarrow> string" where
  "hex_word w = map (\<lambda>i. hex_char (unat w div 16 ^ (7 - i) mod 16)) [0..<8]"

definition sha256_hex :: "string \<Rightarrow> string" where
  "sha256_hex m = concat (map hex_word (sha256_words m))"

text \<open>\<open>text.encode("utf-8")\<close>\<close>

definition utf8_bytes :: "string \<Rightarrow> string" where
  "utf8_bytes s = concat (map (\<lambda>c. if is_ascii c then [c]
     else [char_of (192 + code c div 64), char_of (128 + code c mod 64)]) s)"

section \<open>The digest is 64 lower-case hexadecimal digits\<close>

lemma sha_round_length: "length st = 8 \<Longrightarrow> length (sha_round st kw) = 8"
  by (cases "(st, kw)" rule: sha_round.cases) (auto simp: Let_def)

lemma foldl_length_8:
  "(\<And>st x. length st = 8 \<Longrightarrow> length (f st x) = 8) \<Longrightarrow> length st = 8 \<Longrightarrow> length (foldl f st xs) = 8"
  by (induction xs arbitrary: st) auto

lemma sha_block_length: "length h = 8 \<Longrightarrow> length (sha_block h b) = 8"
  by (simp add: sha_block_def foldl_length_8 sha_round_length)

lemma sha256_words_length: "length (sha256_words m) = 8"
  unfolding sha256_words_def
  by (rule foldl_length_8) (simp_all add: sha_block_length sha_h0_def)

lemma length_hex_word: "length (hex_word w) = 8"
  by (simp add: hex_word_def)

lemma length_sha256_hex [simp]: "length (sha256_hex m) = 64"
proof -
  have "length (concat (map hex_word ws)) = 8 * length ws" for ws
    by (induction ws) (simp_all add: length_hex_word)
  then show ?thesis by (simp add: sha256_hex_def sha256_words_length)
qed

lemma hex_char_lower: "d < 16 \<Longrightarrow> is_hex_lower (hex_char d)"
  by (simp add: hex_char_def is_hex_lower_def is_digit_def)

lemma sha256_hex_lower: "list_all is_hex_lower (sha256_hex m)"
  by (auto simp: sha256_hex_def hex_word_def list_all_iff hex_char_lower)

end
