(* ===== verification/UrlId.thy ===== *)
theory UrlId
  imports Url Sha256 Redact
begin

text \<open>
  The public identities of URLs: \<open>canonical_url\<close>, \<open>url_id\<close>, \<open>redacted_url\<close> and
  \<open>is_redacted_url\<close> of \<open>job/spec_io.py\<close>, and the runner's own \<open>_url_id\<close>, which
  must agree with the planner's.  A signed URL's query is the credential.
\<close>

section \<open>Identities\<close>

text \<open>\<open>host\<close> with brackets for IPv6 and the explicit port; a bad port is dropped.\<close>

definition public_host :: "split_url \<Rightarrow> string" where
  "public_host u =
     (let host = (case url_hostname u of Some h \<Rightarrow> h | None \<Rightarrow> []);
          host = (if CHR '':'' \<in> set host \<and> \<not> prefix ''['' host then ''['' @ host @ '']'' else host)
      in case url_port u of Inr (Some p) \<Rightarrow> host @ '':'' @ show_nat p | _ \<Rightarrow> host)"

definition canonical_url :: "string \<Rightarrow> string" where
  "canonical_url url =
     (case urlsplit url of
        Inl _ \<Rightarrow> takeWhile (\<lambda>c. c \<noteq> CHR ''#'') (takeWhile (\<lambda>c. c \<noteq> CHR ''?'') url)
      | Inr u \<Rightarrow> su_scheme u @ ''://'' @ public_host u @ su_path u)"

definition url_digest :: "string \<Rightarrow> string" where
  "url_digest url = sha256_hex (utf8_bytes url)"

definition url_id :: "string \<Rightarrow> string" where
  "url_id url = canonical_url url @ ''#'' @ take 12 (url_digest url)"

text \<open>The runner's copy, on the VM without the planner's module.\<close>

definition runner_url_id :: "string \<Rightarrow> string" where
  "runner_url_id url =
     (let public = (case urlsplit url of
          Inl _ \<Rightarrow> takeWhile (\<lambda>c. c \<noteq> CHR ''#'') (takeWhile (\<lambda>c. c \<noteq> CHR ''?'') url)
        | Inr u \<Rightarrow> su_scheme u @ ''://'' @ public_host u @ su_path u)
      in public @ ''#'' @ take 12 (url_digest url))"

definition secret_fragment_prefix :: string where
  "secret_fragment_prefix = ''mighty-colab-secret-sha256=''"

definition redacted_url :: "string \<Rightarrow> string" where
  "redacted_url url = canonical_url url @ ''#'' @ secret_fragment_prefix @ url_digest url"

definition is_redacted_url :: "string \<Rightarrow> bool" where
  "is_redacted_url value =
     (case urlsplit value of
        Inl _ \<Rightarrow> False
      | Inr u \<Rightarrow>
          su_query u = [] \<and> prefix secret_fragment_prefix (su_fragment u)
          \<and> (let digest = drop (length secret_fragment_prefix) (su_fragment u)
             in length digest = 64 \<and> list_all is_hex_lower digest))"

section \<open>What an identity shows\<close>

lemma set_py_lower: "c \<in> set (py_lower s) \<Longrightarrow> \<exists>d \<in> set s. c = lower_char d"
  by (auto simp: py_lower_def)

lemma lower_char_question [simp]: "lower_char c = CHR ''?'' \<longleftrightarrow> c = CHR ''?''"
proof (cases "(65 \<le> code c \<and> code c \<le> 90) \<or> (192 \<le> code c \<and> code c \<le> 222 \<and> code c \<noteq> 215)")
  case True
  then have "code (lower_char c) = code c + 32" by (auto simp: lower_char_def)
  moreover have "code CHR ''?'' = 63" by (simp add: code_def)
  ultimately show ?thesis using True by auto
next
  case False
  then have "lower_char c = c" unfolding lower_char_def by (rule if_not_P)
  then show ?thesis by simp
qed

lemma py_lower_question [simp]: "CHR ''?'' \<in> set (py_lower s) \<longleftrightarrow> CHR ''?'' \<in> set s"
proof -
  have q: "CHR ''?'' = lower_char c \<longleftrightarrow> c = CHR ''?''" for c using lower_char_question [of c] by metis
  show ?thesis by (auto simp: py_lower_def image_iff q)
qed

lemma partition_at_sets:
  "partition_at c s = (a, f, b) \<Longrightarrow> set a \<subseteq> set s \<and> set b \<subseteq> set s"
proof (cases f)
  case True
  then show "partition_at c s = (a, f, b) \<Longrightarrow> ?thesis" by (auto simp: partition_at_eq)
next
  case False
  then show "partition_at c s = (a, f, b) \<Longrightarrow> ?thesis"
    using partition_at_None [of c s] partition_at_missing [of c s] by auto
qed

lemma set_after_last: "set (after_last c s) \<subseteq> set s"
  by (auto simp: after_last_def dest: set_takeWhileD)

lemma after_last_free: "c \<notin> set (after_last c s)"
  by (auto simp: after_last_def dest: set_takeWhileD)

lemma hostname_from_netloc:
  "url_hostname u = Some h \<Longrightarrow> CHR ''?'' \<in> set h \<Longrightarrow> CHR ''?'' \<in> set (su_netloc u)"
proof -
  assume h: "url_hostname u = Some h" "CHR ''?'' \<in> set h"
  let ?info = "after_last CHR ''@'' (su_netloc u)"
  have "set (fst (hostinfo u)) \<subseteq> set ?info"
    by (auto simp: hostinfo_def Let_def split: prod.splits dest!: partition_at_sets)
  moreover have "CHR ''?'' \<in> set (fst (hostinfo u))"
    using h by (auto simp: url_hostname_def Let_def split: if_splits prod.splits
        dest!: partition_at_sets)
  ultimately show ?thesis using set_after_last by blast
qed

lemma netloc_no_question: "urlsplit url = Inr u \<Longrightarrow> CHR ''?'' \<notin> set (su_netloc u)"
  by (auto simp: urlsplit_def split_tail_def Let_def is_netloc_end_def split: prod.splits if_splits
      option.splits dest: set_takeWhileD)

lemma scheme_no_question: "urlsplit url = Inr u \<Longrightarrow> CHR ''?'' \<notin> set (su_scheme u)"
proof -
  have "CHR ''?'' \<notin> set (fst (split_scheme s))" for s
    by (auto simp: split_scheme_def list_all_iff is_scheme_char_def is_ascii_alpha_def is_digit_def
        code_def split: prod.splits dest!: bspec)
  then show "urlsplit url = Inr u \<Longrightarrow> ?thesis"
    by (auto simp: urlsplit_def split_tail_def Let_def split: prod.splits if_splits option.splits)
      (metis fst_conv)+
qed

lemma public_host_no_question: "urlsplit url = Inr u \<Longrightarrow> CHR ''?'' \<notin> set (public_host u)"
  using netloc_no_question hostname_from_netloc show_nat_digits
  by (fastforce simp: public_host_def Let_def is_digit_def code_def
      split: option.splits sum.splits if_splits)

lemma path_no_question: "urlsplit url = Inr u \<Longrightarrow> CHR ''?'' \<notin> set (su_path u)"
  using split_tail_path_no_query by (auto elim!: urlsplit_InrE)

lemma canonical_url_no_question: "CHR ''?'' \<notin> set (canonical_url url)"
  using scheme_no_question public_host_no_question path_no_question
  by (auto simp: canonical_url_def split: sum.splits dest!: set_takeWhileD)

lemma is_hex_lower_not_question: "is_hex_lower c \<Longrightarrow> c \<noteq> CHR ''?''"
  by (auto simp: is_hex_lower_def is_digit_def code_def)

lemma url_digest_no_question: "CHR ''?'' \<notin> set (url_digest url)"
  using sha256_hex_lower is_hex_lower_not_question by (auto simp: url_digest_def list_all_iff)

lemma redacted_url_no_question: "CHR ''?'' \<notin> set (redacted_url url)"
  using canonical_url_no_question url_digest_no_question
  by (auto simp: redacted_url_def secret_fragment_prefix_def)

text \<open>A URL with no \<open>?\<close> has no query.\<close>

lemma set_split_scheme: "set (snd (split_scheme s)) \<subseteq> set s"
  by (auto simp: split_scheme_def split: prod.splits if_splits dest!: partition_at_sets)

lemma set_clean_url: "set (clean_url s) \<subseteq> set s"
  by (auto simp: clean_url_def lstrip_def dest: set_dropWhileD)

lemma split_tail_query_mark: "su_query (split_tail s n r) \<noteq> [] \<Longrightarrow> CHR ''?'' \<in> set r"
  using partition_at_missing partition_at_sets
  by (fastforce simp: split_tail_def split: prod.splits)

lemma query_needs_mark:
  assumes "urlsplit url = Inr u" and "su_query u \<noteq> []"
  shows "CHR ''?'' \<in> set url"
proof -
  obtain sch rest where r: "split_scheme (clean_url url) = (sch, rest)" by (metis prod.collapse)
  from assms r have "CHR ''?'' \<in> set rest"
    by (auto simp: urlsplit_def Let_def split: if_splits option.splits dest!: split_tail_query_mark
        dest: set_dropWhileD in_set_dropD)
  with r set_split_scheme [of "clean_url url"] set_clean_url [of url] show ?thesis by auto
qed

text \<open>
  The handles a record shows instead of a URL hold no query: neither the
  identity \<open>url_id\<close> nor the reference \<open>redacted_url\<close> contains a \<open>?\<close>, so neither
  leaks a signed URL's credential, and the runner's handle is the planner's.
\<close>

theorem url_handles_have_no_query:
  "CHR ''?'' \<notin> set (url_id url) \<and> CHR ''?'' \<notin> set (redacted_url url)
   \<and> \<not> leaks_query (url_id url) \<and> runner_url_id url = url_id url"
proof -
  have "CHR ''?'' \<notin> set (url_id url)"
    using canonical_url_no_question url_digest_no_question
    by (auto simp: url_id_def dest: in_set_takeD)
  moreover note redacted_url_no_question
  moreover have "runner_url_id url = url_id url"
    by (simp add: runner_url_id_def url_id_def canonical_url_def Let_def)
  ultimately show ?thesis using leaks_query_neither by blast
qed

end
