(* ===== verification/Contents.thy ===== *)
theory Contents
  imports PyValue
begin

text \<open>
  \<open>contents.py\<close>: the client of the VM's Contents API.  What answers a request
  is a parameter \<open>send\<close> over an abstract world; the client's own work -- the
  URL and parameters, the classification of the response, the creation of
  directories one ancestor at a time and the chunked upload -- is as written.
  \<open>base64\<close> and \<open>urllib.parse.quote\<close> are written out; bytes are characters.
\<close>

section \<open>base64\<close>

definition b64_alphabet :: string where
  "b64_alphabet = ''ABCDEFGHIJKLMNOPQRSTUVWXYZabcdefghijklmnopqrstuvwxyz0123456789+/''"

definition b64_char :: "nat \<Rightarrow> char" where
  "b64_char n =
     (if n < 26 then char_of (65 + n) else if n < 52 then char_of (71 + n)
      else if n < 62 then char_of (n - 4) else if n = 62 then CHR ''+'' else CHR ''/'')"

definition b64_value :: "char \<Rightarrow> nat option" where
  "b64_value c =
     (let n = code c in
      if 65 \<le> n \<and> n \<le> 90 then Some (n - 65)
      else if 97 \<le> n \<and> n \<le> 122 then Some (n - 71)
      else if 48 \<le> n \<and> n \<le> 57 then Some (n + 4)
      else if n = 43 then Some 62 else if n = 47 then Some 63 else None)"

fun b64encode :: "string \<Rightarrow> string" where
  "b64encode [] = []"
| "b64encode [a] =
     [b64_char (code a div 4), b64_char (code a mod 4 * 16), CHR ''='', CHR ''='']"
| "b64encode [a, b] =
     [b64_char (code a div 4), b64_char (code a mod 4 * 16 + code b div 16),
      b64_char (code b mod 16 * 4), CHR ''='']"
| "b64encode (a # b # c # rest) =
     b64_char (code a div 4) # b64_char (code a mod 4 * 16 + code b div 16)
     # b64_char (code b mod 16 * 4 + code c div 64) # b64_char (code c mod 64)
     # b64encode rest"

text \<open>
  The decoder of \<open>b64decode\<close>: characters outside the alphabet are skipped, a
  complete padding ends the data.  \<open>quad\<close> counts the characters of the current
  group, \<open>left\<close> holds the bits not yet written.  \<open>None\<close> is \<open>binascii.Error\<close>.
\<close>

fun b64_scan :: "nat \<Rightarrow> nat \<Rightarrow> nat \<Rightarrow> string \<Rightarrow> string option" where
  "b64_scan quad pads left [] = (if quad = 0 then Some [] else None)"
| "b64_scan quad pads left (c # cs) =
     (if c = CHR ''='' then
        (if 2 \<le> quad \<and> 4 \<le> quad + (pads + 1) then Some []
         else b64_scan quad (if 2 \<le> quad then pads + 1 else pads) left cs)
      else (case b64_value c of
          None \<Rightarrow> b64_scan quad pads left cs
        | Some v \<Rightarrow>
            if quad = 0 then b64_scan 1 0 v cs
            else if quad = 1 then
              map_option ((#) (char_of (left * 4 + v div 16))) (b64_scan 2 0 (v mod 16) cs)
            else if quad = 2 then
              map_option ((#) (char_of (left * 16 + v div 4))) (b64_scan 3 0 (v mod 4) cs)
            else
              map_option ((#) (char_of (left * 64 + v))) (b64_scan 0 0 0 cs)))"

definition b64decode :: "string \<Rightarrow> string option" where
  "b64decode s = b64_scan 0 0 0 s"

lemma code_less [simp]: "code c < 256"
  by (simp add: code_def)

lemma char_of_code [simp]: "char_of (code c) = c"
  by (simp add: code_def)

lemma b64_value_char: "n < 64 \<Longrightarrow> b64_value (b64_char n) = Some n"
  by (auto simp: b64_value_def b64_char_def Let_def code_def)

lemma b64_char_not_pad: "n < 64 \<Longrightarrow> b64_char n \<noteq> CHR ''=''"
proof
  assume "n < 64" "b64_char n = CHR ''=''"
  then have "b64_value CHR ''='' = Some n" using b64_value_char by metis
  then show False by (simp add: b64_value_def code_def)
qed

declare b64_scan.simps(2) [simp del]

lemma b64_scan_char:
  "n < 64 \<Longrightarrow> b64_scan quad pads left (b64_char n # cs) =
     (if quad = 0 then b64_scan 1 0 n cs
      else if quad = 1 then
        map_option ((#) (char_of (left * 4 + n div 16))) (b64_scan 2 0 (n mod 16) cs)
      else if quad = 2 then
        map_option ((#) (char_of (left * 16 + n div 4))) (b64_scan 3 0 (n mod 4) cs)
      else map_option ((#) (char_of (left * 64 + n))) (b64_scan 0 0 0 cs))"
  by (simp add: b64_value_char b64_char_not_pad b64_scan.simps(2))

lemma b64_scan_pads:
  "b64_scan 2 0 left [CHR ''='', CHR ''=''] = Some []" "b64_scan 3 0 left [CHR ''=''] = Some []"
  by (simp_all add: b64_scan.simps(2))

lemma byte_parts:
  fixes a b c :: nat
  assumes "a < 256" "b < 256" "c < 256"
  shows "a div 4 < 64" "a mod 4 * 16 + b div 16 < 64" "b mod 16 * 4 + c div 64 < 64" "c mod 64 < 64"
    "(a mod 4 * 16 + b div 16) div 16 = a mod 4" "(a mod 4 * 16 + b div 16) mod 16 = b div 16"
    "(b mod 16 * 4 + c div 64) div 4 = b mod 16" "(b mod 16 * 4 + c div 64) mod 4 = c div 64"
proof -
  have small: "b div 16 < 16" "c div 64 < 4" "a mod 4 < 4" "b mod 16 < 16"
    using assms by (simp_all add: less_mult_imp_div_less)
  then show "a mod 4 * 16 + b div 16 < 64" "b mod 16 * 4 + c div 64 < 64" by linarith+
  show "a div 4 < 64" using assms by (simp add: less_mult_imp_div_less)
  show "c mod 64 < 64" by simp
  from small show "(a mod 4 * 16 + b div 16) div 16 = a mod 4" "(a mod 4 * 16 + b div 16) mod 16 = b div 16"
    "(b mod 16 * 4 + c div 64) div 4 = b mod 16" "(b mod 16 * 4 + c div 64) mod 4 = c div 64"
    by simp_all
qed

lemma byte_first: "code a div 4 * 4 + code a mod 4 = code a" by simp
lemma byte_second: "code b div 16 * 16 + code b mod 16 = code b" by simp
lemma byte_third: "code c div 64 * 64 + code c mod 64 = code c" by simp

lemma nibble: "code b div 16 mod 16 = code b div 16" "code b div 16 div 16 = 0"
proof -
  have "code b div 16 < 16" by (simp add: less_mult_imp_div_less)
  then show "code b div 16 mod 16 = code b div 16" "code b div 16 div 16 = 0" by simp_all
qed

lemma b64decode_encode [simp]: "b64decode (b64encode bs) = Some bs"
proof (induction bs rule: b64encode.induct)
  case 1
  then show ?case by (simp add: b64decode_def)
next
  case (2 a)
  have "code a mod 4 * 16 < 64" by simp
  then show ?case
    using byte_parts(1) [of "code a" 0 0]
    by (simp add: b64decode_def b64_scan_char b64_scan_pads byte_first)
next
  case (3 a b)
  note p = byte_parts [of "code a" "code b" 0]
  have "code b mod 16 * 4 < 64" by simp
  with p show ?case
    by (simp add: b64decode_def b64_scan_char b64_scan_pads byte_first byte_second del: mult_div_mod_eq)
next
  case (4 a b c rest)
  then show ?case
    using byte_parts [of "code a" "code b" "code c"]
    by (simp add: b64decode_def b64_scan_char byte_first byte_second byte_third
        nibble)
qed

section \<open>Requests\<close>

text \<open>
  An exception as the transport looks at one: whether it is a
  \<open>FileNotFoundError\<close>, a \<open>requests\<close> timeout or connection error, the HTTP
  status \<open>get_status_code\<close> finds on it, and its type and message.
\<close>

record api_error =
  ae_not_found :: bool
  ae_timeout :: bool
  ae_connection :: bool
  ae_status :: "int option"
  ae_error :: py_error

definition plain_error :: "string \<Rightarrow> string \<Rightarrow> api_error" where
  "plain_error t m = \<lparr>ae_not_found = False, ae_timeout = False, ae_connection = False,
     ae_status = None, ae_error = \<lparr>err_type = t, err_msg = m\<rparr>\<rparr>"

text \<open>\<open>JobTransport._status_code\<close>: a missing file is a 404 without a response.\<close>

definition status_code :: "api_error \<Rightarrow> int option" where
  "status_code e = (if ae_not_found e then Some 404 else ae_status e)"

record http_request =
  hq_method :: string
  hq_url :: string
  hq_params :: "(string \<times> string) list"
  hq_json :: "json option"

text \<open>A response: its status, its body as \<open>response.json()\<close> gives it, the text of \<open>raise_for_status\<close>.\<close>

record http_response =
  hr_status :: int
  hr_json :: "(api_error, json) outcome"
  hr_error_text :: string

type_synonym 'w send = "http_request \<Rightarrow> 'w \<Rightarrow> (api_error, http_response) outcome \<times> 'w"

record contents_client =
  cc_base_url :: string
  cc_token :: string

definition quote_safe :: "char \<Rightarrow> bool" where
  "quote_safe c \<longleftrightarrow> is_digit c \<or> is_ascii_alpha c
     \<or> c \<in> {CHR ''_'', CHR ''.'', CHR ''-'', CHR ''~'', CHR ''/''}"

definition quote_byte :: "nat \<Rightarrow> string" where
  "quote_byte n = CHR ''%'' # map (\<lambda>d. if d < 10 then char_of (48 + d) else char_of (55 + d))
     [n div 16, n mod 16]"

text \<open>\<open>quote(s, safe="/")\<close>: the UTF-8 bytes of other characters as \<open>%XX\<close>.\<close>

definition quote_char :: "char \<Rightarrow> string" where
  "quote_char c =
     (if quote_safe c then [c]
      else if is_ascii c then quote_byte (code c)
      else quote_byte (192 + code c div 64) @ quote_byte (128 + code c mod 64))"

definition py_quote :: "string \<Rightarrow> string" where
  "py_quote s = concat (map quote_char s)"

definition is_slash :: "char \<Rightarrow> bool" where
  "is_slash c \<longleftrightarrow> c = CHR ''/''"

definition strip_slashes :: "string \<Rightarrow> string" where
  "strip_slashes s = rstrip is_slash (lstrip is_slash s)"

definition http_error :: "http_response \<Rightarrow> string \<Rightarrow> api_error" where
  "http_error r m = \<lparr>ae_not_found = False, ae_timeout = False, ae_connection = False,
     ae_status = Some (hr_status r), ae_error = \<lparr>err_type = ''HTTPError'', err_msg = m\<rparr>\<rparr>"

definition file_not_found :: "string \<Rightarrow> api_error" where
  "file_not_found path = \<lparr>ae_not_found = True, ae_timeout = False, ae_connection = False,
     ae_status = None, ae_error = \<lparr>err_type = ''FileNotFoundError'',
       err_msg = ''File or directory not found: '' @ path\<rparr>\<rparr>"

definition server_error_text :: "string \<Rightarrow> string" where
  "server_error_text path =
     ''Upload failed with a server error (HTTP 500) for '' @ [CHR 0x27] @ path @ [CHR 0x27]
     @ ''. This can happen when a file exceeds an undocumented Colab/Jupyter backend size limit; consider splitting the upload or reducing the file size.''"

text \<open>What \<open>_request\<close> makes of a response: \<open>DELETE\<close> has no body.\<close>

definition check_response :: "string \<Rightarrow> string \<Rightarrow> http_response \<Rightarrow> (api_error, json) outcome" where
  "check_response verb path r =
     (if hr_status r = 404 then Inl (file_not_found path)
      else if hr_status r = 500 \<and> verb \<in> {''PUT'', ''POST''}
        then Inl (http_error r (server_error_text path))
      else if 400 \<le> hr_status r \<and> hr_status r < 600 then Inl (http_error r (hr_error_text r))
      else if verb = ''DELETE'' then Inr JNull
      else hr_json r)"

definition request_of ::
  "contents_client \<Rightarrow> string \<Rightarrow> string \<Rightarrow> (string \<times> string) list \<Rightarrow> json option \<Rightarrow> http_request" where
  "request_of cc verb path params body =
     \<lparr>hq_method = verb,
      hq_url = cc_base_url cc @ ''/api/contents/'' @ py_quote (strip_slashes path),
      hq_params = fold (\<lambda>(k, v). dict_set k v) params
        [(''authuser'', ''0''), (''colab-runtime-proxy-token'', cc_token cc)],
      hq_json = body\<rparr>"

definition contents_request ::
  "'w send \<Rightarrow> contents_client \<Rightarrow> string \<Rightarrow> string \<Rightarrow> (string \<times> string) list \<Rightarrow> json option
    \<Rightarrow> 'w \<Rightarrow> (api_error, json) outcome \<times> 'w" where
  "contents_request send cc verb path params body w =
     (case send (request_of cc verb path params body) w of
        (Inl e, w) \<Rightarrow> (Inl e, w)
      | (Inr r, w) \<Rightarrow> (check_response verb path r, w))"

section \<open>Directories\<close>

definition path_parts :: "string \<Rightarrow> string list" where
  "path_parts path = List.filter (\<lambda>p. p \<noteq> []) (split_on CHR ''/'' (strip_slashes path))"

definition ancestors :: "string \<Rightarrow> string list" where
  "ancestors path = map (\<lambda>i. join ''/'' (take i (path_parts path))) [1..<Suc (length (path_parts path))]"

definition directory_body :: "string \<Rightarrow> json" where
  "directory_body path = JObj [(''type'', JStr ''directory''), (''path'', JStr path)]"

text \<open>A body that is not an object has no \<open>get\<close>; a missing one is as if absent.\<close>

fun existing_type :: "json \<Rightarrow> (api_error, json option) outcome" where
  "existing_type JNull = Inr None"
| "existing_type (JObj d) = Inr (Some (jget d ''type''))"
| "existing_type v = Inl (plain_error ''AttributeError''
     ([CHR 0x27] @ type_name v @ [CHR 0x27] @ '' object has no attribute ''
       @ [CHR 0x27] @ ''get'' @ [CHR 0x27]))"

fun makedirs_each ::
  "'w send \<Rightarrow> contents_client \<Rightarrow> string \<Rightarrow> string list \<Rightarrow> 'w \<Rightarrow> (api_error, unit) outcome \<times> 'w" where
  "makedirs_each send cc dir [] w = (Inr (), w)"
| "makedirs_each send cc dir (p # ps) w =
     (case contents_request send cc ''GET'' p [] None w of
        (got, w) \<Rightarrow>
          (case (case got of
              Inl e \<Rightarrow> if ae_not_found e then Inr None else Inl e
            | Inr v \<Rightarrow> existing_type v) of
             Inl e \<Rightarrow> (Inl e, w)
           | Inr (Some t) \<Rightarrow>
               if t \<noteq> JStr ''directory'' then
                 (Inl (plain_error ''NotADirectoryError''
                    (''Cannot create directory '' @ repr_str dir @ '': '' @ repr_str p
                      @ '' already exists and is a file'')), w)
               else makedirs_each send cc dir ps w
           | Inr None \<Rightarrow>
               (case contents_request send cc ''PUT'' p [] (Some (directory_body p)) w of
                  (Inl e, w) \<Rightarrow> (Inl e, w)
                | (Inr _, w) \<Rightarrow> makedirs_each send cc dir ps w)))"

definition contents_makedirs ::
  "'w send \<Rightarrow> contents_client \<Rightarrow> string \<Rightarrow> 'w \<Rightarrow> (api_error, unit) outcome \<times> 'w" where
  "contents_makedirs send cc dir w = makedirs_each send cc dir (ancestors dir) w"

section \<open>Upload\<close>

definition chunk_size :: nat where
  "chunk_size = 1024 * 1024"

definition upload_body :: "string \<Rightarrow> string \<Rightarrow> int \<Rightarrow> json" where
  "upload_body path piece chunk =
     JObj [(''name'', JStr (after_last CHR ''/'' path)), (''path'', JStr path),
           (''type'', JStr ''file''), (''format'', JStr ''base64''),
           (''content'', JStr (b64encode piece)), (''chunk'', JInt chunk)]"

text \<open>
  A local file at the time of the upload: its size as \<open>getsize\<close> gave it and the
  bytes the reads then deliver, which can differ.
\<close>

record local_file =
  lf_path :: string
  lf_size :: nat
  lf_bytes :: string

definition changed_size_error :: "local_file \<Rightarrow> nat \<Rightarrow> api_error" where
  "changed_size_error f sent = plain_error ''OSError''
     ([CHR 0x27] @ lf_path f @ [CHR 0x27] @ '' changed size during upload (read 0 bytes at offset ''
       @ show_nat sent @ '' but expected '' @ show_nat (lf_size f)
       @ '' bytes total); aborting instead of retrying forever.'')"

function upload_chunks ::
  "nat \<Rightarrow> 'w send \<Rightarrow> contents_client \<Rightarrow> local_file \<Rightarrow> string \<Rightarrow> nat \<Rightarrow> nat \<Rightarrow> 'w
    \<Rightarrow> (api_error, json) outcome \<times> 'w" where
  "upload_chunks limit send cc f path index sent w =
     (let piece = take limit (drop sent (lf_bytes f)); sent' = sent + length piece;
          is_last = (lf_size f \<le> sent') in
      if piece = [] \<and> sent < lf_size f then (Inl (changed_size_error f sent), w)
      else (case contents_request send cc ''PUT'' path []
              (Some (upload_body path piece (if is_last then -1 else int index + 1))) w of
          (Inl e, w) \<Rightarrow> (Inl e, w)
        | (Inr v, w) \<Rightarrow>
            if is_last then (Inr v, w)
            else upload_chunks limit send cc f path (index + 1) sent' w))"
  by pat_completeness auto
termination
  by (relation "measure (\<lambda>(limit, send, cc, f, path, index, sent, w). lf_size f - sent)")
    (auto simp: Let_def)

definition contents_upload ::
  "'w send \<Rightarrow> contents_client \<Rightarrow> local_file \<Rightarrow> string \<Rightarrow> 'w \<Rightarrow> (api_error, json) outcome \<times> 'w" where
  "contents_upload send cc f path w =
     (if lf_size f \<le> chunk_size then
        contents_request send cc ''PUT'' path [] (Some (upload_body path (lf_bytes f) 1)) w
      else upload_chunks chunk_size send cc f path 0 0 w)"

definition contents_list_dir ::
  "'w send \<Rightarrow> contents_client \<Rightarrow> string \<Rightarrow> 'w \<Rightarrow> (api_error, json) outcome \<times> 'w" where
  "contents_list_dir send cc path w = contents_request send cc ''GET'' path [] None w"

definition contents_rm ::
  "'w send \<Rightarrow> contents_client \<Rightarrow> string \<Rightarrow> 'w \<Rightarrow> (api_error, unit) outcome \<times> 'w" where
  "contents_rm send cc path w =
     (case contents_request send cc ''DELETE'' path [] None w of
        (Inl e, w) \<Rightarrow> (Inl e, w) | (Inr _, w) \<Rightarrow> (Inr (), w))"

section \<open>The chunks put the file back together\<close>

text \<open>A server that accepts every request, with the requests it was sent.\<close>

definition accepting :: "http_request list send" where
  "accepting rq w = (Inr \<lparr>hr_status = 200, hr_json = Inr JNull, hr_error_text = []\<rparr>, w @ [rq])"

definition file_of :: "string \<Rightarrow> string \<Rightarrow> local_file" where
  "file_of path bytes = \<lparr>lf_path = path, lf_size = length bytes, lf_bytes = bytes\<rparr>"

text \<open>What a request uploads: the bytes of its content and the number of its chunk.\<close>

definition uploaded :: "http_request \<Rightarrow> (string \<times> int) option" where
  "uploaded rq =
     (case hq_json rq of
        Some (JObj d) \<Rightarrow>
          (case (jget d ''content'', jget d ''chunk'') of
             (JStr c, JInt k) \<Rightarrow> map_option (\<lambda>b. (b, k)) (b64decode c)
           | _ \<Rightarrow> None)
      | _ \<Rightarrow> None)"

fun numbered :: "nat \<Rightarrow> string list \<Rightarrow> (string \<times> int) list" where
  "numbered i [] = []"
| "numbered i [p] = [(p, -1)]"
| "numbered i (p # q # ps) = (p, int i + 1) # numbered (i + 1) (q # ps)"

lemma uploaded_request [simp]:
  "uploaded (request_of cc verb path params (Some (upload_body path piece k))) = Some (piece, k)"
  by (simp add: uploaded_def request_of_def upload_body_def)

lemma accepting_request:
  "contents_request accepting cc ''PUT'' path [] body w =
     (Inr JNull, w @ [request_of cc ''PUT'' path [] body])"
  by (simp add: contents_request_def accepting_def check_response_def)

lemma numbered_Cons: "ps \<noteq> [] \<Longrightarrow> numbered i (p # ps) = (p, int i + 1) # numbered (i + 1) ps"
  by (cases ps) auto

declare upload_chunks.simps [simp del]

lemma upload_chunks_pieces:
  assumes "0 < limit" "sent < length bytes"
  shows "\<exists>ps. ps \<noteq> [] \<and> concat ps = drop sent bytes \<and> set ps \<subseteq> {p. length p \<le> limit}
     \<and> fst (upload_chunks limit accepting cc (file_of lp bytes) path i sent w) = Inr JNull
     \<and> map uploaded (snd (upload_chunks limit accepting cc (file_of lp bytes) path i sent w))
         = map uploaded w @ map Some (numbered i ps)"
  using assms(2)
proof (induction "length bytes - sent" arbitrary: sent i w rule: less_induct)
  case less
  let ?f = "file_of lp bytes"
  let ?p = "take limit (drop sent bytes)"
  have p: "?p \<noteq> []" "length ?p = min limit (length bytes - sent)" using less assms(1) by auto
  note unfold = upload_chunks.simps [of limit accepting cc ?f path i sent w]
  show ?case
  proof (cases "length bytes \<le> sent + length ?p")
    case True
    then have "?p = drop sent bytes" using p(2) by auto
    moreover have "upload_chunks limit accepting cc ?f path i sent w
        = (Inr JNull, w @ [request_of cc ''PUT'' path [] (Some (upload_body path ?p (-1)))])"
      using True p less.prems by (subst unfold) (simp add: file_of_def accepting_request Let_def)
    ultimately show ?thesis using p by (intro exI [of _ "[?p]"]) simp
  next
    case False
    let ?s = "sent + length ?p"
    let ?w = "w @ [request_of cc ''PUT'' path [] (Some (upload_body path ?p (int i + 1)))]"
    have smaller: "length bytes - ?s < length bytes - sent" "?s < length bytes"
      using False p assms(1) less.prems by auto
    have rec: "upload_chunks limit accepting cc ?f path i sent w
        = upload_chunks limit accepting cc ?f path (i + 1) ?s ?w"
    proof -
      have "min limit (length bytes - sent) = limit" "\<not> length bytes \<le> sent + limit"
        using False p by auto
      then show ?thesis
        using p less.prems by (subst unfold) (simp add: file_of_def accepting_request Let_def min.commute)
    qed
    from less.hyps [OF smaller, of "i + 1" ?w] obtain ps where ps:
      "ps \<noteq> []" "concat ps = drop ?s bytes" "set ps \<subseteq> {p. length p \<le> limit}"
      "fst (upload_chunks limit accepting cc ?f path (i + 1) ?s ?w) = Inr JNull"
      "map uploaded (snd (upload_chunks limit accepting cc ?f path (i + 1) ?s ?w))
         = map uploaded ?w @ map Some (numbered (i + 1) ps)"
      by blast
    have "drop ?s bytes = drop (length ?p) (drop sent bytes)" by (simp add: add.commute)
    then have "?p @ drop ?s bytes = drop sent bytes"
      using False p(2) by (metis append_take_drop_id append_eq_conv_conj)
    with ps rec show ?thesis
      by (intro exI [of _ "?p # ps"]) (simp add: numbered_Cons)
  qed
qed

text \<open>
  An upload sends the file's bytes and nothing else: the decoded contents of
  its requests, in order, are pieces of at most a megabyte that concatenate to
  the file, a small file in one request marked chunk 1, a larger one in chunks
  numbered from 1 of which exactly the last is marked -1, which finalizes it.
\<close>

theorem upload_reassembles:
  "fst (contents_upload accepting cc (file_of lp bytes) path []) = Inr JNull
   \<and> (\<exists>pieces. concat pieces = bytes \<and> set pieces \<subseteq> {p. length p \<le> chunk_size}
        \<and> map uploaded (snd (contents_upload accepting cc (file_of lp bytes) path []))
            = map Some (if length bytes \<le> chunk_size then [(bytes, 1)] else numbered 0 pieces))"
proof (cases "length bytes \<le> chunk_size")
  case True
  then show ?thesis
    by (intro conjI exI [of _ "[bytes]"])
      (simp_all add: contents_upload_def file_of_def accepting_request)
next
  case False
  then have "0 < chunk_size" "0 < length bytes" by (auto simp: chunk_size_def)
  from upload_chunks_pieces [OF this, of cc lp path 0 "[]"] False show ?thesis
    by (auto simp: contents_upload_def file_of_def)
qed

end
