(* ===== verification/Transport.thy ===== *)
theory Transport
  imports Contents State Redact Sha256
begin

text \<open>
  \<open>job/transport.py\<close>: reads and writes of job records on the VM through the
  Contents API, with bounded retries, one token refresh per call, and the
  classification of a failure: a session is lost only when a completed listing
  of the assignments did not hold its endpoint.  The Colab API, the clock, the
  persistence of a refreshed session and the text codecs are the parameters in
  \<open>api\<close>, over an abstract world.
\<close>

section \<open>State and environment\<close>

datatype read_status = Rs_Ok | Rs_Not_Found | Rs_Degraded | Rs_Session_Lost

fun read_status_value :: "read_status \<Rightarrow> string" where
  "read_status_value Rs_Ok = ''ok''"
| "read_status_value Rs_Not_Found = ''not_found''"
| "read_status_value Rs_Degraded = ''degraded''"
| "read_status_value Rs_Session_Lost = ''session_lost''"

text \<open>An assignment of the listing: its endpoint, and the proxy's token and URL if it carries a proxy.\<close>

record assignment =
  asg_endpoint :: "string option"
  asg_proxy :: "(string option \<times> string option) option"

record 'w api =
  ap_send :: "'w send"
  ap_list :: "'w \<Rightarrow> (api_error, assignment list) outcome \<times> 'w"
  ap_now :: "'w \<Rightarrow> rat \<times> 'w"
  ap_sleep :: "rat \<Rightarrow> 'w \<Rightarrow> 'w"
  ap_save :: "session_state \<Rightarrow> 'w \<Rightarrow> 'w"
  ap_utf8 :: "string \<Rightarrow> string"
  ap_loads :: "string \<Rightarrow> (py_error, json) outcome"
  ap_dumps :: "json \<Rightarrow> (py_error, string) outcome"

record transport =
  tr_session :: session_state
  tr_max_retries :: nat
  tr_backoff_factor :: rat
  tr_not_found_refresh_interval :: rat
  tr_last_endpoint_present :: "bool option"
  tr_last_404_refresh_at :: "rat option"
  tr_last_problem :: "string option"
  tr_listing_error :: "string option"

text \<open>The constructor's checks on its numbers; the timeouts are only passed on.\<close>

definition transport_init ::
  "session_state \<Rightarrow> rat \<Rightarrow> rat \<Rightarrow> int \<Rightarrow> rat \<Rightarrow> rat \<Rightarrow> (py_error, transport) outcome" where
  "transport_init s connect_timeout read_timeout max_retries backoff_factor interval =
     (let bad = (\<lambda>m. Inl \<lparr>err_type = ''ValueError'', err_msg = m\<rparr>) in
      if connect_timeout \<le> 0 \<or> read_timeout \<le> 0
        then bad ''connect_timeout and read_timeout must be positive''
      else if max_retries < 0 then bad ''max_retries must be non-negative''
      else if backoff_factor < 0 then bad ''backoff_factor must be non-negative''
      else if interval < 0 then bad ''not_found_refresh_interval must be non-negative''
      else Inr \<lparr>tr_session = s, tr_max_retries = nat max_retries,
        tr_backoff_factor = backoff_factor, tr_not_found_refresh_interval = interval,
        tr_last_endpoint_present = None, tr_last_404_refresh_at = None,
        tr_last_problem = None, tr_listing_error = None\<rparr>)"

definition tr_endpoint :: "transport \<Rightarrow> string" where
  "tr_endpoint t = ss_endpoint (tr_session t)"

text \<open>\<open>ContentsClient(session_state)\<close>, renewed with every change of the session.\<close>

definition contents_of :: "transport \<Rightarrow> contents_client" where
  "contents_of t = \<lparr>cc_base_url = rstrip is_slash (ss_url (tr_session t)),
     cc_token = ss_token (tr_session t)\<rparr>"

definition problem :: "string \<Rightarrow> transport \<Rightarrow> transport" where
  "problem m t = t\<lparr>tr_last_problem := Some m\<rparr>"

definition retries_text :: "nat \<Rightarrow> string" where
  "retries_text n =
     (if n = 0 then []
      else '' (after '' @ show_nat n @ '' retr'' @ (if n = 1 then ''y'' else ''ies'') @ '')'')"

definition failed_text :: "string \<Rightarrow> api_error \<Rightarrow> nat \<Rightarrow> string \<Rightarrow> string" where
  "failed_text what e retries after =
     what @ '': '' @ describe_error (ae_error e) @ retries_text retries
     @ (if after \<noteq> [] then ''; '' @ after else [])"

definition listing_note :: "transport \<Rightarrow> string" where
  "listing_note t =
     (case tr_last_endpoint_present t of
        Some True \<Rightarrow> ''the assignment was listed at the last check''
      | Some False \<Rightarrow> ''the assignment is no longer listed''
      | None \<Rightarrow>
          (case tr_listing_error t of
             Some m \<Rightarrow> if m \<noteq> [] then ''listing the assignments also failed ('' @ m @ '')''
               else ''whether the assignment is still listed is unknown''
           | None \<Rightarrow> ''whether the assignment is still listed is unknown''))"

section \<open>Assignments\<close>

definition proxy_values :: "assignment \<Rightarrow> string option \<times> string option" where
  "proxy_values a = (case asg_proxy a of None \<Rightarrow> (None, None) | Some p \<Rightarrow> p)"

definition find_assignment ::
  "'w api \<Rightarrow> transport \<Rightarrow> 'w \<Rightarrow> (assignment option \<times> bool option) \<times> transport \<times> 'w" where
  "find_assignment ap t w =
     (case ap_list ap w of
        (Inl e, w) \<Rightarrow>
          ((None, None),
           t\<lparr>tr_listing_error := Some (describe_error (ae_error e)
               @ (case ae_status e of Some s \<Rightarrow> '' (HTTP '' @ show_int s @ '')'' | None \<Rightarrow> []))\<rparr>,
           w)
      | (Inr assignments, w) \<Rightarrow>
          (case find (\<lambda>a. asg_endpoint a = Some (tr_endpoint t)) assignments of
             Some a \<Rightarrow> ((Some a, Some True), t\<lparr>tr_listing_error := None\<rparr>, w)
           | None \<Rightarrow> ((None, Some False), t\<lparr>tr_listing_error := None\<rparr>, w)))"

definition with_proxy :: "session_state \<Rightarrow> string \<Rightarrow> string option \<Rightarrow> session_state" where
  "with_proxy s token url =
     (case url of
        Some u \<Rightarrow> if u \<noteq> [] then s\<lparr>ss_token := token, ss_url := u\<rparr> else s\<lparr>ss_token := token\<rparr>
      | None \<Rightarrow> s\<lparr>ss_token := token\<rparr>)"

definition refresh_token :: "'w api \<Rightarrow> transport \<Rightarrow> 'w \<Rightarrow> read_status \<times> transport \<times> 'w" where
  "refresh_token ap t w =
     (case find_assignment ap t w of
        ((assignment, present), t, w) \<Rightarrow>
          (let t = t\<lparr>tr_last_endpoint_present := present\<rparr> in
           case present of
             Some False \<Rightarrow> (Rs_Session_Lost, t, w)
           | None \<Rightarrow> (Rs_Degraded,
               problem (''listing the assignments failed ('' @ show_opt id (tr_listing_error t) @ '')'') t, w)
           | Some True \<Rightarrow>
               (case assignment of
                  None \<Rightarrow> (Rs_Degraded,
                    problem ''the assignment listing returned no entry for this endpoint'' t, w)
                | Some a \<Rightarrow>
                    (case proxy_values a of (token, url) \<Rightarrow>
                       (case token of
                          None \<Rightarrow> (Rs_Degraded,
                            problem ''the listed assignment carries no runtime-proxy token'' t, w)
                        | Some tok \<Rightarrow>
                            if tok = [] then (Rs_Degraded,
                              problem ''the listed assignment carries no runtime-proxy token'' t, w)
                            else (let t = t\<lparr>tr_session := with_proxy (tr_session t) tok url\<rparr>
                                  in (Rs_Ok, t, ap_save ap (tr_session t) w)))))))"

definition classify_endpoint :: "'w api \<Rightarrow> transport \<Rightarrow> 'w \<Rightarrow> read_status \<times> transport \<times> 'w" where
  "classify_endpoint ap t w =
     (case tr_last_endpoint_present t of
        Some True \<Rightarrow> (Rs_Degraded, t, w)
      | Some False \<Rightarrow> (Rs_Session_Lost, t, w)
      | None \<Rightarrow>
          (case find_assignment ap t w of
             ((_, present), t, w) \<Rightarrow>
               (if present = Some False then Rs_Session_Lost else Rs_Degraded,
                t\<lparr>tr_last_endpoint_present := present\<rparr>, w)))"

definition is_transient :: "api_error \<Rightarrow> bool" where
  "is_transient e \<longleftrightarrow>
     (case status_code e of Some s \<Rightarrow> 500 \<le> s \<and> s < 600 | None \<Rightarrow> False)
     \<or> ae_connection e \<or> ae_timeout e"

definition should_refresh_404 :: "'w api \<Rightarrow> transport \<Rightarrow> 'w \<Rightarrow> bool \<times> 'w" where
  "should_refresh_404 ap t w =
     (case tr_last_404_refresh_at t of
        None \<Rightarrow> (True, w)
      | Some at0 \<Rightarrow>
          (case ap_now ap w of
             (now, w) \<Rightarrow> (tr_not_found_refresh_interval t \<le> now - at0, w)))"

text \<open>\<open>self._last_404_refresh_at = time.monotonic()\<close>, when \<open>c\<close> holds.\<close>

definition stamp_404 :: "'w api \<Rightarrow> bool \<Rightarrow> transport \<Rightarrow> 'w \<Rightarrow> transport \<times> 'w" where
  "stamp_404 ap c t w =
     (if c then (case ap_now ap w of (now, w) \<Rightarrow> (t\<lparr>tr_last_404_refresh_at := Some now\<rparr>, w))
      else (t, w))"

definition backoff :: "transport \<Rightarrow> nat \<Rightarrow> rat" where
  "backoff t n = tr_backoff_factor t * 2 ^ n"

section \<open>Payloads\<close>

text \<open>The error of \<open>b64decode\<close>: the number of data characters decides the message.\<close>

definition b64_error :: "string \<Rightarrow> py_error" where
  "b64_error s =
     (let n = length (List.filter (\<lambda>c. b64_value c \<noteq> None) s) in
      \<lparr>err_type = ''Error'', err_msg =
        (if n mod 4 = 1
         then ''Invalid base64-encoded string: number of data characters ('' @ show_nat n
           @ '') cannot be 1 more than a multiple of 4''
         else ''Incorrect padding'')\<rparr>)"

definition decode_base64 :: "json \<Rightarrow> (py_error, string) outcome" where
  "decode_base64 content =
     (case content of
        JStr s \<Rightarrow>
          if list_all is_ascii s then
            (case b64decode s of Some raw \<Rightarrow> Inr raw | None \<Rightarrow> Inl (b64_error s))
          else Inl \<lparr>err_type = ''ValueError'',
            err_msg = ''string argument should contain only ASCII characters''\<rparr>
      | v \<Rightarrow> Inl \<lparr>err_type = ''TypeError'',
          err_msg = ''argument should be a bytes-like object or ASCII string, not ''
            @ [CHR 0x27] @ type_name v @ [CHR 0x27]\<rparr>)"

definition decode_payload ::
  "'w api \<Rightarrow> string \<Rightarrow> json \<Rightarrow> transport \<Rightarrow> (json option \<times> read_status) \<times> transport" where
  "decode_payload ap path payload t =
     (case payload of
        JObj d \<Rightarrow>
          if \<not> jhas d ''content'' then ((Some payload, Rs_Ok), t)
          else if jget d ''format'' \<noteq> JStr ''base64'' then ((Some (jget d ''content''), Rs_Ok), t)
          else (case decode_base64 (jget d ''content'') of
              Inl e \<Rightarrow> ((None, Rs_Degraded),
                problem (path @ '': base64 content does not decode ('' @ describe_error e @ '')'') t)
            | Inr raw \<Rightarrow> ((Some (JStr (ap_utf8 ap raw)), Rs_Ok), t))
      | v \<Rightarrow> ((Some v, Rs_Ok), t))"

section \<open>Reading\<close>

definition get_content :: "'w api \<Rightarrow> string \<Rightarrow> transport \<Rightarrow> 'w \<Rightarrow> (api_error, json) outcome \<times> 'w" where
  "get_content ap path t w =
     contents_request (ap_send ap) (contents_of t) ''GET'' path [(''content'', ''1'')] None w"

definition auth_like :: "int option \<Rightarrow> bool" where
  "auth_like status \<longleftrightarrow> status = Some 401 \<or> status = Some 404"

definition status_text :: "int option \<Rightarrow> string" where
  "status_text s = show_opt show_int s"

text \<open>\<open>_read\<close>: \<open>refreshed\<close> and \<open>n\<close> are \<open>refresh_attempted\<close> and \<open>transient_retries\<close>.\<close>

function read_loop ::
  "'w api \<Rightarrow> string \<Rightarrow> bool \<Rightarrow> nat \<Rightarrow> transport \<Rightarrow> 'w
    \<Rightarrow> (json option \<times> read_status) \<times> transport \<times> 'w" where
  "read_loop ap path refreshed n t w =
     (case get_content ap path t w of
        (Inr payload, w) \<Rightarrow> (case decode_payload ap path payload t of (r, t) \<Rightarrow> (r, t, w))
      | (Inl e, w) \<Rightarrow>
          if auth_like (status_code e) \<and> \<not> refreshed then
            (case (if status_code e = Some 404 then should_refresh_404 ap t w else (True, w)) of
               (go, w) \<Rightarrow>
                 if \<not> go then ((None, Rs_Not_Found), t, w)
                 else (case refresh_token ap t w of
                     (Rs_Ok, t, w) \<Rightarrow>
                       (case stamp_404 ap (status_code e = Some 404) t w of
                          (t, w) \<Rightarrow> read_loop ap path True n t w)
                   | (Rs_Session_Lost, t, w) \<Rightarrow>
                       ((None, Rs_Session_Lost),
                        problem (path @ '': HTTP '' @ status_text (status_code e)
                          @ '', and the assignment is no longer listed'') t, w)
                   | (_, t, w) \<Rightarrow>
                       ((None, Rs_Degraded),
                        problem (path @ '': HTTP '' @ status_text (status_code e)
                          @ '', and the token refresh failed ('' @ show_opt id (tr_last_problem t)
                          @ '')'') t, w)))
          else if is_transient e \<and> n < tr_max_retries t then
            read_loop ap path refreshed (n + 1) t (ap_sleep ap (backoff t n) w)
          else if status_code e = Some 404 \<and> refreshed then ((None, Rs_Not_Found), t, w)
          else (case classify_endpoint ap
                  (problem (path @ '': '' @ describe_error (ae_error e) @ retries_text n) t) w of
              (status, t, w) \<Rightarrow> ((None, status), t, w)))"
  by pat_completeness auto
termination
  by (relation "measures [\<lambda>(ap, path, refreshed, n, t, w). if refreshed then 0 else 1,
      \<lambda>(ap, path, refreshed, n, t, w). tr_max_retries t - n]") auto

definition transport_read ::
  "'w api \<Rightarrow> string \<Rightarrow> transport \<Rightarrow> 'w \<Rightarrow> (json option \<times> read_status) \<times> transport \<times> 'w" where
  "transport_read ap path t w = read_loop ap path False 0 t w"

text \<open>\<open>json.loads(value)\<close>: a value that is no text is a \<open>TypeError\<close>.\<close>

definition loads_value :: "'w api \<Rightarrow> json option \<Rightarrow> (py_error, json) outcome" where
  "loads_value ap v =
     (case v of
        Some (JStr text) \<Rightarrow> ap_loads ap text
      | _ \<Rightarrow> Inl \<lparr>err_type = ''TypeError'', err_msg =
          ''the JSON object must be str, bytes or bytearray, not ''
          @ (case v of None \<Rightarrow> ''NoneType'' | Some j \<Rightarrow> type_name j)\<rparr>)"

definition decode_object ::
  "'w api \<Rightarrow> string \<Rightarrow> json option \<Rightarrow> transport \<Rightarrow> (json_obj option \<times> read_status) \<times> transport" where
  "decode_object ap path v t =
     (case loads_value ap v of
        Inl e \<Rightarrow> ((None, Rs_Degraded),
          problem (path @ '' is not JSON ('' @ describe_error e @ '')'') t)
      | Inr j \<Rightarrow> (case as_obj j of
            Some d \<Rightarrow> ((Some d, Rs_Ok), t)
          | None \<Rightarrow> ((None, Rs_Degraded),
              problem (path @ '' is JSON but not an object ('' @ type_name j @ '')'') t)))"

definition read_json ::
  "'w api \<Rightarrow> string \<Rightarrow> transport \<Rightarrow> 'w \<Rightarrow> (json_obj option \<times> read_status) \<times> transport \<times> 'w" where
  "read_json ap path t w =
     (case transport_read ap path t w of
        ((value, status), t, w) \<Rightarrow>
          if status \<noteq> Rs_Ok then ((None, status), t, w)
          else (case Option.bind value as_obj of
              Some d \<Rightarrow> ((Some d, status), t, w)
            | None \<Rightarrow> (case decode_object ap path value t of (r, t) \<Rightarrow> (r, t, w))))"

definition read_text ::
  "'w api \<Rightarrow> string \<Rightarrow> transport \<Rightarrow> 'w \<Rightarrow> (string option \<times> read_status) \<times> transport \<times> 'w" where
  "read_text ap path t w =
     (case transport_read ap path t w of
        ((value, status), t, w) \<Rightarrow>
          if status \<noteq> Rs_Ok then ((None, status), t, w)
          else ((Some (show_opt py_str value), status), t, w))"

section \<open>Confirmations\<close>

text \<open>\<open>Some True\<close>: the remote file is as wanted; \<open>Some False\<close>: it is not; \<open>None\<close>: not known.\<close>

definition confirm_text ::
  "'w api \<Rightarrow> string \<Rightarrow> string \<Rightarrow> transport \<Rightarrow> 'w \<Rightarrow> bool option \<times> transport \<times> 'w" where
  "confirm_text ap path payload t w =
     (case get_content ap path t w of
        (Inl e, w) \<Rightarrow> (if ae_not_found e then Some False else None, t, w)
      | (Inr raw, w) \<Rightarrow>
          (case decode_payload ap [] raw t of
             ((decoded, status), t) \<Rightarrow>
               (if status \<noteq> Rs_Ok then None else Some (decoded = Some (JStr payload)), t, w)))"

definition confirm_size ::
  "'w api \<Rightarrow> string \<Rightarrow> nat \<Rightarrow> transport \<Rightarrow> 'w \<Rightarrow> bool option \<times> 'w" where
  "confirm_size ap path size_bytes t w =
     (case contents_request (ap_send ap) (contents_of t) ''GET'' path [(''content'', ''0'')] None w of
        (Inl e, w) \<Rightarrow> (if ae_not_found e then Some False else None, w)
      | (Inr raw, w) \<Rightarrow>
          (case raw of
             JObj d \<Rightarrow> (map_option (\<lambda>n. n = int size_bytes) (to_int (jget d ''size'')), w)
           | _ \<Rightarrow> (None, w)))"

definition confirm_directory ::
  "'w api \<Rightarrow> string \<Rightarrow> transport \<Rightarrow> 'w \<Rightarrow> bool option \<times> 'w" where
  "confirm_directory ap dir t w =
     (case contents_request (ap_send ap) (contents_of t) ''GET'' dir [] None w of
        (Inl e, w) \<Rightarrow> (if ae_not_found e then Some False else None, w)
      | (Inr raw, w) \<Rightarrow>
          (case raw of
             JObj d \<Rightarrow> (Some (jget d ''type'' = JStr ''directory''), w)
           | _ \<Rightarrow> (None, w)))"

section \<open>Writing\<close>

record transport_error =
  tx_status :: read_status
  tx_message :: string

text \<open>
  \<open>upload\<close> and \<open>makedirs\<close> have one shape: the Contents operation \<open>act\<close>, the check
  \<open>confirm\<close> after a timeout, the description \<open>what\<close> of the failure, and whether a
  404 stamps the time of the refresh (\<open>stamp\<close>, \<open>upload\<close> only).
\<close>

function mutate_loop ::
  "'w api \<Rightarrow> (contents_client \<Rightarrow> 'w \<Rightarrow> (api_error, unit) outcome \<times> 'w)
    \<Rightarrow> (transport \<Rightarrow> 'w \<Rightarrow> bool option \<times> 'w) \<Rightarrow> string \<Rightarrow> bool
    \<Rightarrow> bool \<Rightarrow> nat \<Rightarrow> transport \<Rightarrow> 'w \<Rightarrow> (transport_error, unit) outcome \<times> transport \<times> 'w" where
  "mutate_loop ap act confirm what stamp refreshed n t w =
     (case act (contents_of t) w of
        (Inr _, w) \<Rightarrow> (Inr (), t, w)
      | (Inl e, w) \<Rightarrow>
          if auth_like (status_code e) \<and> \<not> refreshed then
            (case stamp_404 ap (stamp \<and> status_code e = Some 404) t w of
               (t, w) \<Rightarrow>
                 (case refresh_token ap t w of
                    (Rs_Ok, t, w) \<Rightarrow> mutate_loop ap act confirm what stamp True n t w
                  | (status, t, w) \<Rightarrow>
                      (Inl \<lparr>tx_status = status, tx_message = failed_text what e 0
                          (''the token refresh failed ('' @ read_status_value status @ '')'')\<rparr>, t, w)))
          else
            (case (if ae_timeout e then confirm t w else (Some False, w)) of
               (Some True, w) \<Rightarrow> (Inr (), t, w)
             | (None, w) \<Rightarrow>
                 (Inl \<lparr>tx_status = Rs_Degraded, tx_message = failed_text what e n
                    ''whether it completed could not be confirmed''\<rparr>, t, w)
             | (Some False, w) \<Rightarrow>
                 if is_transient e \<and> n < tr_max_retries t then
                   mutate_loop ap act confirm what stamp refreshed (n + 1) t
                     (ap_sleep ap (backoff t n) w)
                 else (case classify_endpoint ap t w of
                     (status, t, w) \<Rightarrow>
                       (Inl \<lparr>tx_status = status, tx_message = failed_text what e n []\<rparr>, t, w))))"
  by pat_completeness auto
termination
  by (relation "measures [\<lambda>(ap, act, confirm, what, stamp, refreshed, n, t, w). if refreshed then 0 else 1,
      \<lambda>(ap, act, confirm, what, stamp, refreshed, n, t, w). tr_max_retries t - n]") auto

definition transport_upload ::
  "'w api \<Rightarrow> local_file \<Rightarrow> string \<Rightarrow> transport \<Rightarrow> 'w
    \<Rightarrow> (transport_error, unit) outcome \<times> transport \<times> 'w" where
  "transport_upload ap f path t w =
     mutate_loop ap
       (\<lambda>cc w. case contents_upload (ap_send ap) cc f path w of
          (Inl e, w) \<Rightarrow> (Inl e, w) | (Inr _, w) \<Rightarrow> (Inr (), w))
       (confirm_size ap path (lf_size f)) (''upload failed: '' @ path) True False 0 t w"

definition transport_makedirs ::
  "'w api \<Rightarrow> string \<Rightarrow> transport \<Rightarrow> 'w \<Rightarrow> (transport_error, unit) outcome \<times> transport \<times> 'w" where
  "transport_makedirs ap dir t w =
     mutate_loop ap (\<lambda>cc w. contents_makedirs (ap_send ap) cc dir w)
       (confirm_directory ap dir) (''could not create '' @ dir) False False 0 t w"

text \<open>The temporary file of \<open>_write\<close> holds the payload's UTF-8 bytes.\<close>

definition payload_file :: "string \<Rightarrow> local_file" where
  "payload_file payload = \<lparr>lf_path = ''<temporary>'', lf_size = length (utf8_bytes payload),
     lf_bytes = utf8_bytes payload\<rparr>"

lemma decode_payload_max_retries [simp]:
  "tr_max_retries (snd (decode_payload ap path v t)) = tr_max_retries t"
  by (auto simp: decode_payload_def problem_def split: json.splits sum.splits)

lemma confirm_text_max_retries:
  "confirm_text ap path payload t w = (b, t', w') \<Longrightarrow> tr_max_retries t' = tr_max_retries t"
  by (auto simp: confirm_text_def split: prod.splits sum.splits
      dest: arg_cong [of "decode_payload ap [] _ t" _ "\<lambda>x. tr_max_retries (snd x)"])

function write_loop ::
  "'w api \<Rightarrow> string \<Rightarrow> string \<Rightarrow> bool \<Rightarrow> nat \<Rightarrow> transport \<Rightarrow> 'w \<Rightarrow> read_status \<times> transport \<times> 'w" where
  "write_loop ap path payload refreshed n t w =
     (case contents_upload (ap_send ap) (contents_of t) (payload_file payload) path w of
        (Inr _, w) \<Rightarrow> (Rs_Ok, t, w)
      | (Inl e, w) \<Rightarrow>
          if auth_like (status_code e) \<and> \<not> refreshed then
            (case stamp_404 ap (status_code e = Some 404) t w of
               (t, w) \<Rightarrow>
                 (case refresh_token ap t w of
                    (Rs_Ok, t, w) \<Rightarrow> write_loop ap path payload True n t w
                  | (Rs_Session_Lost, t, w) \<Rightarrow> (Rs_Session_Lost, t, w)
                  | (_, t, w) \<Rightarrow> (Rs_Degraded, t, w)))
          else
            (case (if ae_timeout e then confirm_text ap path payload t w else (Some False, t, w)) of
               (Some True, t', w) \<Rightarrow> (Rs_Ok, t', w)
             | (None, t', w) \<Rightarrow> (Rs_Degraded, t', w)
             | (Some False, t', w) \<Rightarrow>
                 if is_transient e \<and> n < tr_max_retries t then
                   write_loop ap path payload refreshed (n + 1)
                     t' (ap_sleep ap (backoff t n) w)
                 else if status_code e = Some 404 \<and> refreshed then (Rs_Not_Found, t', w)
                 else classify_endpoint ap t' w))"
  by pat_completeness auto
termination
  by (relation "measures [\<lambda>(ap, path, payload, refreshed, n, t, w). if refreshed then 0 else 1,
      \<lambda>(ap, path, payload, refreshed, n, t, w). tr_max_retries t - n]")
    (auto split: if_splits dest!: confirm_text_max_retries [OF sym])

definition write_text ::
  "'w api \<Rightarrow> string \<Rightarrow> string \<Rightarrow> transport \<Rightarrow> 'w \<Rightarrow> read_status \<times> transport \<times> 'w" where
  "write_text ap path value t w = write_loop ap path value False 0 t w"

definition write_json ::
  "'w api \<Rightarrow> string \<Rightarrow> json \<Rightarrow> transport \<Rightarrow> 'w \<Rightarrow> read_status \<times> transport \<times> 'w" where
  "write_json ap path value t w =
     (case ap_dumps ap value of
        Inl _ \<Rightarrow> (Rs_Degraded, t, w)
      | Inr payload \<Rightarrow> write_loop ap path payload False 0 t w)"

section \<open>Removing\<close>

text \<open>The first loop of \<open>remove\<close>: \<open>None\<close> when it breaks out, the status when it returns.\<close>

function delete_loop ::
  "'w api \<Rightarrow> string \<Rightarrow> bool \<Rightarrow> nat \<Rightarrow> transport \<Rightarrow> 'w \<Rightarrow> read_status option \<times> transport \<times> 'w" where
  "delete_loop ap path refreshed n t w =
     (case contents_request (ap_send ap) (contents_of t) ''DELETE'' path [] None w of
        (Inr _, w) \<Rightarrow> (None, t, w)
      | (Inl e, w) \<Rightarrow>
          if ae_not_found e then (None, t, w)
          else if auth_like (status_code e) \<and> \<not> refreshed then
            (case refresh_token ap t w of
               (Rs_Ok, t, w) \<Rightarrow> delete_loop ap path True n t w
             | (status, t, w) \<Rightarrow> (Some status, t, w))
          else if is_transient e \<and> n < tr_max_retries t then
            delete_loop ap path refreshed (n + 1) t (ap_sleep ap (backoff t n) w)
          else (case classify_endpoint ap t w of (status, t, w) \<Rightarrow> (Some status, t, w)))"
  by pat_completeness auto
termination
  by (relation "measures [\<lambda>(ap, path, refreshed, n, t, w). if refreshed then 0 else 1,
      \<lambda>(ap, path, refreshed, n, t, w). tr_max_retries t - n]") auto

function confirm_gone_loop ::
  "'w api \<Rightarrow> string \<Rightarrow> bool \<Rightarrow> nat \<Rightarrow> transport \<Rightarrow> 'w \<Rightarrow> read_status \<times> transport \<times> 'w" where
  "confirm_gone_loop ap path refreshed n t w =
     (case contents_request (ap_send ap) (contents_of t) ''GET'' path [(''content'', ''0'')] None w of
        (Inr _, w) \<Rightarrow> (Rs_Degraded, t, w)
      | (Inl e, w) \<Rightarrow>
          if ae_not_found e then (Rs_Ok, t, w)
          else if auth_like (status_code e) \<and> \<not> refreshed then
            (case refresh_token ap t w of
               (Rs_Ok, t, w) \<Rightarrow> confirm_gone_loop ap path True n t w
             | (Rs_Session_Lost, t, w) \<Rightarrow> (Rs_Ok, t, w)
             | (_, t, w) \<Rightarrow> (Rs_Degraded, t, w))
          else if is_transient e \<and> n < tr_max_retries t then
            confirm_gone_loop ap path refreshed (n + 1) t (ap_sleep ap (backoff t n) w)
          else (Rs_Degraded, t, w))"
  by pat_completeness auto
termination
  by (relation "measures [\<lambda>(ap, path, refreshed, n, t, w). if refreshed then 0 else 1,
      \<lambda>(ap, path, refreshed, n, t, w). tr_max_retries t - n]") auto

definition transport_remove ::
  "'w api \<Rightarrow> string \<Rightarrow> transport \<Rightarrow> 'w \<Rightarrow> read_status \<times> transport \<times> 'w" where
  "transport_remove ap path t w =
     (case delete_loop ap path False 0 t w of
        (Some status, t, w) \<Rightarrow> (status, t, w)
      | (None, t, w) \<Rightarrow> confirm_gone_loop ap path False 0 t w)"

declare read_loop.simps [simp del] mutate_loop.simps [simp del] write_loop.simps [simp del]
  delete_loop.simps [simp del] confirm_gone_loop.simps [simp del]

section \<open>A session is lost only when a listing showed it\<close>

text \<open>At some point a completed listing of the assignments did not hold the endpoint.\<close>

definition proved_absent :: "'w api \<Rightarrow> string \<Rightarrow> bool" where
  "proved_absent ap ep \<longleftrightarrow>
     (\<exists>w assignments w'. ap_list ap w = (Inr assignments, w') \<and> Some ep \<notin> asg_endpoint ` set assignments)"

definition honest :: "'w api \<Rightarrow> transport \<Rightarrow> bool" where
  "honest ap t \<longleftrightarrow> (tr_last_endpoint_present t = Some False \<longrightarrow> proved_absent ap (tr_endpoint t))"

text \<open>What every call keeps: the endpoint, the session's name, the retry limit and honesty.\<close>

definition kept :: "'w api \<Rightarrow> transport \<Rightarrow> transport \<Rightarrow> bool" where
  "kept ap t t' \<longleftrightarrow>
     tr_endpoint t' = tr_endpoint t \<and> ss_name (tr_session t') = ss_name (tr_session t)
     \<and> tr_max_retries t' = tr_max_retries t \<and> (honest ap t \<longrightarrow> honest ap t')"

definition lost_proved :: "transport \<Rightarrow> read_status \<Rightarrow> bool" where
  "lost_proved t s \<longleftrightarrow> (s = Rs_Session_Lost \<longrightarrow> tr_last_endpoint_present t = Some False)"

lemma kept_refl [intro, simp]: "kept ap t t"
  by (simp add: kept_def)

lemma kept_trans: "kept ap t t1 \<Longrightarrow> kept ap t1 t2 \<Longrightarrow> kept ap t t2"
  by (auto simp: kept_def)

lemma problem_frame [simp]:
  "tr_last_endpoint_present (problem m t) = tr_last_endpoint_present t"
  "tr_session (problem m t) = tr_session t" "tr_max_retries (problem m t) = tr_max_retries t"
  by (simp_all add: problem_def)

lemma kept_problem [simp]: "kept ap t (problem m t') \<longleftrightarrow> kept ap t t'"
  "kept ap (problem m t) t' \<longleftrightarrow> kept ap t t'"
  by (simp_all add: kept_def problem_def tr_endpoint_def honest_def)

lemma lost_proved_problem [simp]: "lost_proved (problem m t) s \<longleftrightarrow> lost_proved t s"
  by (simp add: lost_proved_def problem_def)

lemma lost_proved_simps [simp]:
  "lost_proved t Rs_Ok" "lost_proved t Rs_Not_Found" "lost_proved t Rs_Degraded"
  "lost_proved t Rs_Session_Lost \<longleftrightarrow> tr_last_endpoint_present t = Some False"
  by (simp_all add: lost_proved_def)

lemma kept_stamp: "stamp_404 ap c t w = (t', w') \<Longrightarrow> kept ap t t'"
  by (auto simp: stamp_404_def kept_def tr_endpoint_def honest_def split: if_splits prod.splits)

lemma stamp_present: "stamp_404 ap c t w = (t', w') \<Longrightarrow>
   tr_last_endpoint_present t' = tr_last_endpoint_present t"
  by (auto simp: stamp_404_def split: if_splits prod.splits)

lemma find_assignment_frame:
  "find_assignment ap t w = ((a, p), t', w') \<Longrightarrow>
     tr_session t' = tr_session t \<and> tr_max_retries t' = tr_max_retries t
     \<and> tr_last_endpoint_present t' = tr_last_endpoint_present t
     \<and> (p = Some False \<longrightarrow> proved_absent ap (tr_endpoint t))
     \<and> (p = Some True \<longleftrightarrow> a \<noteq> None)"
proof -
  assume f: "find_assignment ap t w = ((a, p), t', w')"
  obtain r w1 where l: "ap_list ap w = (r, w1)" by (cases "ap_list ap w")
  show ?thesis
  proof (cases r)
    case (Inl e)
    with f l show ?thesis by (auto simp: find_assignment_def)
  next
    case (Inr asgs)
    let ?found = "find (\<lambda>a. asg_endpoint a = Some (tr_endpoint t)) asgs"
    have "?found = None \<Longrightarrow> proved_absent ap (tr_endpoint t)"
      using l Inr by (force simp: proved_absent_def find_None_all)
    moreover obtain fd where "?found = fd" by blast
    ultimately show ?thesis
      using f l Inr by (cases fd) (auto simp: find_assignment_def, metis)
  qed
qed

lemma with_proxy_frame [simp]:
  "ss_endpoint (with_proxy s tok url) = ss_endpoint s" "ss_name (with_proxy s tok url) = ss_name s"
  by (simp_all add: with_proxy_def split: option.splits)

lemma refresh_token_law:
  "refresh_token ap t w = (s, t', w') \<Longrightarrow>
     kept ap t t' \<and> lost_proved t' s \<and> (s = Rs_Ok \<longrightarrow> tr_last_endpoint_present t' = Some True)"
proof -
  assume r: "refresh_token ap t w = (s, t', w')"
  obtain a p t1 w1 where f: "find_assignment ap t w = ((a, p), t1, w1)"
    by (metis prod.collapse)
  note frame = find_assignment_frame [OF f]
  let ?t2 = "t1\<lparr>tr_last_endpoint_present := p\<rparr>"
  have k: "kept ap t ?t2"
    using frame by (auto simp: kept_def tr_endpoint_def honest_def)
  have save: "kept ap t (?t2\<lparr>tr_session := with_proxy (tr_session ?t2) tok url\<rparr>)" for tok url
    using k frame by (simp add: kept_def tr_endpoint_def honest_def)
  from r f k save show ?thesis
    by (auto simp: refresh_token_def Let_def split: option.splits bool.splits prod.splits if_splits)
qed

lemma classify_endpoint_law:
  "classify_endpoint ap t w = (s, t', w') \<Longrightarrow>
     kept ap t t' \<and> lost_proved t' s \<and> s \<in> {Rs_Degraded, Rs_Session_Lost}"
proof -
  assume c: "classify_endpoint ap t w = (s, t', w')"
  obtain a p t1 w1 where f: "find_assignment ap t w = ((a, p), t1, w1)"
    by (metis prod.collapse)
  note frame = find_assignment_frame [OF f]
  have "kept ap t (t1\<lparr>tr_last_endpoint_present := p\<rparr>)"
    using frame by (auto simp: kept_def tr_endpoint_def honest_def)
  with c f show ?thesis
    by (auto simp: classify_endpoint_def split: option.splits bool.splits if_splits)
qed

lemma decode_payload_law:
  "decode_payload ap path v t = ((r, s), t') \<Longrightarrow>
     kept ap t t' \<and> (r \<noteq> None \<longleftrightarrow> s = Rs_Ok) \<and> s \<in> {Rs_Ok, Rs_Degraded}"
  by (auto simp: decode_payload_def split: json.splits if_splits sum.splits)

lemma confirm_text_law: "confirm_text ap path payload t w = (b, t', w') \<Longrightarrow> kept ap t t'"
  by (auto simp: confirm_text_def split: prod.splits sum.splits dest!: decode_payload_law)

lemma read_loop_law:
  "read_loop ap path refreshed n t w = ((v, s), t', w') \<Longrightarrow>
     kept ap t t' \<and> (v \<noteq> None \<longleftrightarrow> s = Rs_Ok) \<and> lost_proved t' s"
proof (induction ap path refreshed n t w arbitrary: v s t' w' rule: read_loop.induct)
  case (1 ap path refreshed n t w)
  obtain got w1 where g: "get_content ap path t w = (got, w1)" by (cases "get_content ap path t w")
  show ?case
  proof (cases got)
    case (Inr payload)
    with "1.prems" g show ?thesis
      by (auto simp: read_loop.simps [of ap path _ n t w] split: prod.splits
          dest!: decode_payload_law)
  next
    case (Inl e)
    show ?thesis
    proof (cases "auth_like (status_code e) \<and> \<not> refreshed")
      case auth: True
      obtain go w2 where go:
        "(if status_code e = Some 404 then should_refresh_404 ap t w1 else (True, w1)) = (go, w2)"
        by (metis prod.collapse)
      obtain rs t2 w3 where r: "refresh_token ap t w2 = (rs, t2, w3)"
        by (cases "refresh_token ap t w2")
      note law = refresh_token_law [OF r]
      obtain t3 w4 where st: "stamp_404 ap (status_code e = Some 404) t2 w3 = (t3, w4)"
        by (cases "stamp_404 ap (status_code e = Some 404) t2 w3")
      show ?thesis
      proof (cases "go \<and> rs = Rs_Ok")
        case True
        then have "read_loop ap path True n t3 w4 = ((v, s), t', w')"
          using "1.prems" g Inl auth go r st by (simp add: read_loop.simps [of ap path _ n t w])
        then have "kept ap t3 t' \<and> (v \<noteq> None \<longleftrightarrow> s = Rs_Ok) \<and> lost_proved t' s"
          using "1.IH"(1) [OF g [symmetric] Inl auth go [symmetric] _ r [symmetric] _ refl st [symmetric]]
            True by blast
        then show ?thesis using law kept_stamp [OF st] kept_trans by blast
      next
        case False
        with "1.prems" g Inl auth go r law show ?thesis
          by (auto simp: read_loop.simps [of ap path _ n t w] split: if_splits read_status.splits)
      qed
    next
      case noauth: False
      show ?thesis
      proof (cases "is_transient e \<and> n < tr_max_retries t")
        case True
        then have "read_loop ap path refreshed (n + 1) t (ap_sleep ap (backoff t n) w1) = ((v, s), t', w')"
          using "1.prems" g Inl noauth by (simp add: read_loop.simps [of ap path _ n t w])
        from "1.IH"(2) [OF g [symmetric] Inl noauth True this] show ?thesis .
      next
        case False
        obtain cs t2 w2 where c: "classify_endpoint ap
            (problem (path @ '': '' @ describe_error (ae_error e) @ retries_text n) t) w1 = (cs, t2, w2)"
          by (metis prod.collapse)
        from "1.prems" g Inl noauth False c classify_endpoint_law [OF c] show ?thesis
          by (auto simp: read_loop.simps [of ap path _ n t w] split: if_splits)
      qed
    qed
  qed
qed

lemma mutate_loop_law:
  "mutate_loop ap act confirm what stamp refreshed n t w = (r, t', w') \<Longrightarrow>
     kept ap t t' \<and> (case r of Inl e \<Rightarrow> lost_proved t' (tx_status e) \<and> tx_status e \<noteq> Rs_Ok | Inr _ \<Rightarrow> True)"
proof (induction ap act confirm what stamp refreshed n t w arbitrary: r t' w' rule: mutate_loop.induct)
  case (1 ap act confirm what stamp refreshed n t w)
  note unfold = mutate_loop.simps [of ap act confirm what stamp _ n t w]
  obtain got w1 where g: "act (contents_of t) w = (got, w1)" by (cases "act (contents_of t) w")
  show ?case
  proof (cases got)
    case (Inr u)
    with "1.prems" g show ?thesis by (auto simp: unfold)
  next
    case (Inl e)
    show ?thesis
    proof (cases "auth_like (status_code e) \<and> \<not> refreshed")
      case auth: True
      obtain t2 w2 where st: "stamp_404 ap (stamp \<and> status_code e = Some 404) t w1 = (t2, w2)"
        by (metis prod.collapse)
      obtain rs t3 w3 where r: "refresh_token ap t2 w2 = (rs, t3, w3)"
        by (cases "refresh_token ap t2 w2")
      have k: "kept ap t t3" using refresh_token_law [OF r] kept_stamp [OF st] kept_trans by blast
      show ?thesis
      proof (cases "rs = Rs_Ok")
        case True
        then have "mutate_loop ap act confirm what stamp True n t3 w3 = (r, t', w')"
          using "1.prems" g Inl auth r st by (simp add: unfold)
        from "1.IH"(1) [OF g [symmetric] Inl auth st [symmetric] r [symmetric] True refl this]
        show ?thesis using k kept_trans by blast
      next
        case False
        with "1.prems" g Inl auth r st k refresh_token_law [OF r] show ?thesis
          by (auto simp: unfold split: read_status.splits)
      qed
    next
      case noauth: False
      obtain c w2 where c: "(if ae_timeout e then confirm t w1 else (Some False, w1)) = (c, w2)"
        by (metis prod.collapse)
      show ?thesis
      proof (cases "c = Some False \<and> is_transient e \<and> n < tr_max_retries t")
        case True
        then have "mutate_loop ap act confirm what stamp refreshed (n + 1) t
            (ap_sleep ap (backoff t n) w2) = (r, t', w')"
          using "1.prems" g Inl noauth c by (simp add: unfold)
        from "1.IH"(2) [OF g [symmetric] Inl noauth c [symmetric] _ _ _ this] True
        show ?thesis by auto
      next
        case False
        obtain cs t2 w3 where ce: "classify_endpoint ap t w2 = (cs, t2, w3)"
          by (metis prod.collapse)
        from "1.prems" g Inl noauth c False ce classify_endpoint_law [OF ce] show ?thesis
          by (auto simp: unfold split: option.splits bool.splits if_splits)
      qed
    qed
  qed
qed

lemma write_loop_law:
  "write_loop ap path payload refreshed n t w = (s, t', w') \<Longrightarrow> kept ap t t' \<and> lost_proved t' s"
proof (induction ap path payload refreshed n t w arbitrary: s t' w' rule: write_loop.induct)
  case (1 ap path payload refreshed n t w)
  note unfold = write_loop.simps [of ap path payload _ n t w]
  obtain got w1 where
    g: "contents_upload (ap_send ap) (contents_of t) (payload_file payload) path w = (got, w1)"
    by (metis prod.collapse)
  show ?case
  proof (cases got)
    case (Inr u)
    with "1.prems" g show ?thesis by (auto simp: unfold)
  next
    case (Inl e)
    show ?thesis
    proof (cases "auth_like (status_code e) \<and> \<not> refreshed")
      case auth: True
      obtain t2 w2 where st: "stamp_404 ap (status_code e = Some 404) t w1 = (t2, w2)"
        by (metis prod.collapse)
      obtain rs t3 w3 where r: "refresh_token ap t2 w2 = (rs, t3, w3)"
        by (cases "refresh_token ap t2 w2")
      have k: "kept ap t t3" using refresh_token_law [OF r] kept_stamp [OF st] kept_trans by blast
      show ?thesis
      proof (cases "rs = Rs_Ok")
        case True
        then have "write_loop ap path payload True n t3 w3 = (s, t', w')"
          using "1.prems" g Inl auth r st by (simp add: unfold)
        from "1.IH"(1) [OF g [symmetric] Inl auth st [symmetric] r [symmetric] True refl this]
        show ?thesis using k kept_trans by blast
      next
        case False
        with "1.prems" g Inl auth r st k refresh_token_law [OF r] show ?thesis
          by (auto simp: unfold split: read_status.splits)
      qed
    next
      case noauth: False
      obtain c t2 w2 where c: "(if ae_timeout e then confirm_text ap path payload t w1
          else (Some False, t, w1)) = (c, t2, w2)"
        by (metis prod.collapse)
      have k: "kept ap t t2" using c confirm_text_law by (auto split: if_splits)
      show ?thesis
      proof (cases "c = Some False \<and> is_transient e \<and> n < tr_max_retries t")
        case True
        then have "write_loop ap path payload refreshed (n + 1) t2
            (ap_sleep ap (backoff t n) w2) = (s, t', w')"
          using "1.prems" g Inl noauth c by (simp add: unfold)
        from "1.IH"(2) [OF g [symmetric] Inl noauth c [symmetric] _ _ refl _ this] True
        show ?thesis using kept_trans [OF k] by auto
      next
        case False
        obtain cs t3 w3 where ce: "classify_endpoint ap t2 w2 = (cs, t3, w3)"
          by (metis prod.collapse)
        have "kept ap t t3" "lost_proved t3 cs"
          using k kept_trans classify_endpoint_law [OF ce] by blast+
        with "1.prems" g Inl noauth c False ce k show ?thesis
          by (auto simp: unfold split: option.splits bool.splits if_splits)
      qed
    qed
  qed
qed

lemma delete_loop_law:
  "delete_loop ap path refreshed n t w = (s, t', w') \<Longrightarrow>
     kept ap t t' \<and> (case s of None \<Rightarrow> True | Some st \<Rightarrow> lost_proved t' st \<and> st \<noteq> Rs_Ok)"
proof (induction ap path refreshed n t w arbitrary: s t' w' rule: delete_loop.induct)
  case (1 ap path refreshed n t w)
  note unfold = delete_loop.simps [of ap path _ n t w]
  obtain got w1 where
    g: "contents_request (ap_send ap) (contents_of t) ''DELETE'' path [] None w = (got, w1)"
    by (metis prod.collapse)
  show ?case
  proof (cases got)
    case (Inr u)
    with "1.prems" g show ?thesis by (auto simp: unfold)
  next
    case (Inl e)
    consider "ae_not_found e" | "\<not> ae_not_found e" "auth_like (status_code e) \<and> \<not> refreshed"
      | "\<not> ae_not_found e" "\<not> (auth_like (status_code e) \<and> \<not> refreshed)" by blast
    then show ?thesis
    proof cases
      case 1
      with "1.prems" g Inl show ?thesis by (auto simp: unfold)
    next
      case 2
      obtain rs t2 w2 where r: "refresh_token ap t w1 = (rs, t2, w2)"
        by (cases "refresh_token ap t w1")
      show ?thesis
      proof (cases "rs = Rs_Ok")
        case True
        then have "delete_loop ap path True n t2 w2 = (s, t', w')"
          using "1.prems" g Inl 2 r by (simp add: unfold)
        from "1.IH"(1) [OF g [symmetric] Inl 2 r [symmetric] True refl this]
        show ?thesis using refresh_token_law [OF r] kept_trans by blast
      next
        case False
        with "1.prems" g Inl 2 r refresh_token_law [OF r] show ?thesis
          by (auto simp: unfold split: read_status.splits)
      qed
    next
      case 3
      show ?thesis
      proof (cases "is_transient e \<and> n < tr_max_retries t")
        case True
        then have "delete_loop ap path refreshed (n + 1) t (ap_sleep ap (backoff t n) w1) = (s, t', w')"
          using "1.prems" g Inl 3 by (simp add: unfold)
        from "1.IH"(2) [OF g [symmetric] Inl 3 True this] show ?thesis .
      next
        case False
        obtain cs t3 w3 where ce: "classify_endpoint ap t w1 = (cs, t3, w3)"
          by (metis prod.collapse)
        from "1.prems" g Inl 3 False ce classify_endpoint_law [OF ce] show ?thesis
          by (auto simp: unfold)
      qed
    qed
  qed
qed

lemma confirm_gone_loop_law:
  "confirm_gone_loop ap path refreshed n t w = (s, t', w') \<Longrightarrow>
     kept ap t t' \<and> s \<in> {Rs_Ok, Rs_Degraded}"
proof (induction ap path refreshed n t w arbitrary: s t' w' rule: confirm_gone_loop.induct)
  case (1 ap path refreshed n t w)
  note unfold = confirm_gone_loop.simps [of ap path _ n t w]
  obtain got w1 where
    g: "contents_request (ap_send ap) (contents_of t) ''GET'' path [(''content'', ''0'')] None w
      = (got, w1)"
    by (metis prod.collapse)
  show ?case
  proof (cases got)
    case (Inr u)
    with "1.prems" g show ?thesis by (auto simp: unfold)
  next
    case (Inl e)
    consider "ae_not_found e" | "\<not> ae_not_found e" "auth_like (status_code e) \<and> \<not> refreshed"
      | "\<not> ae_not_found e" "\<not> (auth_like (status_code e) \<and> \<not> refreshed)" by blast
    then show ?thesis
    proof cases
      case 1
      with "1.prems" g Inl show ?thesis by (auto simp: unfold)
    next
      case 2
      obtain rs t2 w2 where r: "refresh_token ap t w1 = (rs, t2, w2)"
        by (cases "refresh_token ap t w1")
      show ?thesis
      proof (cases "rs = Rs_Ok")
        case True
        then have "confirm_gone_loop ap path True n t2 w2 = (s, t', w')"
          using "1.prems" g Inl 2 r by (simp add: unfold)
        from "1.IH"(1) [OF g [symmetric] Inl 2 r [symmetric] True refl this]
        show ?thesis using refresh_token_law [OF r] kept_trans by blast
      next
        case False
        with "1.prems" g Inl 2 r refresh_token_law [OF r] show ?thesis
          by (auto simp: unfold split: read_status.splits)
      qed
    next
      case 3
      show ?thesis
      proof (cases "is_transient e \<and> n < tr_max_retries t")
        case True
        then have "confirm_gone_loop ap path refreshed (n + 1) t (ap_sleep ap (backoff t n) w1)
            = (s, t', w')"
          using "1.prems" g Inl 3 by (simp add: unfold)
        from "1.IH"(2) [OF g [symmetric] Inl 3 True this] show ?thesis .
      next
        case False
        from "1.prems" g Inl 3 False show ?thesis by (auto simp: unfold)
      qed
    qed
  qed
qed

text \<open>The calls of the transport, over the laws of their loops.\<close>

lemma decode_object_law:
  "decode_object ap path v t = ((r, s), t') \<Longrightarrow> kept ap t t' \<and> (r \<noteq> None \<longleftrightarrow> s = Rs_Ok) \<and> lost_proved t' s"
  by (auto simp: decode_object_def split: sum.splits option.splits, metis)

lemma read_json_law:
  "read_json ap path t w = ((v, s), t', w') \<Longrightarrow>
     kept ap t t' \<and> (v \<noteq> None \<longleftrightarrow> s = Rs_Ok) \<and> lost_proved t' s"
proof -
  assume j: "read_json ap path t w = ((v, s), t', w')"
  obtain v1 s1 t1 w1 where r: "read_loop ap path False 0 t w = ((v1, s1), t1, w1)"
    by (metis prod.collapse)
  note law = read_loop_law [OF r]
  show ?thesis
  proof (cases "s1 = Rs_Ok \<and> Option.bind v1 as_obj = None")
    case True
    obtain q t2 where d: "decode_object ap path v1 t1 = (q, t2)"
      by (cases "decode_object ap path v1 t1")
    with True j r have "q = (v, s)" "t2 = t'" by (auto simp: read_json_def transport_read_def)
    with d law decode_object_law [of ap path v1 t1 v s t'] show ?thesis
      using kept_trans by blast
  next
    case False
    with j r law show ?thesis
      by (auto simp: read_json_def transport_read_def split: option.splits if_splits, metis)
  qed
qed

lemma read_text_law:
  "read_text ap path t w = ((v, s), t', w') \<Longrightarrow>
     kept ap t t' \<and> (v \<noteq> None \<longleftrightarrow> s = Rs_Ok) \<and> lost_proved t' s"
  by (auto simp: read_text_def transport_read_def split: prod.splits if_splits dest!: read_loop_law)

lemma write_json_law:
  "write_json ap path v t w = (s, t', w') \<Longrightarrow> kept ap t t' \<and> lost_proved t' s"
  by (auto simp: write_json_def split: sum.splits dest: write_loop_law)

lemma transport_remove_law:
  "transport_remove ap path t w = (s, t', w') \<Longrightarrow> kept ap t t' \<and> lost_proved t' s"
proof -
  assume r: "transport_remove ap path t w = (s, t', w')"
  obtain ds t1 w1 where d: "delete_loop ap path False 0 t w = (ds, t1, w1)"
    by (metis prod.collapse)
  from r d delete_loop_law [OF d] show ?thesis
    by (auto simp: transport_remove_def split: option.splits
        dest!: confirm_gone_loop_law intro: kept_trans)
qed

lemma proved_from_law:
  "honest ap t \<Longrightarrow> kept ap t t' \<and> lost_proved t' s \<Longrightarrow> s = Rs_Session_Lost
     \<Longrightarrow> proved_absent ap (tr_endpoint t)"
  by (auto simp: kept_def lost_proved_def honest_def)

section \<open>The contract of a reader\<close>

text \<open>
  What the supervisor relies on when it reads records from the VM: a value comes
  with \<open>ok\<close> and only then, and \<open>session_lost\<close> only once the endpoint was shown absent.
\<close>

locale job_reader =
  fixes read :: "string \<Rightarrow> 't \<Rightarrow> 'w \<Rightarrow> ('v option \<times> read_status) \<times> 't \<times> 'w"
    and sound :: "'t \<Rightarrow> bool" and absent :: "'t \<Rightarrow> bool"
  assumes value_iff: "read p t w = ((v, s), t', w') \<Longrightarrow> v \<noteq> None \<longleftrightarrow> s = Rs_Ok"
    and keeps_sound: "sound t \<Longrightarrow> read p t w = (r, t', w') \<Longrightarrow> sound t'"
    and lost_absent: "sound t \<Longrightarrow> read p t w = ((v, Rs_Session_Lost), t', w') \<Longrightarrow> absent t'"
begin

lemma value_not_lost: "read p t w = ((Some v, s), t', w') \<Longrightarrow> s = Rs_Ok"
  using value_iff by blast

lemma lost_no_value: "read p t w = ((v, Rs_Session_Lost), t', w') \<Longrightarrow> v = None"
  using value_iff by blast

lemma present_status:
  assumes "sound t" "read p t w = ((v, s), t', w')" "\<not> absent t'"
  shows "s \<in> {Rs_Ok, Rs_Not_Found, Rs_Degraded}"
  using assms lost_absent by (cases s) auto

end

definition absent_for :: "'w api \<Rightarrow> transport \<Rightarrow> bool" where
  "absent_for ap t \<longleftrightarrow> proved_absent ap (tr_endpoint t)"

lemma absent_from_law:
  "honest ap t \<Longrightarrow> kept ap t t' \<and> lost_proved t' Rs_Session_Lost \<Longrightarrow> absent_for ap t'"
  by (auto simp: kept_def lost_proved_def honest_def absent_for_def)

lemma kept_honest: "kept ap t t' \<Longrightarrow> honest ap t \<Longrightarrow> honest ap t'"
  by (simp add: kept_def)

interpretation json_reader: job_reader "read_json ap" "honest ap" "absent_for ap" for ap
proof (unfold_locales, goal_cases)
  case (1 p t w v s t' w')
  then show ?case by (auto dest!: read_json_law)
next
  case (2 t p w r t' w')
  then show ?case by (cases r) (auto dest!: read_json_law intro: kept_honest)
next
  case (3 t p w v t' w')
  then show ?case by (auto dest!: read_json_law intro!: absent_from_law)
qed

interpretation text_reader: job_reader "read_text ap" "honest ap" "absent_for ap" for ap
proof (unfold_locales, goal_cases)
  case (1 p t w v s t' w')
  then show ?case by (auto dest!: read_text_law)
next
  case (2 t p w r t' w')
  then show ?case by (cases r) (auto dest!: read_text_law intro: kept_honest)
next
  case (3 t p w v t' w')
  then show ?case by (auto dest!: read_text_law intro!: absent_from_law)
qed

text \<open>
  A read, a write and a removal report the session lost only when some
  completed listing of the assignments did not hold the session's endpoint: no
  timeout, 401, 404 or failed listing is ever taken for the loss of the VM.
\<close>

theorem session_lost_means_absent:
  assumes "honest ap t"
  shows "Rs_Session_Lost \<in> {snd (fst (read_json ap path t w)), snd (fst (read_text ap path t w)),
      fst (write_json ap path v t w), fst (transport_remove ap path t w)}
    \<Longrightarrow> proved_absent ap (tr_endpoint t)"
proof -
  assume lost: "Rs_Session_Lost \<in> {snd (fst (read_json ap path t w)), snd (fst (read_text ap path t w)),
      fst (write_json ap path v t w), fst (transport_remove ap path t w)}"
  obtain a s1 t1 w1 where 1: "read_json ap path t w = ((a, s1), t1, w1)" by (metis prod.collapse)
  obtain b s2 t2 w2 where 2: "read_text ap path t w = ((b, s2), t2, w2)" by (metis prod.collapse)
  obtain s3 t3 w3 where 3: "write_json ap path v t w = (s3, t3, w3)" by (metis prod.collapse)
  obtain s4 t4 w4 where 4: "transport_remove ap path t w = (s4, t4, w4)" by (metis prod.collapse)
  have "s \<in> {s1, s2, s3, s4} \<Longrightarrow> s = Rs_Session_Lost \<Longrightarrow> proved_absent ap (tr_endpoint t)" for s
    using proved_from_law [OF assms] read_json_law [OF 1] read_text_law [OF 2]
      write_json_law [OF 3] transport_remove_law [OF 4] by blast
  with lost 1 2 3 4 show ?thesis by simp
qed

text \<open>A VM that answers 401 and is no longer listed.\<close>

definition gone_api :: "unit api" where
  "gone_api = \<lparr>ap_send = \<lambda>rq w. (Inr \<lparr>hr_status = 401, hr_json = Inr JNull, hr_error_text = ''401''\<rparr>, w),
     ap_list = \<lambda>w. (Inr [], w), ap_now = \<lambda>w. (0, w), ap_sleep = \<lambda>d w. w, ap_save = \<lambda>s w. w,
     ap_utf8 = id, ap_loads = \<lambda>s. Inr (JObj []), ap_dumps = \<lambda>v. Inr []\<rparr>"

definition demo_transport :: transport where
  "demo_transport = \<lparr>tr_session = new_session ''s'' ''t'' ''https://h'' ''e'', tr_max_retries = 3,
     tr_backoff_factor = 1 / 4, tr_not_found_refresh_interval = 60,
     tr_last_endpoint_present = None, tr_last_404_refresh_at = None, tr_last_problem = None,
     tr_listing_error = None\<rparr>"

lemma gone_read: "snd (fst (read_json gone_api path demo_transport ())) = Rs_Session_Lost"
  by (simp add: read_json_def transport_read_def read_loop.simps get_content_def contents_request_def
      gone_api_def check_response_def auth_like_def status_code_def http_error_def refresh_token_def
      find_assignment_def Let_def)

theorem session_lost_means_absent_witness: "proved_absent gone_api (tr_endpoint demo_transport)"
  by (rule session_lost_means_absent [of gone_api demo_transport "''result.json''" "()" JNull])
    (simp add: honest_def demo_transport_def, simp add: gone_read)

section \<open>A read is bounded\<close>

text \<open>What a call costs: the requests to the VM, the listings of the assignments and the sleeps.\<close>

record meter =
  m_requests :: nat
  m_listings :: nat
  m_sleeps :: nat

definition metered :: "'w api \<Rightarrow> ('w \<times> meter) api" where
  "metered ap =
     \<lparr>ap_send = \<lambda>rq (w, m). (case ap_send ap rq w of (r, w) \<Rightarrow>
        (r, (w, m\<lparr>m_requests := m_requests m + 1\<rparr>))),
      ap_list = \<lambda>(w, m). (case ap_list ap w of (r, w) \<Rightarrow>
        (r, (w, m\<lparr>m_listings := m_listings m + 1\<rparr>))),
      ap_now = \<lambda>(w, m). (case ap_now ap w of (r, w) \<Rightarrow> (r, (w, m))),
      ap_sleep = \<lambda>d (w, m). (ap_sleep ap d w, m\<lparr>m_sleeps := m_sleeps m + 1\<rparr>),
      ap_save = \<lambda>s (w, m). (ap_save ap s w, m),
      ap_utf8 = ap_utf8 ap, ap_loads = ap_loads ap, ap_dumps = ap_dumps ap\<rparr>"

lemma get_content_metered:
  "get_content (metered ap) path t wm = (r, wm') \<Longrightarrow>
     snd wm' = (snd wm)\<lparr>m_requests := m_requests (snd wm) + 1\<rparr>"
  by (auto simp: get_content_def contents_request_def metered_def split: prod.splits sum.splits)

lemma find_assignment_metered:
  "find_assignment (metered ap) t wm = (r, t', wm') \<Longrightarrow>
     snd wm' = (snd wm)\<lparr>m_listings := m_listings (snd wm) + 1\<rparr>"
  by (auto simp: find_assignment_def metered_def split: prod.splits sum.splits option.splits)

lemma refresh_token_metered:
  "refresh_token (metered ap) t wm = (s, t', wm') \<Longrightarrow>
     snd wm' = (snd wm)\<lparr>m_listings := m_listings (snd wm) + 1\<rparr>"
proof -
  assume r: "refresh_token (metered ap) t wm = (s, t', wm')"
  obtain a p t1 wm1 where f: "find_assignment (metered ap) t wm = ((a, p), t1, wm1)"
    by (metis prod.collapse)
  have "snd wm' = snd wm1"
    using r f
    by (auto simp: refresh_token_def Let_def metered_def split: option.splits bool.splits prod.splits
        if_splits)
  then show ?thesis using find_assignment_metered [OF f] by simp
qed

lemma classify_endpoint_metered:
  "classify_endpoint (metered ap) t wm = (s, t', wm') \<Longrightarrow>
     snd wm' = (if tr_last_endpoint_present t = None
       then (snd wm)\<lparr>m_listings := m_listings (snd wm) + 1\<rparr> else snd wm)"
  by (auto simp: classify_endpoint_def split: option.splits bool.splits prod.splits
      dest!: find_assignment_metered)

lemma stamp_metered: "stamp_404 (metered ap) c t wm = (t', wm') \<Longrightarrow> snd wm' = snd wm"
  by (auto simp: stamp_404_def metered_def split: if_splits prod.splits)

lemma should_refresh_metered: "should_refresh_404 (metered ap) t wm = (b, wm') \<Longrightarrow> snd wm' = snd wm"
  by (auto simp: should_refresh_404_def metered_def split: option.splits prod.splits)

lemma sleep_metered [simp]:
  "snd (ap_sleep (metered ap) d wm) = (snd wm)\<lparr>m_sleeps := m_sleeps (snd wm) + 1\<rparr>"
  by (cases wm) (simp add: metered_def)

definition spends :: "nat \<Rightarrow> nat \<Rightarrow> nat \<Rightarrow> meter \<Rightarrow> meter \<Rightarrow> bool" where
  "spends requests listings sleeps m m' \<longleftrightarrow>
     m_requests m' \<le> m_requests m + requests \<and> m_listings m' \<le> m_listings m + listings
     \<and> m_sleeps m' \<le> m_sleeps m + sleeps"

lemma read_loop_metered:
  "read_loop (metered ap) path refreshed n t wm = (r, t', wm') \<Longrightarrow>
   (refreshed \<longrightarrow> tr_last_endpoint_present t = Some True) \<Longrightarrow>
     spends (1 + (tr_max_retries t - n) + (if refreshed then 0 else 1)) (if refreshed then 0 else 1)
       (tr_max_retries t - n) (snd wm) (snd wm')"
proof (induction "metered ap" path refreshed n t wm arbitrary: r t' wm' rule: read_loop.induct)
  case (1 path refreshed n t wm)
  note unfold = read_loop.simps [of "metered ap" path _ n t wm]
  obtain got wm1 where g: "get_content (metered ap) path t wm = (got, wm1)"
    by (cases "get_content (metered ap) path t wm")
  note m1 = get_content_metered [OF g]
  show ?case
  proof (cases got)
    case (Inr payload)
    with "1.prems" g m1 show ?thesis by (auto simp: unfold spends_def split: prod.splits)
  next
    case (Inl e)
    show ?thesis
    proof (cases "auth_like (status_code e) \<and> \<not> refreshed")
      case auth: True
      obtain go wm2 where go: "(if status_code e = Some 404 then should_refresh_404 (metered ap) t wm1
          else (True, wm1)) = (go, wm2)"
        by (metis prod.collapse)
      have m2: "snd wm2 = snd wm1" using go should_refresh_metered [of ap t wm1 go wm2] by (simp split: if_splits)
      obtain rs t2 wm3 where r: "refresh_token (metered ap) t wm2 = (rs, t2, wm3)"
        by (cases "refresh_token (metered ap) t wm2")
      note m3 = refresh_token_metered [OF r]
      obtain t3 wm4 where st: "stamp_404 (metered ap) (status_code e = Some 404) t2 wm3 = (t3, wm4)"
        by (metis prod.collapse)
      show ?thesis
      proof (cases "go \<and> rs = Rs_Ok")
        case True
        then have rec: "read_loop (metered ap) path True n t3 wm4 = (r, t', wm')"
          using "1.prems" g Inl auth go r st by (simp add: unfold)
        have "tr_last_endpoint_present t3 = Some True" "tr_max_retries t3 = tr_max_retries t"
          using refresh_token_law [OF r] stamp_present [OF st] kept_stamp [OF st] True
          by (auto simp: kept_def)
        with "1.hyps"(1) [OF g [symmetric] Inl auth go [symmetric] _ r [symmetric] _ refl
            st [symmetric] rec] True
        have "spends (1 + (tr_max_retries t - n)) 0 (tr_max_retries t - n) (snd wm4) (snd wm')"
          by simp
        then show ?thesis using m1 m2 m3 stamp_metered [OF st] auth by (simp add: spends_def)
      next
        case False
        with "1.prems" g Inl auth go r m1 m2 m3 show ?thesis
          by (auto simp: unfold spends_def split: if_splits read_status.splits)
      qed
    next
      case noauth: False
      show ?thesis
      proof (cases "is_transient e \<and> n < tr_max_retries t")
        case True
        let ?wm2 = "ap_sleep (metered ap) (backoff t n) wm1"
        from True have rec: "read_loop (metered ap) path refreshed (n + 1) t ?wm2 = (r, t', wm')"
          using "1.prems"(1) g Inl noauth by (simp add: unfold)
        from "1.hyps"(2) [OF g [symmetric] Inl noauth True rec "1.prems"(2)] m1 True
        show ?thesis by (auto simp: spends_def)
      next
        case False
        obtain cs t2 wm2 where c: "classify_endpoint (metered ap)
            (problem (path @ '': '' @ describe_error (ae_error e) @ retries_text n) t) wm1 = (cs, t2, wm2)"
          by (metis prod.collapse)
        from "1.prems" g Inl noauth False c classify_endpoint_metered [OF c] m1 show ?thesis
          by (auto simp: unfold spends_def split: if_splits)
      qed
    qed
  qed
qed

text \<open>
  Reading a record always returns, after at most two requests more than the
  configured retries, one listing of the assignments and as many sleeps as there
  are retries, whatever the VM and the API answer.
\<close>

theorem read_json_bounded:
  "m_requests (snd (snd (snd (read_json (metered ap) path t (w, m))))) \<le> m_requests m + tr_max_retries t + 2
   \<and> m_listings (snd (snd (snd (read_json (metered ap) path t (w, m))))) \<le> m_listings m + 1
   \<and> m_sleeps (snd (snd (snd (read_json (metered ap) path t (w, m))))) \<le> m_sleeps m + tr_max_retries t"
proof -
  obtain r t' wm' where l: "read_loop (metered ap) path False 0 t (w, m) = (r, t', wm')"
    by (metis prod.collapse)
  have "snd (snd (read_json (metered ap) path t (w, m))) = wm'"
    using l by (cases r) (simp add: read_json_def transport_read_def split: option.splits prod.splits)
  moreover have "spends (tr_max_retries t + 2) 1 (tr_max_retries t) m (snd wm')"
    using read_loop_metered [OF l] by simp
  ultimately show ?thesis by (simp add: spends_def)
qed

end
