(* ===== verification/Verdict.thy ===== *)
theory Verdict
  imports Models "HOL-Library.List_Lexorder" "HOL-Library.Char_ord"
begin

text \<open>
  \<open>job/verdict.py\<close>: from the fields of the runner's \<open>result.json\<close> to the
  envelope's reason and retry class.  A result is the JSON object as read, so
  fields of any JSON type are covered; indexing or measuring a value that has
  no such operation is the \<open>TypeError\<close> or \<open>KeyError\<close> Python raises.
\<close>

section \<open>Transfer and assign classes\<close>

datatype http_method = M_GET | M_PUT

fun category_retry :: "transfer_category option \<Rightarrow> retry_class" where
  "category_retry (Some Cat_Network) = Retry_Same"
| "category_retry (Some Cat_Checksum) = Fix_Code"
| "category_retry (Some Cat_Size) = Fix_Code"
| "category_retry (Some Cat_Local) = Fix_Code"
| "category_retry (Some Cat_Blocked) = Fix_Human"
| "category_retry (Some Cat_Setup) = Do_Not_Retry"
| "category_retry _ = Retry_Same"

definition transfer_retry_class :: "transfer_error \<Rightarrow> http_method \<Rightarrow> retry_class" where
  "transfer_retry_class e m =
     (case te_http_status e of
        Some status \<Rightarrow>
          if status = 401 \<or> status = 403 then Refresh_Urls
          else if status = 404 then (if m = M_GET then Fix_Code else Refresh_Urls)
          else if status = 408 \<or> status = 429 \<or> (500 \<le> status \<and> status < 600) then Retry_Same
          else if 400 \<le> status \<and> status < 500 then Fix_Code
          else Retry_Same
      | None \<Rightarrow> category_retry (te_category e))"

definition assign_retry_class :: "int option \<Rightarrow> bool \<Rightarrow> retry_class" where
  "assign_retry_class http_status network =
     (case http_status of
        Some status \<Rightarrow>
          if status = 400 \<or> status = 401 \<or> status = 403 then Fix_Human
          else if status = 408 \<or> status = 429 then Retry_Same
          else Retry_Different
      | None \<Rightarrow> if network then Retry_Same else Do_Not_Retry)"

definition strength :: "retry_class list" where
  "strength = [Do_Not_Retry, Fix_Human, Fix_Code, Retry_Different, Refresh_Urls, Retry_Same]"

definition strongest :: "retry_class option list \<Rightarrow> retry_class option" where
  "strongest classes = find (\<lambda>c. Some c \<in> set classes) strength"

section \<open>Phrases\<close>

definition grace_seconds :: int where
  "grace_seconds = 5"

definition exception_message_chars :: nat where
  "exception_message_chars = 500"

definition cancel_source :: "json \<Rightarrow> string option" where
  "cancel_source intent =
     (case as_obj intent of
        Some d \<Rightarrow> (case as_str (jget d ''by'') of
            Some by \<Rightarrow> if by \<noteq> [] then Some by else None
          | None \<Rightarrow> None)
      | None \<Rightarrow> None)"

definition signal_label :: "json_obj \<Rightarrow> string" where
  "signal_label result =
     (if truthy (jget result ''signal_name'')
      then py_str (jget result ''signal_name'') @ '' ('' @ py_str (jget result ''signal'') @ '')''
      else ''signal '' @ py_str (jget result ''signal''))"

definition how_it_stopped :: "json_obj \<Rightarrow> string" where
  "how_it_stopped result =
     (if jget result ''signal_name'' = JStr ''SIGKILL'' then
        ''the workload did not exit within '' @ show_int grace_seconds
        @ ''s of SIGTERM and was killed by SIGKILL''
      else if jget result ''signal'' \<noteq> JNull then
        ''the workload was stopped by '' @ signal_label result
      else if jget result ''exit_code'' \<noteq> JNull then
        ''the workload exited '' @ py_str (jget result ''exit_code'') @ '' after SIGTERM''
      else ''the workload'' @ [CHR 0x27] @ ''s exit was not observed'')"

text \<open>\<open>v[-1]\<close> on a truthy JSON value.\<close>

fun py_last :: "json \<Rightarrow> (py_error, string) outcome" where
  "py_last (JArr xs) = Inr (py_str (last xs))"
| "py_last (JStr s) = Inr [last s]"
| "py_last (JObj d) = Inl \<lparr>err_type = ''KeyError'', err_msg = ''-1''\<rparr>"
| "py_last v = Inl \<lparr>err_type = ''TypeError'',
     err_msg = [CHR 0x27] @ type_name v @ [CHR 0x27] @ '' object is not subscriptable''\<rparr>"

definition oom_note :: "json_obj \<Rightarrow> (py_error, string option) outcome" where
  "oom_note result =
     (case as_int (jget result ''oom_kills'') of
        None \<Rightarrow> Inr None
      | Some kills \<Rightarrow>
          if kills = 0 then
            Inr (if jget result ''signal_name'' = JStr ''SIGKILL''
                 then Some ''no kernel OOM kill during the run'' else None)
          else
            (let note = ''the kernel'' @ [CHR 0x27] @ ''s out-of-memory killer ran ''
                   @ py_str (jget result ''oom_kills'') @ '' time(s) during the run'';
                 log = jget result ''oom_log''
             in if truthy log
                then (case py_last log of Inl e \<Rightarrow> Inl e | Inr l \<Rightarrow> Inr (Some (note @ '': '' @ l)))
                else Inr (Some note)))"

definition with_notes :: "string \<Rightarrow> string option \<Rightarrow> string" where
  "with_notes reason note =
     (case note of Some n \<Rightarrow> if n \<noteq> [] then reason @ ''; '' @ n else reason | None \<Rightarrow> reason)"

text \<open>\<open>len(v)\<close> and \<open>', '.join(str(p) for p in v)\<close> on a truthy JSON value.\<close>

fun count_and_list :: "json \<Rightarrow> (py_error, nat \<times> string) outcome" where
  "count_and_list (JArr xs) = Inr (length xs, join '', '' (map py_str xs))"
| "count_and_list (JStr s) = Inr (length s, join '', '' (map (\<lambda>c. [c]) s))"
| "count_and_list (JObj d) = Inr (length d, join '', '' (map fst d))"
| "count_and_list v = Inl \<lparr>err_type = ''TypeError'',
     err_msg = ''object of type '' @ [CHR 0x27] @ type_name v @ [CHR 0x27] @ '' has no len()''\<rparr>"

section \<open>The workload's own verdict\<close>

type_synonym reason_class = "string option \<times> retry_class option"

definition cut_message :: "string \<Rightarrow> string" where
  "cut_message message =
     (if exception_message_chars < length message then
        take exception_message_chars message @ '' [... ''
        @ show_nat (length message - exception_message_chars)
        @ '' characters omitted; the full message is in `exception`]''
      else message)"

definition cancelled_outcome :: "json_obj \<Rightarrow> int \<Rightarrow> reason_class" where
  "cancelled_outcome result wall_clock =
     (let intent = jget result ''cancel_intent''; stopped = how_it_stopped result in
      case cancel_source intent of
        Some by \<Rightarrow>
          if by = ''wall_clock'' then
            (Some (''wall_clock budget of '' @ show_int wall_clock @ ''s reached; '' @ stopped),
             Some Fix_Code)
          else (Some (''cancelled by '' @ by @ ''; '' @ stopped), None)
      | None \<Rightarrow>
          (let err = (case as_obj intent of Some d \<Rightarrow> jget d ''error'' | None \<Rightarrow> JNull);
               source = (if truthy err
                 then ''cancelled (cancel.json unreadable: '' @ py_str err @ '')''
                 else ''cancelled (cancel.json names no requester)'')
           in (Some (source @ ''; '' @ stopped), None)))"

definition unknown_outcome :: "json_obj \<Rightarrow> (py_error, reason_class) outcome" where
  "unknown_outcome result =
     (let runner_error = jget result ''runner_error'';
          reason = (if truthy runner_error
            then ''the runner could not reach a verdict: '' @ py_str runner_error
            else ''the runner reported no verdict'')
      in case oom_note result of
           Inl e \<Rightarrow> Inl e
         | Inr note \<Rightarrow> Inr (Some (with_notes reason note), Some Do_Not_Retry))"

definition exception_text :: "json_obj \<Rightarrow> string option" where
  "exception_text result =
     (case as_obj (jget result ''exception'') of
        Some d \<Rightarrow>
          if truthy (jget d ''type'') then
            (let msg = (if truthy (jget d ''message'') then py_str (jget d ''message'') else [])
             in Some (py_str (jget d ''type'') @ '': '' @ cut_message msg))
          else None
      | None \<Rightarrow> None)"

definition failed_reason :: "json_obj \<Rightarrow> (py_error, string) outcome" where
  "failed_reason result =
     (let exit_code = jget result ''exit_code''; tagged = jget result ''survivors_by_job_tag'' in
      if jget result ''signal'' \<noteq> JNull then
        Inr (''the workload was killed by '' @ signal_label result @ '' with no cancel request'')
      else if eq_int exit_code 0 \<and> truthy tagged then
        (case count_and_list tagged of
           Inl e \<Rightarrow> Inl e
         | Inr (n, ps) \<Rightarrow> Inr (''the workload exited 0 but '' @ show_nat n
             @ '' tagged process(es) survived containment: '' @ ps))
      else (case exception_text result of
          Some text \<Rightarrow> Inr (''the workload exited '' @ py_str exit_code @ '': '' @ text)
        | None \<Rightarrow> Inr (''the workload exited '' @ py_str exit_code
            @ '' without a recorded exception; its output is in runner.log'')))"

definition workload_outcome :: "json_obj \<Rightarrow> int \<Rightarrow> (py_error, reason_class) outcome" where
  "workload_outcome result wall_clock =
     (let workload = jget_or result ''workload'' (JStr ''unknown'') in
      if workload = JStr ''succeeded'' then Inr (None, None)
      else if workload = JStr ''cancelled'' then Inr (cancelled_outcome result wall_clock)
      else if workload = JStr ''unknown'' then unknown_outcome result
      else (case failed_reason result of
          Inl e \<Rightarrow> Inl e
        | Inr reason \<Rightarrow> (case oom_note result of
              Inl e \<Rightarrow> Inl e
            | Inr note \<Rightarrow> Inr (Some (with_notes reason note), Some Fix_Code))))"

section \<open>Staging and offload\<close>

definition stage_outcome :: "input_result list \<Rightarrow> json \<Rightarrow> string \<times> retry_class" where
  "stage_outcome inputs exn =
     (case find (\<lambda>i. ir_status i = I_Failed \<and> ir_error i \<noteq> None) inputs of
        Some i \<Rightarrow>
          (case ir_error i of
             Some e \<Rightarrow>
               (''staging failed at '' @ ir_dest i @ '' ('' @ ir_url_id i @ ''): ''
                  @ transfer_summary e @ ''. The consumer never started.'',
                transfer_retry_class e M_GET)
           | None \<Rightarrow> ([], Do_Not_Retry))
      | None \<Rightarrow>
          (let detail = (case as_obj exn of
                 Some d \<Rightarrow> if truthy (jget d ''message'') then py_str (jget d ''message'')
                            else ''no detail recorded''
               | None \<Rightarrow> ''no detail recorded'')
           in (''staging failed before any input was fetched: '' @ detail
                 @ ''. The consumer never started.'', Do_Not_Retry)))"

text \<open>\<open>status.get(path, "missing")\<close>: a later record of the same path wins.\<close>

definition artifact_status_of :: "artifact_result list \<Rightarrow> string \<Rightarrow> artifact_status" where
  "artifact_status_of artifacts p =
     (case map_of (rev (map (\<lambda>a. (ar_path a, ar_status a)) artifacts)) p of
        Some s \<Rightarrow> s | None \<Rightarrow> A_Missing)"

definition missing_required :: "artifact_item list \<Rightarrow> artifact_result list \<Rightarrow> string list" where
  "missing_required declared artifacts =
     sort (map ai_path (List.filter
       (\<lambda>d. ai_required d \<and> artifact_status_of artifacts (ai_path d) = A_Missing) declared))"

definition failed_artifacts :: "artifact_result list \<Rightarrow> artifact_result list" where
  "failed_artifacts artifacts = sort_key ar_path (List.filter (\<lambda>a. ar_status a = A_Failed) artifacts)"

definition artifact_phrase :: "artifact_result \<Rightarrow> string" where
  "artifact_phrase a = (case ar_error a of
     Some e \<Rightarrow> ar_path a @ '' ('' @ transfer_summary e @ '')'' | None \<Rightarrow> ar_path a)"

definition artifact_class :: "artifact_result \<Rightarrow> retry_class" where
  "artifact_class a = (case ar_error a of
     None \<Rightarrow> Retry_Same | Some e \<Rightarrow> transfer_retry_class e M_PUT)"

definition offload_parts ::
  "artifact_item list \<Rightarrow> artifact_result list \<Rightarrow> json \<Rightarrow> json \<Rightarrow> string list \<times> retry_class list" where
  "offload_parts declared artifacts remote_offload offload_error =
     (let missing = missing_required declared artifacts;
          failed = failed_artifacts artifacts;
          p1 = (if truthy offload_error
                then [''artifact offload could not start: '' @ py_str offload_error] else []);
          c1 = (if truthy offload_error then [Do_Not_Retry] else []);
          p2 = (if missing \<noteq> []
                then [''required artifact(s) not produced: '' @ join '', '' missing] else []);
          c2 = (if missing \<noteq> [] then [Fix_Code] else []);
          p3 = (if failed \<noteq> []
                then [''artifact offload failed: '' @ join ''; '' (map artifact_phrase failed)] else []);
          c3 = map artifact_class failed;
          none_yet = (p1 @ p2 @ p3 = []) \<and> remote_offload = JStr ''failed''
      in (p1 @ p2 @ p3 @ (if none_yet then [''artifact offload failed''] else []),
          c1 @ c2 @ c3 @ (if none_yet then [Retry_Same] else [])))"

definition offload_outcome ::
  "artifact_item list \<Rightarrow> artifact_result list \<Rightarrow> json \<Rightarrow> json
    \<Rightarrow> offload \<times> string option \<times> retry_class option" where
  "offload_outcome declared artifacts remote_offload offload_error =
     (case offload_parts declared artifacts remote_offload offload_error of
        (parts, classes) \<Rightarrow>
          if parts = [] then (O_Ok, None, None)
          else (O_Failed, Some (join ''; '' parts), strongest (map Some classes)))"

section \<open>The order of strength\<close>

text \<open>A class is below another when it is the stronger one: its place in \<open>_STRENGTH\<close>.\<close>

fun strength_rank :: "retry_class \<Rightarrow> nat" where
  "strength_rank Do_Not_Retry = 0"
| "strength_rank Fix_Human = 1"
| "strength_rank Fix_Code = 2"
| "strength_rank Retry_Different = 3"
| "strength_rank Refresh_Urls = 4"
| "strength_rank Retry_Same = 5"

lemma strength_rank_inject [simp]: "strength_rank a = strength_rank b \<longleftrightarrow> a = b"
  by (cases a; cases b) auto

instantiation retry_class :: linorder
begin

definition less_eq_retry_class :: "retry_class \<Rightarrow> retry_class \<Rightarrow> bool" where
  "less_eq_retry_class a b \<longleftrightarrow> strength_rank a \<le> strength_rank b"

definition less_retry_class :: "retry_class \<Rightarrow> retry_class \<Rightarrow> bool" where
  "less_retry_class a b \<longleftrightarrow> strength_rank a < strength_rank b"

instance
  by standard (auto simp: less_eq_retry_class_def less_retry_class_def)

end

lemma strength_sorted: "sorted strength"
  by (simp add: strength_def less_eq_retry_class_def)

lemma set_strength: "set strength = UNIV"
proof -
  have "c \<in> set strength" for c by (cases c) (auto simp: strength_def)
  then show ?thesis by auto
qed

lemma find_sorted_least:
  fixes xs :: "'a::linorder list"
  shows "sorted xs \<Longrightarrow> find p xs = Some c \<Longrightarrow> d \<in> set xs \<Longrightarrow> p d \<Longrightarrow> c \<le> d"
  by (induction xs) (auto split: if_splits)

lemma strongest_in: "strongest classes = Some c \<Longrightarrow> Some c \<in> set classes"
  unfolding strongest_def by (auto dest: find_Some_in)

lemma strongest_least: "strongest classes = Some c \<Longrightarrow> Some d \<in> set classes \<Longrightarrow> c \<le> d"
  using find_sorted_least [OF strength_sorted, of "\<lambda>c. Some c \<in> set classes" c d]
  by (simp add: strongest_def set_strength)

lemma strongest_None: "strongest classes = None \<longleftrightarrow> set classes \<subseteq> {None}"
proof -
  have "strongest classes = None \<longleftrightarrow> (\<forall>c. Some c \<notin> set classes)"
    by (simp add: strongest_def find_None_all set_strength)
  also have "\<dots> \<longleftrightarrow> set classes \<subseteq> {None}"
    by (auto simp: subset_iff) (metis option.exhaust)
  finally show ?thesis .
qed

text \<open>
  The strongest class of several failures is one of them and no other
  present class is stronger; there is none exactly when no failure has a class.
\<close>

theorem strongest_characterisation:
  "(strongest classes = Some c
      \<longleftrightarrow> Some c \<in> set classes \<and> {d. Some d \<in> set classes} \<subseteq> {d. c \<le> d})
   \<and> (strongest classes = None \<longleftrightarrow> set classes \<subseteq> {None})"
proof -
  have "strongest classes = Some c"
    if c: "Some c \<in> set classes \<and> {d. Some d \<in> set classes} \<subseteq> {d. c \<le> d}"
  proof -
    from c obtain c' where c': "strongest classes = Some c'"
      using strongest_None [of classes] by (cases "strongest classes") auto
    then have "c' \<le> c" "c \<le> c'"
      using c strongest_least strongest_in by blast+
    with c' show ?thesis by simp
  qed
  moreover have "{d. Some d \<in> set classes} \<subseteq> {d. c \<le> d}" if "strongest classes = Some c"
    using strongest_least [OF that] by blast
  ultimately show ?thesis
    using strongest_None strongest_in by blast
qed

section \<open>Transfers\<close>

text \<open>
  The HTTP method decides the class of a failed transfer for a 404 only:
  a missing object is the code's fault for an input and a stale URL for an upload.
\<close>

theorem transfer_method_matters_only_for_404:
  "transfer_retry_class e M_GET \<noteq> transfer_retry_class e M_PUT \<longleftrightarrow> te_http_status e = Some 404"
  by (auto simp: transfer_retry_class_def split: option.splits)

section \<open>The workload's verdict\<close>

lemma workload_outcome_succeeded:
  "jget result ''workload'' = JStr ''succeeded'' \<Longrightarrow> workload_outcome result wc = Inr (None, None)"
  by (auto simp: workload_outcome_def jget_def jget_or_def split: option.splits)

lemma cancelled_outcome_class:
  "snd (cancelled_outcome result wc) =
     (if cancel_source (jget result ''cancel_intent'') = Some ''wall_clock'' then Some Fix_Code else None)"
  by (auto simp: cancelled_outcome_def Let_def split: option.splits)

lemma cancelled_outcome_reason: "fst (cancelled_outcome result wc) \<noteq> None"
  by (auto simp: cancelled_outcome_def Let_def split: option.splits)

lemma workload_outcome_facts:
  assumes "workload_outcome result wc = Inr (reason, class)"
  shows "(reason = None \<longleftrightarrow> jget_or result ''workload'' (JStr ''unknown'') = JStr ''succeeded'')
    \<and> (class = None \<longleftrightarrow>
         jget_or result ''workload'' (JStr ''unknown'') = JStr ''succeeded''
         \<or> jget_or result ''workload'' (JStr ''unknown'') = JStr ''cancelled''
           \<and> cancel_source (jget result ''cancel_intent'') \<noteq> Some ''wall_clock'')"
proof -
  let ?w = "jget_or result ''workload'' (JStr ''unknown'')"
  consider "?w = JStr ''succeeded''" | "?w = JStr ''cancelled''"
    | "?w \<noteq> JStr ''succeeded''" "?w \<noteq> JStr ''cancelled''" by blast
  then show ?thesis
  proof cases
    case 1
    with assms show ?thesis by (simp add: workload_outcome_def)
  next
    case 2
    with assms have "(reason, class) = cancelled_outcome result wc"
      by (simp add: workload_outcome_def)
    then have "reason = fst (cancelled_outcome result wc)" "class = snd (cancelled_outcome result wc)"
      by (metis fst_conv snd_conv)+
    with 2 show ?thesis
      using cancelled_outcome_class [of result wc] cancelled_outcome_reason [of result wc] by simp
  next
    case 3
    with assms show ?thesis
      by (auto simp: workload_outcome_def unknown_outcome_def Let_def split: if_splits sum.splits)
  qed
qed

text \<open>
  A workload has no reason exactly when it succeeded, and no retry class
  exactly when it succeeded or a requester other than the wall clock cancelled it.
\<close>

theorem workload_outcome_shape:
  "case workload_outcome result wc of
     Inl _ \<Rightarrow> jget_or result ''workload'' (JStr ''unknown'') \<notin> {JStr ''succeeded'', JStr ''cancelled''}
   | Inr (reason, class) \<Rightarrow>
       (reason = None \<longleftrightarrow> jget_or result ''workload'' (JStr ''unknown'') = JStr ''succeeded'')
       \<and> (class = None \<longleftrightarrow>
            jget_or result ''workload'' (JStr ''unknown'') = JStr ''succeeded''
            \<or> jget_or result ''workload'' (JStr ''unknown'') = JStr ''cancelled''
              \<and> cancel_source (jget result ''cancel_intent'') \<noteq> Some ''wall_clock'')"
  using workload_outcome_facts by (cases "workload_outcome result wc") (auto simp: workload_outcome_def)

section \<open>Offload\<close>

lemma sort_key_Nil_iff [simp]: "sort_key f xs = [] \<longleftrightarrow> xs = []"
  by (metis length_0_conv length_sort)

lemma failed_artifacts_empty: "failed_artifacts as = [] \<longleftrightarrow> (\<forall>a \<in> set as. ar_status a \<noteq> A_Failed)"
  by (auto simp: failed_artifacts_def filter_empty_conv)

lemma missing_required_empty:
  "missing_required ds as = [] \<longleftrightarrow>
     (\<forall>d \<in> set ds. ai_required d \<longrightarrow> artifact_status_of as (ai_path d) \<noteq> A_Missing)"
  by (auto simp: missing_required_def filter_empty_conv)

lemma offload_parts_classes:
  "offload_parts ds as ro oe = (parts, classes) \<Longrightarrow> (parts = [] \<longleftrightarrow> classes = [])"
  by (auto simp: offload_parts_def Let_def split: if_splits)

lemma strongest_Some_list: "cs \<noteq> [] \<Longrightarrow> strongest (map Some cs) \<noteq> None"
  using strongest_def find_None_all [of _ strength] set_strength
  by (cases cs) (auto simp: strongest_def find_None_all)

lemma offload_outcome_cases:
  "offload_outcome ds as ro oe = (O_Ok, None, None)
   \<or> fst (offload_outcome ds as ro oe) = O_Failed \<and> fst (snd (offload_outcome ds as ro oe)) \<noteq> None
     \<and> snd (snd (offload_outcome ds as ro oe)) \<noteq> None"
proof -
  obtain parts classes where p: "offload_parts ds as ro oe = (parts, classes)"
    by (cases "offload_parts ds as ro oe")
  have "parts \<noteq> [] \<Longrightarrow> strongest (map Some classes) \<noteq> None"
    using offload_parts_classes [OF p] strongest_Some_list by blast
  then show ?thesis by (auto simp: offload_outcome_def p)
qed

text \<open>
  Offload is \<open>ok\<close> exactly when the upload started, every required declared
  artifact was produced, no recorded upload failed and the runner did not call
  the offload failed; otherwise it is \<open>failed\<close>, with a reason and a class.
\<close>

theorem offload_outcome_ok_iff:
  "(fst (offload_outcome declared artifacts ro oe) = O_Ok \<longleftrightarrow>
      \<not> truthy oe \<and> missing_required declared artifacts = []
      \<and> failed_artifacts artifacts = [] \<and> ro \<noteq> JStr ''failed'')
   \<and> (fst (offload_outcome declared artifacts ro oe) = O_Ok
       \<longleftrightarrow> offload_outcome declared artifacts ro oe = (O_Ok, None, None))
   \<and> (fst (offload_outcome declared artifacts ro oe) = O_Failed
       \<longleftrightarrow> fst (snd (offload_outcome declared artifacts ro oe)) \<noteq> None
           \<and> snd (snd (offload_outcome declared artifacts ro oe)) \<noteq> None)"
proof -
  obtain parts classes where p: "offload_parts declared artifacts ro oe = (parts, classes)"
    by (cases "offload_parts declared artifacts ro oe")
  have "parts = [] \<longleftrightarrow> \<not> truthy oe \<and> missing_required declared artifacts = []
      \<and> failed_artifacts artifacts = [] \<and> ro \<noteq> JStr ''failed''"
    using p by (auto simp: offload_parts_def Let_def split: if_splits)
  moreover have "parts \<noteq> [] \<Longrightarrow> strongest (map Some classes) \<noteq> None"
    using offload_parts_classes [OF p] strongest_Some_list by blast
  ultimately show ?thesis
    by (auto simp: offload_outcome_def p)
qed

end
