(* ===== verification/Supervision.thy ===== *)
theory Supervision
  imports Transport Verdict
begin

text \<open>
  The helpers of \<open>job/orchestrator.py\<close>: what the supervisor observes of the VM
  through the transport, how it releases an assignment, whether it keeps the VM,
  the hints and reasons it writes.  The transport is the record \<open>remote\<close>, whose
  instance for \<open>JobTransport\<close> is \<open>transport_remote\<close>; the Colab API is \<open>colab\<close>.
\<close>

section \<open>The supervisor's environment\<close>

record ('t, 'w) remote =
  rm_read_json :: "string \<Rightarrow> 't \<Rightarrow> 'w \<Rightarrow> (json_obj option \<times> read_status) \<times> 't \<times> 'w"
  rm_read_text :: "string \<Rightarrow> 't \<Rightarrow> 'w \<Rightarrow> (string option \<times> read_status) \<times> 't \<times> 'w"
  rm_write_json :: "string \<Rightarrow> json \<Rightarrow> 't \<Rightarrow> 'w \<Rightarrow> read_status \<times> 't \<times> 'w"
  rm_problem :: "'t \<Rightarrow> string option"
  rm_note :: "'t \<Rightarrow> string"
  rm_clock :: "'w \<Rightarrow> rat \<times> 'w"
  rm_time :: "'w \<Rightarrow> rat \<times> 'w"
  rm_now :: "'w \<Rightarrow> string \<times> 'w"
  rm_sleep :: "rat \<Rightarrow> 'w \<Rightarrow> 'w"
  rm_write_local :: "string \<Rightarrow> string \<Rightarrow> 'w \<Rightarrow> (py_error, unit) outcome \<times> 'w"
  rm_persist :: "job_envelope \<Rightarrow> 'w \<Rightarrow> 'w"

text \<open>The supervisor on a \<open>JobTransport\<close>: its reads and writes are the transport's.\<close>

definition transport_remote ::
  "'w api \<Rightarrow> ('w \<Rightarrow> rat \<times> 'w) \<Rightarrow> ('w \<Rightarrow> string \<times> 'w)
    \<Rightarrow> (string \<Rightarrow> string \<Rightarrow> 'w \<Rightarrow> (py_error, unit) outcome \<times> 'w) \<Rightarrow> (job_envelope \<Rightarrow> 'w \<Rightarrow> 'w)
    \<Rightarrow> (transport, 'w) remote" where
  "transport_remote ap wall now write persist =
     \<lparr>rm_read_json = read_json ap, rm_read_text = read_text ap, rm_write_json = write_json ap,
      rm_problem = tr_last_problem, rm_note = listing_note, rm_clock = ap_now ap, rm_time = wall,
      rm_now = now, rm_sleep = ap_sleep ap, rm_write_local = write, rm_persist = persist\<rparr>"

record client_error =
  cl_error :: api_error
  cl_body :: "string option"
  cl_content_type :: "string option"
  cl_requests_error :: bool
  cl_too_many :: bool
  cl_colab_request_error :: bool

text \<open>\<open>response_body_if_json\<close>: the content type is \<open>None\<close> without a response.\<close>

definition xssi_prefix :: string where
  "xssi_prefix = [CHR '')'', CHR '']'', CHR ''}'', CHR 0x27, CHR 0x0A]"

definition response_body_if_json :: "client_error \<Rightarrow> nat \<Rightarrow> string option" where
  "response_body_if_json e limit =
     (case cl_body e of
        None \<Rightarrow> None
      | Some body \<Rightarrow>
          if body = [] then None
          else (case cl_content_type e of
              None \<Rightarrow> None
            | Some ct \<Rightarrow>
                if \<not> py_in ''json'' (py_lower ct) then None
                else Some (take limit
                  (if prefix xssi_prefix body then drop (length xssi_prefix) body else body))))"

record assigned =
  as_accelerator :: string
  as_endpoint :: string
  as_token :: string
  as_url :: string
  as_variant :: string
  as_shape :: string

record 'w colab =
  co_assign :: "string \<times> string \<times> bool \<Rightarrow> 'w \<Rightarrow> (client_error, assigned) outcome \<times> 'w"
  co_unassign :: "string \<Rightarrow> 'w \<Rightarrow> (client_error, unit) outcome \<times> 'w"
  co_list :: "'w \<Rightarrow> (client_error, assignment list) outcome \<times> 'w"
  co_keep_alive :: "string \<Rightarrow> 'w \<Rightarrow> (client_error, unit) outcome \<times> 'w"
  co_ccu :: "'w \<Rightarrow> (client_error, rat \<times> rat \<times> int) outcome \<times> 'w"

section \<open>Paths\<close>

definition remote_root :: string where "remote_root = ''/content/jobs''"

definition remote_file :: "string \<Rightarrow> string \<Rightarrow> string" where
  "remote_file job_id name = remote_root @ ''/'' @ job_id @ ''/'' @ name"

definition vm_record_files :: "string list" where
  "vm_record_files = [''runner.log'', ''install.log'', ''result.json'', ''exception.json'',
     ''watchdog.json'', ''launch.json'', ''cancel.json'', ''offload.manifest.json'',
     ''stage.manifest.json'']"

section \<open>Releasing the VM\<close>

definition client_text :: "client_error \<Rightarrow> string" where
  "client_text e = describe_error (ae_error (cl_error e))"

definition release_assignment ::
  "'w colab \<Rightarrow> string \<Rightarrow> 'w \<Rightarrow> (cleanup \<times> string option) \<times> 'w" where
  "release_assignment co endpoint w =
     (case co_unassign co endpoint w of
        (Inr _, w) \<Rightarrow> ((C_Released, None), w)
      | (Inl e, w) \<Rightarrow>
          if ae_status (cl_error e) = Some 404 then
            (case co_list co w of
               (Inl le, w) \<Rightarrow>
                 ((C_Failed, Some (''HTTP 404 from unassign ('' @ client_text e
                    @ ''), and the assignment listing that would confirm it failed (''
                    @ client_text le @ '')'')), w)
             | (Inr asgs, w) \<Rightarrow>
                 if list_ex (\<lambda>a. asg_endpoint a = Some endpoint) asgs
                 then ((C_Failed, Some (''HTTP 404 from unassign, but '' @ endpoint
                   @ '' is still listed; '' @ client_text e)), w)
                 else ((C_Already_Absent, None), w))
          else ((C_Failed,
             Some ((case ae_status (cl_error e) of
                      Some s \<Rightarrow> ''HTTP '' @ show_int s @ ''; '' | None \<Rightarrow> [])
               @ client_text e
               @ (case response_body_if_json e 300 of
                    Some b \<Rightarrow> if b \<noteq> [] then ''; body: '' @ redact_credentials b else []
                  | None \<Rightarrow> []))), w))"

definition upload_failed :: "job_envelope \<Rightarrow> bool" where
  "upload_failed env \<longleftrightarrow> list_ex (\<lambda>a. ar_status a = A_Failed) (env_artifacts env)"

definition keep_vm :: "job_envelope \<Rightarrow> job_spec option \<Rightarrow> bool \<Rightarrow> bool" where
  "keep_vm env spec secret_removed =
     (if \<not> secret_removed then False
      else env_leave_up env
        \<or> (case spec of
             Some s \<Rightarrow> sp_on_offload_fail s = Leave_Up \<and> upload_failed env
           | None \<Rightarrow> False))"

definition show_pids :: "int list \<Rightarrow> string" where
  "show_pids ps = ''['' @ join '', '' (map show_int ps) @ '']''"

definition record_vm_kept :: "string \<Rightarrow> job_envelope \<Rightarrow> job_envelope" where
  "record_vm_kept job_id env =
     (if env_surviving_descendants env \<noteq> [] then
        (let e = record_failure P_Cleanup (env\<lparr>env_cleanup := C_Failed\<rparr>) in
         e\<lparr>env_hints := env_hints e @
             [''cleanup: VM left up with pids '' @ show_pids (env_surviving_descendants env)
              @ '' still holding its resources; `mighty-colab job destroy '' @ job_id
              @ ''` releases the VM and everything on it''],
           env_reason := (case env_reason e of
               None \<Rightarrow> Some (''VM left up with '' @ show_nat (length (env_surviving_descendants env))
                 @ '' surviving descendant(s) still holding its resources'')
             | r \<Rightarrow> r),
           env_retry_class := (case env_retry_class e of None \<Rightarrow> Some Fix_Human | r \<Rightarrow> r)\<rparr>)
      else env\<lparr>env_cleanup := C_Left_Up,
        env_hints := env_hints env @
          [''VM left running deliberately and is still billing: `mighty-colab job destroy ''
           @ job_id @ ''` when done'']\<rparr>)"

section \<open>Observing the VM\<close>

text \<open>A read's object, empty when there is none: both are false to \<open>and result\<close>.\<close>

definition obj_of :: "json_obj option \<Rightarrow> json_obj" where
  "obj_of x = (case x of None \<Rightarrow> [] | Some d \<Rightarrow> d)"

datatype remote_kind =
    Rk_Session_Lost | Rk_Result json_obj | Rk_Degraded | Rk_Never_Started
  | Rk_Launch_Invalid json_obj | Rk_Runner_Dead json_obj | Rk_Runner_Alive "json_obj option"

definition launch_valid :: "json_obj \<Rightarrow> bool" where
  "launch_valid d \<longleftrightarrow> as_int (jget d ''pid'') \<noteq> None \<and> as_str (jget d ''starttime'') \<noteq> None
     \<and> as_str (jget d ''boot_id'') \<noteq> None"

definition observe_remote ::
  "('t, 'w) remote \<Rightarrow> string \<Rightarrow> 't \<Rightarrow> 'w \<Rightarrow> remote_kind \<times> 't \<times> 'w" where
  "observe_remote rm job_id t w =
     (case rm_read_json rm (remote_file job_id ''result.json'') t w of
        ((result, status), t, w) \<Rightarrow>
          if status = Rs_Session_Lost then (Rk_Session_Lost, t, w)
          else if status = Rs_Ok \<and> obj_of result \<noteq> [] then (Rk_Result (obj_of result), t, w)
          else if status = Rs_Degraded then (Rk_Degraded, t, w)
          else (case rm_read_json rm (remote_file job_id ''launch.json'') t w of
              ((launch, status), t, w) \<Rightarrow>
                if status = Rs_Session_Lost then (Rk_Session_Lost, t, w)
                else if status = Rs_Degraded then (Rk_Degraded, t, w)
                else if status \<noteq> Rs_Ok \<or> obj_of launch = [] then (Rk_Never_Started, t, w)
                else if \<not> launch_valid (obj_of launch) then
                  (Rk_Launch_Invalid (obj_of launch), t, w)
                else (case rm_read_json rm (remote_file job_id ''watchdog.json'') t w of
                    ((watchdog, status), t, w) \<Rightarrow>
                      if status = Rs_Session_Lost then (Rk_Session_Lost, t, w)
                      else (let record = (if status = Rs_Ok \<and> obj_of watchdog \<noteq> []
                                          then watchdog else None)
                            in case record of
                                 Some d \<Rightarrow>
                                   if jget d ''runner_alive'' = JBool False
                                   then (Rk_Runner_Dead d, t, w) else (Rk_Runner_Alive (Some d), t, w)
                               | None \<Rightarrow> (Rk_Runner_Alive None, t, w)))))"

section \<open>Cancelling\<close>

definition cancel_intent :: "string \<Rightarrow> string \<Rightarrow> json" where
  "cancel_intent requester now =
     JObj [(''intent'', JStr ''cancelled''), (''by'', JStr requester), (''at'', JStr now)]"

fun status_name :: "read_status \<Rightarrow> string" where
  "status_name Rs_Ok = ''OK''"
| "status_name Rs_Not_Found = ''NOT_FOUND''"
| "status_name Rs_Degraded = ''DEGRADED''"
| "status_name Rs_Session_Lost = ''SESSION_LOST''"

definition request_cancel ::
  "('t, 'w) remote \<Rightarrow> string \<Rightarrow> string \<Rightarrow> 't \<Rightarrow> 'w \<Rightarrow> (string \<times> bool) \<times> 't \<times> 'w" where
  "request_cancel rm job_id requester t w =
     (case rm_now rm w of
        (now, w) \<Rightarrow>
          (case rm_write_json rm (remote_file job_id ''cancel.json'') (cancel_intent requester now) t w of
             (status, t, w) \<Rightarrow>
               (if status = Rs_Ok then (''cancel requested'', True)
                else (''cancel intent not confirmed ('' @ status_name status @ '')'', False), t, w)))"

definition runner_result_poll_seconds :: int where
  "runner_result_poll_seconds = 5"

definition polls_in :: "int \<Rightarrow> nat" where
  "polls_in wait =
     (if 0 < wait then nat \<lceil>(of_int wait / of_int runner_result_poll_seconds :: rat)\<rceil> else 0)"

text \<open>
  The loop of \<open>await_runner_result\<close>: \<open>n\<close> polls left, the number of reads that
  failed; the result, a reason, or all polls spent.
\<close>

fun await_polls ::
  "('t, 'w) remote \<Rightarrow> string \<Rightarrow> nat \<Rightarrow> nat \<Rightarrow> 't \<Rightarrow> 'w
    \<Rightarrow> ((nat, string) outcome, json_obj) outcome \<times> 't \<times> 'w" where
  "await_polls rm job_id 0 unreadable t w = (Inl (Inl unreadable), t, w)"
| "await_polls rm job_id (Suc n) unreadable t w =
     (case observe_remote rm job_id t (rm_sleep rm (of_int runner_result_poll_seconds) w) of
        (kind, t, w) \<Rightarrow>
          (case kind of
             Rk_Result d \<Rightarrow> (Inr d, t, w)
           | Rk_Runner_Dead d \<Rightarrow> (Inl (Inr ''the runner is dead and wrote no result.json''), t, w)
           | Rk_Never_Started \<Rightarrow> (Inl (Inr ''the runner never started (no launch.json)''), t, w)
           | Rk_Session_Lost \<Rightarrow>
               (Inl (Inr ''the assignment disappeared while waiting for the runner''), t, w)
           | Rk_Degraded \<Rightarrow> await_polls rm job_id n (unreadable + 1) t w
           | Rk_Launch_Invalid d \<Rightarrow> await_polls rm job_id n (unreadable + 1) t w
           | Rk_Runner_Alive d \<Rightarrow> await_polls rm job_id n unreadable t w))"

definition await_runner_result ::
  "('t, 'w) remote \<Rightarrow> string \<Rightarrow> int \<Rightarrow> 't \<Rightarrow> 'w \<Rightarrow> (string, json_obj) outcome \<times> 't \<times> 'w" where
  "await_runner_result rm job_id wait t w =
     (let polls = polls_in wait in
      case await_polls rm job_id polls 0 t w of
        (Inr d, t, w) \<Rightarrow> (Inr d, t, w)
      | (Inl (Inr why), t, w) \<Rightarrow> (Inl why, t, w)
      | (Inl (Inl unreadable), t, w) \<Rightarrow>
          (Inl (if polls \<noteq> 0 \<and> unreadable = polls
             then ''no result.json could be read within '' @ show_int wait
               @ ''s of the cancel request: every one of '' @ show_nat polls
               @ '' reads of the runner'' @ [CHR 0x27] @ ''s records failed''
             else ''the runner wrote no result.json within '' @ show_int wait
               @ ''s of the cancel request''), t, w))"

definition deadline_reason ::
  "string \<Rightarrow> string \<Rightarrow> bool \<Rightarrow> string \<Rightarrow> json_obj option \<Rightarrow> string option \<Rightarrow> string" where
  "deadline_reason passed note confirmed requester result absorbed =
     (let received = (case result of
            Some d \<Rightarrow> cancel_source (jget d ''cancel_intent'') = Some requester | None \<Rightarrow> False)
      in join ''; '' (List.filter (\<lambda>p. p \<noteq> [])
           [passed, if received \<and> confirmed then [] else note,
            case absorbed of Some r \<Rightarrow> r | None \<Rightarrow> []]))"

section \<open>Hints and reasons\<close>

definition watchdog_hint :: "json_obj \<Rightarrow> string" where
  "watchdog_hint wd =
     (let gpu = (if jget wd ''gpu'' = JNull \<and> truthy (jget wd ''gpu_error'')
            then ''none ('' @ py_str (jget wd ''gpu_error'') @ '')'' else py_str (jget wd ''gpu''));
          alive = py_str (jget wd ''runner_alive'')
            @ (if truthy (jget wd ''runner_identity_error'')
               then '' ('' @ py_str (jget wd ''runner_identity_error'') @ '')'' else [])
      in ''t='' @ py_str (jget wd ''elapsed'') @ ''s remaining='' @ py_str (jget wd ''remaining'')
         @ ''s gpu='' @ gpu @ '' disk_free='' @ py_str (jget wd ''disk_free_bytes'')
         @ '' runner_alive='' @ alive)"

definition replace_hint :: "string list \<Rightarrow> string \<Rightarrow> string option \<Rightarrow> string list" where
  "replace_hint hints pre t =
     List.filter (\<lambda>h. \<not> prefix pre h) hints
     @ (case t of Some s \<Rightarrow> [pre @ s] | None \<Rightarrow> [])"

definition watchdog_hint_prefix :: string where "watchdog_hint_prefix = ''watchdog: ''"
definition watchdog_stalled_prefix :: string where "watchdog_stalled_prefix = ''watchdog stalled: ''"
definition watchdog_stale_seconds :: rat where "watchdog_stale_seconds = 300"

text \<open>\<open>WatchdogStaleness\<close>: the last \<open>ts\<close> and since when; \<open>None\<close> before the first record.\<close>

type_synonym staleness = "(json \<times> rat) option"

definition observe_watchdog :: "staleness \<Rightarrow> json_obj \<Rightarrow> rat \<Rightarrow> string option \<times> staleness" where
  "observe_watchdog s record now =
     (let ts = jget record ''ts'' in
      case s of
        None \<Rightarrow> (None, Some (ts, now))
      | Some (ts0, since) \<Rightarrow>
          if ts \<noteq> ts0 then (None, Some (ts, now))
          else (let unchanged = now - since in
            if unchanged < watchdog_stale_seconds then (None, s)
            else (Some (''watchdog.json has not changed for '' @ show_int (py_round unchanged)
              @ ''s (ts='' @ py_str ts @ ''): the watchdog has stopped, or cannot write its record ''
              @ ''(for example a full disk), so whether the runner is alive is unknown''), s)))"

definition lost_assignment_reason :: "job_envelope \<Rightarrow> string" where
  "lost_assignment_reason env =
     ''the assignment is gone from the server''
     @ (if env_keep_alive_disabled env
        then ''; keep-alive was off (--no-keepalive), so nothing pinged the assignment while the job ran: if this recurs, apply without --no-keepalive''
        else [])"

definition degraded_reason :: "('t, 'w) remote \<Rightarrow> 't \<Rightarrow> nat option \<Rightarrow> string" where
  "degraded_reason rm t polls =
     (case polls of Some n \<Rightarrow> ''transport failing for '' @ show_nat n @ '' polls''
      | None \<Rightarrow> ''transport failing'')
     @ (case rm_problem rm t of Some p \<Rightarrow> '' (last: '' @ p @ '')'' | None \<Rightarrow> [])
     @ ''; '' @ rm_note rm t"

definition raw_verdict :: "json_obj \<Rightarrow> string" where
  "raw_verdict result =
     join '' '' (map (\<lambda>n. n @ ''='' @ repr (jget result n))
       (List.filter (jhas result)
         [''schema_version'', ''workload'', ''exit_code'', ''signal'', ''offload'', ''phase'']))"

definition read_compute_units ::
  "'w colab \<Rightarrow> string \<Rightarrow> string \<Rightarrow> job_envelope \<Rightarrow> 'w
    \<Rightarrow> compute_unit_reading option \<times> job_envelope \<times> 'w" where
  "read_compute_units co at_time when env w =
     (case co_ccu co w of
        (Inr (balance, rate, n), w) \<Rightarrow>
          (Some \<lparr>cu_at = at_time, cu_balance = balance, cu_rate_hourly = rate, cu_assignments = n\<rparr>, env, w)
      | (Inl e, w) \<Rightarrow>
          (None, env\<lparr>env_hints := env_hints env
             @ [''compute units not read at '' @ when @ '': '' @ client_text e]\<rparr>, w))"

section \<open>Copies of the VM's records\<close>

definition pull_runner_log ::
  "('t, 'w) remote \<Rightarrow> string \<Rightarrow> 't \<Rightarrow> 'w \<Rightarrow> string option \<times> 't \<times> 'w" where
  "pull_runner_log rm job_id t w =
     (case rm_read_text rm (remote_file job_id ''runner.log'') t w of
        ((text1, status), t, w) \<Rightarrow>
          if status = Rs_Not_Found then (None, t, w)
          else (case (status, text1) of
              (Rs_Ok, Some s) \<Rightarrow>
                (case rm_write_local rm ''runner.log'' s w of
                   (Inl e, w) \<Rightarrow> (Some (''local write failed ('' @ describe_error e @ '')''), t, w)
                 | (Inr _, w) \<Rightarrow> (None, t, w))
            | _ \<Rightarrow> (Some (''read '' @ status_name status
                @ (case rm_problem rm t of Some p \<Rightarrow> '' ('' @ p @ '')'' | None \<Rightarrow> [])), t, w)))"

definition vm_record_copy_budget :: rat where "vm_record_copy_budget = 120"

record copied =
  cp_copied :: "string list"
  cp_unreadable :: "string list"
  cp_stopped :: "string option"

fun copy_records ::
  "('t, 'w) remote \<Rightarrow> string \<Rightarrow> rat \<Rightarrow> rat \<Rightarrow> string list \<Rightarrow> copied \<Rightarrow> 't \<Rightarrow> 'w \<Rightarrow> copied \<times> 't \<times> 'w" where
  "copy_records rm job_id budget deadline [] c t w = (c, t, w)"
| "copy_records rm job_id budget deadline (name # names) c t w =
     (case rm_clock rm w of
        (now, w) \<Rightarrow>
          if deadline < now then
            (c\<lparr>cp_stopped := Some (show_int (py_round budget) @ ''s budget spent'')\<rparr>, t, w)
          else (case rm_read_text rm (remote_file job_id name) t w of
              ((text1, status), t, w) \<Rightarrow>
                if status = Rs_Not_Found then copy_records rm job_id budget deadline names c t w
                else if status = Rs_Session_Lost then
                  (c\<lparr>cp_stopped := Some ''session_lost''\<rparr>, t, w)
                else (case (status, text1) of
                    (Rs_Ok, Some s) \<Rightarrow>
                      (case rm_write_local rm name s w of
                         (Inl e, w) \<Rightarrow> (c\<lparr>cp_stopped := Some (describe_error e)\<rparr>, t, w)
                       | (Inr _, w) \<Rightarrow>
                           copy_records rm job_id budget deadline names
                             (c\<lparr>cp_copied := cp_copied c @ [name]\<rparr>) t w)
                  | _ \<Rightarrow> copy_records rm job_id budget deadline names
                           (c\<lparr>cp_unreadable := cp_unreadable c @ [name]\<rparr>) t w)))"

definition copy_vm_records ::
  "('t, 'w) remote \<Rightarrow> string \<Rightarrow> string \<Rightarrow> rat \<Rightarrow> 't \<Rightarrow> 'w \<Rightarrow> string \<times> 't \<times> 'w" where
  "copy_vm_records rm local_dir job_id budget t w =
     (case rm_clock rm w of
        (start, w) \<Rightarrow>
          (case copy_records rm job_id budget (start + budget) vm_record_files
                  \<lparr>cp_copied = [], cp_unreadable = [], cp_stopped = None\<rparr> t w of
             (c, t, w) \<Rightarrow>
               (''VM records copied before release to '' @ local_dir @ '': ''
                @ (if cp_copied c \<noteq> [] then join '', '' (cp_copied c) else ''none'')
                @ (if cp_unreadable c \<noteq> [] then ''; unreadable: '' @ join '', '' (cp_unreadable c) else [])
                @ (case cp_stopped c of Some s \<Rightarrow> ''; copying stopped ('' @ s @ '')'' | None \<Rightarrow> []),
                t, w)))"

section \<open>Kernel outputs\<close>

text \<open>One kernel output as text; the colour codes are removed from the whole.\<close>

definition output_parts :: "json \<Rightarrow> string list" where
  "output_parts o1 =
     (case o1 of
        JObj d \<Rightarrow>
          if jhas d ''text'' then [py_str (jget d ''text'')]
          else (case jget d ''data'' of
              JObj m \<Rightarrow> [py_str (jget_or m ''text/plain'' (JStr []))]
            | _ \<Rightarrow>
                if jget d ''output_type'' = JStr ''error'' then
                  [join [CHR 0x0A] (case jget d ''traceback'' of
                       JArr ls \<Rightarrow> map py_str ls | _ \<Rightarrow> []),
                   py_str (jget_or d ''ename'' (JStr ''Error'')) @ '': ''
                     @ py_str (jget_or d ''evalue'' (JStr []))]
                else [])
      | _ \<Rightarrow> [])"

definition ansi_param :: "char \<Rightarrow> bool" where
  "ansi_param c \<longleftrightarrow> is_digit c \<or> c = CHR '';'' \<or> c = CHR ''?''"

definition ansi_inter :: "char \<Rightarrow> bool" where
  "ansi_inter c \<longleftrightarrow> 32 \<le> code c \<and> code c \<le> 47"

definition ansi_final :: "char \<Rightarrow> bool" where
  "ansi_final c \<longleftrightarrow> 64 \<le> code c \<and> code c \<le> 126"

text \<open>The rest after a match of \<open>_ANSI_ESCAPE\<close> at the head.\<close>

definition ansi_match :: "string \<Rightarrow> string option" where
  "ansi_match s =
     (if prefix [CHR 0x1B, CHR ''[''] s then
        (case dropWhile ansi_inter (dropWhile ansi_param (drop 2 s)) of
           [] \<Rightarrow> None
         | c # cs \<Rightarrow> if ansi_final c then Some cs else None)
      else None)"

lemma ansi_match_shorter: "ansi_match s = Some r \<Longrightarrow> length r < length s"
proof -
  assume m: "ansi_match s = Some r"
  let ?d = "dropWhile ansi_inter (dropWhile ansi_param (drop 2 s))"
  have "length ?d \<le> length s"
    using length_dropWhile_le [of ansi_inter "dropWhile ansi_param (drop 2 s)"]
      length_dropWhile_le [of ansi_param "drop 2 s"] by simp
  moreover obtain c where "?d = c # r"
    using m by (auto simp: ansi_match_def split: if_splits list.splits)
  ultimately show ?thesis by simp
qed

function strip_ansi :: "string \<Rightarrow> string" where
  "strip_ansi [] = []"
| "strip_ansi (c # cs) =
     (case ansi_match (c # cs) of Some rest \<Rightarrow> strip_ansi rest | None \<Rightarrow> c # strip_ansi cs)"
  by pat_completeness auto
termination
  by (relation "measure length") (auto dest: ansi_match_shorter)

definition outputs_text :: "json list \<Rightarrow> string" where
  "outputs_text os = strip_ansi (join [CHR 0x0A] (concat (map output_parts os)))"

definition extract_tagged :: "string \<Rightarrow> string \<Rightarrow> string option" where
  "extract_tagged output tag =
     map_option (drop (length tag)) (find (prefix tag) (map strip (splitlines output)))"

definition tail_of :: "string \<Rightarrow> string" where
  "tail_of t = (if 600 < length t then last_n 600 t else t)"

definition dep_seps :: "string list" where
  "dep_seps = [''=='', ''>='', ''<='', ''~='', ''!='', ''>'', ''<'', ''['']"

text \<open>\<open>s.split(sep)[0]\<close>\<close>

fun before_sep :: "string \<Rightarrow> string \<Rightarrow> string" where
  "before_sep sep [] = []"
| "before_sep sep (c # cs) = (if prefix sep (c # cs) then [] else c # before_sep sep cs)"

definition dep_name :: "string \<Rightarrow> string" where
  "dep_name dep =
     (case find (\<lambda>sep. py_in sep dep) dep_seps of
        Some sep \<Rightarrow> strip (before_sep sep dep)
      | None \<Rightarrow> strip dep)"

section \<open>The release\<close>

text \<open>
  A release is recorded only as what the server said: released when unassign
  returned, already absent only when it answered 404 and a completed listing
  does not hold the endpoint, and otherwise failed, always with a description.
\<close>

theorem release_assignment_sound:
  "case release_assignment co endpoint w of
     ((status, detail), w') \<Rightarrow>
       (detail = None \<longleftrightarrow> status \<in> {C_Released, C_Already_Absent})
       \<and> (status = C_Released \<longleftrightarrow> co_unassign co endpoint w = (Inr (), w'))
       \<and> (status = C_Already_Absent \<longleftrightarrow>
            (\<exists>e w1 asgs. co_unassign co endpoint w = (Inl e, w1) \<and> ae_status (cl_error e) = Some 404
               \<and> co_list co w1 = (Inr asgs, w') \<and> Some endpoint \<notin> asg_endpoint ` set asgs))
       \<and> status \<in> {C_Released, C_Already_Absent, C_Failed}"
proof -
  obtain r w1 where u: "co_unassign co endpoint w = (r, w1)" by (metis prod.collapse)
  show ?thesis
  proof (cases r)
    case (Inr x)
    with u show ?thesis by (simp add: release_assignment_def)
  next
    case (Inl e)
    obtain l w2 where l: "co_list co w1 = (l, w2)" by (metis prod.collapse)
    show ?thesis
    proof (cases "ae_status (cl_error e) = Some 404")
      case True
      with u Inl l show ?thesis
        by (cases l) (auto simp: release_assignment_def list_ex_iff intro: rev_image_eqI)
    next
      case False
      with u Inl show ?thesis by (simp add: release_assignment_def)
    qed
  qed
qed

section \<open>Observations\<close>

text \<open>
  A remote whose JSON reads obey the reader's laws observes soundly: the laws of
  one read carry over to the up to three reads of an observation.
\<close>

locale remote_observer = job_reader "rm_read_json rm" sound absent
  for rm :: "('t, 'w) remote" and sound :: "'t \<Rightarrow> bool" and absent :: "'t \<Rightarrow> bool"
begin

lemma observe_session_lost:
  assumes "sound t"
    and "observe_remote rm job_id t w = (Rk_Session_Lost, t', w')"
  shows "absent t'"
proof -
  let ?f = "remote_file job_id"
  obtain r1 s1 t1 w1 where 1: "rm_read_json rm (?f ''result.json'') t w = ((r1, s1), t1, w1)"
    by (metis prod.collapse)
  obtain r2 s2 t2 w2 where 2: "rm_read_json rm (?f ''launch.json'') t1 w1 = ((r2, s2), t2, w2)"
    by (metis prod.collapse)
  obtain r3 s3 t3 w3 where 3: "rm_read_json rm (?f ''watchdog.json'') t2 w2 = ((r3, s3), t3, w3)"
    by (metis prod.collapse)
  have sound: "sound t1" "sound t2"
    using keeps_sound assms(1) 1 2 by blast+
  have "s1 = Rs_Session_Lost \<Longrightarrow> absent t1" "s2 = Rs_Session_Lost \<Longrightarrow> absent t2"
    "s3 = Rs_Session_Lost \<Longrightarrow> absent t3"
    using lost_absent 1 2 3 sound assms(1) by blast+
  moreover have "(s1 = Rs_Session_Lost \<and> t' = t1) \<or> (s2 = Rs_Session_Lost \<and> t' = t2)
      \<or> (s3 = Rs_Session_Lost \<and> t' = t3)"
    using assms(2)
    by (simp add: observe_remote_def 1 2 3 Let_def split: if_splits option.splits)
  ultimately show ?thesis by blast
qed

end

interpretation transport_observer:
  remote_observer "transport_remote ap wall now wr ps" "honest ap" "absent_for ap" for ap wall now wr ps
  using json_reader.job_reader_axioms [of ap]
  by (simp add: remote_observer_def transport_remote_def)

lemma observe_first_lost:
  "snd (fst (rm_read_json rm (remote_file job_id ''result.json'') t w)) = Rs_Session_Lost \<Longrightarrow>
     fst (observe_remote rm job_id t w) = Rk_Session_Lost"
  by (auto simp: observe_remote_def split: prod.splits)

text \<open>
  C1. Teardown and cancellation take the VM for gone only on proof: observing a
  job through its transport says the session is lost only when a completed
  listing did not hold the endpoint.
\<close>

theorem observed_loss_is_proved:
  assumes "honest ap t"
    and "fst (observe_remote (transport_remote ap wall now wr ps) job_id t w) = Rk_Session_Lost"
  shows "absent_for ap (fst (snd (observe_remote (transport_remote ap wall now wr ps) job_id t w)))"
proof -
  obtain t' w' where
    "observe_remote (transport_remote ap wall now wr ps) job_id t w = (Rk_Session_Lost, t', w')"
    using assms(2) by (metis prod.collapse)
  then show ?thesis using transport_observer.observe_session_lost assms(1) by fastforce
qed

theorem observed_loss_is_proved_witness:
  "absent_for gone_api (fst (snd (observe_remote
     (transport_remote gone_api (\<lambda>w. (0, w)) (\<lambda>w. ([], w)) (\<lambda>p t w. (Inr (), w)) (\<lambda>e w. w))
     ''j'' demo_transport ())))"
proof (rule observed_loss_is_proved)
  show "honest gone_api demo_transport" by (simp add: honest_def demo_transport_def)
  show "fst (observe_remote
     (transport_remote gone_api (\<lambda>w. (0, w)) (\<lambda>w. ([], w)) (\<lambda>p t w. (Inr (), w)) (\<lambda>e w. w))
     ''j'' demo_transport ()) = Rk_Session_Lost"
    by (rule observe_first_lost) (simp add: transport_remote_def gone_read)
qed

section \<open>Staleness\<close>

fun observe_all :: "staleness \<Rightarrow> (json_obj \<times> rat) list \<Rightarrow> staleness" where
  "observe_all s [] = s"
| "observe_all s ((d, now) # obs) = observe_all (snd (observe_watchdog s d now)) obs"

text \<open>The records read last that agree with \<open>ts\<close>, newest first.\<close>

definition same_run :: "json \<Rightarrow> (json_obj \<times> rat) list \<Rightarrow> (json_obj \<times> rat) list" where
  "same_run ts obs = takeWhile (\<lambda>(d, _). jget d ''ts'' = ts) (rev obs)"

lemma observe_all_snoc:
  "observe_all s (obs @ [(d, now)]) = snd (observe_watchdog (observe_all s obs) d now)"
  by (induction s obs rule: observe_all.induct) auto

lemma same_run_snoc:
  "same_run ts (obs @ [(d, now)]) = (if jget d ''ts'' = ts then (d, now) # same_run ts obs else [])"
  by (simp add: same_run_def)

lemma observe_all_state:
  "observe_all None (obs @ [(d, now)]) =
     Some (jget d ''ts'', snd (last (same_run (jget d ''ts'') (obs @ [(d, now)]))))"
proof (induction obs arbitrary: d now rule: rev_induct)
  case Nil
  show ?case by (simp add: observe_watchdog_def same_run_def Let_def)
next
  case (snoc y ys)
  obtain yd yn where y: "y = (yd, yn)" by (cases y)
  have "observe_all None (ys @ [y]) = Some (jget yd ''ts'',
      snd (last (same_run (jget yd ''ts'') (ys @ [y]))))" using snoc.IH y by simp
  then show ?case
    using same_run_snoc [of "jget d ''ts''" "ys @ [y]"] same_run_snoc [of "jget d ''ts''" ys yd yn]
    by (auto simp del: append_assoc simp: y observe_all_snoc observe_watchdog_def Let_def)
qed

text \<open>
  The watchdog is called stalled exactly when the records read so far end in
  a run with the same \<open>ts\<close> as this one whose first was read at least 300 s of
  this machine's clock ago; a single changed record clears it.
\<close>

theorem watchdog_stall_iff:
  "fst (observe_watchdog (observe_all None obs) record now) \<noteq> None \<longleftrightarrow>
     same_run (jget record ''ts'') obs \<noteq> []
     \<and> watchdog_stale_seconds \<le> now - snd (last (same_run (jget record ''ts'') obs))"
proof (cases obs rule: rev_cases)
  case Nil
  then show ?thesis by (simp add: observe_watchdog_def same_run_def Let_def)
next
  case (snoc ys y)
  obtain yd yn where y: "y = (yd, yn)" by (cases y)
  show ?thesis
    using same_run_snoc [of "jget record ''ts''" ys yd yn]
    by (auto simp: snoc y observe_all_state observe_watchdog_def Let_def)
qed

section \<open>Waiting for a result\<close>

text \<open>
  Waiting for a cancelled runner is bounded: a positive wait of \<open>n\<close> seconds
  takes at most \<open>n / 5\<close> polls, rounded up, and the wait answers with the runner's
  result only if a poll read one.
\<close>

theorem await_is_bounded:
  "of_int wait \<le> (of_nat (polls_in wait) * of_int runner_result_poll_seconds :: rat)
   \<and> of_nat (polls_in wait) * of_int runner_result_poll_seconds \<le> (of_int (max 0 wait + 4) :: rat)
   \<and> (polls_in wait = 0 \<longleftrightarrow> wait \<le> 0)"
proof (cases "0 < wait")
  case True
  let ?q = "of_int wait / 5 :: rat"
  have c: "of_int \<lceil>?q\<rceil> - 1 < ?q" "?q \<le> of_int \<lceil>?q\<rceil>" by linarith+
  have ceil5: "of_int wait \<le> (5 * of_int \<lceil>?q\<rceil> :: rat)" using c(2) by linarith
  have pos: "0 < \<lceil>?q\<rceil>" using True by simp
  have "5 * (\<lceil>?q\<rceil> - 1) < wait"
  proof -
    have "(of_int (5 * (\<lceil>?q\<rceil> - 1)) :: rat) < of_int wait" using c(1) by simp
    then show ?thesis by (simp only: of_int_less_iff)
  qed
  moreover have "(of_nat (nat \<lceil>?q\<rceil>) :: rat) = of_int \<lceil>?q\<rceil>" using pos by simp
  ultimately have eqn: "of_nat (polls_in wait) * of_int runner_result_poll_seconds = (5 * of_int \<lceil>?q\<rceil> :: rat)"
    and le: "5 * (\<lceil>?q\<rceil> - 1) < wait" and nz: "polls_in wait \<noteq> 0"
    using True pos by (simp_all add: polls_in_def runner_result_poll_seconds_def)
  have "(of_int (5 * \<lceil>?q\<rceil>) :: rat) \<le> of_int (max 0 wait + 4)"
    using le by (simp only: of_int_le_iff) simp
  then have ub: "5 * of_int \<lceil>?q\<rceil> \<le> (of_int (max 0 wait + 4) :: rat)"
    by (simp only: of_int_mult of_int_numeral)
  show ?thesis unfolding eqn by (intro conjI ceil5 ub) (use nz True in simp)
qed (simp add: polls_in_def)

end
