(* ===== verification/Ident.thy ===== *)
theory Ident
  imports PyValue
begin

text \<open>
  \<open>job/runtime_payload/ident.py\<close> on Linux, where the payload runs: process
  identity by pid, start time and boot id, and the sweep for the job's tagged
  processes.  The VM as \<open>/proc\<close> shows it at one moment is a record; a scan that
  reads it more than once takes what it sees each time as an argument.  The
  branches for other systems, which call \<open>ps\<close> and \<open>sysctl\<close>, are not modelled.
\<close>

section \<open>The process table\<close>

text \<open>One \<open>/proc/<pid>\<close>: what can be read of it; \<open>None\<close> is an \<open>OSError\<close>.\<close>

record proc =
  pr_stat :: "string option"
  pr_pgid :: "int option"
  pr_environ :: "string option"

record vm =
  vm_self :: int
  vm_boot :: "string option"
  vm_procs :: "(int \<times> proc) list"

definition boot_id :: "vm \<Rightarrow> string" where
  "boot_id vm = (case vm_boot vm of Some text \<Rightarrow> strip text | None \<Rightarrow> ''unknown'')"

text \<open>
  \<open>_parse_stat\<close>: the command name may hold spaces and parentheses, so the text is
  cut after the last \<open>)\<close>.  \<open>None\<close> is its \<open>ValueError\<close> or \<open>IndexError\<close>.
\<close>

definition parse_stat :: "string \<Rightarrow> (string \<times> string) option" where
  "parse_stat data =
     (if CHR '')'' \<notin> set data then None
      else (let parts = py_words (drop 1 (after_last CHR '')'' data)) in
        if 19 < length parts then Some (parts ! 0, parts ! 19) else None))"

definition is_gone :: "string \<Rightarrow> bool" where
  "is_gone state \<longleftrightarrow> take 1 state \<in> {''Z'', ''X'', ''x''}"

definition linux_state :: "vm \<Rightarrow> int \<Rightarrow> (string \<times> string) option" where
  "linux_state vm pid = Option.bind (Option.bind (map_of (vm_procs vm) pid) pr_stat) parse_stat"

definition starttime :: "vm \<Rightarrow> int \<Rightarrow> string" where
  "starttime vm pid =
     (if pid \<le> 0 then []
      else (case linux_state vm pid of
          None \<Rightarrow> []
        | Some (state, started) \<Rightarrow> if is_gone state then [] else started))"

definition alive :: "vm \<Rightarrow> int \<Rightarrow> string \<Rightarrow> string \<Rightarrow> bool" where
  "alive vm pid expect_starttime expect_boot_id =
     (if pid \<le> 0 then False
      else if boot_id vm \<noteq> expect_boot_id then False
      else (let actual = starttime vm pid in actual \<noteq> [] \<and> actual = expect_starttime))"

text \<open>The pids of \<open>os.listdir("/proc")\<close>: the entries that are all digits.\<close>

definition pids :: "vm \<Rightarrow> int list" where
  "pids vm = List.filter (\<lambda>p. 0 \<le> p) (map fst (vm_procs vm))"

definition running :: "vm \<Rightarrow> int \<Rightarrow> bool" where
  "running vm pid \<longleftrightarrow>
     (case linux_state vm pid of None \<Rightarrow> False | Some (state, _) \<Rightarrow> \<not> is_gone state)"

definition descendants :: "vm \<Rightarrow> int \<Rightarrow> int list" where
  "descendants vm pgid =
     List.filter (\<lambda>p. p \<noteq> vm_self vm
         \<and> Option.bind (map_of (vm_procs vm) p) pr_pgid = Some pgid \<and> running vm p)
       (pids vm)"

definition job_env_var :: string where
  "job_env_var = ''MIGHTY_JOB_ID''"

definition needle :: "string \<Rightarrow> string" where
  "needle job_id = job_env_var @ ''='' @ job_id @ [CHR 0x00]"

definition carries_tag :: "vm \<Rightarrow> string \<Rightarrow> int \<Rightarrow> bool" where
  "carries_tag vm job_id pid \<longleftrightarrow>
     (case Option.bind (map_of (vm_procs vm) pid) pr_environ of
        Some environ \<Rightarrow> py_in (needle job_id) environ | None \<Rightarrow> False)"

definition tagged_processes :: "vm \<Rightarrow> string \<Rightarrow> int list \<Rightarrow> int list" where
  "tagged_processes vm job_id exclude =
     (if job_id = [] then []
      else List.filter (\<lambda>p. p \<notin> set (vm_self vm # exclude) \<and> carries_tag vm job_id p) (pids vm))"

type_synonym identity = "int \<times> string \<times> string"

definition tagged_identities :: "vm \<Rightarrow> string \<Rightarrow> int list \<Rightarrow> identity list" where
  "tagged_identities vm job_id exclude =
     (let boot = boot_id vm in
      concat (map (\<lambda>p. let started = starttime vm p in
                if started \<noteq> [] then [(p, started, boot)] else [])
          (tagged_processes vm job_id exclude)))"

text \<open>
  Each pid is checked again right before its signal: \<open>look pid\<close> is the VM at that
  moment, \<open>kill_ok\<close> whether \<open>os.kill\<close> returned.
\<close>

definition signal_identities :: "(int \<Rightarrow> vm) \<Rightarrow> (int \<Rightarrow> bool) \<Rightarrow> identity list \<Rightarrow> int list" where
  "signal_identities look kill_ok identities =
     map fst (List.filter (\<lambda>(pid, started, boot). alive (look pid) pid started boot \<and> kill_ok pid)
       identities)"

definition signal_tagged ::
  "vm \<Rightarrow> (int \<Rightarrow> vm) \<Rightarrow> (int \<Rightarrow> bool) \<Rightarrow> string \<Rightarrow> int list \<Rightarrow> int list" where
  "signal_tagged vm look kill_ok job_id exclude =
     signal_identities look kill_ok (tagged_identities vm job_id exclude)"

section \<open>Identity\<close>

lemma alive_iff:
  "alive vm pid s b \<longleftrightarrow> 0 < pid \<and> boot_id vm = b \<and> starttime vm pid = s \<and> s \<noteq> []"
  by (auto simp: alive_def Let_def)

lemma starttime_running: "0 < pid \<Longrightarrow> starttime vm pid \<noteq> [] \<Longrightarrow> running vm pid"
  by (auto simp: starttime_def running_def split: option.splits prod.splits if_splits)

lemma words_acc_nonempty: "w \<in> set (words_acc acc s) \<Longrightarrow> w \<noteq> []"
  by (induction acc s rule: words_acc.induct) (auto split: if_splits)

lemma parse_stat_nonempty: "parse_stat d = Some (st, s) \<Longrightarrow> s \<noteq> []"
  unfolding parse_stat_def Let_def py_words_def
  using words_acc_nonempty nth_mem by (metis option.distinct(1) option.inject prod.inject)

lemma running_starttime: "0 < pid \<Longrightarrow> running vm pid \<Longrightarrow> starttime vm pid \<noteq> []"
  by (auto simp: starttime_def running_def linux_state_def dest!: parse_stat_nonempty
      split: option.splits prod.splits bind_splits)

text \<open>
  A recorded identity is taken for alive only by the very process it was
  taken from: on the same boot, with the same start time and not a zombie; a pid
  that was reused, a zombie and a rebooted VM all read as dead.
\<close>

theorem alive_same_process:
  "alive vm pid (starttime vm0 pid) (boot_id vm0) \<longleftrightarrow>
     0 < pid \<and> boot_id vm = boot_id vm0 \<and> starttime vm pid = starttime vm0 pid
     \<and> running vm0 pid \<and> running vm pid"
  using starttime_running running_starttime by (auto simp: alive_iff)

text \<open>
  The sweep signals only processes that carry this job's tag, never itself
  or an excluded process (the runner), and each only if at the moment of the
  signal its pid still is the process that was scanned.
\<close>

theorem signal_tagged_safe:
  "set (signal_tagged vm look kill_ok job_id exclude) \<subseteq>
     {pid. pid \<noteq> vm_self vm \<and> pid \<notin> set exclude \<and> carries_tag vm job_id pid
        \<and> running vm pid \<and> running (look pid) pid
        \<and> starttime (look pid) pid = starttime vm pid \<and> boot_id (look pid) = boot_id vm}"
  by (auto simp: signal_tagged_def signal_identities_def tagged_identities_def Let_def
      tagged_processes_def alive_iff intro: starttime_running split: if_splits)

end
