(* ===== verification/Watchdog.thy ===== *)
theory Watchdog
  imports Verdict Ident
begin

text \<open>
  \<open>job/runtime_payload/watchdog.py\<close>: the sibling process that reports the state
  of the VM and enforces the wall-clock deadline.  One pass of its loop is
  \<open>wd_tick\<close>: what it reads is a record, what it does is a list of actions.
  \<open>wd_reach\<close> is the relation of the runs of the loop, with their history.
\<close>

section \<open>What a pass reads\<close>

text \<open>The run of \<open>nvidia-smi\<close>.\<close>

datatype smi = Smi_Missing | Smi_Error py_error | Smi_Exit int string string

fun gpu_query :: "smi \<Rightarrow> string option \<times> string option" where
  "gpu_query Smi_Missing = (None, Some ''nvidia-smi not found'')"
| "gpu_query (Smi_Error e) = (None, Some (''nvidia-smi failed: '' @ err_type e @ '': '' @ err_msg e))"
| "gpu_query (Smi_Exit rc out err) =
     (if rc \<noteq> 0 then
        (None, Some (''nvidia-smi exited '' @ show_int rc @ '': ''
          @ take 300 (strip (if err \<noteq> [] then err else out))))
      else if strip out \<noteq> [] then (Some (strip out), None)
      else (None, Some ''nvidia-smi printed nothing''))"

text \<open>\<open>shutil.disk_usage\<close> of the paths it tries in turn; \<open>None\<close> is an \<open>OSError\<close>.\<close>

fun disk_free :: "(string \<times> int option) list \<Rightarrow> int option \<times> string option" where
  "disk_free [] = (None, None)"
| "disk_free ((path, Some free) # rest) = (Some free, Some path)"
| "disk_free ((path, None) # rest) = disk_free rest"

definition interval_seconds :: rat where
  "interval_seconds = 30"

text \<open>The modification times the walk found; \<open>None\<close> when the walk itself failed.\<close>

definition inactivity :: "rat list option \<Rightarrow> rat \<Rightarrow> bool option" where
  "inactivity mtimes now =
     (case mtimes of
        None \<Rightarrow> None
      | Some [] \<Rightarrow> None
      | Some (m # ms) \<Rightarrow> Some (interval_seconds \<le> max 0 (now - foldl max m ms)))"

record runner_identity =
  ri_pid :: int
  ri_starttime :: json
  ri_boot_id :: json
  ri_deadline :: json
  ri_started :: "rat option"
  ri_error :: "string option"

text \<open>\<open>_runner_identity\<close> over what opening and parsing \<open>launch.json\<close> gave.\<close>

definition read_identity ::
  "(string \<Rightarrow> rat option) \<Rightarrow> (py_error, json) outcome \<Rightarrow> runner_identity" where
  "read_identity pf loaded =
     (let (launch, error) = (case loaded of
             Inl e \<Rightarrow> ([], Some (''launch.json unreadable: '' @ err_type e @ '': '' @ err_msg e))
           | Inr (JObj d) \<Rightarrow> (d, None)
           | Inr _ \<Rightarrow> ([], Some ''launch.json is not an object''));
          pid = (case to_int (jget_or launch ''pid'' (JInt (-1))) of Some n \<Rightarrow> n | None \<Rightarrow> -1)
      in \<lparr>ri_pid = pid, ri_starttime = jget_or launch ''starttime'' (JStr []),
          ri_boot_id = jget_or launch ''boot_id'' (JStr []),
          ri_deadline = jget launch ''deadline'',
          ri_started = to_float pf (jget launch ''started_at''),
          ri_error = (if pid \<le> 0 \<and> error = None
            then Some (''launch.json has no usable pid ('' @ repr (jget launch ''pid'') @ '')'')
            else error)\<rparr>)"

text \<open>\<open>ident.alive\<close> with the expectations as read; what is no text never equals one.\<close>

definition alive_as_read :: "vm \<Rightarrow> runner_identity \<Rightarrow> bool" where
  "alive_as_read vm r =
     (case (ri_starttime r, ri_boot_id r) of
        (JStr s, JStr b) \<Rightarrow> alive vm (ri_pid r) s b | _ \<Rightarrow> False)"

record tick =
  tk_now :: rat
  tk_launch :: "(py_error, json) outcome"
  tk_vm :: vm
  tk_smi :: smi
  tk_disk :: "(string \<times> int option) list"
  tk_mtimes :: "rat list option"
  tk_result_exists :: bool
  tk_cancel_exists :: bool
  tk_cancel_exists_then :: bool
  tk_before_deadline :: rat
  tk_before_escalation :: rat

section \<open>One pass\<close>

datatype job_signal = SIGTERM | SIGKILL

datatype wd_action =
    Write_Record json_obj
  | Write_Cancel json_obj
  | Kill_Group job_signal int
  | Kill_Tagged job_signal "int list"

record wd_config =
  wc_pgid :: int
  wc_interval :: rat
  wc_self :: int
  wc_started :: rat

record wd_state =
  wd_cancel_sent :: bool
  wd_kill_sent :: bool
  wd_escalate_at :: "rat option"

definition wd_init :: wd_state where
  "wd_init = \<lparr>wd_cancel_sent = False, wd_kill_sent = False, wd_escalate_at = None\<rparr>"

definition grace :: rat where
  "grace = of_int grace_seconds"

text \<open>The runner carries the tag too, and must never be signalled.\<close>

definition escapee_exclude :: "int \<Rightarrow> int \<Rightarrow> int list" where
  "escapee_exclude self runner_pid = self # (if 0 < runner_pid then [runner_pid] else [])"

definition watchdog_record ::
  "(rat \<Rightarrow> string) \<Rightarrow> wd_config \<Rightarrow> tick \<Rightarrow> runner_identity \<Rightarrow> rat option \<Rightarrow> json_obj" where
  "watchdog_record sf c k r deadline =
     (let now = tk_now k; started = (case ri_started r of Some s \<Rightarrow> s | None \<Rightarrow> wc_started c);
          num = (\<lambda>x. JFloat x (sf x)); (gpu, gpu_error) = gpu_query (tk_smi k);
          (free, path) = disk_free (tk_disk k)
      in [(''ts'', num now), (''elapsed'', JInt (py_round (now - started))),
          (''remaining'', jopt (\<lambda>d. JInt (py_round (d - now))) deadline),
          (''disk_free_bytes'', jopt JInt free), (''disk_path'', jopt JStr path),
          (''gpu'', jopt JStr gpu), (''gpu_error'', jopt JStr gpu_error),
          (''runner_alive'', if ri_error r \<noteq> None then JNull else JBool (alive_as_read (tk_vm k) r)),
          (''runner_identity_error'', jopt JStr (ri_error r)),
          (''deadline'', jopt num deadline),
          (''inactivity'', jopt JBool (inactivity (tk_mtimes k) now))])"

definition signal_workload :: "wd_config \<Rightarrow> int \<Rightarrow> job_signal \<Rightarrow> wd_action list" where
  "signal_workload c runner_pid sig =
     [Kill_Group sig (wc_pgid c), Kill_Tagged sig (escapee_exclude (wc_self c) runner_pid)]"

definition cancel_record :: "(rat \<Rightarrow> string) \<Rightarrow> rat \<Rightarrow> json_obj" where
  "cancel_record sf now =
     [(''intent'', JStr ''cancelled''), (''by'', JStr ''wall_clock''), (''at'', JFloat now (sf now))]"

definition deadline_of :: "(string \<Rightarrow> rat option) \<Rightarrow> runner_identity \<Rightarrow> rat option" where
  "deadline_of pf r = (if ri_deadline r = JNull then None else to_float pf (ri_deadline r))"

definition wd_signals ::
  "(rat \<Rightarrow> string) \<Rightarrow> wd_config \<Rightarrow> wd_state \<Rightarrow> tick \<Rightarrow> int \<Rightarrow> rat option \<Rightarrow> wd_action list \<times> wd_state" where
  "wd_signals sf c s k pid deadline =
     (let now = tk_now k;
          deadline_reached = (case deadline of Some d \<Rightarrow> d \<le> now | None \<Rightarrow> False)
      in if \<not> wd_cancel_sent s \<and> (tk_cancel_exists k \<or> deadline_reached) then
           ((if \<not> tk_cancel_exists k \<and> \<not> tk_cancel_exists_then k
             then [Write_Cancel (cancel_record sf now)] else [])
              @ signal_workload c pid SIGTERM,
            s\<lparr>wd_cancel_sent := True, wd_escalate_at := Some (now + grace)\<rparr>)
         else if \<not> wd_kill_sent s
             \<and> (case wd_escalate_at s of Some e \<Rightarrow> e \<le> now | None \<Rightarrow> False) then
           (signal_workload c pid SIGKILL, s\<lparr>wd_kill_sent := True\<rparr>)
         else ([], s))"

definition wd_sleep :: "wd_config \<Rightarrow> wd_state \<Rightarrow> tick \<Rightarrow> rat option \<Rightarrow> rat" where
  "wd_sleep c s k deadline =
     (let a = (case deadline of
             Some d \<Rightarrow> if \<not> wd_kill_sent s
               then min (wc_interval c) (max (5 / 100) (d - tk_before_deadline k))
               else wc_interval c
           | None \<Rightarrow> wc_interval c)
      in (case wd_escalate_at s of
            Some e \<Rightarrow> if \<not> wd_kill_sent s
              then min a (max (5 / 100) (e - tk_before_escalation k)) else a
          | None \<Rightarrow> a))"

text \<open>One pass: its actions, and how the loop goes on (\<open>None\<close> is \<open>return 0\<close>) after what sleep.\<close>

definition wd_tick ::
  "(string \<Rightarrow> rat option) \<Rightarrow> (rat \<Rightarrow> string) \<Rightarrow> wd_config \<Rightarrow> wd_state \<Rightarrow> tick
    \<Rightarrow> wd_action list \<times> (wd_state \<times> rat) option" where
  "wd_tick pf sf c s k =
     (let r = read_identity pf (tk_launch k); deadline = deadline_of pf r;
          report = Write_Record (watchdog_record sf c k r deadline)
      in if tk_result_exists k then ([report], None)
         else (case wd_signals sf c s k (ri_pid r) deadline of
             (acts, s') \<Rightarrow> (report # acts, Some (s', wd_sleep c s' k deadline))))"

section \<open>Arguments\<close>

record wd_args =
  wa_job_dir :: "string option"
  wa_pgid :: "int option"
  wa_interval :: rat

text \<open>\<open>Inl\<close> is the \<open>ValueError\<close> of a number, \<open>Inr None\<close> the usage error, exit code 2.\<close>

fun wd_parse_args ::
  "(string \<Rightarrow> rat option) \<Rightarrow> wd_args \<Rightarrow> string list \<Rightarrow> (py_error, wd_args option) outcome" where
  "wd_parse_args pf a [] =
     Inr (if (case wa_job_dir a of None \<Rightarrow> True | Some d \<Rightarrow> d = []) \<or> wa_pgid a = None
       then None else Some a)"
| "wd_parse_args pf a [x] = Inr None"
| "wd_parse_args pf a (x # v # rest) =
     (if x = ''--job-dir'' then wd_parse_args pf (a\<lparr>wa_job_dir := Some v\<rparr>) rest
      else if x = ''--shim-pgid'' then
        (case parse_int v of
           Some n \<Rightarrow> wd_parse_args pf (a\<lparr>wa_pgid := Some n\<rparr>) rest
         | None \<Rightarrow> Inl \<lparr>err_type = ''ValueError'',
             err_msg = ''invalid literal for int() with base 10: '' @ repr_str v\<rparr>)
      else if x = ''--interval'' then
        (case pf v of
           Some f \<Rightarrow> wd_parse_args pf (a\<lparr>wa_interval := max (1 / 100) f\<rparr>) rest
         | None \<Rightarrow> Inl \<lparr>err_type = ''ValueError'',
             err_msg = ''could not convert string to float: '' @ repr_str v\<rparr>)
      else Inr None)"

definition wd_default_args :: wd_args where
  "wd_default_args = \<lparr>wa_job_dir = None, wa_pgid = None, wa_interval = interval_seconds\<rparr>"

section \<open>Runs\<close>

text \<open>The history of a run: each action with the time of its pass.\<close>

type_synonym history = "(rat \<times> wd_action) list"

inductive wd_reach ::
  "(string \<Rightarrow> rat option) \<Rightarrow> (rat \<Rightarrow> string) \<Rightarrow> wd_config \<Rightarrow> wd_state \<Rightarrow> history \<Rightarrow> bool"
  for pf sf c where
  start: "wd_reach pf sf c wd_init []"
| pass: "wd_reach pf sf c s h \<Longrightarrow> wd_tick pf sf c s k = (acts, Some (s', d)) \<Longrightarrow>
     wd_reach pf sf c s' (h @ map (Pair (tk_now k)) acts)"

definition group_times :: "job_signal \<Rightarrow> history \<Rightarrow> rat list" where
  "group_times sig h =
     concat (map (\<lambda>(t, a). case a of Kill_Group g p \<Rightarrow> if g = sig then [t] else [] | _ \<Rightarrow> []) h)"

definition tagged_excludes :: "history \<Rightarrow> int list list" where
  "tagged_excludes h = concat (map (\<lambda>(t, a). case a of Kill_Tagged g ex \<Rightarrow> [ex] | _ \<Rightarrow> []) h)"

text \<open>The state knows the history: which signals were sent, and when the second one is due.\<close>

definition wd_inv :: "wd_config \<Rightarrow> wd_state \<Rightarrow> history \<Rightarrow> bool" where
  "wd_inv c s h \<longleftrightarrow>
     (case wd_escalate_at s of
        None \<Rightarrow> \<not> wd_cancel_sent s \<and> group_times SIGTERM h = []
      | Some e \<Rightarrow> wd_cancel_sent s \<and> group_times SIGTERM h = [e - grace])
     \<and> (if wd_kill_sent s
        then \<exists>e t. wd_escalate_at s = Some e \<and> group_times SIGKILL h = [t] \<and> e \<le> t
        else group_times SIGKILL h = [])"

lemma group_times_append [simp]: "group_times g (h @ h') = group_times g h @ group_times g h'"
  by (simp add: group_times_def)

lemma group_times_simps [simp]:
  "group_times g [] = []"
  "group_times g ((t, Kill_Group sig p) # h) = (if sig = g then [t] else []) @ group_times g h"
  "group_times g ((t, Kill_Tagged sig ex) # h) = group_times g h"
  "group_times g ((t, Write_Record d) # h) = group_times g h"
  "group_times g ((t, Write_Cancel d) # h) = group_times g h"
  by (simp_all add: group_times_def)

lemma wd_signals_cases:
  assumes "wd_signals sf c s k pid deadline = (acts, s')"
  obtains (first) "\<not> wd_cancel_sent s"
      "s' = s\<lparr>wd_cancel_sent := True, wd_escalate_at := Some (tk_now k + grace)\<rparr>"
      "group_times SIGTERM (map (Pair (tk_now k)) acts) = [tk_now k]"
      "group_times SIGKILL (map (Pair (tk_now k)) acts) = []"
  | (kill) e where "\<not> wd_kill_sent s" "wd_escalate_at s = Some e" "e \<le> tk_now k"
      "s' = s\<lparr>wd_kill_sent := True\<rparr>"
      "group_times SIGTERM (map (Pair (tk_now k)) acts) = []"
      "group_times SIGKILL (map (Pair (tk_now k)) acts) = [tk_now k]"
  | (idle) "s' = s" "acts = []"
proof -
  let ?c1 = "\<not> wd_cancel_sent s \<and> (tk_cancel_exists k
    \<or> (case deadline of Some d \<Rightarrow> d \<le> tk_now k | None \<Rightarrow> False))"
  let ?c2 = "\<not> wd_kill_sent s \<and> (case wd_escalate_at s of Some e \<Rightarrow> e \<le> tk_now k | None \<Rightarrow> False)"
  consider ?c1 | "\<not> ?c1" ?c2 | "\<not> ?c1" "\<not> ?c2" by blast
  then show ?thesis
  proof cases
    case 1
    then have r: "wd_signals sf c s k pid deadline =
        ((if \<not> tk_cancel_exists k \<and> \<not> tk_cancel_exists_then k
          then [Write_Cancel (cancel_record sf (tk_now k))] else []) @ signal_workload c pid SIGTERM,
         s\<lparr>wd_cancel_sent := True, wd_escalate_at := Some (tk_now k + grace)\<rparr>)"
      unfolding wd_signals_def Let_def by (rule if_P)
    show ?thesis
      by (rule first) (use 1 assms r in \<open>auto simp: signal_workload_def\<close>)
  next
    case 2
    then obtain e where e: "wd_escalate_at s = Some e" "e \<le> tk_now k" by (auto split: option.splits)
    have r: "wd_signals sf c s k pid deadline =
        (signal_workload c pid SIGKILL, s\<lparr>wd_kill_sent := True\<rparr>)"
      unfolding wd_signals_def Let_def if_not_P [OF 2(1)] by (rule if_P [OF 2(2)])
    show ?thesis
      by (rule kill [of e]) (use 2 e assms r in \<open>auto simp: signal_workload_def\<close>)
  next
    case 3
    have "wd_signals sf c s k pid deadline = ([], s)"
      unfolding wd_signals_def Let_def if_not_P [OF 3(1)] by (rule if_not_P [OF 3(2)])
    with assms show ?thesis by (intro idle) auto
  qed
qed

lemma wd_reach_inv: "wd_reach pf sf c s h \<Longrightarrow> wd_inv c s h"
proof (induction rule: wd_reach.induct)
  case start
  then show ?case by (simp add: wd_inv_def wd_init_def)
next
  case (pass s h k acts s' d)
  let ?r = "read_identity pf (tk_launch k)"
  obtain as where sig: "wd_signals sf c s k (ri_pid ?r) (deadline_of pf ?r) = (as, s')"
    and acts: "\<exists>d. acts = Write_Record d # as"
    using pass.hyps(2) by (auto simp: wd_tick_def Let_def split: if_splits prod.splits)
  from sig show ?case
  proof (cases rule: wd_signals_cases)
    case first
    with pass.IH acts show ?thesis by (auto simp: wd_inv_def split: option.splits if_splits)
  next
    case kill
    with pass.IH acts show ?thesis by (auto simp: wd_inv_def split: option.splits if_splits)
  next
    case idle
    with pass.IH acts show ?thesis by (auto simp: wd_inv_def split: option.splits)
  qed
qed

text \<open>
  C12. Escalation: over any run of the watchdog, the workload's group is sent
  SIGTERM at most once and SIGKILL at most once, and SIGKILL only at least the
  grace period after the SIGTERM.
\<close>

theorem watchdog_escalates:
  assumes "wd_reach pf sf c s h"
  shows "length (group_times SIGTERM h) \<le> 1 \<and> length (group_times SIGKILL h) \<le> 1
    \<and> set (group_times SIGKILL h) \<subseteq> {t. \<exists>u. group_times SIGTERM h = [u] \<and> u + grace \<le> t}"
  using wd_reach_inv [OF assms]
  by (auto simp: wd_inv_def split: option.splits if_splits)

text \<open>A cancel request at second 10 to a workload that ignores SIGTERM.\<close>

definition demo_pass :: "rat \<Rightarrow> tick" where
  "demo_pass now = \<lparr>tk_now = now, tk_launch = Inl \<lparr>err_type = ''FileNotFoundError'', err_msg = []\<rparr>,
     tk_vm = \<lparr>vm_self = 7, vm_boot = None, vm_procs = []\<rparr>, tk_smi = Smi_Missing, tk_disk = [],
     tk_mtimes = None, tk_result_exists = False, tk_cancel_exists = True,
     tk_cancel_exists_then = True, tk_before_deadline = now, tk_before_escalation = now\<rparr>"

definition demo_config :: wd_config where
  "demo_config = \<lparr>wc_pgid = 42, wc_interval = 30, wc_self = 7, wc_started = 0\<rparr>"

definition demo_sent :: wd_state where
  "demo_sent = \<lparr>wd_cancel_sent = True, wd_kill_sent = False, wd_escalate_at = Some 15\<rparr>"

definition demo_history :: history where
  "demo_history =
     map (Pair (tk_now (demo_pass 10))) (fst (wd_tick (\<lambda>_. None) (\<lambda>_. []) demo_config wd_init (demo_pass 10)))
     @ map (Pair (tk_now (demo_pass 15))) (fst (wd_tick (\<lambda>_. None) (\<lambda>_. []) demo_config demo_sent (demo_pass 15)))"

lemma demo_first:
  "\<exists>d. wd_tick (\<lambda>_. None) (\<lambda>_. []) demo_config wd_init (demo_pass 10) =
     (fst (wd_tick (\<lambda>_. None) (\<lambda>_. []) demo_config wd_init (demo_pass 10)), Some (demo_sent, d))"
  by (simp add: wd_tick_def wd_signals_def Let_def demo_pass_def wd_init_def demo_sent_def grace_def
      grace_seconds_def)

lemma demo_second:
  "\<exists>s d. wd_tick (\<lambda>_. None) (\<lambda>_. []) demo_config demo_sent (demo_pass 15) =
     (fst (wd_tick (\<lambda>_. None) (\<lambda>_. []) demo_config demo_sent (demo_pass 15)), Some (s, d))"
  by (simp add: wd_tick_def wd_signals_def Let_def demo_pass_def demo_sent_def)

lemma demo_reach: "\<exists>s. wd_reach (\<lambda>_. None) (\<lambda>_. []) demo_config s demo_history"
proof -
  obtain d where 1: "wd_tick (\<lambda>_. None) (\<lambda>_. []) demo_config wd_init (demo_pass 10) =
     (fst (wd_tick (\<lambda>_. None) (\<lambda>_. []) demo_config wd_init (demo_pass 10)), Some (demo_sent, d))"
    using demo_first by blast
  obtain s d2 where 2: "wd_tick (\<lambda>_. None) (\<lambda>_. []) demo_config demo_sent (demo_pass 15) =
     (fst (wd_tick (\<lambda>_. None) (\<lambda>_. []) demo_config demo_sent (demo_pass 15)), Some (s, d2))"
    using demo_second by blast
  from wd_reach.pass [OF wd_reach.pass [OF wd_reach.start 1] 2]
  show ?thesis unfolding demo_history_def by auto
qed

theorem watchdog_escalates_witness:
  "group_times SIGTERM demo_history = [10] \<and> group_times SIGKILL demo_history = [15]
   \<and> set (group_times SIGKILL demo_history)
       \<subseteq> {t. \<exists>u. group_times SIGTERM demo_history = [u] \<and> u + grace \<le> t}"
proof -
  obtain s where r: "wd_reach (\<lambda>_. None) (\<lambda>_. []) demo_config s demo_history"
    using demo_reach by blast
  have "group_times SIGTERM demo_history = [10]" "group_times SIGKILL demo_history = [15]"
    by (simp_all add: demo_history_def wd_tick_def wd_signals_def Let_def demo_pass_def wd_init_def
        demo_sent_def signal_workload_def)
  with watchdog_escalates [OF r] show ?thesis by blast
qed

text \<open>
  No pass of the watchdog signals the runner it reads from \<open>launch.json\<close>: the
  runner's pid, and the watchdog's own, are excluded from every sweep, whatever
  the file holds.
\<close>

theorem watchdog_spares_runner:
  "(\<Union>ex \<in> set (tagged_excludes (map (Pair (tk_now k)) (fst (wd_tick pf sf c s k)))). {p. 0 < p} - set ex)
     \<subseteq> {p. p \<noteq> ri_pid (read_identity pf (tk_launch k)) \<and> p \<noteq> wc_self c}"
  by (auto simp: wd_tick_def wd_signals_def Let_def tagged_excludes_def signal_workload_def
      escapee_exclude_def split: if_splits option.splits)

text \<open>
  The watchdog never sleeps past its duties: while it has a kill to send it
  wakes within 50 ms of the deadline and of the escalation, and at least every
  interval; it ends exactly when the runner's result is there.
\<close>

theorem watchdog_wakes:
  "(snd (wd_tick pf sf c s k) = None \<longleftrightarrow> tk_result_exists k)
   \<and> wd_sleep c s k deadline \<le> wc_interval c
   \<and> (case (wd_kill_sent s, deadline) of
        (False, Some d) \<Rightarrow> wd_sleep c s k deadline \<le> max (1 / 20) (d - tk_before_deadline k)
      | _ \<Rightarrow> True)
   \<and> (case (wd_kill_sent s, wd_escalate_at s) of
        (False, Some e) \<Rightarrow> wd_sleep c s k deadline \<le> max (1 / 20) (e - tk_before_escalation k)
      | _ \<Rightarrow> True)"
proof -
  have "snd (wd_tick pf sf c s k) = None \<longleftrightarrow> tk_result_exists k"
    by (simp add: wd_tick_def Let_def split: prod.splits)
  moreover have "wd_sleep c s k deadline \<le> wc_interval c"
    by (auto simp: wd_sleep_def Let_def min_def split: option.splits)
  moreover have "\<not> wd_kill_sent s \<Longrightarrow> deadline = Some d
      \<Longrightarrow> wd_sleep c s k deadline \<le> max (1 / 20) (d - tk_before_deadline k)" for d
    by (auto simp: wd_sleep_def Let_def min_def split: option.splits)
  moreover have "\<not> wd_kill_sent s \<Longrightarrow> wd_escalate_at s = Some e
      \<Longrightarrow> wd_sleep c s k deadline \<le> max (1 / 20) (e - tk_before_escalation k)" for e
    by (auto simp: wd_sleep_def Let_def split: option.splits)
  ultimately show ?thesis by (auto split: option.splits bool.splits)
qed

end
