(* ===== verification/Runner.thy ===== *)
theory Runner
  imports UrlId Watchdog
begin

text \<open>
  \<open>job/runtime_payload/runner.py\<close>, the parts that \<open>main\<close> calls: the command
  line, the transfer credential channel, the manifests, the staging of inputs,
  the offload of artifacts and the periodic sync.  The network and the files of
  the VM are parameters in \<open>runner_env\<close>, over an abstract world; an exception is
  its class, as far as the runner tells them apart, with its type and message.
\<close>

section \<open>Command line\<close>

record runner_args =
  rg_job_dir :: "string option"
  rg_deadline :: "rat option"
  rg_cli_version :: string
  rg_secrets_fd :: "int option"
  rg_secrets_required :: bool
  rg_stage_manifest :: "string option"
  rg_offload_manifest :: "string option"
  rg_sync_interval :: "rat option"
  rg_rest :: "string list"

definition default_runner_args :: runner_args where
  "default_runner_args = \<lparr>rg_job_dir = None, rg_deadline = None, rg_cli_version = ''unknown'',
     rg_secrets_fd = None, rg_secrets_required = False, rg_stage_manifest = None,
     rg_offload_manifest = None, rg_sync_interval = None, rg_rest = []\<rparr>"

definition split_consumer_args :: "string list \<Rightarrow> string list \<times> string list" where
  "split_consumer_args argv =
     (takeWhile (\<lambda>a. a \<noteq> ''--'') argv, tl (dropWhile (\<lambda>a. a \<noteq> ''--'') argv))"

definition needs_value :: "string \<Rightarrow> (string, 'a) outcome" where
  "needs_value opt = Inl (opt @ '' requires a value'')"

definition expects_number :: "string \<Rightarrow> string \<Rightarrow> (string, 'a) outcome" where
  "expects_number opt v = Inl (opt @ '' expects a number, got '' @ repr_str v)"

definition value_options :: "string list" where
  "value_options = [''--job-dir'', ''--deadline'', ''--cli-version'', ''--secrets-fd'', ''--entry'',
     ''--stage-manifest'', ''--offload-manifest'', ''--artifact-sync-interval'']"

text \<open>One option with its value; the entry is kept beside the record.\<close>

definition set_option ::
  "(string \<Rightarrow> rat option) \<Rightarrow> string \<Rightarrow> string \<Rightarrow> runner_args \<times> string option
    \<Rightarrow> (string, runner_args \<times> string option) outcome" where
  "set_option pf opt v ae =
     (case ae of (a, entry) \<Rightarrow>
        if opt = ''--job-dir'' then Inr (a\<lparr>rg_job_dir := Some v\<rparr>, entry)
        else if opt = ''--deadline'' then
          (case pf v of Some x \<Rightarrow> Inr (a\<lparr>rg_deadline := Some x\<rparr>, entry) | None \<Rightarrow> expects_number opt v)
        else if opt = ''--cli-version'' then Inr (a\<lparr>rg_cli_version := v\<rparr>, entry)
        else if opt = ''--secrets-fd'' then
          (case parse_int v of Some n \<Rightarrow> Inr (a\<lparr>rg_secrets_fd := Some n\<rparr>, entry)
           | None \<Rightarrow> expects_number opt v)
        else if opt = ''--entry'' then Inr (a, Some v)
        else if opt = ''--stage-manifest'' then Inr (a\<lparr>rg_stage_manifest := Some v\<rparr>, entry)
        else if opt = ''--offload-manifest'' then Inr (a\<lparr>rg_offload_manifest := Some v\<rparr>, entry)
        else (case pf v of Some x \<Rightarrow> Inr (a\<lparr>rg_sync_interval := Some x\<rparr>, entry)
              | None \<Rightarrow> expects_number opt v))"

definition entry_list :: "string option \<Rightarrow> string list" where
  "entry_list entry = (case entry of Some e \<Rightarrow> if e \<noteq> [] then [e] else [] | None \<Rightarrow> [])"

fun parse_runner_args ::
  "(string \<Rightarrow> rat option) \<Rightarrow> runner_args \<times> string option \<Rightarrow> string list
    \<Rightarrow> (string, runner_args) outcome" where
  "parse_runner_args pf ae [] = Inr ((fst ae)\<lparr>rg_rest := entry_list (snd ae)\<rparr>)"
| "parse_runner_args pf ae (x # rest) =
     (if x = ''--secrets-required'' then
        parse_runner_args pf ((fst ae)\<lparr>rg_secrets_required := True\<rparr>, snd ae) rest
      else if x \<in> set value_options then
        (case rest of
           [] \<Rightarrow> needs_value x
         | v # rest' \<Rightarrow> (case set_option pf x v ae of
               Inl e \<Rightarrow> Inl e
             | Inr ae' \<Rightarrow> parse_runner_args pf ae' rest'))
      else Inr ((fst ae)\<lparr>rg_rest := entry_list (snd ae) @ x # rest\<rparr>))"

text \<open>The command line of \<open>main\<close>: the arguments, the entry and its script arguments.\<close>

datatype runner_start = Usage | Invalid string | Start runner_args string "string list"

definition runner_start :: "(string \<Rightarrow> rat option) \<Rightarrow> string list \<Rightarrow> runner_start" where
  "runner_start pf argv =
     (case split_consumer_args argv of (own, consumer) \<Rightarrow>
        case parse_runner_args pf (default_runner_args, None) own of
          Inl e \<Rightarrow> Invalid (''runner: invalid arguments: '' @ e)
        | Inr a \<Rightarrow>
            (case rg_rest a of
               [] \<Rightarrow> Usage
             | entry # script \<Rightarrow>
                 if (case rg_job_dir a of None \<Rightarrow> True | Some d \<Rightarrow> d = []) then Usage
                 else Start a entry (script @ consumer)))"

section \<open>Errors\<close>

text \<open>The classes the runner distinguishes; \<open>Class_Http\<close> carries the status and the body.\<close>

datatype error_class =
    Class_Http int "string option"
  | Class_Blocked | Class_Mismatch string | Class_Manifest | Class_Network
  | Class_Not_Found | Class_Os | Class_Other

record run_error =
  re_class :: error_class
  re_error :: py_error

definition manifest_error :: "string \<Rightarrow> run_error" where
  "manifest_error m = \<lparr>re_class = Class_Manifest,
     re_error = \<lparr>err_type = ''ManifestError'', err_msg = m\<rparr>\<rparr>"

definition value_error :: "string \<Rightarrow> run_error" where
  "value_error m = \<lparr>re_class = Class_Other,
     re_error = \<lparr>err_type = ''ValueError'', err_msg = m\<rparr>\<rparr>"

definition type_error :: "string \<Rightarrow> run_error" where
  "type_error m = \<lparr>re_class = Class_Other,
     re_error = \<lparr>err_type = ''TypeError'', err_msg = m\<rparr>\<rparr>"

definition staged_mismatch :: "string \<Rightarrow> string \<Rightarrow> run_error" where
  "staged_mismatch kind m = \<lparr>re_class = Class_Mismatch kind,
     re_error = \<lparr>err_type = ''StagedMismatch'', err_msg = m\<rparr>\<rparr>"

fun error_category :: "error_class \<Rightarrow> string" where
  "error_category (Class_Http s b) = ''http''"
| "error_category Class_Blocked = ''blocked''"
| "error_category (Class_Mismatch k) = k"
| "error_category Class_Manifest = ''setup''"
| "error_category Class_Network = ''network''"
| "error_category Class_Not_Found = ''local''"
| "error_category Class_Os = ''local''"
| "error_category Class_Other = ''error''"

definition transfer_error_record :: "(string \<Rightarrow> string) \<Rightarrow> run_error \<Rightarrow> string option \<Rightarrow> json_obj" where
  "transfer_error_record utf8 e url =
     (let red = (\<lambda>t. redact_url t url (case url of Some u \<Rightarrow> if u \<noteq> [] then runner_url_id u else []
                                       | None \<Rightarrow> []));
          (status, body) = (case re_class e of
             Class_Http s b \<Rightarrow> (JInt s, jopt (\<lambda>raw. JStr (red (utf8 raw))) b)
           | _ \<Rightarrow> (JNull, JNull))
      in [(''exception'', JStr (err_type (re_error e))),
          (''reason'', JStr (red (err_msg (re_error e)))),
          (''http_status'', status), (''body'', body),
          (''category'', JStr (error_category (re_class e)))])"

section \<open>Manifests and credentials\<close>

text \<open>\<open>_load_manifest\<close> over what opening and parsing the file gave.\<close>

definition load_manifest :: "string option \<Rightarrow> (py_error, json) outcome \<Rightarrow> (run_error, json list) outcome" where
  "load_manifest path loaded =
     (case path of
        None \<Rightarrow> Inr []
      | Some p \<Rightarrow>
          if p = [] then Inr []
          else (case loaded of
              Inl e \<Rightarrow> Inl (manifest_error (''manifest '' @ p @ '' is unreadable: ''
                @ err_type e @ '': '' @ err_msg e))
            | Inr (JArr items) \<Rightarrow> Inr items
            | Inr _ \<Rightarrow> Inl (manifest_error (''manifest '' @ p @ '' must be a JSON array''))))"

type_synonym url_map = "(string \<times> string) list"

definition reference_matches :: "string \<times> json \<Rightarrow> bool" where
  "reference_matches entry =
     (case entry of (reference, v) \<Rightarrow>
        length reference = 64 \<and> list_all is_hex_lower reference
        \<and> (case v of JStr url \<Rightarrow> url_digest url = reference | _ \<Rightarrow> False))"

definition urls_of :: "json_obj \<Rightarrow> url_map" where
  "urls_of d = concat (map (\<lambda>(k, v). case v of JStr u \<Rightarrow> [(k, u)] | _ \<Rightarrow> []) d)"

text \<open>\<open>_load_transfer_secrets\<close>: \<open>loaded\<close> is what the descriptor held; only the type of its error is kept.\<close>

definition load_transfer_secrets ::
  "int option \<Rightarrow> (py_error, json) outcome \<Rightarrow> (run_error, url_map \<times> string option) outcome" where
  "load_transfer_secrets fd loaded =
     (case fd of
        None \<Rightarrow> Inr ([], None)
      | Some _ \<Rightarrow>
          (case loaded of
             Inl e \<Rightarrow> Inl (manifest_error
               (''transfer credential channel unreadable ('' @ err_type e @ '')''))
           | Inr v \<Rightarrow>
               (case v of
                  JObj payload \<Rightarrow>
                    if \<not> eq_int (jget payload ''schema_version'') 1 then
                      Inl (manifest_error ''transfer credential channel: schema_version is not 1'')
                    else (case jget payload ''urls'' of
                        JObj urls \<Rightarrow>
                          if \<not> list_all reference_matches urls then
                            Inl (manifest_error ''transfer credential channel: a URL does not match its sha256 reference'')
                          else (case jget payload ''result_put_ref'' of
                              JNull \<Rightarrow> Inr (urls_of urls, None)
                            | JStr ref \<Rightarrow>
                                (case map_of (urls_of urls) ref of
                                   Some u \<Rightarrow> Inr (urls_of urls, Some u)
                                 | None \<Rightarrow> Inl (manifest_error
                                     ''transfer credential channel: result_put_ref names no URL''))
                            | JArr _ \<Rightarrow> Inl (type_error ''unhashable type: list'')
                            | JObj _ \<Rightarrow> Inl (type_error ''unhashable type: dict'')
                            | _ \<Rightarrow> Inl (manifest_error
                                ''transfer credential channel: result_put_ref names no URL''))
                      | _ \<Rightarrow> Inl (manifest_error ''transfer credential channel: urls is not an object''))
                | _ \<Rightarrow> Inl (manifest_error ''transfer credential channel: schema_version is not 1''))))"

definition resolve_transfer_url :: "json_obj \<Rightarrow> url_map \<Rightarrow> (run_error, string) outcome" where
  "resolve_transfer_url item urls =
     (let reference = jget item ''url_ref''; declared = jget item ''url_id'' in
      if reference \<noteq> JNull then
        (case Option.bind (as_str reference) (map_of urls) of
           None \<Rightarrow> Inl (manifest_error ''manifest credential reference is unavailable'')
         | Some url \<Rightarrow>
             if JStr (runner_url_id url) \<noteq> declared
             then Inl (manifest_error ''manifest credential reference does not match'')
             else Inr url)
      else (case jget item ''url'' of
          JStr url \<Rightarrow>
            (case urlsplit url of
               Inl m \<Rightarrow> Inl (value_error m)
             | Inr u \<Rightarrow> if su_query u \<noteq> []
                 then Inl (manifest_error ''manifest contains an unsafe credential URL'')
                 else Inr url)
        | _ \<Rightarrow> Inl (manifest_error ''manifest contains an unsafe credential URL'')))"

section \<open>The network and the files\<close>

text \<open>
  A download is the chunks read until the end or an error; an upload gives the
  bytes that were sent; \<open>rv_stat\<close> gives size and modification time.
\<close>

record 'w runner_env =
  rv_get :: "string \<Rightarrow> 'w \<Rightarrow> (run_error, string list \<times> run_error option) outcome \<times> 'w"
  rv_put :: "string \<Rightarrow> string \<Rightarrow> 'w \<Rightarrow> (run_error, string) outcome \<times> 'w"
  rv_makedirs :: "string \<Rightarrow> 'w \<Rightarrow> (run_error, unit) outcome \<times> 'w"
  rv_replace :: "string \<Rightarrow> string \<Rightarrow> 'w \<Rightarrow> (run_error, unit) outcome \<times> 'w"
  rv_exists :: "string \<Rightarrow> 'w \<Rightarrow> bool"
  rv_getsize :: "string \<Rightarrow> 'w \<Rightarrow> int option"
  rv_stat :: "string \<Rightarrow> 'w \<Rightarrow> (run_error, int \<times> rat) outcome \<times> 'w"
  rv_sleep :: "rat \<Rightarrow> 'w \<Rightarrow> 'w"
  rv_utf8 :: "string \<Rightarrow> string"

definition path_join :: "string \<Rightarrow> string \<Rightarrow> string" where
  "path_join a b =
     (if prefix ''/'' b then b else if a = [] \<or> last a = CHR ''/'' then a @ b else a @ ''/'' @ b)"

definition resolve_job_path :: "string \<Rightarrow> string \<Rightarrow> string" where
  "resolve_job_path job_dir path = (if prefix ''/'' path then path else path_join job_dir path)"

section \<open>Download\<close>

fun numeric :: "json \<Rightarrow> rat option" where
  "numeric (JInt i) = Some (of_int i)"
| "numeric (JBool b) = Some (if b then 1 else 0)"
| "numeric (JFloat r t) = Some r"
| "numeric _ = None"

text \<open>The chunks against the planned size: \<open>>\<close> raises on what is no number.\<close>

fun read_chunks :: "json \<Rightarrow> string \<Rightarrow> string list \<Rightarrow> run_error option \<Rightarrow> (run_error, string) outcome" where
  "read_chunks planned acc [] err = (case err of Some e \<Rightarrow> Inl e | None \<Rightarrow> Inr acc)"
| "read_chunks planned acc (c # cs) err =
     (if c = [] then Inr acc
      else if planned = JNull then read_chunks planned (acc @ c) cs err
      else (case numeric planned of
          None \<Rightarrow> Inl (type_error (''> not supported between instances of int and '' @ type_name planned))
        | Some r \<Rightarrow>
            if r < of_nat (length (acc @ c)) then
              Inl (staged_mismatch ''size''
                (''received more than the planned '' @ py_str planned @ '' bytes''))
            else read_chunks planned (acc @ c) cs err))"

definition size_differs :: "json \<Rightarrow> nat \<Rightarrow> bool" where
  "size_differs planned n \<longleftrightarrow> planned \<noteq> JNull \<and> numeric planned \<noteq> Some (of_nat n)"

definition check_download :: "json \<Rightarrow> json \<Rightarrow> string \<Rightarrow> (run_error, string) outcome" where
  "check_download planned_size planned_hash bytes =
     (let digest = sha256_hex bytes in
      if size_differs planned_size (length bytes) then
        Inl (staged_mismatch ''size''
          (''received '' @ show_nat (length bytes) @ '' bytes, planned '' @ py_str planned_size))
      else if planned_hash \<noteq> JNull \<and> py_lower digest \<noteq> py_lower (py_str planned_hash) then
        Inl (staged_mismatch ''checksum''
          (''received sha256 '' @ digest @ '', planned '' @ py_lower (py_str planned_hash)))
      else Inr digest)"

definition dirname :: "string \<Rightarrow> string" where
  "dirname path =
     (let head = rev (dropWhile (\<lambda>c. c \<noteq> CHR ''/'') (rev path)) in
      if list_all (\<lambda>c. c = CHR ''/'') head then head else rstrip (\<lambda>c. c = CHR ''/'') head)"

definition http_get_to_file ::
  "'w runner_env \<Rightarrow> string \<Rightarrow> string \<Rightarrow> json \<Rightarrow> json \<Rightarrow> 'w \<Rightarrow> (run_error, nat \<times> string) outcome \<times> 'w" where
  "http_get_to_file ev url path planned_size planned_hash w =
     (case (if dirname path = [] then (Inr (), w) else rv_makedirs ev (dirname path) w) of
        (Inl e, w) \<Rightarrow> (Inl e, w)
      | (Inr _, w) \<Rightarrow>
          (case rv_get ev url w of
             (Inl e, w) \<Rightarrow> (Inl e, w)
           | (Inr (chunks, err), w) \<Rightarrow>
               (case read_chunks planned_size [] chunks err of
                  Inl e \<Rightarrow> (Inl e, w)
                | Inr bytes \<Rightarrow>
                    (case check_download planned_size planned_hash bytes of
                       Inl e \<Rightarrow> (Inl e, w)
                     | Inr digest \<Rightarrow>
                         (case rv_replace ev path bytes w of
                            (Inl e, w) \<Rightarrow> (Inl e, w)
                          | (Inr _, w) \<Rightarrow> (Inr (length bytes, digest), w))))))"

definition http_put_file ::
  "'w runner_env \<Rightarrow> string \<Rightarrow> string \<Rightarrow> 'w \<Rightarrow> (run_error, nat \<times> string) outcome \<times> 'w" where
  "http_put_file ev url path w =
     (case rv_put ev url path w of
        (Inl e, w) \<Rightarrow> (Inl e, w)
      | (Inr bytes, w) \<Rightarrow> (Inr (length bytes, sha256_hex bytes), w))"

section \<open>Staging\<close>

definition stage_record ::
  "string \<Rightarrow> string \<Rightarrow> string \<Rightarrow> json \<Rightarrow> json \<Rightarrow> json_obj option \<Rightarrow> json_obj" where
  "stage_record dest uid status sha size_bytes err =
     [(''dest'', JStr dest), (''url_id'', JStr uid), (''status'', JStr status),
      (''sha256'', sha), (''bytes'', size_bytes)]
     @ (case err of None \<Rightarrow> [] | Some d \<Rightarrow> [(''error'', JObj d)])"

text \<open>The item's text field, if it is an object and the field a string.\<close>

definition item_str :: "json \<Rightarrow> string \<Rightarrow> string option" where
  "item_str item k = Option.bind (as_obj item) (\<lambda>d. as_str (jget d k))"

definition or_empty :: "string option \<Rightarrow> string" where
  "or_empty x = (case x of None \<Rightarrow> [] | Some s \<Rightarrow> s)"

text \<open>\<open>_stage_one\<close>: the record of the input, \<open>Inl\<close> when it failed.\<close>

definition stage_one ::
  "'w runner_env \<Rightarrow> string \<Rightarrow> json \<Rightarrow> url_map \<Rightarrow> 'w \<Rightarrow> (json_obj, json_obj) outcome \<times> 'w" where
  "stage_one ev job_dir item urls w =
     (let dest = item_str item ''dest''; declared = or_empty (item_str item ''url_id'');
          failed = (\<lambda>uid e url. stage_record (or_empty dest) uid ''failed'' JNull JNull
            (Some (transfer_error_record (rv_utf8 ev) e url)))
      in case as_obj item of
           None \<Rightarrow> (Inl (failed declared (manifest_error ''stage item must be an object'') None), w)
         | Some d \<Rightarrow>
             (case dest of
                None \<Rightarrow> (Inl (failed declared (manifest_error ''stage item requires dest'') None), w)
              | Some path \<Rightarrow>
                  (case resolve_transfer_url d urls of
                     Inl e \<Rightarrow> (Inl (failed declared e None), w)
                   | Inr url \<Rightarrow>
                       (let uid = (if declared \<noteq> [] then declared else runner_url_id url) in
                        case http_get_to_file ev url (resolve_job_path job_dir path)
                               (jget d ''size_bytes'') (jget d ''sha256'') w of
                          (Inl e, w) \<Rightarrow> (Inl (failed uid e (Some url)), w)
                        | (Inr (n, digest), w) \<Rightarrow>
                            (Inr (stage_record path uid ''ok'' (JStr digest) (JInt (int n)) None), w)))))"

text \<open>\<open>_stage\<close>: the records, and the failed one that stopped the staging.\<close>

fun stage_items ::
  "'w runner_env \<Rightarrow> string \<Rightarrow> url_map \<Rightarrow> json list \<Rightarrow> 'w \<Rightarrow> (json_obj list \<times> json_obj option) \<times> 'w" where
  "stage_items ev job_dir urls [] w = (([], None), w)"
| "stage_items ev job_dir urls (item # items) w =
     (case stage_one ev job_dir item urls w of
        (Inl r, w) \<Rightarrow> (([r], Some r), w)
      | (Inr r, w) \<Rightarrow> (case stage_items ev job_dir urls items w of
            ((rs, e), w) \<Rightarrow> ((r # rs, e), w)))"

text \<open>The message of \<open>StageItemError\<close>.\<close>

definition stage_item_message :: "json_obj \<Rightarrow> string" where
  "stage_item_message r =
     py_str (jget r ''dest'') @ '': ''
     @ (case jget r ''error'' of JObj d \<Rightarrow> py_str (jget d ''reason'') | _ \<Rightarrow> [])"

section \<open>Offload\<close>

definition artifact_json ::
  "json \<Rightarrow> json \<Rightarrow> string \<Rightarrow> json \<Rightarrow> json \<Rightarrow> json_obj option \<Rightarrow> json_obj" where
  "artifact_json path uid status sha size_bytes err =
     [(''path'', path), (''url_id'', uid), (''status'', JStr status),
      (''sha256'', sha), (''bytes'', size_bytes)]
     @ (case err of None \<Rightarrow> [] | Some d \<Rightarrow> [(''error'', JObj d)])"

definition artifact_record ::
  "'w runner_env \<Rightarrow> string \<Rightarrow> json \<Rightarrow> url_map \<Rightarrow> 'w \<Rightarrow> (run_error, json_obj) outcome \<times> 'w" where
  "artifact_record ev job_dir item urls w =
     (case as_obj item of
        None \<Rightarrow> (Inl (value_error ''offload item must be an object''), w)
      | Some d \<Rightarrow>
          (case resolve_transfer_url d urls of
             Inl e \<Rightarrow> (Inl e, w)
           | Inr url \<Rightarrow>
               (case jget d ''path'' of
                  JStr path \<Rightarrow>
                    (let uid = (if truthy (jget d ''url_id'') then jget d ''url_id''
                                else JStr (runner_url_id url));
                         local = resolve_job_path job_dir path;
                         missing = artifact_json (JStr path) uid ''missing'' JNull JNull None
                     in if \<not> rv_exists ev local w then (Inr missing, w)
                        else (case http_put_file ev url local w of
                            (Inr (n, digest), w) \<Rightarrow>
                              (Inr (artifact_json (JStr path) uid ''ok'' (JStr digest) (JInt (int n)) None), w)
                          | (Inl e, w) \<Rightarrow>
                              if re_class e = Class_Not_Found then (Inr missing, w)
                              else (Inr (artifact_json (JStr path) uid ''failed'' JNull
                                     (jopt JInt (rv_getsize ev local w))
                                     (Some (transfer_error_record (rv_utf8 ev) e (Some url)))), w)))
                | _ \<Rightarrow> (Inl (value_error ''offload item requires path''), w))))"

definition item_required :: "json \<Rightarrow> bool" where
  "item_required item =
     (case as_obj item of Some d \<Rightarrow> truthy (jget_or d ''required'' (JBool True)) | None \<Rightarrow> True)"

definition offload_item ::
  "'w runner_env \<Rightarrow> string \<Rightarrow> json \<Rightarrow> url_map \<Rightarrow> 'w \<Rightarrow> json_obj \<times> 'w" where
  "offload_item ev job_dir item urls w =
     (case artifact_record ev job_dir item urls w of
        (Inr r, w) \<Rightarrow> (r, w)
      | (Inl e, w) \<Rightarrow>
          (artifact_json (case as_obj item of Some d \<Rightarrow> jget_or d ''path'' (JStr []) | None \<Rightarrow> JStr [])
             (JStr (or_empty (item_str item ''url_id''))) ''failed'' JNull JNull
             (Some (transfer_error_record (rv_utf8 ev) e None)), w))"

definition item_failed :: "json \<Rightarrow> json_obj \<Rightarrow> bool" where
  "item_failed item r \<longleftrightarrow>
     jget r ''status'' = JStr ''failed'' \<or> (jget r ''status'' = JStr ''missing'' \<and> item_required item)"

fun offload_items ::
  "'w runner_env \<Rightarrow> string \<Rightarrow> url_map \<Rightarrow> json list \<Rightarrow> 'w \<Rightarrow> (json_obj list \<times> bool) \<times> 'w" where
  "offload_items ev job_dir urls [] w = (([], False), w)"
| "offload_items ev job_dir urls (item # items) w =
     (case offload_item ev job_dir item urls w of
        (r, w) \<Rightarrow> (case offload_items ev job_dir urls items w of
            ((rs, failed), w) \<Rightarrow> ((r # rs, item_failed item r \<or> failed), w)))"

text \<open>\<open>_offload\<close>: the records, whether it failed, and why it could not start.\<close>

definition offload_all ::
  "'w runner_env \<Rightarrow> string \<Rightarrow> string option \<Rightarrow> (py_error, json) outcome \<Rightarrow> url_map \<Rightarrow> 'w
    \<Rightarrow> (json_obj list \<times> bool \<times> string option) \<times> 'w" where
  "offload_all ev job_dir manifest_path loaded urls w =
     (case load_manifest manifest_path loaded of
        Inl e \<Rightarrow> (([], True, Some (''offload manifest unreadable: '' @ err_type (re_error e) @ '': ''
            @ err_msg (re_error e))), w)
      | Inr items \<Rightarrow>
          (case offload_items ev job_dir urls items w of
             ((rs, failed), w) \<Rightarrow> ((rs, failed, None), w)))"

section \<open>Periodic sync\<close>

type_synonym signature = "int \<times> rat"

record sync_state =
  sy_uploaded :: "(string \<times> signature) list"
  sy_failures :: "(string \<times> (nat \<times> string option)) list"

text \<open>What one artifact's pass did: nothing, an upload of the file at a signature, or a failure.\<close>

datatype sync_result = Sync_Skip | Sync_Done signature | Sync_Failed string

definition sync_error :: "'w runner_env \<Rightarrow> run_error \<Rightarrow> string option \<Rightarrow> sync_result" where
  "sync_error ev e url =
     (if re_class e = Class_Not_Found then Sync_Skip
      else Sync_Failed (py_str (jget (transfer_error_record (rv_utf8 ev) e url) ''reason'')))"

definition sync_one ::
  "'w runner_env \<Rightarrow> string \<Rightarrow> json_obj \<Rightarrow> string \<Rightarrow> url_map \<Rightarrow> (string \<times> signature) list \<Rightarrow> 'w
    \<Rightarrow> sync_result \<times> 'w" where
  "sync_one ev job_dir item path urls uploaded_before w =
     (let local = resolve_job_path job_dir path in
      case rv_stat ev local w of
        (Inl e, w) \<Rightarrow> (sync_error ev e None, w)
      | (Inr sig1, w) \<Rightarrow>
          if map_of uploaded_before path = Some sig1 then (Sync_Skip, w)
          else (case rv_stat ev local (rv_sleep ev 1 w) of
              (Inl e, w) \<Rightarrow> (sync_error ev e None, w)
            | (Inr sig2, w) \<Rightarrow>
                if sig1 \<noteq> sig2 then (Sync_Skip, w)
                else (case resolve_transfer_url item urls of
                    Inl e \<Rightarrow> (sync_error ev e None, w)
                  | Inr url \<Rightarrow>
                      (case http_put_file ev url local w of
                         (Inl e, w) \<Rightarrow> (sync_error ev e (Some url), w)
                       | (Inr _, w) \<Rightarrow> (Sync_Done sig2, w)))))"

fun sync_artifacts_once ::
  "'w runner_env \<Rightarrow> string \<Rightarrow> url_map \<Rightarrow> json list \<Rightarrow> sync_state \<Rightarrow> 'w \<Rightarrow> sync_state \<times> 'w" where
  "sync_artifacts_once ev job_dir urls [] s w = (s, w)"
| "sync_artifacts_once ev job_dir urls (item # items) s w =
     (case (as_obj item, item_str item ''path'') of
        (Some d, Some path) \<Rightarrow>
          (case sync_one ev job_dir d path urls (sy_uploaded s) w of
             (Sync_Skip, w) \<Rightarrow> sync_artifacts_once ev job_dir urls items s w
           | (Sync_Done sig, w) \<Rightarrow>
               sync_artifacts_once ev job_dir urls items
                 (s\<lparr>sy_uploaded := dict_set path sig (sy_uploaded s)\<rparr>) w
           | (Sync_Failed reason, w) \<Rightarrow>
               (let count = (case map_of (sy_failures s) path of Some (n, _) \<Rightarrow> n | None \<Rightarrow> 0) in
                sync_artifacts_once ev job_dir urls items
                  (s\<lparr>sy_failures := dict_set path (count + 1, Some reason) (sy_failures s)\<rparr>) w))
      | _ \<Rightarrow> sync_artifacts_once ev job_dir urls items s w)"

section \<open>Credentials\<close>

lemma urls_of_matches:
  "list_all reference_matches d \<Longrightarrow> (k, u) \<in> set (urls_of d) \<Longrightarrow> url_digest u = k"
  by (auto simp: urls_of_def list_all_iff reference_matches_def split: json.splits dest!: bspec)

text \<open>
  A credential channel is accepted only whole: every reference it then holds
  is the SHA-256 of its URL, and the URL the result is sent to is one of them;
  anything else is the setup error that never quotes the channel.
\<close>

theorem transfer_secrets_bound:
  "case load_transfer_secrets fd loaded of
     Inl e \<Rightarrow> re_class e \<in> {Class_Manifest, Class_Other} \<and> fd \<noteq> None
   | Inr (urls, put) \<Rightarrow>
       set urls \<subseteq> {(reference, url). url_digest url = reference}
       \<and> (case put of None \<Rightarrow> True | Some u \<Rightarrow> u \<in> snd ` set urls)"
  by (auto simp: load_transfer_secrets_def manifest_error_def type_error_def
      split: option.splits sum.splits json.splits dest: map_of_SomeD urls_of_matches
      intro: rev_image_eqI)

text \<open>
  The runner transfers only to a URL of its credential channel whose public
  identity is the one the manifest declares, or to a URL without a query.
\<close>

theorem resolved_url_is_declared:
  "case resolve_transfer_url item urls of
     Inl e \<Rightarrow> re_class e \<in> {Class_Manifest, Class_Other}
   | Inr url \<Rightarrow>
       (\<exists>reference. jget item ''url_ref'' = JStr reference \<and> map_of urls reference = Some url
          \<and> jget item ''url_id'' = JStr (url_id url))
       \<or> (jget item ''url_ref'' = JNull \<and> jget item ''url'' = JStr url
          \<and> (\<exists>u. urlsplit url = Inr u \<and> su_query u = []))"
proof -
  have same: "runner_url_id url = url_id url" for url
    using url_handles_have_no_query by blast
  show ?thesis
    by (auto simp: resolve_transfer_url_def Let_def manifest_error_def value_error_def same
        split: option.splits sum.splits json.splits bind_splits elim: as_str.elims)
qed

section \<open>Staged bytes are the planned ones\<close>

lemma py_lower_hex [simp]: "py_lower (sha256_hex m) = sha256_hex m"
proof -
  have "lower_char c = c" if "is_hex_lower c" for c
    using that by (auto simp: lower_char_def is_hex_lower_def is_digit_def)
  then show ?thesis
    using sha256_hex_lower [of m] by (auto simp: py_lower_def list_all_iff intro: map_idI)
qed

lemma check_download_Inr:
  "check_download ps ph bytes = Inr d \<Longrightarrow>
     d = sha256_hex bytes \<and> (ps = JNull \<or> numeric ps = Some (of_nat (length bytes)))
     \<and> (ph = JNull \<or> py_lower (py_str ph) = sha256_hex bytes)"
  by (auto simp: check_download_def Let_def size_differs_def split: if_splits)

text \<open>
  A download that succeeds has written the bytes whose size and SHA-256 it
  reports, at its destination, and those are the planned ones wherever the plan
  gives them.
\<close>

theorem download_matches_plan:
  "case http_get_to_file ev url path ps ph w of
     (Inl e, _) \<Rightarrow> True
   | (Inr (n, digest), w') \<Rightarrow>
       \<exists>bytes w1. rv_replace ev path bytes w1 = (Inr (), w') \<and> n = length bytes
         \<and> digest = sha256_hex bytes \<and> (ps = JNull \<or> numeric ps = Some (of_nat n))
         \<and> (ph = JNull \<or> py_lower (py_str ph) = digest)"
  by (fastforce simp: http_get_to_file_def split: prod.splits sum.splits dest: check_download_Inr)

lemma jget_stage_status [simp]: "jget (stage_record d u s sha n e) ''status'' = JStr s"
  by (simp add: stage_record_def)

lemma stage_one_status:
  "case stage_one ev jd item urls w of
     (Inl r, _) \<Rightarrow> jget r ''status'' = JStr ''failed''
   | (Inr r, _) \<Rightarrow> jget r ''status'' = JStr ''ok''"
  by (simp add: stage_one_def Let_def split: option.splits sum.splits prod.splits)

definition statuses :: "json_obj list \<Rightarrow> json list" where
  "statuses rs = map (\<lambda>r. jget r ''status'') rs"

lemma stage_items_shape:
  "stage_items ev jd urls items w = ((rs, e), w') \<Longrightarrow>
     (case e of
        None \<Rightarrow> statuses rs = replicate (length items) (JStr ''ok'')
      | Some r \<Rightarrow> \<exists>n < length items. statuses rs = replicate n (JStr ''ok'') @ [JStr ''failed'']
          \<and> last rs = r)"
proof (induction items arbitrary: w rs e w')
  case (Cons item items)
  note one = stage_one_status [of ev jd item urls w]
  obtain got w1 where g: "stage_one ev jd item urls w = (got, w1)" by (metis prod.collapse)
  show ?case
  proof (cases got)
    case (Inl r)
    with Cons.prems g one show ?thesis by (auto simp: statuses_def)
  next
    case (Inr r)
    obtain rs1 e1 w2 where rest: "stage_items ev jd urls items w1 = ((rs1, e1), w2)"
      by (metis prod.collapse)
    have r: "rs = r # rs1" "e = e1" using Cons.prems g Inr rest by auto
    show ?thesis
    proof (cases e1)
      case None
      with Cons.IH [OF rest] r one g Inr show ?thesis by (simp add: statuses_def)
    next
      case (Some bad)
      with Cons.IH [OF rest] obtain n where n: "n < length items"
        "statuses rs1 = replicate n (JStr ''ok'') @ [JStr ''failed'']" "last rs1 = bad" by auto
      then have "rs1 \<noteq> []" by (auto simp: statuses_def)
      with n r one g Inr Some show ?thesis
        by (simp, intro exI [of _ "Suc n"]) (simp add: statuses_def)
    qed
  qed
qed (simp add: statuses_def)

text \<open>
  Staging takes the declared inputs in order and stops at the first that
  fails: the records are successes, one for each input, or a run of successes
  ended by exactly the failure that stopped it.
\<close>

theorem staging_stops_at_first_failure:
  "case stage_items ev jd urls items w of
     ((rs, None), _) \<Rightarrow> statuses rs = replicate (length items) (JStr ''ok'')
   | ((rs, Some r), _) \<Rightarrow>
       statuses rs \<in> {replicate n (JStr ''ok'') @ [JStr ''failed''] | n. n < length items} \<and> last rs = r"
proof -
  obtain rs e w' where s: "stage_items ev jd urls items w = ((rs, e), w')" by (metis prod.collapse)
  from stage_items_shape [OF s] show ?thesis by (auto simp: s split: option.splits)
qed

section \<open>What the records show\<close>

text \<open>The texts of a record that may quote what a server sent.\<close>

definition quoted_texts :: "json_obj \<Rightarrow> string set" where
  "quoted_texts d = {t. JStr t \<in> {jget d ''reason'', jget d ''body''}}"

text \<open>
  No failed transfer's record quotes a credential: neither the reason nor
  the response body it keeps has a query with a value, whatever the server
  answered or the exception said.
\<close>

theorem transfer_record_leak_free:
  "quoted_texts (transfer_error_record utf8 e url) \<subseteq> {t. \<not> leaks_query t}"
  by (auto simp: quoted_texts_def transfer_error_record_def Let_def redact_url_leak_free jopt_def
      split: error_class.splits option.splits)

section \<open>Offload\<close>

lemma offload_items_all:
  "offload_items ev jd urls items w = ((rs, failed), w') \<Longrightarrow>
     length rs = length items
     \<and> (failed \<longleftrightarrow> (\<exists>(item, r) \<in> set (zip items rs). item_failed item r))"
proof (induction items arbitrary: w rs failed w')
  case (Cons item items)
  obtain r w1 where g: "offload_item ev jd item urls w = (r, w1)" by (metis prod.collapse)
  obtain rs1 f1 w2 where rest: "offload_items ev jd urls items w1 = ((rs1, f1), w2)"
    by (metis prod.collapse)
  have "rs = r # rs1" "failed = (item_failed item r \<or> f1)" using Cons.prems g rest by auto
  with Cons.IH [OF rest] show ?case by auto
qed simp

lemma jget_artifact_status [simp]: "jget (artifact_json p u s sha n e) ''status'' = JStr s"
  by (simp add: artifact_json_def)

lemma artifact_record_status:
  "case artifact_record ev jd item urls w of
     (Inl e, _) \<Rightarrow> True
   | (Inr r, _) \<Rightarrow> jget r ''status'' \<in> {JStr ''ok'', JStr ''failed'', JStr ''missing''}"
  by (simp add: artifact_record_def Let_def split: option.splits sum.splits prod.splits json.splits)

lemma offload_item_status:
  "jget (fst (offload_item ev jd item urls w)) ''status'' \<in> {JStr ''ok'', JStr ''failed'', JStr ''missing''}"
  using artifact_record_status [of ev jd item urls w]
  by (auto simp: offload_item_def split: prod.splits sum.splits)

lemma offload_items_statuses:
  "set (statuses (fst (fst (offload_items ev jd urls items w))))
     \<subseteq> {JStr ''ok'', JStr ''failed'', JStr ''missing''}"
proof (induction items arbitrary: w)
  case (Cons item items)
  obtain r w1 where g: "offload_item ev jd item urls w = (r, w1)" by (metis prod.collapse)
  obtain rs1 f1 w2 where rest: "offload_items ev jd urls items w1 = ((rs1, f1), w2)"
    by (metis prod.collapse)
  show ?case
    using Cons [of w1] g rest offload_item_status [of ev jd item urls w]
    by (simp add: statuses_def image_subset_iff)
qed (simp add: statuses_def)

text \<open>
  The end-of-run offload tries every declared artifact, whatever happened to
  the ones before, records each with one of three statuses, and calls the
  offload failed exactly when some upload failed or a required file is missing.
\<close>

theorem offload_tries_every_artifact:
  "length (fst (fst (offload_items ev jd urls items w))) = length items
   \<and> set (statuses (fst (fst (offload_items ev jd urls items w))))
       \<subseteq> {JStr ''ok'', JStr ''failed'', JStr ''missing''}
   \<and> (snd (fst (offload_items ev jd urls items w)) \<longleftrightarrow>
        (\<exists>i. i < length items
           \<and> item_failed (items ! i) (fst (fst (offload_items ev jd urls items w)) ! i)))"
proof -
  obtain rs failed w' where o: "offload_items ev jd urls items w = ((rs, failed), w')"
    by (metis prod.collapse)
  have "(\<exists>(item, r) \<in> set (zip items rs). item_failed item r)
      \<longleftrightarrow> (\<exists>i. i < length items \<and> item_failed (items ! i) (rs ! i))"
    using offload_items_all [OF o] by (auto simp: in_set_zip set_zip)
  with offload_items_all [OF o] offload_items_statuses [of ev jd urls items w] o
  show ?thesis by simp
qed

end
