(* ===== verification/RunnerMain.thy ===== *)
theory RunnerMain
  imports Runner
begin

text \<open>
  \<open>main\<close> of \<open>job/runtime_payload/runner.py\<close>: the launch record, the loop that waits
  for the workload and stops it, and the verdict written to \<open>result.json\<close>.  One
  pass of the loop is \<open>wait_step\<close>; the probes after it are arguments of the
  verdict, each with its failure.
\<close>

section \<open>The launch record\<close>

datatype launch_decision = Launch_New | Launch_Duplicate | Launch_Stale | Launch_Crash

text \<open>
  \<open>O_EXCL\<close> on \<open>launch.json\<close>: an existing record of a live runner makes this a
  duplicate.  \<open>prior\<close> is the record as read (\<open>None\<close>: no such file); a record that
  is no object, or whose pid compares with no number, raises.
\<close>

definition launch_decision :: "vm \<Rightarrow> json option \<Rightarrow> launch_decision" where
  "launch_decision vm prior =
     (case prior of
        None \<Rightarrow> Launch_New
      | Some (JObj d) \<Rightarrow>
          (case jget_or d ''pid'' (JInt (-1)) of
             JFloat r t \<Rightarrow> Launch_Stale
           | v \<Rightarrow> (case as_int v of
                 None \<Rightarrow> Launch_Crash
               | Some pid \<Rightarrow>
                   (case (jget_or d ''starttime'' (JStr []), jget_or d ''boot_id'' (JStr [])) of
                      (JStr s, JStr b) \<Rightarrow> if alive vm pid s b then Launch_Duplicate else Launch_Stale
                    | _ \<Rightarrow> Launch_Stale)))
      | Some v \<Rightarrow> if truthy v then Launch_Crash else Launch_Stale)"

definition launch_record ::
  "(rat \<Rightarrow> string) \<Rightarrow> vm \<Rightarrow> int \<Rightarrow> int \<Rightarrow> rat option \<Rightarrow> rat \<Rightarrow> json_obj" where
  "launch_record sf vm pgid attempt deadline started =
     [(''schema_version'', JStr ''1''), (''pid'', JInt (vm_self vm)), (''pgid'', JInt pgid),
      (''starttime'', JStr (starttime vm (vm_self vm))), (''boot_id'', JStr (boot_id vm)),
      (''attempt'', JInt attempt), (''deadline'', jopt (\<lambda>d. JFloat d (sf d)) deadline),
      (''started_at'', JFloat started (sf started))]"

definition absolute_deadline :: "rat \<Rightarrow> rat option \<Rightarrow> rat option" where
  "absolute_deadline started secs =
     (case secs of None \<Rightarrow> None | Some s \<Rightarrow> if s \<noteq> 0 then Some (started + s) else None)"

section \<open>Waiting\<close>

datatype wait_status = Still_Running | Exited int | Signaled int | Stopped

datatype runner_action =
    Cancel_Record json_obj
  | Group_Signal job_signal int
  | Tagged_Signal job_signal "int list"
  | Sync_Artifacts

record wait_config =
  wt_pgid :: int
  wt_deadline :: "rat option"
  wt_exclude :: "int list"
  wt_sync_interval :: "rat option"
  wt_sync_items :: bool

record wait_state =
  ws_term_sent :: bool
  ws_kill_sent :: bool
  ws_escalate_at :: rat
  ws_last_sync :: rat

record wait_tick =
  wk_status :: wait_status
  wk_now :: rat
  wk_cancel_exists :: bool
  wk_after_sync :: rat

definition wait_init :: "rat \<Rightarrow> wait_state" where
  "wait_init started = \<lparr>ws_term_sent = False, ws_kill_sent = False, ws_escalate_at = 0,
     ws_last_sync = started\<rparr>"

text \<open>\<open>_escapee_exclude\<close>: the runner itself and its watchdog.\<close>

definition own_processes :: "int \<Rightarrow> int option \<Rightarrow> int list" where
  "own_processes self watchdog =
     self # (case watchdog of Some p \<Rightarrow> if p \<noteq> 0 then [p] else [] | None \<Rightarrow> [])"

definition past_deadline :: "wait_config \<Rightarrow> rat \<Rightarrow> bool" where
  "past_deadline c now =
     (case wt_deadline c of Some d \<Rightarrow> d \<noteq> 0 \<and> d < now | None \<Rightarrow> False)"

definition both_signals :: "wait_config \<Rightarrow> job_signal \<Rightarrow> runner_action list" where
  "both_signals c sig = [Group_Signal sig (wt_pgid c), Tagged_Signal sig (wt_exclude c)]"

definition stop_step ::
  "(rat \<Rightarrow> string) \<Rightarrow> wait_config \<Rightarrow> wait_state \<Rightarrow> wait_tick \<Rightarrow> runner_action list \<times> wait_state" where
  "stop_step sf c s k =
     (let now = wk_now k; cancel = wk_cancel_exists k; late = past_deadline c now in
      if \<not> ws_term_sent s \<and> (cancel \<or> late) then
        ((if late \<and> \<not> cancel then [Cancel_Record (cancel_record sf now)] else [])
           @ both_signals c SIGTERM,
         s\<lparr>ws_term_sent := True, ws_escalate_at := now + grace\<rparr>)
      else if ws_term_sent s \<and> \<not> ws_kill_sent s \<and> ws_escalate_at s < now then
        (both_signals c SIGKILL, s\<lparr>ws_kill_sent := True\<rparr>)
      else ([], s))"

definition sync_due :: "wait_config \<Rightarrow> wait_state \<Rightarrow> rat \<Rightarrow> bool" where
  "sync_due c s now \<longleftrightarrow>
     wt_sync_items c \<and> \<not> ws_term_sent s
     \<and> (case wt_sync_interval c of Some i \<Rightarrow> i \<le> now - ws_last_sync s | None \<Rightarrow> False)"

text \<open>One pass: the end of the workload (exit code, signal), or the next state.\<close>

definition wait_step ::
  "(rat \<Rightarrow> string) \<Rightarrow> wait_config \<Rightarrow> wait_state \<Rightarrow> wait_tick
    \<Rightarrow> runner_action list \<times> (int option \<times> int option, wait_state) outcome" where
  "wait_step sf c s k =
     (case wk_status k of
        Signaled n \<Rightarrow> ([], Inl (None, Some n))
      | Exited n \<Rightarrow> ([], Inl (Some n, None))
      | Stopped \<Rightarrow> ([], Inl (None, None))
      | Still_Running \<Rightarrow>
          (case stop_step sf c s k of
             (acts, s') \<Rightarrow>
               if sync_due c s' (wk_now k)
               then (acts @ [Sync_Artifacts], Inr (s'\<lparr>ws_last_sync := wk_after_sync k\<rparr>))
               else (acts, Inr s')))"

inductive wait_reach ::
  "(rat \<Rightarrow> string) \<Rightarrow> wait_config \<Rightarrow> rat \<Rightarrow> wait_state \<Rightarrow> (rat \<times> runner_action) list \<Rightarrow> bool"
  for sf c started where
  begin_wait: "wait_reach sf c started (wait_init started) []"
| step_wait: "wait_reach sf c started s h \<Longrightarrow> wait_step sf c s k = (acts, Inr s') \<Longrightarrow>
     wait_reach sf c started s' (h @ map (Pair (wk_now k)) acts)"

section \<open>The verdict\<close>

definition classify_workload :: "string \<Rightarrow> int list \<Rightarrow> bool \<Rightarrow> string \<times> string option" where
  "classify_workload workload tagged detect_ok =
     (if \<not> detect_ok \<and> workload = ''succeeded''
        then (''unknown'', Some ''escapee detection unavailable'')
      else if tagged \<noteq> [] \<and> workload = ''succeeded''
        then (''failed'', Some ''tagged descendants survived containment'')
      else (workload, None))"

definition raw_workload ::
  "string option \<Rightarrow> int option \<Rightarrow> int option \<Rightarrow> bool \<Rightarrow> json \<Rightarrow> string" where
  "raw_workload runner_error exit_code sig term_sent intent =
     (if runner_error \<noteq> None \<and> exit_code = None \<and> sig = None then ''unknown''
      else if term_sent \<and> truthy intent then ''cancelled''
      else if sig \<noteq> None then (if truthy intent then ''cancelled'' else ''failed'')
      else if exit_code = Some 0 then ''succeeded'' else ''failed'')"

text \<open>What the probes after the loop gave; \<open>Inl\<close> is the text of a failed one.\<close>

record probes =
  pb_survivors :: "(string, int list) outcome"
  pb_sweep :: "(string, unit) outcome"
  pb_tagged :: "(string, int list) outcome"
  pb_detect :: bool
  pb_cancel :: "(string, json option) outcome"
  pb_exception :: "(string, json option) outcome"
  pb_oom_before :: "int option"
  pb_oom_after :: "int option"
  pb_dmesg :: "string list"

text \<open>\<open>_oom_kill_count\<close> over the text of \<open>/proc/vmstat\<close>.\<close>

fun oom_line :: "string list \<Rightarrow> int option" where
  "oom_line [] = None"
| "oom_line (l # ls) =
     (case partition_at CHR '' '' l of
        (name, _, v) \<Rightarrow> if name = ''oom_kill'' then parse_int v else oom_line ls)"

definition oom_kill_count :: "string option \<Rightarrow> int option" where
  "oom_kill_count vmstat =
     (case vmstat of None \<Rightarrow> None | Some t \<Rightarrow> oom_line (splitlines t))"

definition oom_log_lines :: nat where "oom_log_lines = 3"

definition oom_log :: "string list \<Rightarrow> int \<Rightarrow> string list" where
  "oom_log lines count =
     (if 0 < count then
        last_n (min (nat count) oom_log_lines)
          (map strip (List.filter (py_in ''Killed process'') lines))
      else [])"

definition oom_kills :: "probes \<Rightarrow> int option" where
  "oom_kills p = (case (pb_oom_before p, pb_oom_after p) of
     (Some a, Some b) \<Rightarrow> Some (b - a) | _ \<Rightarrow> None)"

definition or_nil :: "('e, 'a list) outcome \<Rightarrow> 'a list" where
  "or_nil r = (case r of Inl _ \<Rightarrow> [] | Inr xs \<Rightarrow> xs)"

definition detect_ok :: "probes \<Rightarrow> bool" where
  "detect_ok p \<longleftrightarrow> (case pb_tagged p of Inl _ \<Rightarrow> False | Inr _ \<Rightarrow> pb_detect p)"

text \<open>An unreadable \<open>cancel.json\<close> is still a cancel, by an unknown requester.\<close>

definition read_intent :: "(string, json option) outcome \<Rightarrow> json" where
  "read_intent r =
     (case r of
        Inl e \<Rightarrow> JObj [(''intent'', JStr ''cancelled''), (''by'', JNull), (''error'', JStr e)]
      | Inr None \<Rightarrow> JNull
      | Inr (Some v) \<Rightarrow> v)"

definition read_exception :: "(string, json option) outcome \<Rightarrow> json" where
  "read_exception r = (case r of Inr (Some v) \<Rightarrow> v | _ \<Rightarrow> JNull)"

definition warning_of :: "string \<Rightarrow> (string, 'a) outcome \<Rightarrow> string list" where
  "warning_of what r = (case r of Inl e \<Rightarrow> [what @ '': '' @ e] | Inr _ \<Rightarrow> [])"

definition probe_warnings :: "probes \<Rightarrow> string list" where
  "probe_warnings p =
     warning_of ''descendant probe failed'' (pb_survivors p)
     @ warning_of ''tagged process sweep failed'' (pb_sweep p)
     @ warning_of ''tagged process probe failed'' (pb_tagged p)
     @ warning_of ''cancel.json unreadable'' (pb_cancel p)
     @ warning_of ''exception.json unreadable'' (pb_exception p)"

text \<open>The end of the loop: the workload's exit, or the error that broke it.\<close>

record run_end =
  en_exit_code :: "int option"
  en_signal :: "int option"
  en_error :: "string option"
  en_term_sent :: bool

definition runner_verdict :: "run_end \<Rightarrow> probes \<Rightarrow> string \<times> string option" where
  "runner_verdict e p =
     (let tagged = or_nil (pb_tagged p); dok = detect_ok p;
          raw = raw_workload (en_error e) (en_exit_code e) (en_signal e) (en_term_sent e)
            (read_intent (pb_cancel p));
          (workload, contain) = classify_workload raw tagged dok;
          contain' = (case (contain, pb_tagged p) of
             (Some c, Inl d) \<Rightarrow> Some (c @ '' ('' @ d @ '')'')
           | (c, _) \<Rightarrow> c)
      in (workload, if en_error e = None then contain' else en_error e))"

text \<open>The names of the signals on Linux.\<close>

definition signal_names :: "(int \<times> string) list" where
  "signal_names =
     [(1, ''SIGHUP''), (2, ''SIGINT''), (3, ''SIGQUIT''), (4, ''SIGILL''), (5, ''SIGTRAP''),
      (6, ''SIGABRT''), (7, ''SIGBUS''), (8, ''SIGFPE''), (9, ''SIGKILL''), (10, ''SIGUSR1''),
      (11, ''SIGSEGV''), (12, ''SIGUSR2''), (13, ''SIGPIPE''), (14, ''SIGALRM''), (15, ''SIGTERM''),
      (16, ''SIGSTKFLT''), (17, ''SIGCHLD''), (18, ''SIGCONT''), (19, ''SIGSTOP''), (20, ''SIGTSTP''),
      (21, ''SIGTTIN''), (22, ''SIGTTOU''), (23, ''SIGURG''), (24, ''SIGXCPU''), (25, ''SIGXFSZ''),
      (26, ''SIGVTALRM''), (27, ''SIGPROF''), (28, ''SIGWINCH''), (29, ''SIGIO''), (30, ''SIGPWR''),
      (31, ''SIGSYS''), (34, ''SIGRTMIN''), (64, ''SIGRTMAX'')]"

definition signal_name :: "int \<Rightarrow> string option" where
  "signal_name n = map_of signal_names n"

record run_facts =
  rf_cli_version :: string
  rf_payload_version :: string
  rf_attempt :: int
  rf_started :: rat
  rf_finished :: rat
  rf_inputs :: "json_obj list"

definition merged :: "int list \<Rightarrow> int list \<Rightarrow> int list" where
  "merged xs ys = sorted_list_of_set (set xs \<union> set ys)"

record verdict_parts =
  vp_workload :: string
  vp_exit_code :: "int option"
  vp_signal :: "int option"
  vp_intent :: json
  vp_exception :: json
  vp_survivors :: "int list"
  vp_tagged :: "int list"
  vp_detect :: bool
  vp_runner_error :: "string option"
  vp_phase :: string
  vp_artifacts :: "json_obj list"
  vp_offload :: string
  vp_offload_error :: "string option"
  vp_oom_kills :: "int option"
  vp_oom_log :: "string list"
  vp_warnings :: "string list"

definition result_payload :: "(rat \<Rightarrow> string) \<Rightarrow> run_facts \<Rightarrow> verdict_parts \<Rightarrow> json_obj" where
  "result_payload sf f v =
     [(''schema_version'', JStr ''2''), (''cli_version'', JStr (rf_cli_version f)),
      (''runtime_payload_version'', JStr (rf_payload_version f)),
      (''workload'', JStr (vp_workload v)), (''exit_code'', jopt JInt (vp_exit_code v)),
      (''signal'', jopt JInt (vp_signal v)),
      (''signal_name'', jopt JStr (Option.bind (vp_signal v) signal_name)),
      (''cancel_intent'', vp_intent v), (''exception'', vp_exception v),
      (''surviving_descendants'', JArr (map JInt (merged (vp_survivors v) (vp_tagged v)))),
      (''survivors_by_pgid'', JArr (map JInt (vp_survivors v))),
      (''survivors_by_job_tag'', JArr (map JInt (vp_tagged v))),
      (''escapee_detection_available'', JBool (vp_detect v)),
      (''runner_error'', jopt JStr (vp_runner_error v)), (''attempt'', JInt (rf_attempt f)),
      (''started_at'', JFloat (rf_started f) (sf (rf_started f))),
      (''finished_at'', JFloat (rf_finished f) (sf (rf_finished f))),
      (''phase'', JStr (vp_phase v)), (''inputs'', JArr (map JObj (rf_inputs f))),
      (''artifacts'', JArr (map JObj (vp_artifacts v))), (''offload'', JStr (vp_offload v)),
      (''offload_error'', jopt JStr (vp_offload_error v)),
      (''oom_kills'', jopt JInt (vp_oom_kills v)), (''oom_log'', JArr (map JStr (vp_oom_log v))),
      (''runner_warnings'', JArr (map JStr (vp_warnings v)))]"

text \<open>The result of a run that got past staging: offload, then the payload.\<close>

definition offload_stage ::
  "'w runner_env \<Rightarrow> string \<Rightarrow> string option \<Rightarrow> (py_error, json) outcome \<Rightarrow> url_map \<Rightarrow> 'w
    \<Rightarrow> (json_obj list \<times> string \<times> string \<times> string option) \<times> 'w" where
  "offload_stage ev job_dir manifest loaded urls w =
     (if or_empty manifest \<noteq> [] then
        (case offload_all ev job_dir manifest loaded urls w of
           ((artifacts, failed, err), w) \<Rightarrow>
             ((artifacts, if failed then ''offload'' else ''run'',
               if failed then ''failed'' else ''ok'', err), w))
      else (([], ''run'', ''not_required'', None), w))"

definition finish_run ::
  "(rat \<Rightarrow> string) \<Rightarrow> 'w runner_env \<Rightarrow> string \<Rightarrow> string option \<Rightarrow> (py_error, json) outcome \<Rightarrow> url_map
    \<Rightarrow> run_facts \<Rightarrow> string list \<Rightarrow> run_end \<Rightarrow> probes \<Rightarrow> 'w \<Rightarrow> json_obj \<times> 'w" where
  "finish_run sf ev job_dir manifest loaded urls f warnings e p w =
     (case runner_verdict e p of
        (workload, err) \<Rightarrow>
          (case offload_stage ev job_dir manifest loaded urls w of
             ((artifacts, ph, status, off_err), w) \<Rightarrow>
               (result_payload sf f
                  \<lparr>vp_workload = workload, vp_exit_code = en_exit_code e, vp_signal = en_signal e,
                   vp_intent = read_intent (pb_cancel p), vp_exception = read_exception (pb_exception p),
                   vp_survivors = or_nil (pb_survivors p), vp_tagged = or_nil (pb_tagged p),
                   vp_detect = detect_ok p, vp_runner_error = err, vp_phase = ph,
                   vp_artifacts = artifacts, vp_offload = status, vp_offload_error = off_err,
                   vp_oom_kills = oom_kills p,
                   vp_oom_log = (case oom_kills p of
                      Some n \<Rightarrow> if n \<noteq> 0 then oom_log (pb_dmesg p) n else [] | None \<Rightarrow> []),
                   vp_warnings = warnings @ probe_warnings p\<rparr>, w)))"

section \<open>A failed staging\<close>

definition stage_traceback_chars :: nat where
  "stage_traceback_chars = 4000"

definition cut_traceback :: "string \<Rightarrow> string" where
  "cut_traceback trace =
     (if stage_traceback_chars < length trace then
        ''[... '' @ show_nat (length trace - stage_traceback_chars)
        @ '' characters omitted; the full traceback is in runner.log ...]'' @ [CHR 0x0A]
        @ last_n stage_traceback_chars trace
      else trace)"

text \<open>A failed input carries its own record; any other error is the runner's setup.\<close>

datatype stage_problem = Failed_Input json_obj | Setup_Problem py_error string

fun problem_text :: "stage_problem \<Rightarrow> string \<times> string \<times> string" where
  "problem_text (Failed_Input r) = (''StageItemError'', stage_item_message r, [])"
| "problem_text (Setup_Problem e trace) =
     (err_type e, redact_credentials (err_type e @ '': '' @ err_msg e),
      cut_traceback (redact_credentials trace))"

definition stage_failure :: "(rat \<Rightarrow> string) \<Rightarrow> bool \<Rightarrow> run_facts \<Rightarrow> stage_problem \<Rightarrow> json_obj" where
  "stage_failure sf can_detect f prob =
     (case problem_text prob of
        (t, message, trace) \<Rightarrow>
          result_payload sf f
            \<lparr>vp_workload = ''failed'', vp_exit_code = Some 1, vp_signal = None, vp_intent = JNull,
             vp_exception = JObj [(''type'', JStr t), (''message'', JStr message),
               (''traceback'', JStr trace)],
             vp_survivors = [], vp_tagged = [], vp_detect = can_detect,
             vp_runner_error = Some message, vp_phase = ''stage'', vp_artifacts = [],
             vp_offload = ''pending'', vp_offload_error = None, vp_oom_kills = None,
             vp_oom_log = [], vp_warnings = []\<rparr>)"

section \<open>Escalation\<close>

definition sent_times :: "job_signal \<Rightarrow> (rat \<times> runner_action) list \<Rightarrow> rat list" where
  "sent_times sig h =
     concat (map (\<lambda>(t, a). case a of Group_Signal g p \<Rightarrow> if g = sig then [t] else [] | _ \<Rightarrow> []) h)"

definition sync_times :: "(rat \<times> runner_action) list \<Rightarrow> rat list" where
  "sync_times h = concat (map (\<lambda>(t, a). case a of Sync_Artifacts \<Rightarrow> [t] | _ \<Rightarrow> []) h)"

lemma sent_times_simps [simp]:
  "sent_times g [] = []"
  "sent_times g (h @ h') = sent_times g h @ sent_times g h'"
  "sent_times g ((t, Group_Signal sig p) # h) = (if sig = g then [t] else []) @ sent_times g h"
  "sent_times g ((t, Tagged_Signal sig ex) # h) = sent_times g h"
  "sent_times g ((t, Cancel_Record d) # h) = sent_times g h"
  "sent_times g ((t, Sync_Artifacts) # h) = sent_times g h"
  by (simp_all add: sent_times_def)

definition wait_inv :: "wait_state \<Rightarrow> (rat \<times> runner_action) list \<Rightarrow> bool" where
  "wait_inv s h \<longleftrightarrow>
     sent_times SIGTERM h = (if ws_term_sent s then [ws_escalate_at s - grace] else [])
     \<and> (ws_kill_sent s \<longrightarrow> ws_term_sent s)
     \<and> (if ws_kill_sent s then \<exists>t. sent_times SIGKILL h = [t] \<and> ws_escalate_at s < t
        else sent_times SIGKILL h = [])"

lemma stop_step_cases:
  assumes "stop_step sf c s k = (acts, s')"
  obtains (terminate) "\<not> ws_term_sent s"
      "s' = s\<lparr>ws_term_sent := True, ws_escalate_at := wk_now k + grace\<rparr>"
      "sent_times SIGTERM (map (Pair (wk_now k)) acts) = [wk_now k]"
      "sent_times SIGKILL (map (Pair (wk_now k)) acts) = []"
  | (kill) "ws_term_sent s" "\<not> ws_kill_sent s" "ws_escalate_at s < wk_now k"
      "s' = s\<lparr>ws_kill_sent := True\<rparr>"
      "sent_times SIGTERM (map (Pair (wk_now k)) acts) = []"
      "sent_times SIGKILL (map (Pair (wk_now k)) acts) = [wk_now k]"
  | (idle) "s' = s" "acts = []"
proof -
  let ?c1 = "\<not> ws_term_sent s \<and> (wk_cancel_exists k \<or> past_deadline c (wk_now k))"
  let ?c2 = "ws_term_sent s \<and> \<not> ws_kill_sent s \<and> ws_escalate_at s < wk_now k"
  consider ?c1 | "\<not> ?c1" ?c2 | "\<not> ?c1" "\<not> ?c2" by blast
  then show ?thesis
  proof cases
    case 1
    then have r: "stop_step sf c s k =
        ((if past_deadline c (wk_now k) \<and> \<not> wk_cancel_exists k
          then [Cancel_Record (cancel_record sf (wk_now k))] else []) @ both_signals c SIGTERM,
         s\<lparr>ws_term_sent := True, ws_escalate_at := wk_now k + grace\<rparr>)"
      unfolding stop_step_def Let_def by (rule if_P)
    show ?thesis by (rule terminate) (use 1 assms r in \<open>auto simp: both_signals_def\<close>)
  next
    case 2
    have r: "stop_step sf c s k = (both_signals c SIGKILL, s\<lparr>ws_kill_sent := True\<rparr>)"
      unfolding stop_step_def Let_def if_not_P [OF 2(1)] by (rule if_P [OF 2(2)])
    show ?thesis by (rule kill) (use 2 assms r in \<open>auto simp: both_signals_def\<close>)
  next
    case 3
    have "stop_step sf c s k = ([], s)"
      unfolding stop_step_def Let_def if_not_P [OF 3(1)] by (rule if_not_P [OF 3(2)])
    with assms show ?thesis by (intro idle) auto
  qed
qed

lemma wait_step_continue:
  assumes "wait_step sf c s k = (acts, Inr s')"
  obtains as s1 where "stop_step sf c s k = (as, s1)"
    "acts = as \<and> s' = s1 \<or> \<not> ws_term_sent s1 \<and> acts = as @ [Sync_Artifacts]
       \<and> s' = s1\<lparr>ws_last_sync := wk_after_sync k\<rparr>"
  using assms
  by (auto simp: wait_step_def sync_due_def split: wait_status.splits prod.splits if_splits)

lemma wait_inv_last_sync [simp]: "wait_inv (s\<lparr>ws_last_sync := x\<rparr>) h \<longleftrightarrow> wait_inv s h"
  by (simp add: wait_inv_def)

lemma wait_inv_sync [simp]: "wait_inv s (h @ [(t, Sync_Artifacts)]) \<longleftrightarrow> wait_inv s h"
  by (simp add: wait_inv_def)

lemma wait_reach_inv: "wait_reach sf c started s h \<Longrightarrow> wait_inv s h"
proof (induction rule: wait_reach.induct)
  case begin_wait
  then show ?case by (simp add: wait_inv_def wait_init_def)
next
  case (step_wait s h k acts s')
  from step_wait.hyps(2) obtain as s1 where st: "stop_step sf c s k = (as, s1)"
    and fin: "acts = as \<and> s' = s1 \<or> \<not> ws_term_sent s1 \<and> acts = as @ [Sync_Artifacts]
       \<and> s' = s1\<lparr>ws_last_sync := wk_after_sync k\<rparr>"
    by (rule wait_step_continue)
  from st have "wait_inv s1 (h @ map (Pair (wk_now k)) as)"
    using step_wait.IH
    by (cases rule: stop_step_cases) (auto simp: wait_inv_def split: if_splits)
  with fin show ?case by (auto simp flip: append_assoc)
qed


text \<open>A workload that ignores the SIGTERM of a cancel seen at second 10.\<close>

definition demo_wait :: "rat \<Rightarrow> wait_tick" where
  "demo_wait now = \<lparr>wk_status = Still_Running, wk_now = now, wk_cancel_exists = True, wk_after_sync = now\<rparr>"

definition demo_wait_config :: wait_config where
  "demo_wait_config = \<lparr>wt_pgid = 42, wt_deadline = None, wt_exclude = [7], wt_sync_interval = None,
     wt_sync_items = False\<rparr>"

definition demo_wait_history :: "(rat \<times> runner_action) list" where
  "demo_wait_history =
     [(10, Group_Signal SIGTERM 42), (10, Tagged_Signal SIGTERM [7]),
      (16, Group_Signal SIGKILL 42), (16, Tagged_Signal SIGKILL [7])]"

lemma demo_wait_reach:
  "wait_reach (\<lambda>_. []) demo_wait_config 0
     \<lparr>ws_term_sent = True, ws_kill_sent = True, ws_escalate_at = 15, ws_last_sync = 0\<rparr> demo_wait_history"
proof -
  have 1: "wait_step (\<lambda>_. []) demo_wait_config (wait_init 0) (demo_wait 10) =
      ([Group_Signal SIGTERM 42, Tagged_Signal SIGTERM [7]],
       Inr \<lparr>ws_term_sent = True, ws_kill_sent = False, ws_escalate_at = 15, ws_last_sync = 0\<rparr>)"
    by (simp add: wait_step_def stop_step_def Let_def demo_wait_def demo_wait_config_def wait_init_def
        both_signals_def sync_due_def past_deadline_def grace_def grace_seconds_def)
  have 2: "wait_step (\<lambda>_. []) demo_wait_config
      \<lparr>ws_term_sent = True, ws_kill_sent = False, ws_escalate_at = 15, ws_last_sync = 0\<rparr> (demo_wait 16) =
      ([Group_Signal SIGKILL 42, Tagged_Signal SIGKILL [7]],
       Inr \<lparr>ws_term_sent = True, ws_kill_sent = True, ws_escalate_at = 15, ws_last_sync = 0\<rparr>)"
    by (simp add: wait_step_def stop_step_def Let_def demo_wait_def demo_wait_config_def
        both_signals_def sync_due_def)
  from wait_reach.step_wait [OF wait_reach.step_wait [OF wait_reach.begin_wait 1] 2]
  show ?thesis by (simp add: demo_wait_history_def demo_wait_def)
qed


section \<open>What success means\<close>

text \<open>
  C2. The runner reports success only with containment: exit code 0, no signal,
  no accepted cancel it acted on, and a sweep for tagged processes that could
  look and found none.  (A cancel the runner itself had not acted on when the
  workload exited 0 does not prevent it.)
\<close>

theorem runner_succeeds_iff:
  "fst (runner_verdict e p) = ''succeeded'' \<longleftrightarrow>
     en_exit_code e = Some 0 \<and> en_signal e = None
     \<and> (en_term_sent e \<and> truthy (read_intent (pb_cancel p))) = False
     \<and> pb_detect p \<and> pb_tagged p = Inr []"
  by (auto simp: runner_verdict_def raw_workload_def classify_workload_def Let_def detect_ok_def
      or_nil_def split: sum.splits prod.splits if_splits)

text \<open>
  Launching is idempotent: while the process that wrote \<open>launch.json\<close> is
  alive, a second launch is the duplicate that starts nothing; once it is gone,
  or its pid belongs to another process, the record is stale and replaced.
\<close>

theorem launch_idempotent:
  "launch_decision vm (Some (JObj (launch_record sf vm0 pgid attempt deadline started))) =
     (if alive vm (vm_self vm0) (starttime vm0 (vm_self vm0)) (boot_id vm0)
      then Launch_Duplicate else Launch_Stale)"
  by (simp add: launch_decision_def launch_record_def)

lemma jget_result_workload [simp]:
  "jget (result_payload sf f v) ''workload'' = JStr (vp_workload v)"
  "jget (result_payload sf f v) ''exit_code'' = jopt JInt (vp_exit_code v)"
  "jget (result_payload sf f v) ''signal'' = jopt JInt (vp_signal v)"
  "jget (result_payload sf f v) ''phase'' = JStr (vp_phase v)"
  "jget (result_payload sf f v) ''offload'' = JStr (vp_offload v)"
  "jget (result_payload sf f v) ''offload_error'' = jopt JStr (vp_offload_error v)"
  "jget (result_payload sf f v) ''cancel_intent'' = vp_intent v"
  "jget (result_payload sf f v) ''exception'' = vp_exception v"
  "jget (result_payload sf f v) ''surviving_descendants''
     = JArr (map JInt (merged (vp_survivors v) (vp_tagged v)))"
  "jget (result_payload sf f v) ''survivors_by_job_tag'' = JArr (map JInt (vp_tagged v))"
  "jget (result_payload sf f v) ''inputs'' = JArr (map JObj (rf_inputs f))"
  "jget (result_payload sf f v) ''artifacts'' = JArr (map JObj (vp_artifacts v))"
  "jget (result_payload sf f v) ''oom_kills'' = jopt JInt (vp_oom_kills v)"
  "jget (result_payload sf f v) ''oom_log'' = JArr (map JStr (vp_oom_log v))"
  "jget (result_payload sf f v) ''runner_error'' = jopt JStr (vp_runner_error v)"
  "jget (result_payload sf f v) ''runner_warnings'' = JArr (map JStr (vp_warnings v))"
  "jget (result_payload sf f v) ''schema_version'' = JStr ''2''"
  "jget (result_payload sf f v) ''runtime_payload_version'' = JStr (rf_payload_version f)"
  by (simp_all add: result_payload_def)

end
