(* ===== verification/IsoTime.thy ===== *)
theory IsoTime
  imports PyValue
begin

text \<open>
  The times the sources write: \<open>datetime.fromtimestamp(epoch, utc).isoformat()\<close>
  and, of \<open>datetime.fromisoformat\<close>, the texts that \<open>isoformat\<close> writes for a UTC
  time.  A moment is its number of microseconds since 1970-01-01T00:00:00Z.
\<close>

section \<open>The calendar\<close>

text \<open>The date of a day counted from 1970-01-01, by 400-year eras from 0000-03-01.\<close>

definition civil_of_days :: "int \<Rightarrow> int \<times> int \<times> int" where
  "civil_of_days days =
     (let z = days + 719468;
          era = z div 146097;
          doe = z mod 146097;
          yoe = (doe - doe div 1460 + doe div 36524 - doe div 146096) div 365;
          doy = doe - (365 * yoe + yoe div 4 - yoe div 100);
          mp = (5 * doy + 2) div 153;
          d = doy - (153 * mp + 2) div 5 + 1;
          m = (if mp < 10 then mp + 3 else mp - 9);
          y = yoe + era * 400 + (if m \<le> 2 then 1 else 0)
      in (y, m, d))"

definition days_of_civil :: "int \<Rightarrow> int \<Rightarrow> int \<Rightarrow> int" where
  "days_of_civil y m d =
     (let y' = (if m \<le> 2 then y - 1 else y);
          era = y' div 400;
          yoe = y' mod 400;
          doy = (153 * (if 2 < m then m - 3 else m + 9) + 2) div 5 + d - 1;
          doe = yoe * 365 + yoe div 4 - yoe div 100 + doy
      in era * 146097 + doe - 719468)"

definition leap_year :: "int \<Rightarrow> bool" where
  "leap_year y \<longleftrightarrow> y mod 4 = 0 \<and> (y mod 100 \<noteq> 0 \<or> y mod 400 = 0)"

definition days_in_month :: "int \<Rightarrow> int \<Rightarrow> int" where
  "days_in_month y m =
     (if m = 2 then (if leap_year y then 29 else 28) else if m \<in> {4, 6, 9, 11} then 30 else 31)"

section \<open>isoformat\<close>

definition pad_left :: "nat \<Rightarrow> string \<Rightarrow> string" where
  "pad_left n s = replicate (n - length s) (CHR ''0'') @ s"

definition iso_utc :: "int \<Rightarrow> string" where
  "iso_utc us =
     (let secs = us div 1000000; frac = us mod 1000000;
          day = secs div 86400; s = secs mod 86400
      in case civil_of_days day of
           (y, m, d) \<Rightarrow>
             pad_left 4 (show_int y) @ ''-'' @ pad_left 2 (show_int m) @ ''-'' @ pad_left 2 (show_int d)
             @ ''T'' @ pad_left 2 (show_int (s div 3600)) @ '':''
             @ pad_left 2 (show_int (s div 60 mod 60)) @ '':'' @ pad_left 2 (show_int (s mod 60))
             @ (if frac = 0 then [] else ''.'' @ pad_left 6 (show_int frac)) @ ''+00:00'')"

text \<open>\<open>fromtimestamp(epoch, utc).isoformat()\<close>, or the exception for a time out of range.\<close>

definition iso_of_epoch :: "rat \<Rightarrow> (py_error, string) outcome" where
  "iso_of_epoch epoch =
     (let us = py_round (epoch * 1000000); y = fst (civil_of_days (us div 86400000000)) in
      if 2 ^ 63 \<le> \<bar>epoch\<bar> then
        Inl \<lparr>err_type = ''OverflowError'', err_msg = ''timestamp out of range for platform time_t''\<rparr>
      else if y < 1 \<or> 9999 < y then
        Inl \<lparr>err_type = ''ValueError'', err_msg = ''year '' @ show_int y @ '' is out of range''\<rparr>
      else Inr (iso_utc us))"

section \<open>fromisoformat\<close>

definition digits_at :: "string \<Rightarrow> nat \<Rightarrow> nat \<Rightarrow> int option" where
  "digits_at s i n =
     (let t = take n (drop i s) in
      if length t = n \<and> list_all is_digit t then Some (int (digits_value 0 t)) else None)"

definition mark_at :: "string \<Rightarrow> nat \<Rightarrow> string \<Rightarrow> bool" where
  "mark_at s i mark = (take (length mark) (drop i s) = mark)"

definition from_iso :: "string \<Rightarrow> int option" where
  "from_iso s =
     (case (digits_at s 0 4, digits_at s 5 2, digits_at s 8 2,
            digits_at s 11 2, digits_at s 14 2, digits_at s 17 2) of
        (Some y, Some m, Some d, Some hh, Some mm, Some ss) \<Rightarrow>
          (let frac = (if drop 19 s = ''+00:00'' then Some 0
                       else if mark_at s 19 ''.'' \<and> drop 26 s = ''+00:00'' then digits_at s 20 6
                       else None)
           in if mark_at s 4 ''-'' \<and> mark_at s 7 ''-'' \<and> mark_at s 10 ''T'' \<and> mark_at s 13 '':''
                 \<and> mark_at s 16 '':'' \<and> 1 \<le> y \<and> 1 \<le> m \<and> m \<le> 12 \<and> 1 \<le> d \<and> d \<le> days_in_month y m
                 \<and> hh < 24 \<and> mm < 60 \<and> ss < 60
              then map_option (\<lambda>f. (days_of_civil y m d * 86400 + hh * 3600 + mm * 60 + ss) * 1000000 + f) frac
              else None)
      | _ \<Rightarrow> None)"

section \<open>The calendar inverts\<close>

lemma era_bounds:
  fixes doe :: int
  assumes "0 \<le> doe" "doe < 146097"
  defines "yoe \<equiv> (doe - doe div 1460 + doe div 36524 - doe div 146096) div 365"
  shows "0 \<le> yoe \<and> yoe < 400 \<and> 0 \<le> doe - (365 * yoe + yoe div 4 - yoe div 100)
    \<and> doe - (365 * yoe + yoe div 4 - yoe div 100) \<le> 365
    \<and> (doe - (365 * yoe + yoe div 4 - yoe div 100) = 365 \<longrightarrow> leap_year (yoe + 1))"
proof (cases "doe = 146096")
  case True
  then show ?thesis by (simp add: yoe_def leap_year_def)
next
  case False
  define b where "b = doe div 36524"
  define r where "r = doe mod 36524"
  define k where "k = (24 * b + r) div 1460"
  define y where "y = (r - k) div 365"
  have b: "0 \<le> b" "b \<le> 3" using assms False unfolding b_def by linarith+
  have r: "0 \<le> r" "r < 36524" by (simp_all add: r_def)
  have doe: "doe = 36524 * b + r" by (simp add: b_def r_def)
  have "doe < 146096" using assms False by simp
  then have c: "doe div 146096 = 0" using assms by (simp add: div_pos_pos_trivial)
  have "doe = (24 * b + r) + (25 * b) * 1460" using doe by simp
  then have a: "doe div 1460 = 25 * b + k" unfolding k_def by (metis add.commute div_mult_self1 zero_neq_numeral)
  have k: "0 \<le> k" "k \<le> 25" "1460 * k \<le> 24 * b + r" "24 * b + r < 1460 * k + 1460" using b r unfolding k_def by linarith+
  have "doe - doe div 1460 + doe div 36524 - doe div 146096 = (r - k) + (100 * b) * 365"
    unfolding a c b_def [symmetric] using doe by simp
  then have yoe: "yoe = 100 * b + y" unfolding yoe_def y_def by (metis add.commute div_mult_self1 zero_neq_numeral)
  have y: "365 * y \<le> r - k" "r - k < 365 * y + 365" unfolding y_def by linarith+
  have y0: "0 \<le> y" "y \<le> 99" using y r k b by linarith+
  define q where "q = y div 4"
  have q: "4 * q \<le> y" "y < 4 * q + 4" unfolding q_def by linarith+
  have "1460 * q < 1460 * k + 1460" "1460 * k < 1460 * q + 2920" using q y k b r by linarith+
  then have qk: "q \<le> k" "k \<le> q + 1" by linarith+
  have "yoe = (y + b * 100)" using yoe by simp
  then have h: "yoe div 100 = b" using y0 by (simp add: div_pos_pos_trivial)
  have "yoe = y + (25 * b) * 4" using yoe by simp
  then have d4: "yoe div 4 = 25 * b + q" unfolding q_def by (metis add.commute div_mult_self1 zero_neq_numeral)
  have "leap_year (yoe + 1)" if "doe - (365 * yoe + yoe div 4 - yoe div 100) = 365"
  proof -
    have l: "r - 365 * y - q = 365" using that unfolding h d4 unfolding doe yoe by simp
    then have kq: "k = q + 1" using y qk by linarith
    have "r = 365 * y + q + 365" using l by simp
    then have "1095 \<le> 365 * (y - 4 * q) + 96" using k b unfolding kq by simp
    then have "2 < y - 4 * q" by presburger
    then have y3: "y = 4 * q + 3" using q by linarith
    have "y \<noteq> 99" using l r y3 by linarith
    then have "(y + 1) mod 100 = y + 1" using y0 by (simp add: mod_pos_pos_trivial)
    then have "(yoe + 1) mod 100 = y + 1" using mod_mult_self1 [of "y + 1" b 100] yoe by (simp add: algebra_simps)
    moreover have "(yoe + 1) mod 4 = 0" using yoe y3 by presburger
    ultimately show ?thesis using y0 by (simp add: leap_year_def)
  qed
  moreover have "0 \<le> yoe \<and> yoe < 400 \<and> 0 \<le> doe - (365 * yoe + yoe div 4 - yoe div 100)
      \<and> doe - (365 * yoe + yoe div 4 - yoe div 100) \<le> 365"
    unfolding h d4 unfolding doe yoe using b y0 y q qk k r by auto
  ultimately show ?thesis by blast
qed

lemma days_of_civil_of_days: "(case civil_of_days z of (y, m, d) \<Rightarrow> days_of_civil y m d) = z"
proof -
  define days era doe where "days = z + 719468" and "era = days div 146097" and "doe = days mod 146097"
  define yoe where "yoe = (doe - doe div 1460 + doe div 36524 - doe div 146096) div 365"
  define doy where "doy = doe - (365 * yoe + yoe div 4 - yoe div 100)"
  define mp where "mp = (5 * doy + 2) div 153"
  have "0 \<le> doe" "doe < 146097" by (simp_all add: doe_def)
  note bounds = era_bounds [OF this, folded yoe_def, folded doy_def]
  have mp: "0 \<le> mp" "mp \<le> 11" using bounds unfolding mp_def by linarith+
  have yoe: "(yoe + era * 400) div 400 = era" "(yoe + era * 400) mod 400 = yoe" using bounds by simp_all
  define m where "m = (if mp < 10 then mp + 3 else mp - 9)"
  define d where "d = doy - (153 * mp + 2) div 5 + 1"
  have c: "civil_of_days z = (yoe + era * 400 + (if m \<le> 2 then 1 else 0), m, d)"
    unfolding civil_of_days_def Let_def m_def d_def mp_def doy_def yoe_def era_def doe_def days_def by (rule refl)
  have m: "(if m \<le> 2 then 1 else 0) = (if mp < 10 then 0 else 1 :: int)"
    "(if 2 < m then m - 3 else m + 9) = mp" using mp by (simp_all add: m_def)
  have "days_of_civil (yoe + era * 400 + (if m \<le> 2 then 1 else 0)) m d
      = era * 146097 + (yoe * 365 + yoe div 4 - yoe div 100 + ((153 * mp + 2) div 5 + d - 1)) - 719468"
    unfolding days_of_civil_def Let_def m(2)
    by (cases "m \<le> 2") (simp_all only: if_True if_False yoe add_diff_cancel_right' add_0_right)
  also have "\<dots> = era * 146097 + doe - 719468" by (simp add: d_def doy_def)
  also have "\<dots> = z" by (simp add: era_def doe_def days_def)
  finally show ?thesis by (simp add: c)
qed

lemma civil_of_days_valid:
  assumes "civil_of_days z = (y, m, d)"
  shows "1 \<le> m \<and> m \<le> 12 \<and> 1 \<le> d \<and> d \<le> days_in_month y m"
proof -
  define days era doe where "days = z + 719468" and "era = days div 146097" and "doe = days mod 146097"
  define yoe where "yoe = (doe - doe div 1460 + doe div 36524 - doe div 146096) div 365"
  define doy where "doy = doe - (365 * yoe + yoe div 4 - yoe div 100)"
  define mp where "mp = (5 * doy + 2) div 153"
  have "0 \<le> doe" "doe < 146097" by (simp_all add: doe_def)
  note bounds = era_bounds [OF this, folded yoe_def, folded doy_def]
  have mp: "0 \<le> mp" "mp \<le> 11" "153 * mp \<le> 5 * doy + 2" "5 * doy + 2 < 153 * mp + 153"
    using bounds unfolding mp_def by linarith+
  define m' where "m' = (if mp < 10 then mp + 3 else mp - 9)"
  define d' where "d' = doy - (153 * mp + 2) div 5 + 1"
  define y' where "y' = yoe + era * 400 + (if m' \<le> 2 then 1 else 0)"
  have "civil_of_days z = (y', m', d')"
    unfolding civil_of_days_def Let_def y'_def m'_def d'_def mp_def doy_def yoe_def era_def doe_def days_def by (rule refl)
  with assms have e: "y = y'" "m = m'" "d = d'" by simp_all
  have leap: "leap_year (yoe + era * 400 + 1) \<longleftrightarrow> leap_year (yoe + 1)"
  proof -
    have "(yoe + era * 400 + 1) mod 4 = (yoe + 1) mod 4" using mod_mult_self1 [of "yoe + 1" "era * 100" 4] by (simp add: algebra_simps)
    moreover have "(yoe + era * 400 + 1) mod 100 = (yoe + 1) mod 100" using mod_mult_self1 [of "yoe + 1" "era * 4" 100] by (simp add: algebra_simps)
    moreover have "(yoe + era * 400 + 1) mod 400 = (yoe + 1) mod 400" using mod_mult_self1 [of "yoe + 1" era 400] by (simp add: algebra_simps)
    ultimately show ?thesis by (simp only: leap_year_def)
  qed
  have "d' \<le> days_in_month y' m'"
  proof (cases "mp = 11")
    case True
    then have "m' = 2" "y' = yoe + era * 400 + 1" "d' = doy - 336" by (simp_all add: m'_def y'_def d'_def)
    moreover have "doy \<le> (if leap_year (yoe + 1) then 365 else 364)" using bounds by (cases "doy = 365") auto
    ultimately show ?thesis by (simp add: days_in_month_def leap split: if_splits)
  next
    case False
    have "days_in_month y' m' = (if mp \<in> {1, 3, 6, 8} then 30 else 31)"
      using mp(1,2) False by (auto simp: days_in_month_def m'_def)
    moreover have "mp \<in> {0, 1, 2, 3, 4, 5, 6, 7, 8, 9, 10}" using mp(1,2) False by simp presburger
    ultimately show ?thesis using mp(4) unfolding d'_def by (elim insertE emptyE) simp_all
  qed
  moreover have "1 \<le> d'" using mp(3) unfolding d'_def by linarith
  moreover have "1 \<le> m' \<and> m' \<le> 12" using mp(1,2) by (simp add: m'_def)
  ultimately show ?thesis by (simp add: e)
qed

section \<open>The text reads back\<close>

lemma length_show_nat: "n < 10 ^ k \<Longrightarrow> 0 < k \<Longrightarrow> length (show_nat n) \<le> k"
proof (induction n arbitrary: k rule: show_nat.induct)
  case (1 n)
  show ?case
  proof (cases "n < 10")
    case True
    then show ?thesis using "1.prems"(2) by (subst show_nat.simps) simp
  next
    case False
    obtain j where j: "k = Suc j" using "1.prems"(2) by (cases k) auto
    with False "1.prems"(1) have "0 < j" "n div 10 < 10 ^ j" by (cases j, auto)
    with "1.IH" [OF False] have "length (show_nat (n div 10)) \<le> j" by blast
    then show ?thesis using False j by (subst show_nat.simps) simp
  qed
qed

lemma digits_value_zeros: "digits_value 0 (replicate n (CHR ''0'') @ s) = digits_value 0 s"
  by (induction n) (simp_all add: code_def)

text \<open>A field of the text: \<open>n\<close> digits that say \<open>x\<close>.\<close>

definition field_text :: "nat \<Rightarrow> int \<Rightarrow> string \<Rightarrow> bool" where
  "field_text n x t \<longleftrightarrow> length t = n \<and> list_all is_digit t \<and> int (digits_value 0 t) = x"

lemma pad_left_field: "0 \<le> x \<Longrightarrow> x < 10 ^ n \<Longrightarrow> 0 < n \<Longrightarrow> field_text n x (pad_left n (show_int x))"
proof -
  assume x: "0 \<le> x" "x < 10 ^ n" "0 < n"
  then have "nat x < 10 ^ n" by (simp add: nat_less_iff)
  then have "length (show_nat (nat x)) \<le> n" using x(3) by (rule length_show_nat)
  moreover have "is_digit (CHR ''0'')" by (simp add: is_digit_def code_def)
  ultimately show ?thesis
    using x show_nat_digits [of "nat x"]
    by (auto simp: field_text_def pad_left_def show_int_def list_all_iff digits_value_zeros digits_value_show)
qed

lemma digits_at_field:
  "field_text n x t \<Longrightarrow> length pre = i \<Longrightarrow> digits_at (pre @ t @ rest) i n = Some x"
  by (simp add: digits_at_def field_text_def)

lemma mark_at_append: "length pre = i \<Longrightarrow> mark_at (pre @ mark @ rest) i mark"
  by (simp add: mark_at_def)

lemma from_iso_fields:
  assumes f: "field_text 4 y ty" "field_text 2 m tm" "field_text 2 d td" "field_text 2 hh th"
      "field_text 2 mm ti" "field_text 2 ss ts"
    and v: "1 \<le> y" "1 \<le> m" "m \<le> 12" "1 \<le> d" "d \<le> days_in_month y m" "hh < 24" "mm < 60" "ss < 60"
    and tail: "tail = (if fr = 0 then [] else ''.'' @ tf)" "field_text 6 fr tf"
  shows "from_iso (ty @ ''-'' @ tm @ ''-'' @ td @ ''T'' @ th @ '':'' @ ti @ '':'' @ ts @ tail @ ''+00:00'')
     = Some ((days_of_civil y m d * 86400 + hh * 3600 + mm * 60 + ss) * 1000000 + fr)"
proof -
  let ?s = "ty @ ''-'' @ tm @ ''-'' @ td @ ''T'' @ th @ '':'' @ ti @ '':'' @ ts @ tail @ ''+00:00''"
  have len: "length ty = 4" "length tm = 2" "length td = 2" "length th = 2" "length ti = 2" "length ts = 2"
    "length tf = 6"
    using f tail(2) by (simp_all add: field_text_def)
  have d: "digits_at ?s 0 4 = Some y" "digits_at ?s 5 2 = Some m" "digits_at ?s 8 2 = Some d"
    "digits_at ?s 11 2 = Some hh" "digits_at ?s 14 2 = Some mm" "digits_at ?s 17 2 = Some ss"
    using digits_at_field [OF f(1), of "[]" 0] digits_at_field [OF f(2), of "ty @ ''-''" 5]
      digits_at_field [OF f(3), of "ty @ ''-'' @ tm @ ''-''" 8]
      digits_at_field [OF f(4), of "ty @ ''-'' @ tm @ ''-'' @ td @ ''T''" 11]
      digits_at_field [OF f(5), of "ty @ ''-'' @ tm @ ''-'' @ td @ ''T'' @ th @ '':''" 14]
      digits_at_field [OF f(6), of "ty @ ''-'' @ tm @ ''-'' @ td @ ''T'' @ th @ '':'' @ ti @ '':''" 17]
    by (simp_all add: len)
  have m: "mark_at ?s 4 ''-''" "mark_at ?s 7 ''-''" "mark_at ?s 10 ''T''" "mark_at ?s 13 '':''" "mark_at ?s 16 '':''"
    using mark_at_append [of ty 4 "''-''"] mark_at_append [of "ty @ ''-'' @ tm" 7 "''-''"]
      mark_at_append [of "ty @ ''-'' @ tm @ ''-'' @ td" 10 "''T''"]
      mark_at_append [of "ty @ ''-'' @ tm @ ''-'' @ td @ ''T'' @ th" 13 "'':''"]
      mark_at_append [of "ty @ ''-'' @ tm @ ''-'' @ td @ ''T'' @ th @ '':'' @ ti" 16 "'':''"]
    by (simp_all add: len)
  have "drop 19 ?s = tail @ ''+00:00''"
    using append_eq_conv_conj [of "ty @ ''-'' @ tm @ ''-'' @ td @ ''T'' @ th @ '':'' @ ti @ '':'' @ ts"
        "tail @ ''+00:00''" ?s] by (simp add: len)
  moreover have "fr \<noteq> 0 \<Longrightarrow> mark_at ?s 19 ''.'' \<and> drop 26 ?s = ''+00:00'' \<and> digits_at ?s 20 6 = Some fr"
    using mark_at_append [of "ty @ ''-'' @ tm @ ''-'' @ td @ ''T'' @ th @ '':'' @ ti @ '':'' @ ts" 19 "''.''"]
      digits_at_field [OF tail(2), of "ty @ ''-'' @ tm @ ''-'' @ td @ ''T'' @ th @ '':'' @ ti @ '':'' @ ts @ ''.''" 20]
      append_eq_conv_conj [of "ty @ ''-'' @ tm @ ''-'' @ td @ ''T'' @ th @ '':'' @ ti @ '':'' @ ts @ tail" "''+00:00''" ?s]
    by (simp add: len tail(1))
  ultimately show ?thesis
    using d m v tail(1) unfolding from_iso_def by (cases "fr = 0") (simp_all add: Let_def)
qed

text \<open>
  Every time the sources write reads back as itself: the ISO text of an epoch
  time, to the microsecond, is parsed to the moment it was written for.
\<close>

theorem iso_round_trip:
  "case iso_of_epoch epoch of Inl _ \<Rightarrow> True | Inr s \<Rightarrow> from_iso s = Some (py_round (epoch * 1000000))"
proof (cases "iso_of_epoch epoch")
  case (Inr s)
  define us where "us = py_round (epoch * 1000000)"
  define secs fr where "secs = us div 1000000" and "fr = us mod 1000000"
  define day t where "day = secs div 86400" and "t = secs mod 86400"
  obtain y m d where c: "civil_of_days day = (y, m, d)" by (cases "civil_of_days day")
  have "us div 86400000000 = day" by (simp add: day_def secs_def zdiv_zmult2_eq [symmetric])
  with Inr c have y: "1 \<le> y" "y \<le> 9999" and s: "s = iso_utc us"
    by (auto simp: iso_of_epoch_def us_def [symmetric] Let_def split: if_splits)
  note valid = civil_of_days_valid [OF c]
  have "days_in_month y m \<le> 31" by (simp add: days_in_month_def)
  moreover have t: "0 \<le> t" "t < 86400" "0 \<le> fr" "fr < 1000000" by (simp_all add: t_def fr_def)
  ultimately have "from_iso s = Some ((days_of_civil y m d * 86400 + t div 3600 * 3600 + t div 60 mod 60 * 60 + t mod 60)
      * 1000000 + fr)"
    unfolding s iso_utc_def Let_def secs_def [symmetric] fr_def [symmetric] day_def [symmetric] t_def [symmetric] c prod.case
    using y valid
    by (intro from_iso_fields [where tf = "pad_left 6 (show_int fr)"] pad_left_field refl) simp_all
  also have "days_of_civil y m d = day" using days_of_civil_of_days [of day] by (simp add: c)
  finally have whole: "from_iso s = Some ((day * 86400 + t div 3600 * 3600 + t div 60 mod 60 * 60 + t mod 60)
      * 1000000 + fr)" .
  have parts: "t div 3600 * 3600 + t div 60 mod 60 * 60 + t mod 60 = t"
  proof -
    have "t div 3600 = t div 60 div 60" by (simp add: zdiv_zmult2_eq [symmetric])
    moreover have "a * 3600 + b * 60 + c = (a * 60 + b) * 60 + c" for a b c :: int by simp
    ultimately show ?thesis by (simp only: div_mult_mod_eq)
  qed
  have "day * 86400 + t = secs" "secs * 1000000 + fr = us" by (simp_all add: day_def t_def secs_def fr_def)
  then show ?thesis using Inr whole parts by (simp add: us_def [symmetric] add.assoc)
qed simp

end
