(* ===== verification/Absorb.thy ===== *)
theory Absorb
  imports Verdict IsoTime Supervision
begin

text \<open>
  \<open>absorb_result\<close> of \<open>job/orchestrator.py\<close>: the runner's \<open>result.json\<close> becomes the
  envelope's verdict, or raises and changes nothing.  The result is the JSON
  object as read, of whatever shape; the parts of it that pydantic validates are
  the record \<open>pydantic\<close> of parameters.
\<close>

section \<open>What pydantic makes of a value\<close>

text \<open>
  \<open>InputResult(**d)\<close>, \<open>ArtifactResult(**d)\<close>, and the fields that
  \<open>JobEnvelope.model_validate\<close> sees as the result gave them: \<open>exit_code\<close>,
  \<open>signal\<close>, \<open>exception\<close> and \<open>surviving_descendants\<close>.
\<close>

record raw_run =
  raw_exit_code :: json
  raw_signal :: json
  raw_exception :: json
  raw_survivors :: json

record run_values =
  run_exit :: "int option"
  run_signal :: "int option"
  run_exception :: "(string \<times> string) list option"
  run_survivors :: "int list"

record pydantic =
  pd_input :: "json_obj \<Rightarrow> (py_error, input_result) outcome"
  pd_artifact :: "json_obj \<Rightarrow> (py_error, artifact_result) outcome"
  pd_run :: "raw_run \<Rightarrow> (py_error, run_values) outcome"

section \<open>Python operations on the result's fields\<close>

definition exc :: "string \<Rightarrow> string \<Rightarrow> py_error" where
  "exc t m = \<lparr>err_type = t, err_msg = m\<rparr>"

definition quoted :: "string \<Rightarrow> string" where
  "quoted s = [CHR 0x27] @ s @ [CHR 0x27]"

text \<open>\<open>for x in v\<close> and \<open>len(v)\<close> over a truthy value.\<close>

fun py_iter :: "json \<Rightarrow> (py_error, json list) outcome" where
  "py_iter (JArr xs) = Inr xs"
| "py_iter (JStr s) = Inr (map (\<lambda>c. JStr [c]) s)"
| "py_iter (JObj d) = Inr (map (\<lambda>(k, _). JStr k) d)"
| "py_iter v = Inl (exc ''TypeError'' (quoted (type_name v) @ '' object is not iterable''))"

fun py_len :: "json \<Rightarrow> (py_error, nat) outcome" where
  "py_len (JArr xs) = Inr (length xs)"
| "py_len (JStr s) = Inr (length s)"
| "py_len (JObj d) = Inr (length d)"
| "py_len v = Inl (exc ''TypeError''
     (''object of type '' @ quoted (type_name v) @ '' has no len()''))"

text \<open>\<open>v or []\<close>\<close>

definition or_empty_list :: "json \<Rightarrow> json" where
  "or_empty_list v = (if truthy v then v else JArr [])"

text \<open>\<open>[Model(**item) for item in (v or [])]\<close>\<close>

definition model_list ::
  "string \<Rightarrow> (json_obj \<Rightarrow> (py_error, 'a) outcome) \<Rightarrow> json \<Rightarrow> (py_error, 'a list) outcome" where
  "model_list name build v =
     and_then (py_iter (or_empty_list v))
       (each_ok (\<lambda>item. case item of
            JObj d \<Rightarrow> build d
          | _ \<Rightarrow> Inl (exc ''TypeError''
              (''colab_cli.job.models.'' @ name @ ''() argument after ** must be a mapping, not ''
               @ type_name item))))"

text \<open>\<open>_vm_time\<close>\<close>

fun vm_time :: "json \<Rightarrow> (py_error, string option) outcome" where
  "vm_time (JInt i) = and_then (iso_of_epoch (of_int i)) (\<lambda>s. Inr (Some s))"
| "vm_time (JFloat r t) = and_then (iso_of_epoch r) (\<lambda>s. Inr (Some s))"
| "vm_time _ = Inr None"

text \<open>\<open>Workload(v)\<close>\<close>

definition parse_workload :: "json \<Rightarrow> (py_error, workload) outcome" where
  "parse_workload v =
     (case Option.bind (as_str v) workload_of of
        Some x \<Rightarrow> Inr x
      | None \<Rightarrow> Inl (exc ''ValueError'' (repr v @ '' is not a valid Workload'')))"

section \<open>Provenance and phase\<close>

text \<open>\<open>absorb_provenance\<close>\<close>

definition text_field :: "json_obj \<Rightarrow> string \<Rightarrow> (py_error, string) outcome" where
  "text_field result name =
     (case as_str (jget result name) of
        Some s \<Rightarrow> if s \<noteq> [] then Inr s
                   else Inl (exc ''ValueError'' (''schema 2 result has invalid '' @ name))
      | None \<Rightarrow> Inl (exc ''ValueError'' (''schema 2 result has invalid '' @ name)))"

definition absorb_provenance :: "json_obj \<Rightarrow> job_envelope \<Rightarrow> (py_error, job_envelope) outcome" where
  "absorb_provenance result env =
     (let schema = jget_or result ''schema_version'' (JStr ''1'') in
      if as_list schema \<noteq> None \<or> as_obj schema \<noteq> None then
        Inl (exc ''TypeError'' (''unhashable type: '' @ quoted (type_name schema)))
      else if schema = JStr ''1'' then Inr env
      else if schema = JStr ''2'' then
        and_then (text_field result ''cli_version'') (\<lambda>cli.
        and_then (text_field result ''runtime_payload_version'') (\<lambda>payload.
        Inr (env\<lparr>env_cli_version := cli, env_runtime_payload_version := payload,
          env_schema_version := ''2''\<rparr>)))
      else Inl (exc ''ValueError'' (''unsupported result schema: '' @ repr schema)))"

definition absorb_phase :: "json_obj \<Rightarrow> job_envelope \<Rightarrow> job_envelope" where
  "absorb_phase result env =
     (let v = jget result ''phase'' in
      if truthy v then
        (case Option.bind (as_str v) phase_of of
           Some p \<Rightarrow> env\<lparr>env_phase := p\<rparr>
         | None \<Rightarrow> env\<lparr>env_hints := env_hints env
             @ [''the runner reported phase '' @ repr v
                @ '', which this CLI does not know; phase left as it was'']\<rparr>)
      else env)"

section \<open>Verdict and hints\<close>

text \<open>A stage failure: the consumer never ran and nothing was uploaded.\<close>

definition stage_failed :: "job_envelope \<Rightarrow> bool" where
  "stage_failed env \<longleftrightarrow> env_phase env = P_Stage \<and> env_workload env = W_Failed"

definition joined_reason :: "string option list \<Rightarrow> string option" where
  "joined_reason rs =
     (let parts = List.filter (\<lambda>r. r \<noteq> []) (concat (map (\<lambda>r. case r of None \<Rightarrow> [] | Some s \<Rightarrow> [s]) rs))
      in if join ''; '' parts = [] then None else Some (join ''; '' parts))"

definition or_class :: "retry_class option \<Rightarrow> retry_class option \<Rightarrow> retry_class option" where
  "or_class a b = (case a of None \<Rightarrow> b | Some c \<Rightarrow> Some c)"

definition absorb_offload ::
  "job_spec \<Rightarrow> json_obj \<Rightarrow> job_envelope \<Rightarrow> offload \<times> string option \<times> retry_class option" where
  "absorb_offload spec result env =
     (if sp_artifacts spec = [] then (O_Not_Required, None, None)
      else if stage_failed env then (O_Skipped, None, None)
      else offload_outcome (sp_artifacts spec) (env_artifacts env)
             (jget result ''offload'') (jget result ''offload_error''))"

definition absorb_verdict ::
  "job_spec \<Rightarrow> json_obj \<Rightarrow> json \<Rightarrow> job_envelope \<Rightarrow> (py_error, job_envelope) outcome" where
  "absorb_verdict spec result exn env =
     (case absorb_offload spec result env of
        (off, off_reason, off_class) \<Rightarrow>
          if stage_failed env then
            (case stage_outcome (env_inputs env) exn of
               (why, class) \<Rightarrow> Inr (record_failure P_Stage
                 (env\<lparr>env_offload := off, env_reason := Some why, env_retry_class := Some class\<rparr>)))
          else
            and_then (workload_outcome result (bud_wall_clock (sp_budgets spec))) (\<lambda>(w_reason, w_class).
              (let e = env\<lparr>env_offload := off, env_reason := joined_reason [w_reason, off_reason],
                     env_retry_class := or_class w_class off_class\<rparr>
               in Inr (if w_class \<noteq> None then record_failure P_Run e
                       else if off = O_Failed then record_failure P_Offload e else e))))"

definition add_hint :: "string \<Rightarrow> job_envelope \<Rightarrow> job_envelope" where
  "add_hint h env = (if h \<in> set (env_hints env) then env else env\<lparr>env_hints := env_hints env @ [h]\<rparr>)"

definition add_warnings :: "json list \<Rightarrow> job_envelope \<Rightarrow> job_envelope" where
  "add_warnings ws env = foldl (\<lambda>e v. add_hint (''runner: '' @ py_str v) e) env ws"

definition survivors_hint :: "json \<Rightarrow> job_envelope \<Rightarrow> (py_error, job_envelope) outcome" where
  "survivors_hint v env =
     (if truthy v then
        and_then (py_len v) (\<lambda>n. Inr (add_hint (show_nat n
          @ '' descendant(s) outlived the workload and may still hold the GPU'') env))
      else Inr env)"

section \<open>absorb_result\<close>

text \<open>
  \<open>_absorb_result_in_place\<close> on the copy: \<open>now\<close> is this machine's clock, used when
  the result gives no time.  The raw fields are validated at the end.
\<close>

definition absorb_in_place ::
  "pydantic \<Rightarrow> string \<Rightarrow> job_spec \<Rightarrow> json_obj \<Rightarrow> job_envelope \<Rightarrow> (py_error, raw_run \<times> job_envelope) outcome" where
  "absorb_in_place pd now spec result env =
     and_then (absorb_provenance result (absorb_phase result env)) (\<lambda>env.
     and_then (parse_workload (jget_or result ''workload'' (JStr ''unknown''))) (\<lambda>wl.
     and_then (vm_time (jget result ''finished_at'')) (\<lambda>moment.
     and_then (model_list ''InputResult'' (pd_input pd) (jget result ''inputs'')) (\<lambda>inputs.
     and_then (model_list ''ArtifactResult'' (pd_artifact pd) (jget result ''artifacts'')) (\<lambda>artifacts.
     (let raw = \<lparr>raw_exit_code = jget result ''exit_code'', raw_signal = jget result ''signal'',
            raw_exception = jget result ''exception'',
            raw_survivors = or_empty_list (jget result ''surviving_descendants'')\<rparr>;
          env = env\<lparr>env_reason := None, env_retry_class := None, env_workload := wl,
            env_finished_at := Some (case moment of None \<Rightarrow> now | Some t \<Rightarrow> t),
            env_inputs := inputs, env_artifacts := artifacts\<rparr>
      in and_then (absorb_verdict spec result (raw_exception raw) env) (\<lambda>env.
         and_then (py_iter (or_empty_list (jget result ''runner_warnings''))) (\<lambda>ws.
         and_then (survivors_hint (raw_survivors raw) (add_warnings ws env)) (\<lambda>env.
         Inr (raw, env))))))))))"

definition with_run :: "run_values \<Rightarrow> job_envelope \<Rightarrow> job_envelope" where
  "with_run v env = env\<lparr>env_exit_code := run_exit v, env_signal := run_signal v,
     env_exception := run_exception v, env_surviving_descendants := run_survivors v\<rparr>"

definition absorb_result ::
  "pydantic \<Rightarrow> string \<Rightarrow> job_spec \<Rightarrow> json_obj \<Rightarrow> job_envelope \<Rightarrow> (py_error, job_envelope) outcome" where
  "absorb_result pd now spec result env =
     and_then (absorb_in_place pd now spec result env) (\<lambda>(raw, env).
     and_then (pd_run pd raw) (\<lambda>v. Inr (with_run v env)))"

section \<open>Hints only grow\<close>

lemma hints_add_hint: "prefix (env_hints env) (env_hints (add_hint h env))"
  by (simp add: add_hint_def)

lemma hints_add_warnings: "prefix (env_hints env) (env_hints (add_warnings ws env))"
proof (induction ws arbitrary: env)
  case (Cons v ws)
  have "prefix (env_hints env) (env_hints (add_hint (''runner: '' @ py_str v) env))"
    by (rule hints_add_hint)
  also have "prefix \<dots> (env_hints (add_warnings ws (add_hint (''runner: '' @ py_str v) env)))"
    by (rule Cons.IH)
  finally show ?case by (simp add: add_warnings_def)
qed (simp add: add_warnings_def)

text \<open>What absorbing never touches: the part of the envelope cleanup and the caller own.\<close>

definition same_job :: "job_envelope \<Rightarrow> job_envelope \<Rightarrow> bool" where
  "same_job a b \<longleftrightarrow>
     env_job_id a = env_job_id b \<and> env_cleanup a = env_cleanup b \<and> env_supervisor a = env_supervisor b
     \<and> env_session a = env_session b \<and> env_endpoint a = env_endpoint b
     \<and> env_leave_up a = env_leave_up b \<and> env_attempt a = env_attempt b
     \<and> env_started_at a = env_started_at b \<and> env_install_attempts a = env_install_attempts b
     \<and> env_provision_attempts a = env_provision_attempts b
     \<and> env_actual_accelerator a = env_actual_accelerator b"

definition grows :: "job_envelope \<Rightarrow> job_envelope \<Rightarrow> bool" where
  "grows a b \<longleftrightarrow> same_job a b \<and> prefix (env_hints a) (env_hints b)
     \<and> env_failed_phase a \<in> {None, env_failed_phase b}"

lemma grows_refl [simp]: "grows a a"
  by (simp add: grows_def same_job_def)

lemma grows_trans [trans]: "grows a b \<Longrightarrow> grows b c \<Longrightarrow> grows a c"
  by (auto simp: grows_def same_job_def)

lemma add_hint_fields [simp]:
  "env_workload (add_hint h e) = env_workload e" "env_offload (add_hint h e) = env_offload e"
  "env_reason (add_hint h e) = env_reason e" "env_retry_class (add_hint h e) = env_retry_class e"
  "env_failed_phase (add_hint h e) = env_failed_phase e" "env_phase (add_hint h e) = env_phase e"
  by (simp_all add: add_hint_def)

lemma add_warnings_fields [simp]:
  "env_workload (add_warnings ws e) = env_workload e" "env_offload (add_warnings ws e) = env_offload e"
  "env_reason (add_warnings ws e) = env_reason e" "env_retry_class (add_warnings ws e) = env_retry_class e"
  "env_failed_phase (add_warnings ws e) = env_failed_phase e" "env_phase (add_warnings ws e) = env_phase e"
  by (induction ws arbitrary: e) (simp_all add: add_warnings_def)

lemma grows_add_hint: "grows e (add_hint h e)"
  by (simp add: grows_def same_job_def add_hint_def)

lemma grows_add_warnings: "grows e (add_warnings ws e)"
proof (induction ws arbitrary: e)
  case (Cons v ws)
  have "grows e (add_hint (''runner: '' @ py_str v) e)" by (rule grows_add_hint)
  also have "grows \<dots> (add_warnings ws (add_hint (''runner: '' @ py_str v) e))"
    by (rule Cons.IH)
  finally show ?case by (simp add: add_warnings_def)
qed (simp add: add_warnings_def)

lemma grows_record_failure: "grows e (record_failure p e)"
  by (simp add: grows_def same_job_def record_failure_def)

lemma grows_survivors_hint: "survivors_hint v e = Inr e' \<Longrightarrow> grows e e'"
  by (auto simp: survivors_hint_def and_then_Inr grows_add_hint split: if_splits)

lemma grows_absorb_phase: "grows e (absorb_phase result e)"
  by (simp add: absorb_phase_def Let_def grows_def same_job_def split: option.split)

lemma grows_absorb_provenance: "absorb_provenance result e = Inr e' \<Longrightarrow> grows e e'"
  by (auto simp: absorb_provenance_def Let_def and_then_Inr grows_def same_job_def split: if_splits)

lemma grows_absorb_verdict: "absorb_verdict spec result exn e = Inr e' \<Longrightarrow> grows e e'"
  by (auto simp: absorb_verdict_def Let_def and_then_Inr grows_def same_job_def record_failure_def
      split: if_splits prod.splits)

lemma absorb_in_place_steps:
  assumes "absorb_in_place pd now spec result env = Inr (raw, e)"
  obtains e1 wl inputs artifacts finished e2 e3 ws where
    "absorb_provenance result (absorb_phase result env) = Inr e1"
    "parse_workload (jget_or result ''workload'' (JStr ''unknown'')) = Inr wl"
    "e2 = e1\<lparr>env_reason := None, env_retry_class := None, env_workload := wl,
       env_finished_at := finished, env_inputs := inputs, env_artifacts := artifacts\<rparr>"
    "absorb_verdict spec result (jget result ''exception'') e2 = Inr e3"
    "survivors_hint (or_empty_list (jget result ''surviving_descendants'')) (add_warnings ws e3) = Inr e"
  using assms unfolding absorb_in_place_def and_then_Inr Let_def
  by (elim exE conjE) (rule that, assumption, assumption, rule refl, simp, simp)

lemma grows_absorb_result:
  assumes "absorb_result pd now spec result env = Inr e"
  shows "grows env e"
proof -
  obtain raw e0 v where 0: "absorb_in_place pd now spec result env = Inr (raw, e0)"
    and e: "e = with_run v e0"
    using assms by (auto simp: absorb_result_def and_then_Inr)
  from 0 obtain e1 wl inputs artifacts finished e2 e3 ws where
      1: "absorb_provenance result (absorb_phase result env) = Inr e1"
    and 2: "e2 = e1\<lparr>env_reason := None, env_retry_class := None, env_workload := wl,
       env_finished_at := finished, env_inputs := inputs, env_artifacts := artifacts\<rparr>"
    and 3: "absorb_verdict spec result (jget result ''exception'') e2 = Inr e3"
    and 4: "survivors_hint (or_empty_list (jget result ''surviving_descendants'')) (add_warnings ws e3) = Inr e0"
    by (rule absorb_in_place_steps)
  note grows_absorb_phase [of env result]
  also note grows_absorb_provenance [OF 1]
  also have "grows e1 e2" by (simp add: 2 grows_def same_job_def)
  also note grows_absorb_verdict [OF 3]
  also note grows_add_warnings [of e3 ws]
  also note grows_survivors_hint [OF 4]
  also have "grows e0 e" by (simp add: e with_run_def grows_def same_job_def)
  finally show ?thesis .
qed

text \<open>
  Absorbing a result never edits the job itself: its identity, its VM, what
  cleanup recorded, how far the supervisor is and whether the VM is kept stay,
  hints are only added, and the phase that failed first stays the failed phase.
\<close>

theorem absorb_keeps_the_job:
  "case absorb_result pd now spec result env of
     Inl _ \<Rightarrow> True
   | Inr e \<Rightarrow> same_job env e \<and> prefix (env_hints env) (env_hints e)
       \<and> env_failed_phase env \<in> {None, env_failed_phase e}"
  using grows_absorb_result [of pd now spec result env]
  by (cases "absorb_result pd now spec result env") (auto simp: grows_def)

section \<open>The absorbed verdict\<close>

lemma join_nonempty: "[] \<notin> set xs \<Longrightarrow> xs \<noteq> [] \<Longrightarrow> join sep xs \<noteq> []"
  by (induction sep xs rule: join.induct) auto

lemma joined_reason_None: "joined_reason rs = None \<longleftrightarrow> set rs \<subseteq> {None, Some []}"
proof -
  let ?parts = "List.filter (\<lambda>r. r \<noteq> []) (concat (map (\<lambda>r. case r of None \<Rightarrow> [] | Some s \<Rightarrow> [s]) rs))"
  have "joined_reason rs = None \<longleftrightarrow> ?parts = []"
    using join_nonempty [of ?parts "''; ''"] by (auto simp: joined_reason_def Let_def)
  also have "\<dots> \<longleftrightarrow> set rs \<subseteq> {None, Some []}"
    by (auto simp: filter_empty_conv split: option.splits)
  finally show ?thesis .
qed

lemma with_notes_nonempty: "r \<noteq> [] \<Longrightarrow> with_notes r n \<noteq> []"
  by (simp add: with_notes_def split: option.split)

lemma workload_reason_nonempty: "workload_outcome result wc \<noteq> Inr (Some [], c)"
  by (auto simp: workload_outcome_def cancelled_outcome_def unknown_outcome_def failed_reason_def
      with_notes_nonempty Let_def split: if_splits option.splits sum.splits prod.splits
      dest: sym intro: with_notes_nonempty)

lemma offload_reason_nonempty: "fst (snd (offload_outcome ds as ro oe)) \<noteq> Some []"
proof -
  obtain parts classes where p: "offload_parts ds as ro oe = (parts, classes)" by fastforce
  then have "[] \<notin> set parts" by (auto simp: offload_parts_def Let_def split: if_splits)
  with p show ?thesis using join_nonempty by (auto simp: offload_outcome_def)
qed

lemma offload_outcome_shape:
  "offload_outcome ds as ro oe = (off, reason, class) \<Longrightarrow>
     (off = O_Ok \<and> reason = None \<and> class = None)
     \<or> (off = O_Failed \<and> reason \<notin> {None, Some []} \<and> class \<noteq> None)"
  using offload_outcome_cases [of ds as ro oe] offload_reason_nonempty [of ds as ro oe] by auto

lemma absorb_offload_shape:
  assumes "absorb_offload spec result env = (off, reason, class)"
  shows "off \<in> {O_Not_Required, O_Skipped, O_Ok} \<and> reason = None \<and> class = None
     \<or> off = O_Failed \<and> reason \<notin> {None, Some []} \<and> class \<noteq> None \<and> \<not> stage_failed env"
  using assms offload_outcome_shape [of "sp_artifacts spec" "env_artifacts env"
      "jget result ''offload''" "jget result ''offload_error''" off reason "class"]
  by (auto simp: absorb_offload_def split: if_splits)

lemma failed_phase_provenance:
  "absorb_provenance result (absorb_phase result env) = Inr e \<Longrightarrow> env_failed_phase e = env_failed_phase env"
  by (auto simp: absorb_provenance_def absorb_phase_def Let_def and_then_Inr split: if_splits option.splits)

lemma survivors_hint_fields:
  "survivors_hint v e = Inr e' \<Longrightarrow>
     env_workload e' = env_workload e \<and> env_offload e' = env_offload e \<and> env_reason e' = env_reason e
     \<and> env_retry_class e' = env_retry_class e \<and> env_failed_phase e' = env_failed_phase e"
  by (auto simp: survivors_hint_def and_then_Inr split: if_splits)

lemma parse_workload_text: "parse_workload v = Inr wl \<Longrightarrow> v = JStr (workload_value wl)"
  by (cases v) (auto simp: parse_workload_def dest!: workload_of_SomeD split: option.splits)

text \<open>What a verdict says: the reason, the class and the failed phase agree with the two outcomes.\<close>

definition consistent :: "json_obj \<Rightarrow> phase option \<Rightarrow> job_envelope \<Rightarrow> bool" where
  "consistent result failed e \<longleftrightarrow>
     offload_terminal (env_offload e)
     \<and> (env_reason e = None \<longleftrightarrow> env_workload e = W_Succeeded \<and> env_offload e \<noteq> O_Failed)
     \<and> (env_retry_class e = None \<longleftrightarrow> env_offload e \<noteq> O_Failed
          \<and> (env_workload e = W_Succeeded
             \<or> env_workload e = W_Cancelled
               \<and> cancel_source (jget result ''cancel_intent'') \<noteq> Some ''wall_clock''))
     \<and> (env_failed_phase e = None \<longleftrightarrow> failed = None \<and> env_retry_class e = None)"

lemma absorb_verdict_consistent:
  assumes wl: "parse_workload (jget_or result ''workload'' (JStr ''unknown'')) = Inr (env_workload env)"
    and v: "absorb_verdict spec result exn env = Inr e"
  shows "consistent result (env_failed_phase env) e \<and> env_workload e = env_workload env"
proof -
  obtain off reason cl where off: "absorb_offload spec result env = (off, reason, cl)"
    by (metis prod.collapse)
  note shape = absorb_offload_shape [OF off]
  have named: "jget_or result ''workload'' (JStr ''unknown'') = JStr (workload_value (env_workload env))"
    using wl by (rule parse_workload_text)
  show ?thesis
  proof (cases "stage_failed env")
    case True
    with v off shape show ?thesis
      by (auto simp: absorb_verdict_def consistent_def stage_failed_def offload_terminal_def
          record_failure_def split: prod.splits if_splits)
  next
    case False
    with v off obtain w_reason w_class where
        w: "workload_outcome result (bud_wall_clock (sp_budgets spec)) = Inr (w_reason, w_class)"
      and e: "e = (let e = env\<lparr>env_offload := off, env_reason := joined_reason [w_reason, reason],
                     env_retry_class := or_class w_class cl\<rparr>
               in if w_class \<noteq> None then record_failure P_Run e
                  else if off = O_Failed then record_failure P_Offload e else e)"
      by (auto simp: absorb_verdict_def and_then_Inr Let_def)
    have r: "w_reason \<noteq> Some []" using workload_reason_nonempty w by auto
    have w_iff: "(w_reason = None \<longleftrightarrow> env_workload env = W_Succeeded)"
      "(w_class = None \<longleftrightarrow> env_workload env = W_Succeeded \<or> env_workload env = W_Cancelled
          \<and> cancel_source (jget result ''cancel_intent'') \<noteq> Some ''wall_clock'')"
      using workload_outcome_facts [OF w] unfolding named by (cases "env_workload env"; simp)+
    have "joined_reason [w_reason, reason] = None \<longleftrightarrow> w_reason = None \<and> reason = None"
      using r shape by (auto simp: joined_reason_None)
    with e w_iff shape show ?thesis
      by (auto simp: consistent_def offload_terminal_def record_failure_def or_class_def Let_def
          split: option.splits)
  qed
qed

lemma absorb_result_consistent:
  assumes "absorb_result pd now spec result env = Inr e"
  shows "consistent result (env_failed_phase env) e
     \<and> jget_or result ''workload'' (JStr ''unknown'') = JStr (workload_value (env_workload e))"
proof -
  from assms obtain raw e0 v where 0: "absorb_in_place pd now spec result env = Inr (raw, e0)"
    and e: "e = with_run v e0"
    by (auto simp: absorb_result_def and_then_Inr)
  from 0 obtain e1 wl inputs artifacts finished e2 e3 ws where
      1: "absorb_provenance result (absorb_phase result env) = Inr e1"
    and wl: "parse_workload (jget_or result ''workload'' (JStr ''unknown'')) = Inr wl"
    and 2: "e2 = e1\<lparr>env_reason := None, env_retry_class := None, env_workload := wl,
       env_finished_at := finished, env_inputs := inputs, env_artifacts := artifacts\<rparr>"
    and 3: "absorb_verdict spec result (jget result ''exception'') e2 = Inr e3"
    and 4: "survivors_hint (or_empty_list (jget result ''surviving_descendants'')) (add_warnings ws e3) = Inr e0"
    by (rule absorb_in_place_steps)
  have "env_failed_phase e2 = env_failed_phase env"
    using failed_phase_provenance [OF 1] by (simp add: 2)
  moreover have "parse_workload (jget_or result ''workload'' (JStr ''unknown'')) = Inr (env_workload e2)"
    using wl by (simp add: 2)
  ultimately have c: "consistent result (env_failed_phase env) e3"
    and w: "env_workload e3 = env_workload e2"
    using absorb_verdict_consistent [OF _ 3] by simp_all
  have "consistent result (env_failed_phase env) e \<and> env_workload e = env_workload e3"
    using c survivors_hint_fields [OF 4] by (simp add: consistent_def e with_run_def)
  with w wl show ?thesis by (simp add: 2 parse_workload_text)
qed

lemma absorb_result_offload:
  "absorb_result pd now spec result env = Inr e \<Longrightarrow> offload_terminal (env_offload e)"
  using absorb_result_consistent by (fastforce simp: consistent_def)


end
