(* ===== verification/Poll.thy ===== *)
theory Poll
  imports Absorb UrlId
begin

text \<open>
  The supervisor's watch over a launched job (\<open>poll\<close> and the methods it ends in,
  \<open>job/orchestrator.py\<close>): each pass reads the VM's records, and the loop ends by
  absorbing the runner's result, by finishing without one, or at the local
  deadline.  An exception that leaves \<open>poll\<close> is \<open>Inl\<close>; a call that does not return
  is \<open>None\<close>.
\<close>

section \<open>The supervisor\<close>

text \<open>
  What the methods use: the VM's transport and this machine (\<open>po_remote\<close>), pydantic,
  the spec, and the GET of \<open>control.result\<close>: at most one byte more than was asked
  for, then \<open>json.loads\<close>.
\<close>

record ('t, 'w) poller =
  po_remote :: "('t, 'w) remote"
  po_pydantic :: pydantic
  po_spec :: job_spec
  po_job_id :: string
  po_open :: "string \<Rightarrow> nat \<Rightarrow> 'w \<Rightarrow> (py_error, string) outcome \<times> 'w"
  po_loads :: "string \<Rightarrow> (py_error, json) outcome"

record sup =
  sup_env :: job_envelope
  sup_runner_seen :: bool
  sup_staleness :: staleness
  sup_last_hint :: "string option"
  sup_absent_since :: "rat option"

definition sup_init :: "job_envelope \<Rightarrow> sup" where
  "sup_init env = \<lparr>sup_env = env, sup_runner_seen = False, sup_staleness = None,
     sup_last_hint = None, sup_absent_since = None\<rparr>"

definition edit :: "(job_envelope \<Rightarrow> job_envelope) \<Rightarrow> sup \<Rightarrow> sup" where
  "edit f s = s\<lparr>sup_env := f (sup_env s)\<rparr>"

definition hint :: "string \<Rightarrow> job_envelope \<Rightarrow> job_envelope" where
  "hint h env = env\<lparr>env_hints := env_hints env @ [h]\<rparr>"

section \<open>control.result\<close>

definition control_result_bytes :: nat where
  "control_result_bytes = 1024 * 1024"

text \<open>\<open>fetch_control_result\<close> of \<open>job/spec_io.py\<close>\<close>

definition fetch_control_result ::
  "('t, 'w) poller \<Rightarrow> string \<Rightarrow> 'w \<Rightarrow> (py_error, json_obj) outcome \<times> 'w" where
  "fetch_control_result po url w =
     (case po_open po url (control_result_bytes + 1) w of
        (Inl e, w) \<Rightarrow> (Inl e, w)
      | (Inr body, w) \<Rightarrow>
          (if control_result_bytes < length body
           then Inl (exc ''ValueError'' ''control result exceeds maximum size'')
           else (case po_loads po body of
               Inl e \<Rightarrow> Inl e
             | Inr (JObj d) \<Rightarrow> Inr d
             | Inr _ \<Rightarrow> Inl (exc ''ValueError'' ''control result must be a JSON object'')), w))"

definition terminal_values :: "string list" where
  "terminal_values = map workload_value [W_Succeeded, W_Failed, W_Cancelled, W_Unknown]"

text \<open>
  \<open>_recover_control_result\<close>: the terminal result, or none and the envelope with a
  hint.  A workload that cannot be hashed makes the set membership raise.
\<close>

definition recover_control_result ::
  "('t, 'w) poller \<Rightarrow> sup \<Rightarrow> 'w \<Rightarrow> (py_error, json_obj option) outcome \<times> sup \<times> 'w" where
  "recover_control_result po s w =
     (case ctl_result (sp_control (po_spec po)) of
        None \<Rightarrow> (Inr None, s, w)
      | Some ch \<Rightarrow>
          if ch_get_url ch = [] then (Inr None, s, w)
          else (case fetch_control_result po (ch_get_url ch) w of
              (Inl e, w) \<Rightarrow>
                (Inr None, edit (hint (''control.result could not be read: ''
                   @ redact_url (describe_error e) (Some (ch_get_url ch)) (url_id (ch_get_url ch)))) s, w)
            | (Inr d, w) \<Rightarrow>
                (let v = jget d ''workload'' in
                 if as_list v \<noteq> None \<or> as_obj v \<noteq> None then
                   (Inl (exc ''TypeError'' (''unhashable type: '' @ quoted (type_name v))), s, w)
                 else if v \<in> set (map JStr terminal_values) then (Inr (Some d), s, w)
                 else (Inr None, edit (hint (''control.result holds no terminal result (workload=''
                        @ repr v @ '')'')) s, w))))"

section \<open>Ending a poll\<close>

text \<open>The verdict is unknown: nothing was offloaded by the runner.\<close>

definition no_verdict :: "job_spec \<Rightarrow> string \<Rightarrow> string \<Rightarrow> job_envelope \<Rightarrow> job_envelope" where
  "no_verdict spec now why env =
     record_failure P_Run
       (env\<lparr>env_workload := W_Unknown,
            env_offload := (if offload_terminal (env_offload env) then env_offload env
              else if sp_artifacts spec \<noteq> [] then O_Skipped else O_Not_Required),
            env_supervisor := S_Finished, env_reason := Some why,
            env_retry_class := Some Retry_Same, env_finished_at := Some now\<rparr>)"

definition give_up ::
  "('t, 'w) poller \<Rightarrow> string \<Rightarrow> sup \<Rightarrow> 't \<Rightarrow> 'w \<Rightarrow> sup \<times> 't \<times> 'w" where
  "give_up po why s t w =
     (case rm_now (po_remote po) w of
        (now, w) \<Rightarrow>
          (let s = edit (no_verdict (po_spec po) now why) s in
           case pull_runner_log (po_remote po) (po_job_id po) t w of
             (_, t, w) \<Rightarrow> (s, t, rm_persist (po_remote po) (sup_env s) w)))"

text \<open>\<open>_absorb_or_keep\<close> up to its call of \<open>_finish_without_result\<close>; \<open>Inl\<close> is that call's reason.\<close>

definition not_absorbed :: "py_error \<Rightarrow> json_obj \<Rightarrow> string" where
  "not_absorbed e result = ''runner result could not be absorbed ('' @ describe_error e
     @ ''); raw result: '' @ raw_verdict result"

definition absorb_step ::
  "('t, 'w) poller \<Rightarrow> json_obj \<Rightarrow> sup \<Rightarrow> 'w \<Rightarrow> (string, sup) outcome \<times> 'w" where
  "absorb_step po result s w =
     (case rm_now (po_remote po) w of
        (now, w) \<Rightarrow>
          (case absorb_result (po_pydantic po) now (po_spec po) result (sup_env s) of
             Inl e \<Rightarrow> (Inl (not_absorbed e result), w)
           | Inr env \<Rightarrow>
               (let s = s\<lparr>sup_env := env\<lparr>env_supervisor := S_Finished\<rparr>\<rparr>
                in (Inr s, rm_persist (po_remote po) (sup_env s) w))))"

text \<open>
  \<open>_finish_without_result\<close> and \<open>_absorb_or_keep\<close> call each other: what the control
  channel holds is absorbed, and what cannot be absorbed is finished without,
  which reads the control channel again.
\<close>

partial_function (option) finish_without_result ::
  "('t, 'w) poller \<Rightarrow> string \<Rightarrow> sup \<Rightarrow> 't \<Rightarrow> 'w \<Rightarrow> ((py_error, unit) outcome \<times> sup \<times> 't \<times> 'w) option" where
  "finish_without_result po why s t w =
     (case recover_control_result po s w of
        (Inl e, s, w) \<Rightarrow> Some (Inl e, s, t, w)
      | (Inr None, s, w) \<Rightarrow> Some (Inr (), give_up po why s t w)
      | (Inr (Some d), s, w) \<Rightarrow>
          Option.bind
            (case absorb_step po d s w of
               (Inr s, w) \<Rightarrow> Some (Inr (), s, t, w)
             | (Inl again, w) \<Rightarrow> finish_without_result po again s t w)
            (\<lambda>(r, s, t, w). case r of
                Inl e \<Rightarrow> Some (Inl e, s, t, w)
              | Inr _ \<Rightarrow> Some (Inr (), edit (hint (''result read from control.result after: '' @ why)) s, t, w)))"

definition absorb_or_keep ::
  "('t, 'w) poller \<Rightarrow> json_obj \<Rightarrow> sup \<Rightarrow> 't \<Rightarrow> 'w \<Rightarrow> ((py_error, unit) outcome \<times> sup \<times> 't \<times> 'w) option" where
  "absorb_or_keep po result s t w =
     (case absorb_step po result s w of
        (Inr s, w) \<Rightarrow> Some (Inr (), s, t, w)
      | (Inl why, w) \<Rightarrow> finish_without_result po why s t w)"

section \<open>One pass\<close>

definition launch_record_grace :: rat where "launch_record_grace = 120"
definition launch_absence_confirm :: rat where "launch_absence_confirm = 90"
definition runner_stop_wait_seconds :: int where "runner_stop_wait_seconds = 300"

text \<open>
  \<open>_seconds_since_launch\<close>: the clock is read as the text \<open>_now()\<close> gives; a
  \<open>started_at\<close> that is no time gives \<open>None\<close>.
\<close>

definition seconds_since_launch ::
  "('t, 'w) remote \<Rightarrow> job_envelope \<Rightarrow> 'w \<Rightarrow> rat option \<times> 'w" where
  "seconds_since_launch rm env w =
     (case env_started_at env of
        None \<Rightarrow> (None, w)
      | Some started \<Rightarrow>
          (case from_iso started of
             None \<Rightarrow> (None, w)
           | Some t0 \<Rightarrow>
               (case rm_now rm w of
                  (now, w) \<Rightarrow> (map_option (\<lambda>t. of_int (t - t0) / 1000000) (from_iso now), w))))"

text \<open>How a pass ends: the poll returns by one of its two ends, or goes on.\<close>

datatype poll_next = Absorb json_obj | Finish string | Go_On

definition late_result ::
  "('t, 'w) poller \<Rightarrow> string \<Rightarrow> 't \<Rightarrow> 'w \<Rightarrow> poll_next \<times> 't \<times> 'w" where
  "late_result po why t w =
     (case rm_read_json (po_remote po) (remote_file (po_job_id po) ''result.json'') t w of
        ((result, status), t, w) \<Rightarrow>
          (if status = Rs_Ok \<and> obj_of result \<noteq> [] then Absorb (obj_of result) else Finish why, t, w))"

definition dead_runner_reason :: "json_obj \<Rightarrow> string" where
  "dead_runner_reason wd = ''the runner is dead and wrote no result.json (watchdog: elapsed=''
     @ py_str (jget wd ''elapsed'') @ ''s, remaining='' @ py_str (jget wd ''remaining'')
     @ ''s); its last output is in runner.log''"

text \<open>The watchdog's record was read.\<close>

definition watchdog_pass ::
  "('t, 'w) poller \<Rightarrow> json_obj \<Rightarrow> sup \<Rightarrow> 't \<Rightarrow> 'w \<Rightarrow> poll_next \<times> sup \<times> 't \<times> 'w" where
  "watchdog_pass po wd s t w =
     (case rm_clock (po_remote po) w of
        (now, w) \<Rightarrow>
          (case observe_watchdog (sup_staleness s) wd now of
             (stalled, stale) \<Rightarrow>
               (let h = watchdog_hint wd;
                    s = s\<lparr>sup_runner_seen := True, sup_last_hint := Some h, sup_staleness := stale,
                      sup_env := (sup_env s)\<lparr>env_hints :=
                          replace_hint (replace_hint (env_hints (sup_env s)) watchdog_hint_prefix (Some h))
                            watchdog_stalled_prefix stalled,
                        env_reason := (case stalled of None \<Rightarrow> env_reason (sup_env s) | r \<Rightarrow> r)\<rparr>\<rparr>
                in if jget wd ''runner_alive'' = JBool False
                   then (case late_result po (dead_runner_reason wd) t w of (nx, t, w) \<Rightarrow> (nx, s, t, w))
                   else (Go_On, s, t, w))))"

text \<open>
  No watchdog record and the runner never seen: it never started once
  \<open>launch.json\<close> has stayed absent for long enough after the launch.
\<close>

definition launch_pass ::
  "('t, 'w) poller \<Rightarrow> rat \<Rightarrow> sup \<Rightarrow> 't \<Rightarrow> 'w \<Rightarrow> poll_next \<times> sup \<times> 't \<times> 'w" where
  "launch_pass po since s t w =
     (case rm_read_json (po_remote po) (remote_file (po_job_id po) ''launch.json'') t w of
        ((_, status), t, w) \<Rightarrow>
          if status = Rs_Ok then (Go_On, s\<lparr>sup_runner_seen := True, sup_absent_since := None\<rparr>, t, w)
          else if status \<noteq> Rs_Not_Found then (Go_On, s, t, w)
          else (case (case sup_absent_since s of
                  Some a \<Rightarrow> (a, w) | None \<Rightarrow> rm_clock (po_remote po) w) of
              (absent, w) \<Rightarrow>
                (case rm_clock (po_remote po) w of
                   (now, w) \<Rightarrow>
                     (let s = s\<lparr>sup_absent_since := Some absent\<rparr> in
                      if launch_absence_confirm \<le> now - absent
                      then (case late_result po (''the runner never started: no launch.json ''
                              @ show_int (py_round since) @ ''s after launch; its error output is in runner.log'')
                              t w of (nx, t, w) \<Rightarrow> (nx, s, t, w))
                      else (Go_On, s, t, w)))))"

definition records_pass ::
  "('t, 'w) poller \<Rightarrow> sup \<Rightarrow> 't \<Rightarrow> 'w \<Rightarrow> poll_next \<times> sup \<times> 't \<times> 'w" where
  "records_pass po s t w =
     (case rm_read_json (po_remote po) (remote_file (po_job_id po) ''watchdog.json'') t w of
        ((wd, status), t, w) \<Rightarrow>
          if status = Rs_Ok \<and> obj_of wd \<noteq> [] then watchdog_pass po (obj_of wd) s t w
          else if status = Rs_Not_Found \<and> \<not> sup_runner_seen s then
            (case seconds_since_launch (po_remote po) (sup_env s) w of
               (Some since, w) \<Rightarrow>
                 if launch_record_grace < since then launch_pass po since s t w else (Go_On, s, t, w)
             | (None, w) \<Rightarrow> (Go_On, s, t, w))
          else (Go_On, s, t, w))"

text \<open>A pass of the loop of \<open>poll\<close>, up to its return or its sleep; \<open>n\<close> counts degraded reads.\<close>

definition poll_pass ::
  "('t, 'w) poller \<Rightarrow> nat \<Rightarrow> sup \<Rightarrow> 't \<Rightarrow> 'w \<Rightarrow> poll_next \<times> nat \<times> sup \<times> 't \<times> 'w" where
  "poll_pass po n s t w =
     (case rm_read_json (po_remote po) (remote_file (po_job_id po) ''result.json'') t w of
        ((result, status), t, w) \<Rightarrow>
          if status = Rs_Ok \<and> obj_of result \<noteq> [] then (Absorb (obj_of result), n, s, t, w)
          else if status = Rs_Session_Lost then (Finish (lost_assignment_reason (sup_env s)), n, s, t, w)
          else if status = Rs_Degraded then
            (let s = edit (\<lambda>e. e\<lparr>env_supervisor := S_Degraded,
                   env_reason := Some (degraded_reason (po_remote po) t (Some (n + 1)))\<rparr>) s
             in (Go_On, n + 1, s, t, rm_persist (po_remote po) (sup_env s) w))
          else (case records_pass po (edit (\<lambda>e. e\<lparr>env_supervisor := S_Running, env_reason := None\<rparr>) s) t w of
              (Go_On, s, t, w) \<Rightarrow>
                (case pull_runner_log (po_remote po) (po_job_id po) t w of
                   (_, t, w) \<Rightarrow> (Go_On, 0, s, t, rm_persist (po_remote po) (sup_env s) w))
            | (nx, s, t, w) \<Rightarrow> (nx, 0, s, t, w)))"

section \<open>The loop\<close>

definition interrupted :: "sup \<Rightarrow> sup" where
  "interrupted s =
     edit (\<lambda>e. e\<lparr>env_supervisor := S_Interrupted,
       env_reason := Some (''local supervisor deadline reached before a verdict''
         @ (case sup_last_hint s of
              Some h \<Rightarrow> if h \<noteq> [] then '' (last watchdog read: '' @ h @ '')''
                        else '' (watchdog.json was never read)''
            | None \<Rightarrow> '' (watchdog.json was never read)'')),
       env_retry_class := Some Retry_Same\<rparr>) s"

partial_function (option) poll_loop ::
  "('t, 'w) poller \<Rightarrow> rat \<Rightarrow> rat \<Rightarrow> nat \<Rightarrow> sup \<Rightarrow> 't \<Rightarrow> 'w
    \<Rightarrow> ((py_error, unit) outcome \<times> sup \<times> 't \<times> 'w) option" where
  "poll_loop po deadline interval n s t w =
     (case rm_time (po_remote po) w of
        (now, w) \<Rightarrow>
          if deadline \<le> now then
            Some (Inr (), interrupted s, t, rm_persist (po_remote po) (sup_env (interrupted s)) w)
          else (case poll_pass po n s t w of
              (Go_On, n, s, t, w) \<Rightarrow>
                poll_loop po deadline interval n s t (rm_sleep (po_remote po) interval w)
            | (Absorb d, n, s, t, w) \<Rightarrow> absorb_or_keep po d s t w
            | (Finish why, n, s, t, w) \<Rightarrow> finish_without_result po why s t w))"

definition poll ::
  "('t, 'w) poller \<Rightarrow> rat \<Rightarrow> rat \<Rightarrow> sup \<Rightarrow> 't \<Rightarrow> 'w
    \<Rightarrow> ((py_error, unit) outcome \<times> sup \<times> 't \<times> 'w) option" where
  "poll po deadline interval s t w = poll_loop po deadline interval 0 s t w"

section \<open>After a deadline\<close>

definition budget_hint :: string where
  "budget_hint = ''if the work needs longer, raise apply'' @ [CHR 0x27] @ ''s --timeout or budgets.wall_clock''"

text \<open>\<open>cancel_after_deadline\<close>; \<open>failed_deadline\<close> is what it adds to an absorbed result.\<close>

definition failed_deadline ::
  "string \<Rightarrow> string \<Rightarrow> bool \<Rightarrow> string \<Rightarrow> json_obj \<Rightarrow> job_envelope \<Rightarrow> job_envelope" where
  "failed_deadline passed note confirmed requester result env =
     (let e = record_failure P_Run env in
      e\<lparr>env_reason := Some (deadline_reason passed note confirmed requester (Some result) (env_reason e)),
        env_retry_class := (case env_retry_class e of None \<Rightarrow> Some Retry_Same | c \<Rightarrow> c)\<rparr>)"

definition cancel_after_deadline ::
  "('t, 'w) poller \<Rightarrow> string \<Rightarrow> string \<Rightarrow> int \<Rightarrow> sup \<Rightarrow> 't \<Rightarrow> 'w
    \<Rightarrow> ((py_error, unit) outcome \<times> sup \<times> 't \<times> 'w) option" where
  "cancel_after_deadline po passed requester wait s t w =
     (case request_cancel (po_remote po) (po_job_id po) requester t w of
        ((note, confirmed), t, w) \<Rightarrow>
          Option.bind
            (case await_runner_result (po_remote po) (po_job_id po) wait t w of
               (Inr d, t, w) \<Rightarrow>
                 Option.bind (absorb_or_keep po d s t w) (\<lambda>(r, s, t, w).
                   Some (r, if r = Inr () then edit (failed_deadline passed note confirmed requester d) s else s, t, w))
             | (Inl why, t, w) \<Rightarrow>
                 finish_without_result po (passed @ ''; '' @ note @ ''; '' @ why) s t w)
            (\<lambda>(r, s, t, w).
               if r = Inr () then
                 (let s = edit (hint budget_hint) s
                  in Some (r, s, t, rm_persist (po_remote po) (sup_env s) w))
               else Some (r, s, t, w)))"

section \<open>A control result that cannot be absorbed\<close>

text \<open>
  What the control channel answers however often it is asked, and that nothing
  of it can be absorbed.
\<close>

definition always_answers :: "('t, 'w) poller \<Rightarrow> json_obj \<Rightarrow> bool" where
  "always_answers po d \<longleftrightarrow>
     (case ctl_result (sp_control (po_spec po)) of
        Some ch \<Rightarrow> ch_get_url ch \<noteq> [] \<and> (\<forall>w. fst (fetch_control_result po (ch_get_url ch) w) = Inr d)
      | None \<Rightarrow> False)"

definition never_absorbed :: "('t, 'w) poller \<Rightarrow> json_obj \<Rightarrow> bool" where
  "never_absorbed po d \<longleftrightarrow>
     (\<forall>now env. \<exists>e. absorb_result (po_pydantic po) now (po_spec po) d env = Inl e)"

lemma recover_always:
  assumes "always_answers po d" "jget d ''workload'' \<in> set (map JStr terminal_values)"
  obtains w' where "recover_control_result po s w = (Inr (Some d), s, w')"
proof -
  obtain ch where ch: "ctl_result (sp_control (po_spec po)) = Some ch" "ch_get_url ch \<noteq> []"
    and f: "fst (fetch_control_result po (ch_get_url ch) w) = Inr d"
    using assms(1) by (auto simp: always_answers_def split: option.splits)
  obtain w' where "fetch_control_result po (ch_get_url ch) w = (Inr d, w')"
    using f by (metis prod.collapse)
  moreover obtain v where "jget d ''workload'' = JStr v" using assms(2) by auto
  ultimately have "recover_control_result po s w = (Inr (Some d), s, w')"
    using assms(2) ch by (auto simp: recover_control_result_def)
  then show ?thesis by (rule that)
qed

lemma absorb_step_never:
  assumes "never_absorbed po d"
  obtains why w' where "absorb_step po d s w = (Inl why, w')"
proof -
  obtain now w1 where n: "rm_now (po_remote po) w = (now, w1)" by (metis prod.collapse)
  obtain e where "absorb_result (po_pydantic po) now (po_spec po) d (sup_env s) = Inl e"
    using assms by (auto simp: never_absorbed_def)
  with n show ?thesis by (intro that) (simp add: absorb_step_def)
qed


text \<open>A machine whose calls do nothing, and a job whose control channel holds a result of schema 3.\<close>

definition idle_remote :: "(unit, unit) remote" where
  "idle_remote = \<lparr>rm_read_json = (\<lambda>p t w. ((None, Rs_Degraded), t, w)),
     rm_read_text = (\<lambda>p t w. ((None, Rs_Degraded), t, w)), rm_write_json = (\<lambda>p v t w. (Rs_Ok, t, w)),
     rm_problem = (\<lambda>t. None), rm_note = (\<lambda>t. []), rm_clock = (\<lambda>w. (0, w)), rm_time = (\<lambda>w. (0, w)),
     rm_now = (\<lambda>w. (''2026-01-01T00:00:00+00:00'', w)), rm_sleep = (\<lambda>d w. w),
     rm_write_local = (\<lambda>n s w. (Inr (), w)), rm_persist = (\<lambda>e w. w)\<rparr>"

definition newer_result :: json_obj where
  "newer_result = [(''schema_version'', JStr ''3''), (''workload'', JStr ''succeeded'')]"

definition strict_pydantic :: pydantic where
  "strict_pydantic = \<lparr>pd_input = (\<lambda>d. Inl (exc ''ValidationError'' [])),
     pd_artifact = (\<lambda>d. Inl (exc ''ValidationError'' [])),
     pd_run = (\<lambda>r. Inr \<lparr>run_exit = None, run_signal = None, run_exception = None, run_survivors = []\<rparr>)\<rparr>"

definition demo_poller :: "(unit, unit) poller" where
  "demo_poller = \<lparr>po_remote = idle_remote, po_pydantic = strict_pydantic,
     po_spec = (default_spec ''job'' ''train.py'')\<lparr>sp_control :=
       \<lparr>ctl_result = Some \<lparr>ch_put_url = ''https://h/p'', ch_get_url = ''https://h/g''\<rparr>, ctl_log = None\<rparr>\<rparr>,
     po_job_id = ''job-1'', po_open = (\<lambda>url n w. (Inr ''{}'', w)),
     po_loads = (\<lambda>body. Inr (JObj newer_result))\<rparr>"


section \<open>How a poll ends\<close>

text \<open>An end with a verdict: the supervisor is finished and the offload is settled.\<close>

definition settled :: "sup \<Rightarrow> sup \<Rightarrow> bool" where
  "settled s s' \<longleftrightarrow> env_supervisor (sup_env s') = S_Finished \<and> offload_terminal (env_offload (sup_env s'))
     \<and> env_cleanup (sup_env s') = env_cleanup (sup_env s) \<and> env_endpoint (sup_env s') = env_endpoint (sup_env s)"

lemma absorb_step_settled:
  "absorb_step po d s w = (Inr s', w') \<Longrightarrow> settled s s'"
  using grows_absorb_result absorb_result_offload
  by (fastforce simp: absorb_step_def settled_def Let_def grows_def same_job_def split: prod.splits sum.splits)

lemma no_verdict_fields:
  "env_supervisor (no_verdict spec now why env) = S_Finished"
  "offload_terminal (env_offload (no_verdict spec now why env))"
  "env_cleanup (no_verdict spec now why env) = env_cleanup env"
  "env_endpoint (no_verdict spec now why env) = env_endpoint env"
  by (simp_all add: no_verdict_def) (simp add: offload_terminal_def)

lemma give_up_settled: "give_up po why s t w = (s', t', w') \<Longrightarrow> settled s s'"
  by (auto simp: give_up_def settled_def edit_def no_verdict_fields Let_def split: prod.splits)

lemma settled_hint: "settled s s' \<Longrightarrow> settled s (edit (hint h) s')"
  by (simp add: settled_def edit_def hint_def)

lemma recover_frame:
  "recover_control_result po s w = (r, s', w') \<Longrightarrow>
     env_cleanup (sup_env s') = env_cleanup (sup_env s) \<and> env_endpoint (sup_env s') = env_endpoint (sup_env s)"
  by (auto simp: recover_control_result_def edit_def hint_def Let_def
      split: option.splits if_splits prod.splits sum.splits)

lemma finish_settled:
  "finish_without_result po why s t w = Some (Inr (), s', t', w') \<Longrightarrow> settled s s'"
proof -
  have "case res of (r, s', t', w') \<Rightarrow> r = Inr () \<longrightarrow> settled s s'"
    if "finish_without_result po why s t w = Some res" for res
  proof (rule finish_without_result.raw_induct [OF _ that])
    fix f po why s t w res
    assume IH: "\<And>po why s t w res. f po why s t w = Some res \<Longrightarrow>
        case res of (r, s', t', w') \<Rightarrow> r = Inr () \<longrightarrow> settled s s'"
      and body: "(case recover_control_result po s w of
        (Inl e, s, w) \<Rightarrow> Some (Inl e, s, t, w)
      | (Inr None, s, w) \<Rightarrow> Some (Inr (), give_up po why s t w)
      | (Inr (Some d), s, w) \<Rightarrow>
          Option.bind
            (case absorb_step po d s w of
               (Inr s, w) \<Rightarrow> Some (Inr (), s, t, w)
             | (Inl again, w) \<Rightarrow> f po again s t w)
            (\<lambda>(r, s, t, w). case r of
                Inl e \<Rightarrow> Some (Inl e, s, t, w)
              | Inr _ \<Rightarrow> Some (Inr (), edit (hint (''result read from control.result after: '' @ why)) s, t, w)))
        = Some res"
    obtain r s1 w1 where rec: "recover_control_result po s w = (r, s1, w1)" by (metis prod.collapse)
    note frame = recover_frame [OF rec]
    have settled1: "settled s1 x \<Longrightarrow> settled s x" for x using frame by (simp add: settled_def)
    show "case res of (r, s', t', w') \<Rightarrow> r = Inr () \<longrightarrow> settled s s'"
    proof (cases r)
      case (Inl e)
      with body rec show ?thesis by auto
    next
      case (Inr x)
      show ?thesis
      proof (cases x)
        case None
        with Inr body rec show ?thesis using give_up_settled settled1 by fastforce
      next
        case (Some d)
        let ?inner = "case absorb_step po d s1 w1 of (Inr s, w) \<Rightarrow> Some (Inr (), s, t, w)
             | (Inl again, w) \<Rightarrow> f po again s1 t w"
        obtain r2 s2 t2 w2 where inner: "?inner = Some (r2, s2, t2, w2)"
          and res: "(case r2 of Inl e \<Rightarrow> Some (Inl e, s2, t2, w2)
              | Inr _ \<Rightarrow> Some (Inr (), edit (hint (''result read from control.result after: '' @ why)) s2, t2, w2)) = Some res"
          using body unfolding rec Inr Some by (auto simp: bind_eq_Some_conv)
        have "r2 = Inr () \<longrightarrow> settled s1 s2"
          using inner IH absorb_step_settled by (fastforce split: prod.splits sum.splits)
        with res show ?thesis using settled1 settled_hint by (auto split: sum.splits)
      qed
    qed
  qed
  then show "finish_without_result po why s t w = Some (Inr (), s', t', w') \<Longrightarrow> settled s s'" by fastforce
qed

lemma absorb_or_keep_settled:
  "absorb_or_keep po d s t w = Some (Inr (), s', t', w') \<Longrightarrow> settled s s'"
  using absorb_step_settled finish_settled
  by (fastforce simp: absorb_or_keep_def split: prod.splits sum.splits)

text \<open>What no pass touches: the verdict, and what cleanup owns.\<close>

definition untouched :: "sup \<Rightarrow> sup \<Rightarrow> bool" where
  "untouched s s' \<longleftrightarrow>
     env_workload (sup_env s') = env_workload (sup_env s) \<and> env_offload (sup_env s') = env_offload (sup_env s)
     \<and> env_cleanup (sup_env s') = env_cleanup (sup_env s) \<and> env_endpoint (sup_env s') = env_endpoint (sup_env s)
     \<and> env_failed_phase (sup_env s') = env_failed_phase (sup_env s)"

lemma untouched_refl [simp]: "untouched s s"
  by (simp add: untouched_def)

lemma untouched_trans [trans]: "untouched a b \<Longrightarrow> untouched b c \<Longrightarrow> untouched a c"
  by (simp add: untouched_def)

lemma settled_trans: "untouched a b \<Longrightarrow> settled b c \<Longrightarrow> settled a c"
  by (simp add: untouched_def settled_def)

lemma watchdog_pass_untouched: "watchdog_pass po wd s t w = (nx, s', t', w') \<Longrightarrow> untouched s s'"
  by (auto simp: watchdog_pass_def untouched_def Let_def split: prod.splits if_splits)

lemma launch_pass_untouched: "launch_pass po since s t w = (nx, s', t', w') \<Longrightarrow> untouched s s'"
  by (auto simp: launch_pass_def untouched_def Let_def split: prod.splits if_splits)

lemma records_pass_untouched: "records_pass po s t w = (nx, s', t', w') \<Longrightarrow> untouched s s'"
  by (auto simp: records_pass_def dest: watchdog_pass_untouched launch_pass_untouched
      split: prod.splits if_splits option.splits)

lemma poll_pass_untouched:
  assumes "poll_pass po n s t w = (nx, n', s', t', w')"
  shows "untouched s s'"
proof -
  obtain result status t1 w1 where
    r: "rm_read_json (po_remote po) (remote_file (po_job_id po) ''result.json'') t w = ((result, status), t1, w1)"
    by (metis prod.collapse)
  let ?s = "edit (\<lambda>e. e\<lparr>env_supervisor := S_Running, env_reason := None\<rparr>) s"
  obtain nx2 s2 t2 w2 where p: "records_pass po ?s t1 w1 = (nx2, s2, t2, w2)" by (metis prod.collapse)
  have "untouched s ?s" by (simp add: untouched_def edit_def)
  also have "untouched ?s s2" by (rule records_pass_untouched [OF p])
  finally have "untouched s s2" .
  moreover have "untouched s (edit (\<lambda>e. e\<lparr>env_supervisor := S_Degraded, env_reason := x\<rparr>) s)" for x
    by (simp add: untouched_def edit_def)
  ultimately show ?thesis
    using assms by (auto simp: poll_pass_def r p Let_def split: if_splits poll_next.splits prod.splits)
qed

lemma interrupted_fields: "untouched s (interrupted s)"
  "env_supervisor (sup_env (interrupted s)) = S_Interrupted"
  "env_retry_class (sup_env (interrupted s)) = Some Retry_Same"
  by (simp_all add: interrupted_def untouched_def edit_def)

definition poll_ended :: "sup \<Rightarrow> sup \<Rightarrow> bool" where
  "poll_ended s s' \<longleftrightarrow> settled s s'
     \<or> env_supervisor (sup_env s') = S_Interrupted \<and> untouched s s' \<and> env_retry_class (sup_env s') = Some Retry_Same"

lemma poll_ended_trans: "untouched a b \<Longrightarrow> poll_ended b c \<Longrightarrow> poll_ended a c"
  using untouched_trans settled_trans by (auto simp: poll_ended_def)

lemma poll_loop_ended:
  assumes "poll_loop po deadline interval n s t w = Some res"
  shows "case res of (r, s', t', w') \<Rightarrow> r = Inr () \<longrightarrow> poll_ended s s'"
proof (rule poll_loop.raw_induct [OF _ assms])
  fix f po deadline interval n s t w res
  assume IH: "\<And>po deadline interval n s t w res. f po deadline interval n s t w = Some res \<Longrightarrow>
      case res of (r, s', t', w') \<Rightarrow> r = Inr () \<longrightarrow> poll_ended s s'"
    and body: "(case rm_time (po_remote po) w of
        (now, w) \<Rightarrow>
          if deadline \<le> now then
            Some (Inr (), interrupted s, t, rm_persist (po_remote po) (sup_env (interrupted s)) w)
          else (case poll_pass po n s t w of
              (Go_On, n, s, t, w) \<Rightarrow>
                f po deadline interval n s t (rm_sleep (po_remote po) interval w)
            | (Absorb d, n, s, t, w) \<Rightarrow> absorb_or_keep po d s t w
            | (Finish why, n, s, t, w) \<Rightarrow> finish_without_result po why s t w)) = Some res"
  obtain now w1 where t: "rm_time (po_remote po) w = (now, w1)" by (metis prod.collapse)
  show "case res of (r, s', t', w') \<Rightarrow> r = Inr () \<longrightarrow> poll_ended s s'"
  proof (cases "deadline \<le> now")
    case True
    with body t show ?thesis using interrupted_fields by (auto simp: poll_ended_def)
  next
    case False
    obtain nx n2 s2 t2 w2 where p: "poll_pass po n s t w1 = (nx, n2, s2, t2, w2)" by (metis prod.collapse)
    note frame = poll_pass_untouched [OF p]
    show ?thesis
    proof (cases nx)
      case Go_On
      with body t p False have "f po deadline interval n2 s2 t2 (rm_sleep (po_remote po) interval w2) = Some res"
        by simp
      from IH [OF this] show ?thesis using poll_ended_trans [OF frame] by auto
    next
      case (Absorb d)
      with body t p False have "absorb_or_keep po d s2 t2 w2 = Some res" by simp
      then show ?thesis
        using settled_trans [OF frame] by (auto simp: poll_ended_def dest!: absorb_or_keep_settled)
    next
      case (Finish why)
      with body t p False have "finish_without_result po why s2 t2 w2 = Some res" by simp
      then show ?thesis
        using settled_trans [OF frame] by (auto simp: poll_ended_def dest!: finish_settled)
    qed
  qed
qed


section \<open>The poll returns\<close>

lemma finish_without_channel:
  "ctl_result (sp_control (po_spec po)) = None \<Longrightarrow>
     finish_without_result po why s t w = Some (Inr (), give_up po why s t w)"
  by (simp add: finish_without_result.simps recover_control_result_def)

lemma absorb_or_keep_returns:
  "ctl_result (sp_control (po_spec po)) = None \<Longrightarrow> absorb_or_keep po d s t w \<noteq> None"
  by (cases "absorb_step po d s w" rule: prod.exhaust)
    (auto simp: absorb_or_keep_def finish_without_channel simp del: not_None_eq split: sum.split)

text \<open>
  A machine whose clock goes forward: no call sets it back and a sleep moves it
  by at least its length.
\<close>

locale forward_clock =
  fixes rm :: "('t, 'w) remote" and clock :: "'w \<Rightarrow> rat"
  assumes read_json_forward: "rm_read_json rm p t w = (x, t', w') \<Longrightarrow> clock w \<le> clock w'"
    and read_text_forward: "rm_read_text rm p t w = (y, t', w') \<Longrightarrow> clock w \<le> clock w'"
    and clock_forward: "rm_clock rm w = (z, w') \<Longrightarrow> clock w \<le> clock w'"
    and now_forward: "rm_now rm w = (now, w') \<Longrightarrow> clock w \<le> clock w'"
    and write_forward: "rm_write_local rm name body w = (u, w') \<Longrightarrow> clock w \<le> clock w'"
    and persist_forward: "clock w \<le> clock (rm_persist rm env w)"
    and time_reads: "rm_time rm w = (v, w') \<Longrightarrow> v = clock w \<and> clock w \<le> clock w'"
    and sleep_forward: "clock w + d \<le> clock (rm_sleep rm d w)"
begin

lemma log_forward:
  assumes "pull_runner_log rm job_id t w = (x, t', w')"
  shows "clock w \<le> clock w'"
proof -
  obtain y status t1 w1 where r: "rm_read_text rm (remote_file job_id ''runner.log'') t w = ((y, status), t1, w1)"
    by (metis prod.collapse)
  have "w' = w1 \<or> (\<exists>b u. rm_write_local rm ''runner.log'' b w1 = (u, w'))"
    using assms by (auto simp: pull_runner_log_def r split: if_splits read_status.splits option.splits
        prod.splits sum.splits)
  then show ?thesis using read_text_forward [OF r] by (auto dest: write_forward)
qed

lemma late_forward:
  assumes po: "po_remote po = rm" and l: "late_result po why t w = (nx, t', w')"
  shows "clock w \<le> clock w'"
proof -
  obtain x t1 w1 where r: "rm_read_json rm (remote_file (po_job_id po) ''result.json'') t w = (x, t1, w1)"
    by (metis prod.collapse)
  have "w' = w1" using l unfolding late_result_def po r by (cases x) simp
  with read_json_forward [OF r] show ?thesis by simp
qed

lemma since_forward: "seconds_since_launch rm env w = (x, w') \<Longrightarrow> clock w \<le> clock w'"
  by (auto simp: seconds_since_launch_def dest: now_forward split: option.splits prod.splits)

lemma watchdog_forward:
  assumes "po_remote po = rm" "watchdog_pass po wd s t w = (nx, s', t', w')"
  shows "clock w \<le> clock w'"
proof -
  obtain now w1 where c: "rm_clock rm w = (now, w1)" by (metis prod.collapse)
  have "w' = w1 \<or> (\<exists>why t2 nx2. late_result po why t w1 = (nx2, t2, w'))"
    using assms by (auto simp: watchdog_pass_def c Let_def split: prod.splits if_splits)
  then show ?thesis using clock_forward [OF c] late_forward [OF assms(1)] by (metis order_refl order_trans)
qed

lemma launch_forward:
  assumes po: "po_remote po = rm" and l: "launch_pass po since s t w = (nx, s', t', w')"
  shows "clock w \<le> clock w'"
proof -
  obtain x status t1 w1 where r: "rm_read_json rm (remote_file (po_job_id po) ''launch.json'') t w = ((x, status), t1, w1)"
    by (metis prod.collapse)
  obtain absent w2 where a: "(case sup_absent_since s of Some a \<Rightarrow> (a, w1) | None \<Rightarrow> rm_clock rm w1) = (absent, w2)"
    by (metis prod.collapse)
  obtain now w3 where n: "rm_clock rm w2 = (now, w3)" by (metis prod.collapse)
  have "w' = w1 \<or> w' = w3 \<or> (\<exists>why nx2 t2. late_result po why t1 w3 = (nx2, t2, w'))"
    using l unfolding launch_pass_def po r by (auto simp: a n Let_def split: if_splits prod.splits)
  moreover have "clock w \<le> clock w1" by (rule read_json_forward [OF r])
  moreover have "clock w1 \<le> clock w2" using a clock_forward by (auto split: option.splits)
  moreover have "clock w2 \<le> clock w3" by (rule clock_forward [OF n])
  ultimately show ?thesis using late_forward [OF po] by (metis order_trans)
qed

lemma records_forward:
  assumes po: "po_remote po = rm" and p: "records_pass po s t w = (nx, s', t', w')"
  shows "clock w \<le> clock w'"
proof -
  obtain wd status t1 w1 where r: "rm_read_json rm (remote_file (po_job_id po) ''watchdog.json'') t w = ((wd, status), t1, w1)"
    by (metis prod.collapse)
  obtain since w2 where q: "seconds_since_launch rm (sup_env s) w1 = (since, w2)" by (metis prod.collapse)
  have "w' = w1 \<or> w' = w2 \<or> watchdog_pass po (obj_of wd) s t1 w1 = (nx, s', t', w')
      \<or> (\<exists>x. launch_pass po x s t1 w2 = (nx, s', t', w'))"
    using p unfolding records_pass_def po r by (auto simp: q split: if_splits option.splits)
  then show ?thesis
    using read_json_forward [OF r] since_forward [OF q] watchdog_forward [OF po] launch_forward [OF po]
    by (metis order_trans)
qed

lemma pass_forward:
  assumes po: "po_remote po = rm" and p: "poll_pass po n s t w = (nx, n', s', t', w')"
  shows "clock w \<le> clock w'"
proof -
  obtain result status t1 w1 where r: "rm_read_json rm (remote_file (po_job_id po) ''result.json'') t w = ((result, status), t1, w1)"
    by (metis prod.collapse)
  obtain nx2 s2 t2 w2 where q:
    "records_pass po (edit (\<lambda>e. e\<lparr>env_supervisor := S_Running, env_reason := None\<rparr>) s) t1 w1 = (nx2, s2, t2, w2)"
    by (metis prod.collapse)
  obtain x t3 w3 where l: "pull_runner_log rm (po_job_id po) t2 w2 = (x, t3, w3)" by (metis prod.collapse)
  have "w' \<in> {w1, w2} \<or> (\<exists>e. w' = rm_persist rm e w1) \<or> (\<exists>e. w' = rm_persist rm e w3)"
    using p unfolding poll_pass_def po r by (auto simp: q l Let_def split: if_splits poll_next.splits)
  then show ?thesis
    using read_json_forward [OF r] records_forward [OF po q] log_forward [OF l]
      persist_forward [of w1] persist_forward [of w3] by (auto intro: order_trans [of _ "clock w1"] order_trans [of _ "clock w3"])
qed

lemma poll_loop_returns:
  assumes po: "po_remote po = rm" "ctl_result (sp_control (po_spec po)) = None" and pos: "0 < interval"
  shows "deadline - clock w \<le> of_nat k * interval \<Longrightarrow> poll_loop po deadline interval n s t w \<noteq> None"
proof (induction k arbitrary: n s t w)
  case 0
  obtain now w1 where t: "rm_time rm w = (now, w1)" by (metis prod.collapse)
  then have "deadline \<le> now" using 0 time_reads [OF t] by simp
  then show ?case by (simp add: poll_loop.simps [of po] po t)
next
  case (Suc k)
  obtain now w1 where t: "rm_time rm w = (now, w1)" by (metis prod.collapse)
  obtain nx n2 s2 t2 w2 where p: "poll_pass po n s t w1 = (nx, n2, s2, t2, w2)" by (metis prod.collapse)
  have "clock w + interval \<le> clock (rm_sleep rm interval w2)"
    using time_reads [OF t] pass_forward [OF po(1) p] sleep_forward [of w2 interval] by linarith
  then have "deadline - clock (rm_sleep rm interval w2) \<le> of_nat k * interval"
    using Suc.prems by (simp add: algebra_simps)
  then have "poll_loop po deadline interval n2 s2 t2 (rm_sleep rm interval w2) \<noteq> None"
    by (rule Suc.IH)
  moreover have "poll_loop po deadline interval n s t w =
      (if deadline \<le> now then Some (Inr (), interrupted s, t, rm_persist rm (sup_env (interrupted s)) w1)
       else (case nx of
           Go_On \<Rightarrow> poll_loop po deadline interval n2 s2 t2 (rm_sleep rm interval w2)
         | Absorb d \<Rightarrow> absorb_or_keep po d s2 t2 w2
         | Finish why \<Rightarrow> finish_without_result po why s2 t2 w2))"
    by (subst poll_loop.simps) (simp add: po t p split: poll_next.split)
  ultimately show ?case
    using absorb_or_keep_returns [OF po(2)] finish_without_channel [OF po(2)]
    by (cases nx) (auto simp del: not_None_eq)
qed

end

text \<open>
  The slowest such machine: its clock is the total of the supervisor's own
  sleeps, added to any machine whatever.
\<close>

definition beside :: "('w \<Rightarrow> 'a \<times> 'w) \<Rightarrow> 'w \<times> rat \<Rightarrow> 'a \<times> 'w \<times> rat" where
  "beside f wm = (case wm of (w, m) \<Rightarrow> (case f w of (x, w') \<Rightarrow> (x, w', m)))"

definition beside3 :: "('w \<Rightarrow> 'a \<times> 't \<times> 'w) \<Rightarrow> 'w \<times> rat \<Rightarrow> 'a \<times> 't \<times> 'w \<times> rat" where
  "beside3 f wm = (case wm of (w, m) \<Rightarrow> (case f w of (x, t, w') \<Rightarrow> (x, t, w', m)))"

definition slept :: "('t, 'w) remote \<Rightarrow> ('t, 'w \<times> rat) remote" where
  "slept rm = \<lparr>rm_read_json = (\<lambda>p t. beside3 (rm_read_json rm p t)),
     rm_read_text = (\<lambda>p t. beside3 (rm_read_text rm p t)),
     rm_write_json = (\<lambda>p v t. beside3 (rm_write_json rm p v t)),
     rm_problem = rm_problem rm, rm_note = rm_note rm, rm_clock = beside (rm_clock rm),
     rm_time = (\<lambda>wm. (snd wm, wm)), rm_now = beside (rm_now rm),
     rm_sleep = (\<lambda>d (w, m). (rm_sleep rm d w, m + d)),
     rm_write_local = (\<lambda>n b. beside (rm_write_local rm n b)),
     rm_persist = (\<lambda>e (w, m). (rm_persist rm e w, m))\<rparr>"

definition slept_poller :: "('t, 'w) poller \<Rightarrow> ('t, 'w \<times> rat) poller" where
  "slept_poller po = \<lparr>po_remote = slept (po_remote po), po_pydantic = po_pydantic po, po_spec = po_spec po,
     po_job_id = po_job_id po, po_open = (\<lambda>url n. beside (po_open po url n)), po_loads = po_loads po\<rparr>"

interpretation own_sleeps: forward_clock "slept rm" snd for rm :: "('t, 'w) remote"
  by unfold_locales (auto simp: slept_def beside_def beside3_def split: prod.splits)

text \<open>
  Without a control channel the poll returns: it passes at most once per
  interval until its deadline, whatever the VM, the records and the API answer,
  even if the clock moves by nothing but the poll's own sleeps.
\<close>

theorem poll_returns:
  assumes "0 < interval" and "ctl_result (sp_control (po_spec po)) = None"
  shows "poll (slept_poller po) deadline interval s t (w, m) \<noteq> None"
proof -
  obtain k :: nat where k: "(deadline - m) / interval \<le> of_nat k" using real_arch_simple by blast
  then have d: "deadline - snd (w, m) \<le> of_nat k * interval" using assms(1) by (simp add: field_simps)
  have "po_remote (slept_poller po) = slept (po_remote po)"
    "ctl_result (sp_control (po_spec (slept_poller po))) = None"
    using assms(2) by (simp_all add: slept_poller_def)
  from own_sleeps.poll_loop_returns [OF this assms(1) d] show ?thesis by (simp add: poll_def)
qed

theorem poll_returns_witness:
  "poll (slept_poller (demo_poller\<lparr>po_spec := default_spec ''job'' ''train.py''\<rparr>)) 3600 15
     (sup_init (new_envelope ''1'' ''1'' ''job-1'')) () ((), 0) \<noteq> None"
  by (rule poll_returns) (simp_all add: default_spec_def)

end
