(* ===== verification/Expiry.thy ===== *)
theory Expiry
  imports IsoTime Models UrlId
begin

text \<open>
  The signed-URL part of \<open>job/spec_io.py\<close>: the query of a URL, the expiry that the
  known signatures advertise, and the object identity of a control URL.  Python's
  \<open>bytes.decode("utf-8", "replace")\<close> and \<open>datetime.fromisoformat\<close> are the
  parameters \<open>dec\<close> and \<open>iso\<close>; a moment is its microseconds since the epoch, and a
  time without a zone is UTC.
\<close>

section \<open>Queries\<close>

text \<open>\<open>urllib.parse.unquote_to_bytes\<close> on an ASCII text.\<close>

fun unquote_bytes :: "string \<Rightarrow> string" where
  "unquote_bytes [] = []"
| "unquote_bytes (c # cs) =
     (case (c = CHR ''%'', cs) of
        (True, a # b # rest) \<Rightarrow>
          if is_hex a \<and> is_hex b then char_of (16 * hex_value a + hex_value b) # unquote_bytes rest
          else c # unquote_bytes cs
      | _ \<Rightarrow> c # unquote_bytes cs)"

text \<open>\<open>unquote\<close>: the ASCII runs are decoded, other characters stay.\<close>

function unquote_runs :: "(string \<Rightarrow> string) \<Rightarrow> string \<Rightarrow> string" where
  "unquote_runs dec [] = []"
| "unquote_runs dec (c # cs) =
     (if is_ascii c
      then dec (unquote_bytes (takeWhile is_ascii (c # cs))) @ unquote_runs dec (dropWhile is_ascii cs)
      else c # unquote_runs dec cs)"
  by pat_completeness auto
termination
  by (relation "measure (length \<circ> snd)") (auto intro: le_imp_less_Suc length_dropWhile_le)

definition unquote :: "(string \<Rightarrow> string) \<Rightarrow> string \<Rightarrow> string" where
  "unquote dec s = (if CHR ''%'' \<in> set s then unquote_runs dec s else s)"

definition unquote_plus :: "(string \<Rightarrow> string) \<Rightarrow> string \<Rightarrow> string" where
  "unquote_plus dec s = unquote dec (map (\<lambda>c. if c = CHR ''+'' then CHR '' '' else c) s)"

text \<open>\<open>parse_qs(query, keep_blank_values=True)\<close>, as the list of its pairs.\<close>

definition parse_qsl :: "(string \<Rightarrow> string) \<Rightarrow> string \<Rightarrow> (string \<times> string) list" where
  "parse_qsl dec q =
     map (\<lambda>nv. case partition_at CHR ''='' nv of
            (name, _, v) \<Rightarrow> (unquote_plus dec name, unquote_plus dec v))
       (List.filter (\<lambda>nv. nv \<noteq> []) (split_on CHR ''&'' q))"

definition query_of :: "(string \<Rightarrow> string) \<Rightarrow> string \<Rightarrow> (string \<times> string) list" where
  "query_of dec url = (case urlsplit url of Inl _ \<Rightarrow> [] | Inr u \<Rightarrow> parse_qsl dec (su_query u))"

section \<open>Dates\<close>

definition epoch_micros :: "int \<Rightarrow> int \<Rightarrow> int \<Rightarrow> int \<Rightarrow> int \<Rightarrow> int \<Rightarrow> int" where
  "epoch_micros y m d hh mm ss = (days_of_civil y m d * 86400 + hh * 3600 + mm * 60 + ss) * 1000000"

definition micros_year :: "int \<Rightarrow> int" where
  "micros_year us = fst (civil_of_days (us div 86400000000))"

text \<open>
  One directive of \<open>strptime\<close>'s pattern: the two-digit alternatives before the
  one-digit ones, as the regular expression lists them.
\<close>

definition digit_val :: "char \<Rightarrow> nat" where
  "digit_val c = code c - 48"

definition two_digits :: "nat \<Rightarrow> nat \<Rightarrow> string \<Rightarrow> (nat \<times> string) list" where
  "two_digits lo hi s =
     (case s of
        a # b # rest \<Rightarrow>
          if is_digit a \<and> is_digit b \<and> lo \<le> 10 * digit_val a + digit_val b
             \<and> 10 * digit_val a + digit_val b \<le> hi
          then [(10 * digit_val a + digit_val b, rest)] else []
      | _ \<Rightarrow> [])
     @ (case s of
        a # rest \<Rightarrow> if is_digit a \<and> min lo 1 \<le> digit_val a then [(digit_val a, rest)] else []
      | _ \<Rightarrow> [])"

definition day_digits :: "string \<Rightarrow> (nat \<times> string) list" where
  "day_digits s = two_digits 1 31 s
     @ (case s of
        a # b # rest \<Rightarrow> if a = CHR '' '' \<and> is_digit b \<and> b \<noteq> CHR ''0'' then [(digit_val b, rest)] else []
      | _ \<Rightarrow> [])"

definition year_digits :: "string \<Rightarrow> (nat \<times> string) list" where
  "year_digits s = (if 4 \<le> length s \<and> list_all is_digit (take 4 s)
     then [(digits_value 0 (take 4 s), drop 4 s)] else [])"

definition letter_at :: "char \<Rightarrow> string \<Rightarrow> string list" where
  "letter_at c s = (case s of a # rest \<Rightarrow> if lower_ascii a = lower_ascii c then [rest] else [] | [] \<Rightarrow> [])"

text \<open>\<open>strptime(value, "%Y%m%dT%H%M%SZ")\<close>: the first match, which must end the text.\<close>

definition utc_date_matches :: "string \<Rightarrow> ((nat \<times> nat \<times> nat \<times> nat \<times> nat \<times> nat) \<times> string) list" where
  "utc_date_matches s =
     [((y, m, d, hh, mm, ss), rest).
        (y, s1) \<leftarrow> year_digits s, (m, s2) \<leftarrow> two_digits 1 12 s1, (d, s3) \<leftarrow> day_digits s2,
        s4 \<leftarrow> letter_at CHR ''T'' s3, (hh, s5) \<leftarrow> two_digits 0 23 s4, (mm, s6) \<leftarrow> two_digits 0 59 s5,
        (ss, s7) \<leftarrow> two_digits 0 61 s6, rest \<leftarrow> letter_at CHR ''Z'' s7]"

definition parse_utc_date :: "string \<Rightarrow> int option" where
  "parse_utc_date value =
     (case utc_date_matches value of
        ((y, m, d, hh, mm, ss), []) # _ \<Rightarrow>
          if 1 \<le> y \<and> int d \<le> days_in_month (int y) (int m) \<and> ss < 60
          then Some (epoch_micros (int y) (int m) (int d) (int hh) (int mm) (int ss)) else None
      | _ \<Rightarrow> None)"

definition parse_seconds :: "string option \<Rightarrow> int option" where
  "parse_seconds value =
     (case Option.bind value parse_int of Some n \<Rightarrow> if 0 \<le> n then Some n else None | None \<Rightarrow> None)"

text \<open>\<open>start + timedelta(seconds=n)\<close>: the constructor bounds the days, the sum the year, on both sides.\<close>

definition overflow :: "string \<Rightarrow> py_error" where
  "overflow m = \<lparr>err_type = ''OverflowError'', err_msg = m\<rparr>"

definition plus_seconds :: "int \<Rightarrow> int \<Rightarrow> (py_error, int) outcome" where
  "plus_seconds start n =
     (let days = n div 86400; year = micros_year (start + n * 1000000) in
      if days < - 2147483648 \<or> 2147483647 < days
        then Inl (overflow ''Python int too large to convert to C int'')
      else if days < - 999999999 \<or> 999999999 < days
        then Inl (overflow (''days='' @ show_int days @ ''; must have magnitude <= 999999999''))
      else if year < 1 \<or> 9999 < year then Inl (overflow ''date value out of range'')
      else Inr (start + n * 1000000))"

section \<open>The advertised expiry\<close>

text \<open>A start and a life in seconds: both are needed once either is given.\<close>

definition signed_expiry :: "string option \<Rightarrow> string option \<Rightarrow> (py_error, int option) outcome option" where
  "signed_expiry date expires =
     (if date = None \<and> parse_seconds expires = None then None
      else Some (case (Option.bind date parse_utc_date, parse_seconds expires) of
          (Some start, Some n) \<Rightarrow> and_then (plus_seconds start n) (\<lambda>t. Inr (Some t))
        | _ \<Rightarrow> Inr None))"

definition parse_signed_url_expiry ::
  "(string \<Rightarrow> string) \<Rightarrow> (string \<Rightarrow> int option) \<Rightarrow> string \<Rightarrow> (py_error, int option) outcome" where
  "parse_signed_url_expiry dec fiso url =
     (let q = map_of (query_of dec url) in
      case signed_expiry (q ''X-Goog-Date'') (q ''X-Goog-Expires'') of
        Some r \<Rightarrow> r
      | None \<Rightarrow>
          (case q ''Expires'' of
             Some v \<Rightarrow>
               Inr (case parse_int v of
                  None \<Rightarrow> None
                | Some n \<Rightarrow> (case iso_of_epoch (of_int n) of Inl _ \<Rightarrow> None | Inr _ \<Rightarrow> Some (n * 1000000)))
           | None \<Rightarrow>
               (case signed_expiry (q ''X-Amz-Date'') (q ''X-Amz-Expires'') of
                  Some r \<Rightarrow> r
                | None \<Rightarrow> Inr (Option.bind (q ''se'') (\<lambda>v. fiso (replace_all ''Z'' ''+00:00'' v))))))"

section \<open>The object of a control URL\<close>

definition gcs_host :: string where "gcs_host = ''storage.googleapis.com''"

definition control_object_identity :: "(string \<Rightarrow> string) \<Rightarrow> string \<Rightarrow> (string \<times> string) option" where
  "control_object_identity dec url =
     (case urlsplit url of
        Inl _ \<Rightarrow> None
      | Inr u \<Rightarrow>
          (let host = py_lower (case url_hostname u of None \<Rightarrow> [] | Some h \<Rightarrow> h);
               path = unquote dec (lstrip (\<lambda>c. c = CHR ''/'') (su_path u));
               found = (if host = gcs_host then
                     (case partition_at CHR ''/'' path of
                        (bucket, True, name) \<Rightarrow> Some (bucket, name) | _ \<Rightarrow> None)
                  else if suffix (''.'' @ gcs_host) host
                  then Some (take (length host - length gcs_host - 1) host, path)
                  else None)
           in case found of
                Some (bucket, name) \<Rightarrow> if bucket = [] \<or> name = [] then None else Some (bucket, name)
              | None \<Rightarrow> None))"

section \<open>What a signature's life may be\<close>

text \<open>
  The one exception of the parser: a start and a life whose sum is past the year 9999.
  A life that the signature calls invalid, or an expiry that is no time, is \<open>None\<close>.
\<close>

lemma plus_seconds_raises: "plus_seconds start n = Inl e \<Longrightarrow> err_type e = ''OverflowError''"
  by (auto simp: plus_seconds_def overflow_def Let_def split: if_splits)

lemma signed_expiry_raises: "signed_expiry date expires = Some (Inl e) \<Longrightarrow> err_type e = ''OverflowError''"
  by (auto simp: signed_expiry_def split: if_splits option.splits sum.splits dest!: plus_seconds_raises
      elim!: and_then.elims)

lemma expiry_raises: "parse_signed_url_expiry dec fiso url = Inl e \<Longrightarrow> err_type e = ''OverflowError''"
  by (auto simp: parse_signed_url_expiry_def Let_def split: option.splits if_splits
      dest!: signed_expiry_raises)

definition endless_url :: string where
  "endless_url = ''https://storage.googleapis.com/b/o?X-Goog-Date=20260101T000000Z&X-Goog-Expires=999999999999''"

lemma query_endless: "query_of id endless_url
    = [(''X-Goog-Date'', ''20260101T000000Z''), (''X-Goog-Expires'', ''999999999999'')]"
  by code_simp

lemma date_endless: "parse_utc_date ''20260101T000000Z'' = Some 1767225600000000"
  by code_simp

lemma seconds_endless: "parse_seconds (Some ''999999999999'') = Some 999999999999"
  by (simp add: parse_seconds_def parse_int_def strip_def lstrip_def rstrip_def digit_groups_def
      is_space_def is_digit_def code_def Let_def)

lemma endless_expiry_raises:
  "parse_signed_url_expiry id (\<lambda>_. None) endless_url
     = Inl \<lparr>err_type = ''OverflowError'', err_msg = ''date value out of range''\<rparr>"
proof -
  have "9999 < micros_year (1767225600000000 + 999999999999 * 1000000)"
    by code_simp
  then show ?thesis
    by (simp add: parse_signed_url_expiry_def query_endless signed_expiry_def date_endless
        seconds_endless plus_seconds_def overflow_def Let_def)
qed

end
