(* ===== verification/UrlMarker.thy ===== *)
theory UrlMarker
  imports UrlId Models
begin

text \<open>
  Which references \<open>redacted_url\<close> gives are recognised by \<open>is_redacted_url\<close>: those of
  every URL whose network location has no brackets.  The lemmas take a URL apart
  into the characters of its parts and put a URL together from plain parts.
\<close>

section \<open>A URL from its parts\<close>

lemma partition_at_append: "c \<notin> set a \<Longrightarrow> partition_at c (a @ c # b) = (a, True, b)"
  by (simp add: partition_at_eq)

text \<open>A URL put together from plain parts splits into them.\<close>

lemma code_inj: "code c = code d \<longleftrightarrow> c = d"
  by (simp add: code_def)

definition plain_char :: "char \<Rightarrow> bool" where
  "plain_char c \<longleftrightarrow> code c \<notin> {9, 10, 13}"

lemma takeWhile_head: "\<forall>c \<in> set a. P c \<Longrightarrow> b = [] \<or> \<not> P (hd b) \<Longrightarrow> takeWhile P (a @ b) = a \<and> dropWhile P (a @ b) = b"
  by (cases b) (auto simp: takeWhile_append)

lemma urlsplit_compose:
  assumes scheme: "sch \<noteq> []" "is_ascii_alpha (hd sch)" "list_all is_scheme_char sch"
    and host: "\<forall>c \<in> set host. \<not> is_netloc_end c \<and> c \<noteq> CHR ''['' \<and> c \<noteq> CHR '']''"
    and path: "path = [] \<or> hd path = CHR ''/''" "CHR ''?'' \<notin> set path" "CHR ''#'' \<notin> set path"
    and plain: "list_all plain_char (host @ path @ frag)"
  shows "urlsplit (sch @ ''://'' @ host @ path @ ''#'' @ frag)
     = Inr \<lparr>su_scheme = py_lower sch, su_netloc = host, su_path = path, su_query = [], su_fragment = frag\<rparr>"
proof -
  let ?url = "sch @ ''://'' @ host @ path @ ''#'' @ frag"
  have sc: "plain_char c \<and> c \<noteq> CHR '':''" if "is_scheme_char c" for c
    using that by (auto simp: is_scheme_char_def plain_char_def is_ascii_alpha_def is_digit_def code_def)
  have first: "\<not> code (hd sch) \<le> 32" using scheme(2) by (auto simp: is_ascii_alpha_def)
  have "lstrip (\<lambda>c. code c \<le> 32) ?url = ?url"
    using scheme(1) first by (cases sch) (auto simp: lstrip_def)
  moreover have "list_all plain_char ?url"
    using scheme(3) plain sc by (auto simp: list_all_iff plain_char_def code_def)
  ultimately have clean: "clean_url ?url = ?url"
    by (auto simp: clean_url_def plain_char_def list_all_iff intro!: filter_True)
  have "CHR '':'' \<notin> set sch" using scheme(3) sc by (auto simp: list_all_iff)
  then have "partition_at CHR '':'' ?url = (sch, True, ''//'' @ host @ path @ ''#'' @ frag)"
    using partition_at_append [of "CHR '':''" sch "''//'' @ host @ path @ ''#'' @ frag"] by simp
  then have split: "split_scheme (clean_url ?url) = (py_lower sch, ''//'' @ host @ path @ ''#'' @ frag)"
    using scheme clean by (simp add: split_scheme_def)
  have net: "takeWhile (\<lambda>c. \<not> is_netloc_end c) (host @ path @ ''#'' @ frag) = host \<and>
    dropWhile (\<lambda>c. \<not> is_netloc_end c) (host @ path @ ''#'' @ frag) = path @ ''#'' @ frag"
    using host path(1) by (intro takeWhile_head) (cases path; auto simp: is_netloc_end_def)+
  have brackets: "netloc_problem host = None" using host by (auto simp: netloc_problem_def)
  have tail: "split_tail (py_lower sch) host (path @ ''#'' @ frag)
      = \<lparr>su_scheme = py_lower sch, su_netloc = host, su_path = path, su_query = [], su_fragment = frag\<rparr>"
    using path partition_at_append [of "CHR ''#''" path frag] partition_at_missing [of "CHR ''?''" path]
    by (simp add: split_tail_def)
  show ?thesis
    unfolding urlsplit_def split using net tail by (simp add: brackets)
qed

lemma clean_plain: "list_all plain_char (clean_url s)"
  by (auto simp: clean_url_def plain_char_def list_all_iff)

lemma lower_char_same: "lower_char c = c \<or> code (lower_char c) = code c + 32 \<and> 65 \<le> code c \<and> (code c \<le> 90 \<or> 192 \<le> code c)"
  by (auto simp: lower_char_def)

lemma lower_plain [simp]: "plain_char (lower_char c) \<longleftrightarrow> plain_char c"
  using lower_char_same [of c] by (auto simp: plain_char_def)

lemma char_codes:
  "c = CHR ''/'' \<longleftrightarrow> code c = 47" "c = CHR ''?'' \<longleftrightarrow> code c = 63" "c = CHR ''#'' \<longleftrightarrow> code c = 35"
  "c = CHR ''['' \<longleftrightarrow> code c = 91" "c = CHR '']'' \<longleftrightarrow> code c = 93" "c = CHR '':'' \<longleftrightarrow> code c = 58"
proof -
  have "code CHR ''/'' = 47" "code CHR ''?'' = 63" "code CHR ''#'' = 35"
    "code CHR ''['' = 91" "code CHR '']'' = 93" "code CHR '':'' = 58"
    by (simp_all add: code_def)
  then show "c = CHR ''/'' \<longleftrightarrow> code c = 47" "c = CHR ''?'' \<longleftrightarrow> code c = 63" "c = CHR ''#'' \<longleftrightarrow> code c = 35"
    "c = CHR ''['' \<longleftrightarrow> code c = 91" "c = CHR '']'' \<longleftrightarrow> code c = 93" "c = CHR '':'' \<longleftrightarrow> code c = 58"
    using code_inj by metis+
qed

lemma lower_code_same:
  "n \<notin> {65..90} \<Longrightarrow> n \<notin> {97..122} \<Longrightarrow> n < 192 \<Longrightarrow> code (lower_char c) = n \<longleftrightarrow> code c = n"
  using lower_char_same [of c] by auto

lemma lower_netloc_end [simp]: "is_netloc_end (lower_char c) \<longleftrightarrow> is_netloc_end c"
  unfolding is_netloc_end_def insert_iff empty_iff char_codes by (simp add: lower_code_same)

lemma lower_special:
  "lower_char c = CHR ''['' \<longleftrightarrow> c = CHR ''[''" "lower_char c = CHR '']'' \<longleftrightarrow> c = CHR '']''"
  "lower_char c = CHR '':'' \<longleftrightarrow> c = CHR '':''"
  unfolding char_codes by (simp_all add: lower_code_same)

text \<open>A host name and its port are made of the characters of the network location.\<close>

definition host_char :: "char \<Rightarrow> bool" where
  "host_char c \<longleftrightarrow> \<not> is_netloc_end c \<and> c \<noteq> CHR ''['' \<and> c \<noteq> CHR '']'' \<and> plain_char c"

lemma lower_host_char [simp]: "host_char (lower_char c) \<longleftrightarrow> host_char c"
  by (simp add: host_char_def lower_special)

lemma digit_host_char: "is_digit c \<Longrightarrow> host_char c"
  by (auto simp: host_char_def is_netloc_end_def plain_char_def is_digit_def code_def)

lemma hostinfo_chars: "set (fst (hostinfo u)) \<union> set (snd (hostinfo u)) \<subseteq> set (su_netloc u)"
proof -
  let ?info = "after_last CHR ''@'' (su_netloc u)"
  obtain b f br where 1: "partition_at CHR ''['' ?info = (b, f, br)" by (metis prod.collapse)
  obtain h g p where 2: "partition_at CHR '']'' br = (h, g, p)" by (metis prod.collapse)
  obtain x y z where 3: "partition_at CHR '':'' p = (x, y, z)" by (metis prod.collapse)
  obtain h' g' p' where 4: "partition_at CHR '':'' ?info = (h', g', p')" by (metis prod.collapse)
  have "set (fst (hostinfo u)) \<union> set (snd (hostinfo u)) \<subseteq> set ?info"
    using partition_at_sets [OF 1] partition_at_sets [OF 2] partition_at_sets [OF 3] partition_at_sets [OF 4]
    by (auto simp: hostinfo_def Let_def 1 2 3 4)
  then show ?thesis using set_after_last by blast
qed

lemma hostname_chars:
  assumes "url_hostname u = Some h" and "list_all host_char (su_netloc u)"
  shows "list_all host_char h"
proof -
  have "\<forall>c \<in> set (fst (hostinfo u)). host_char c" using assms(2) hostinfo_chars by (fastforce simp: list_all_iff)
  moreover have "host_char CHR ''%''" by code_simp
  ultimately show ?thesis using assms(1)
    by (auto simp: url_hostname_def Let_def list_all_iff py_lower_def subset_iff split: prod.splits if_splits
        dest!: partition_at_sets)
qed

lemma hostname_no_colon:
  assumes "CHR ''['' \<notin> set (su_netloc u)" and "url_hostname u = Some h"
  shows "CHR '':'' \<notin> set h"
proof -
  let ?info = "after_last CHR ''@'' (su_netloc u)"
  have "CHR ''['' \<notin> set ?info" using assms(1) set_after_last by blast
  moreover obtain a f b where p: "partition_at CHR '':'' ?info = (a, f, b)" by (metis prod.collapse)
  ultimately have host: "fst (hostinfo u) = a" by (simp add: hostinfo_def Let_def partition_at_missing)
  have a: "CHR '':'' \<notin> set a"
    using p partition_at_None [of "CHR '':''" ?info] partition_at_missing [of "CHR '':''" ?info]
    by (cases f) (auto simp: partition_at_eq)
  obtain n f' z where q: "partition_at CHR ''%'' a = (n, f', z)" by (metis prod.collapse)
  have "\<forall>c \<in> set n \<union> set z. c \<noteq> CHR '':''" using partition_at_sets [OF q] a by blast
  then have "CHR '':'' \<notin> set z" and "CHR '':'' \<notin> set (py_lower n)"
    unfolding py_lower_def set_map image_iff by (blast, metis lower_special(3) UnI1)
  moreover have "h = py_lower n @ (if f' then CHR ''%'' # z else [])"
    using assms(2) by (auto simp: url_hostname_def host q Let_def split: if_splits)
  ultimately show ?thesis by simp
qed

lemma public_host_chars:
  assumes "list_all host_char (su_netloc u)"
  shows "list_all host_char (public_host u)"
proof -
  have "CHR ''['' \<notin> set (su_netloc u)" using assms by (auto simp: list_all_iff host_char_def)
  note colon = hostname_no_colon [OF this]
  have "host_char CHR '':''" by code_simp
  moreover have "\<forall>c \<in> set (show_nat n). host_char c" for n
    using show_nat_digits digit_host_char by blast
  ultimately show ?thesis using assms hostname_chars [of u] colon
    by (auto simp: public_host_def Let_def list_all_iff split: option.splits sum.splits)
qed

text \<open>The marker of a URL whose network location is plain is recognised as one.\<close>

definition plain_url :: "string \<Rightarrow> bool" where
  "plain_url url =
     (case urlsplit url of
        Inl _ \<Rightarrow> False
      | Inr u \<Rightarrow> su_scheme u \<noteq> [] \<and> su_netloc u \<noteq> [] \<and> list_all host_char (su_netloc u))"

lemma lower_alpha: "is_ascii_alpha c \<Longrightarrow> is_ascii_alpha (lower_char c)"
  using lower_char_same [of c] by (auto simp: is_ascii_alpha_def)

lemma lower_scheme_char: "is_scheme_char c \<Longrightarrow> is_scheme_char (lower_char c)"
proof (cases "is_ascii_alpha c")
  case False
  assume "is_scheme_char c"
  moreover have "lower_char c = c" if "code c < 65"
    using lower_char_same [of c] that by simp
  moreover have "code CHR ''+'' < 65" "code CHR ''-'' < 65" "code CHR ''.'' < 65" by (simp_all add: code_def)
  ultimately show ?thesis using False by (auto simp: is_scheme_char_def is_digit_def)
qed (simp add: is_scheme_char_def lower_alpha)

lemma split_scheme_form:
  "split_scheme s = (sch, rest) \<Longrightarrow> sch \<noteq> []
    \<Longrightarrow> is_ascii_alpha (hd sch) \<and> list_all is_scheme_char sch"
  by (auto simp: split_scheme_def py_lower_def hd_map lower_alpha lower_scheme_char list.pred_map
      split: prod.splits if_splits elim!: list.pred_mono_strong)

lemma split_tail_fields [simp]: "su_scheme (split_tail s n r) = s" "su_netloc (split_tail s n r) = n"
  by (simp_all add: split_tail_def split: prod.split)

lemma urlsplit_forms:
  assumes "urlsplit url = Inr u" and "split_scheme (clean_url url) = (sch, rest)"
  shows "su_scheme u = sch"
    and "su_netloc u \<noteq> [] \<Longrightarrow> u = split_tail sch (su_netloc u)
           (dropWhile (\<lambda>c. \<not> is_netloc_end c) (drop 2 rest))"
  using assms(1) unfolding urlsplit_def assms(2) prod.case Let_def
  by (auto split: if_splits option.splits)

lemma split_tail_path:
  assumes "r = [] \<or> is_netloc_end (hd r)"
  shows "let p = su_path (split_tail s n r) in
     (p = [] \<or> hd p = CHR ''/'') \<and> CHR ''#'' \<notin> set p \<and> set p \<subseteq> set r"
proof -
  obtain b f fr where 1: "partition_at CHR ''#'' r = (b, f, fr)" by (metis prod.collapse)
  obtain p g q where 2: "partition_at CHR ''?'' b = (p, g, q)" by (metis prod.collapse)
  have b: "CHR ''#'' \<notin> set b" "\<exists>x. r = b @ x"
    using 1 partition_at_eq [of "CHR ''#''" r b fr] partition_at_None [of "CHR ''#''" r]
    by (cases f; auto simp: partition_at_missing)+
  have p: "CHR ''?'' \<notin> set p" "\<exists>x. b = p @ x"
    using 2 partition_at_eq [of "CHR ''?''" b p q] partition_at_None [of "CHR ''?''" b]
    by (cases g; auto simp: partition_at_missing)+
  have "p = [] \<or> hd p = CHR ''/''"
    using assms b p by (cases p) (auto simp: is_netloc_end_def)
  with b p show ?thesis by (auto simp: split_tail_def 1 2 Let_def)
qed

lemma plain_url_parts:
  assumes "urlsplit url = Inr u" and "su_netloc u \<noteq> []"
  shows "(su_path u = [] \<or> hd (su_path u) = CHR ''/'') \<and> CHR ''#'' \<notin> set (su_path u)
    \<and> list_all plain_char (su_path u)"
proof -
  obtain sch rest where s: "split_scheme (clean_url url) = (sch, rest)" by (metis prod.collapse)
  let ?r = "dropWhile (\<lambda>c. \<not> is_netloc_end c) (drop 2 rest)"
  have u: "u = split_tail sch (su_netloc u) ?r" using urlsplit_forms(2) [OF assms(1) s] assms(2) by blast
  have "?r = [] \<or> is_netloc_end (hd ?r)" using hd_dropWhile by blast
  from split_tail_path [OF this, of sch "su_netloc u"] u
  have path: "su_path u = [] \<or> hd (su_path u) = CHR ''/''" "CHR ''#'' \<notin> set (su_path u)" "set (su_path u) \<subseteq> set ?r"
    by (auto simp: Let_def)
  have "set ?r \<subseteq> set (clean_url url)"
    using set_split_scheme [of "clean_url url"] s by (auto dest!: set_dropWhileD in_set_dropD)
  with path clean_plain [of url] show ?thesis by (auto simp: list_all_iff)
qed

lemma hex_plain: "is_hex_lower c \<Longrightarrow> plain_char c"
  by (auto simp: plain_char_def is_hex_lower_def is_digit_def)

lemma py_lower_idem [simp]: "py_lower (py_lower s) = py_lower s"
  by (auto simp: py_lower_def lower_char_def)

lemma split_scheme_lower: "split_scheme s = (sch, rest) \<Longrightarrow> py_lower sch = sch"
  by (auto simp: split_scheme_def split: prod.splits if_splits) (simp_all add: py_lower_def)

lemma plain_url_redacted:
  assumes "plain_url url" and split: "urlsplit url = Inr u"
  shows "urlsplit (redacted_url url) = Inr \<lparr>su_scheme = su_scheme u, su_netloc = public_host u,
      su_path = su_path u, su_query = [], su_fragment = secret_fragment_prefix @ url_digest url\<rparr>"
proof -
  from assms have u: "urlsplit url = Inr u" "su_scheme u \<noteq> []" "su_netloc u \<noteq> []"
    "list_all host_char (su_netloc u)" by (simp_all add: plain_url_def)
  let ?frag = "secret_fragment_prefix @ url_digest url"
  obtain sch rest where s: "split_scheme (clean_url url) = (sch, rest)" by (metis prod.collapse)
  have lower: "py_lower (su_scheme u) = su_scheme u"
    using split_scheme_lower [OF s] urlsplit_forms(1) [OF u(1) s] by simp
  from s urlsplit_forms(1) [OF u(1) s] u(2) have sch: "is_ascii_alpha (hd (su_scheme u))" "list_all is_scheme_char (su_scheme u)"
    using split_scheme_form by blast+
  have host: "list_all host_char (public_host u)" using u(4) by (rule public_host_chars)
  have "list_all plain_char secret_fragment_prefix" by code_simp
  then have frag: "list_all plain_char ?frag"
    using sha256_hex_lower hex_plain by (auto simp: list_all_iff url_digest_def)
  have "redacted_url url = su_scheme u @ ''://'' @ public_host u @ su_path u @ ''#'' @ ?frag"
    by (simp add: redacted_url_def canonical_url_def u(1))
  moreover note parts = plain_url_parts [OF u(1) u(3)]
  have net: "\<forall>c \<in> set (public_host u). \<not> is_netloc_end c \<and> c \<noteq> CHR ''['' \<and> c \<noteq> CHR '']''"
    using host by (simp add: list_all_iff host_char_def)
  have "list_all plain_char (public_host u)"
    using host by (rule list.pred_mono_strong) (simp add: host_char_def)
  with frag parts have plain: "list_all plain_char (public_host u @ su_path u @ ?frag)" by simp
  ultimately show ?thesis
    using urlsplit_compose [OF u(2) sch net _ path_no_question [OF u(1)] _ plain] parts lower by simp
qed

lemma plain_url_marker:
  assumes "plain_url url"
  shows "is_redacted_url (redacted_url url)"
proof -
  from assms obtain u where "urlsplit url = Inr u" by (auto simp: plain_url_def split: sum.splits)
  from plain_url_redacted [OF assms this] show ?thesis
    using sha256_hex_lower by (simp add: is_redacted_url_def url_digest_def)
qed

lemma plain_url_no_marker: "has_url_query u \<Longrightarrow> plain_url u \<Longrightarrow> \<not> is_redacted_url u"
  by (auto simp: has_url_query_def is_redacted_url_def plain_url_def split: sum.splits)

end
