(* ===== verification/Store.thy ===== *)
theory Store
  imports UrlMarker
begin

text \<open>
  \<open>job/store.py\<close>: the job's durable records.  The plan is stored in two files, one
  without credentials and a sidecar that only the owner can read; the envelope is
  stored with an event for the outcome; an apply owns its job by a lock.
  \<open>json.dumps\<close> and \<open>json.loads\<close> (\<open>dumps\<close>, \<open>loads\<close>) and pydantic are parameters.
\<close>

section \<open>URLs with credentials\<close>

type_synonym secrets = "(string \<times> string) list"

fun url_field :: "string option \<Rightarrow> bool" where
  "url_field None = False"
| "url_field (Some key) = (key = ''url'' \<or> suffix ''_url'' key)"

text \<open>\<open>_redact\<close>: a document without credentials, and what it replaced.\<close>

fun redact_json :: "string option \<Rightarrow> json \<Rightarrow> secrets \<Rightarrow> json \<times> secrets"
  and redact_list :: "string option \<Rightarrow> json list \<Rightarrow> secrets \<Rightarrow> json list \<times> secrets"
  and redact_fields :: "json_obj \<Rightarrow> secrets \<Rightarrow> json_obj \<times> secrets" where
  "redact_json key (JObj d) ss = (case redact_fields d ss of (d, ss) \<Rightarrow> (JObj d, ss))"
| "redact_json key (JArr vs) ss = (case redact_list key vs ss of (vs, ss) \<Rightarrow> (JArr vs, ss))"
| "redact_json key (JStr s) ss =
     (if url_field key \<and> has_url_query s
      then (JStr (redacted_url s), dict_set (redacted_url s) s ss) else (JStr s, ss))"
| "redact_json key v ss = (v, ss)"
| "redact_list key [] ss = ([], ss)"
| "redact_list key (v # vs) ss =
     (case redact_json key v ss of (v, ss) \<Rightarrow>
      case redact_list key vs ss of (vs, ss) \<Rightarrow> (v # vs, ss))"
| "redact_fields [] ss = ([], ss)"
| "redact_fields ((k, v) # d) ss =
     (case redact_json (Some k) v ss of (v, ss) \<Rightarrow>
      case redact_fields d ss of (d, ss) \<Rightarrow> ((k, v) # d, ss))"

text \<open>\<open>_marker_set\<close>, as a list.\<close>

fun marker_set :: "string option \<Rightarrow> json \<Rightarrow> string list" where
  "marker_set key (JObj d) = concat (map (\<lambda>(k, v). marker_set (Some k) v) d)"
| "marker_set key (JArr vs) = concat (map (marker_set key) vs)"
| "marker_set key (JStr s) = (if url_field key \<and> is_redacted_url s then [s] else [])"
| "marker_set key v = []"

definition hydrate_error :: "string \<Rightarrow> py_error" where
  "hydrate_error m = \<lparr>err_type = ''ValueError'', err_msg = m\<rparr>"

fun hydrate_json :: "secrets \<Rightarrow> string option \<Rightarrow> json \<Rightarrow> (py_error, json) outcome"
  and hydrate_list :: "secrets \<Rightarrow> string option \<Rightarrow> json list \<Rightarrow> (py_error, json list) outcome"
  and hydrate_fields :: "secrets \<Rightarrow> json_obj \<Rightarrow> (py_error, json_obj) outcome" where
  "hydrate_json ss key (JObj d) = and_then (hydrate_fields ss d) (\<lambda>d. Inr (JObj d))"
| "hydrate_json ss key (JArr vs) = and_then (hydrate_list ss key vs) (\<lambda>vs. Inr (JArr vs))"
| "hydrate_json ss key (JStr s) =
     (if url_field key then
        (if is_redacted_url s then
           (case map_of ss s of
              Some raw \<Rightarrow> Inr (JStr raw)
            | None \<Rightarrow> Inl (hydrate_error ''plan secret sidecar is missing a URL reference''))
         else if has_url_query s then Inl (hydrate_error ''plan file contains an unprotected signed URL'')
         else Inr (JStr s))
      else Inr (JStr s))"
| "hydrate_json ss key v = Inr v"
| "hydrate_list ss key [] = Inr []"
| "hydrate_list ss key (v # vs) =
     and_then (hydrate_json ss key v) (\<lambda>v. and_then (hydrate_list ss key vs) (\<lambda>vs. Inr (v # vs)))"
| "hydrate_fields ss [] = Inr []"
| "hydrate_fields ss ((k, v) # d) =
     and_then (hydrate_json ss (Some k) v) (\<lambda>v. and_then (hydrate_fields ss d) (\<lambda>d. Inr ((k, v) # d)))"

section \<open>What redaction does\<close>

text \<open>The texts of the URL fields, in the order of the document, and a map over them.\<close>

fun url_texts :: "string option \<Rightarrow> json \<Rightarrow> string list" where
  "url_texts key (JObj d) = concat (map (\<lambda>(k, v). url_texts (Some k) v) d)"
| "url_texts key (JArr vs) = concat (map (url_texts key) vs)"
| "url_texts key (JStr s) = (if url_field key then [s] else [])"
| "url_texts key v = []"

fun map_urls :: "(string \<Rightarrow> string) \<Rightarrow> string option \<Rightarrow> json \<Rightarrow> json" where
  "map_urls f key (JObj d) = JObj (map (\<lambda>(k, v). (k, map_urls f (Some k) v)) d)"
| "map_urls f key (JArr vs) = JArr (map (map_urls f key) vs)"
| "map_urls f key (JStr s) = (if url_field key then JStr (f s) else JStr s)"
| "map_urls f key v = v"

definition mark_url :: "string \<Rightarrow> string" where
  "mark_url u = (if has_url_query u then redacted_url u else u)"

definition note_url :: "string \<Rightarrow> secrets \<Rightarrow> secrets" where
  "note_url u ss = (if has_url_query u then dict_set (redacted_url u) u ss else ss)"

lemma redact_as_map:
  "redact_json key v ss = (map_urls mark_url key v, fold note_url (url_texts key v) ss)"
  "redact_list key vs ss
     = (map (map_urls mark_url key) vs, fold note_url (concat (map (url_texts key) vs)) ss)"
  "redact_fields d ss
     = (map (\<lambda>(k, v). (k, map_urls mark_url (Some k) v)) d,
        fold note_url (concat (map (\<lambda>(k, v). url_texts (Some k) v) d)) ss)"
  by (induction key v ss and key vs ss and d ss rule: redact_json_redact_list_redact_fields.induct)
    (auto simp: mark_url_def note_url_def)

lemma url_texts_map: "url_texts key (map_urls f key v) = map f (url_texts key v)"
  by (induction f key v rule: map_urls.induct)
    (auto simp: map_concat comp_def case_prod_unfold intro!: arg_cong [where f = concat])

lemma marker_set_eq: "marker_set key v = List.filter is_redacted_url (url_texts key v)"
  by (induction key v rule: marker_set.induct)
    (auto simp: filter_concat comp_def case_prod_unfold intro!: arg_cong [where f = concat])

text \<open>Hydration fails, or replaces each marker by what the sidecar has for it.\<close>

definition lookup_url :: "secrets \<Rightarrow> string \<Rightarrow> string" where
  "lookup_url ss u = (if is_redacted_url u then the (map_of ss u) else u)"

definition hydratable :: "secrets \<Rightarrow> string \<Rightarrow> bool" where
  "hydratable ss u \<longleftrightarrow> (if is_redacted_url u then map_of ss u \<noteq> None else \<not> has_url_query u)"

lemma hydrate_as_map:
  "set (url_texts key v) \<subseteq> {u. hydratable ss u} \<Longrightarrow> hydrate_json ss key v = Inr (map_urls (lookup_url ss) key v)"
  "set (concat (map (url_texts key) vs)) \<subseteq> {u. hydratable ss u}
     \<Longrightarrow> hydrate_list ss key vs = Inr (map (map_urls (lookup_url ss) key) vs)"
  "set (concat (map (\<lambda>(k, v). url_texts (Some k) v) d)) \<subseteq> {u. hydratable ss u}
     \<Longrightarrow> hydrate_fields ss d = Inr (map (\<lambda>(k, v). (k, map_urls (lookup_url ss) (Some k) v)) d)"
  by (induction ss key v and ss key vs and ss d rule: hydrate_json_hydrate_list_hydrate_fields.induct)
    (auto simp: hydratable_def lookup_url_def split: if_splits)

lemma map_urls_map: "map_urls f key (map_urls g key v) = map_urls (f \<circ> g) key v"
  by (induction g key v rule: map_urls.induct) (auto simp: case_prod_unfold)

lemma map_urls_id: "\<forall>u \<in> set (url_texts key v). f u = u \<Longrightarrow> map_urls f key v = v"
proof (induction f key v rule: map_urls.induct)
  case (1 f key d)
  have "map_urls f (Some a) b = b" if "(a, b) \<in> set d" for a b
    using 1 that by fastforce
  then show ?case by (auto simp: case_prod_unfold intro!: map_idI prod_eqI)
next
  case (2 f key vs)
  then show ?case by (auto intro!: map_idI)
qed auto

text \<open>
  A marker names its URL by the digest, so two URLs share one only if their digests
  agree.
\<close>

lemma redacted_url_inj: "redacted_url a = redacted_url b \<Longrightarrow> url_digest a = url_digest b"
proof -
  assume "redacted_url a = redacted_url b"
  then have "drop (length (redacted_url a) - 64) (redacted_url a)
      = drop (length (redacted_url b) - 64) (redacted_url b)" by simp
  then show ?thesis by (simp add: redacted_url_def url_digest_def)
qed

text \<open>
  The URLs a plan may hold: none is a marker, a signed one has a scheme and a plain
  network location, and no two signed ones have the same SHA-256.
\<close>

definition storable :: "string list \<Rightarrow> bool" where
  "storable urls \<longleftrightarrow>
     list_all (\<lambda>u. if has_url_query u then plain_url u else \<not> is_redacted_url u) urls
     \<and> inj_on url_digest (set (List.filter has_url_query urls))"

lemma storableD:
  assumes "storable urls" and "u \<in> set urls"
  shows "has_url_query u \<Longrightarrow> is_redacted_url (redacted_url u)" and "\<not> is_redacted_url u"
  using assms plain_url_marker plain_url_no_marker
  by (auto simp: storable_def list_all_iff split: if_splits)

lemma note_urls_lookup:
  "inj_on url_digest (set (List.filter has_url_query us)) \<Longrightarrow> u \<in> set us \<Longrightarrow> has_url_query u
    \<Longrightarrow> map_of (fold note_url us ss) (redacted_url u) = Some u"
proof (induction us arbitrary: ss rule: rev_induct)
  case (snoc a us)
  show ?case
  proof (cases "has_url_query a \<and> redacted_url a = redacted_url u")
    case True
    then have "url_digest a = url_digest u" using redacted_url_inj by blast
    then have "a = u"
      by (rule inj_onD [OF snoc.prems(1)]) (use True snoc.prems in simp_all)
    then show ?thesis using snoc.prems(3) by (simp add: note_url_def)
  next
    case False
    with snoc.prems have "u \<in> set us" by auto
    moreover have "inj_on url_digest (set (List.filter has_url_query us))"
      using snoc.prems(1) by (rule inj_on_subset) auto
    ultimately have "map_of (fold note_url us ss) (redacted_url u) = Some u"
      using snoc.IH snoc.prems(3) by blast
    with False show ?thesis by (auto simp: note_url_def [of a])
  qed
qed simp

lemma note_urls_keys:
  "fst ` set (fold note_url us ss) = fst ` set ss \<union> redacted_url ` set (List.filter has_url_query us)"
  by (induction us arbitrary: ss) (auto simp: note_url_def dict_set_keys)

lemma note_urls_distinct: "distinct (map fst ss) \<Longrightarrow> distinct (map fst (fold note_url us ss))"
  by (induction us arbitrary: ss) (auto simp: note_url_def distinct_dict_set)

lemma dict_set_mem: "(m, u) \<in> set (dict_set k v d) \<Longrightarrow> (m, u) \<in> set d \<or> m = k \<and> u = v"
  by (induction k v d rule: dict_set.induct) (auto split: if_splits)

lemma note_urls_values:
  "(m, u) \<in> set (fold note_url us ss) \<Longrightarrow> (m, u) \<in> set ss \<or> m = redacted_url u"
proof (induction us arbitrary: ss)
  case (Cons a us)
  then have "(m, u) \<in> set (note_url a ss) \<or> m = redacted_url u" by simp
  then show ?case by (auto simp: note_url_def dest!: dict_set_mem split: if_splits)
qed simp

lemma hydrate_redacted:
  assumes "storable (url_texts None v)" and "redact_json None v [] = (v', ss)"
  shows "hydrate_json ss None v' = Inr v"
proof -
  let ?us = "url_texts None v"
  have v': "v' = map_urls mark_url None v" and ss: "ss = fold note_url ?us []"
    using assms(2) by (simp_all add: redact_as_map)
  have found: "map_of ss (redacted_url u) = Some u" if "u \<in> set ?us" "has_url_query u" for u
    using assms(1) that note_urls_lookup by (simp add: ss storable_def)
  have ok: "hydratable ss (mark_url u) \<and> lookup_url ss (mark_url u) = u" if "u \<in> set ?us" for u
    using storableD [OF assms(1) that] found that
    by (auto simp: hydratable_def lookup_url_def mark_url_def)
  have "hydrate_json ss None v' = Inr (map_urls (lookup_url ss \<circ> mark_url) None v)"
    using ok hydrate_as_map(1) [of None v' ss] by (auto simp: v' url_texts_map map_urls_map)
  then show ?thesis using map_urls_id [of None v "lookup_url ss \<circ> mark_url"] ok by simp
qed

lemma markers_of_redacted:
  assumes "storable (url_texts None v)" and "redact_json None v [] = (v', ss)"
  shows "set (marker_set None v') = fst ` set ss"
proof -
  let ?us = "url_texts None v"
  have "set (marker_set None v') = {m \<in> mark_url ` set ?us. is_redacted_url m}"
    using assms(2) by (auto simp: redact_as_map marker_set_eq url_texts_map)
  also have "\<dots> = redacted_url ` set (List.filter has_url_query ?us)"
    using storableD [OF assms(1)] by (auto simp: mark_url_def image_iff split: if_splits)
  also have "\<dots> = fst ` set ss"
    using assms(2) note_urls_keys [of ?us "[]"] by (simp add: redact_as_map)
  finally show ?thesis .
qed

text \<open>What the public file holds: no URL field has a query.\<close>

lemma no_question_no_query: "CHR ''?'' \<notin> set u \<Longrightarrow> \<not> has_url_query u"
  using query_needs_mark [of u] by (auto simp: has_url_query_def split: sum.splits)

lemma redacted_urls_have_no_query:
  "redact_json None v [] = (v', ss) \<Longrightarrow> u \<in> set (url_texts None v') \<Longrightarrow> \<not> has_url_query u"
  using no_question_no_query [OF redacted_url_no_question]
  by (auto simp: redact_as_map url_texts_map mark_url_def split: if_splits)

section \<open>The plan's files\<close>

text \<open>
  The directory, as far as the store sees it: a path that cannot be opened without
  following a link is \<open>None\<close>.  \<open>_atomic_write\<close> publishes a complete file that only
  its owner can read (mode 0600).
\<close>

record 't stored =
  st_regular :: bool
  st_owned :: bool
  st_mode :: nat
  st_text :: 't

type_synonym 't files = "string \<Rightarrow> 't stored option"

definition owner_only :: nat where "owner_only = 6 * 64"

definition atomic_write :: "string \<Rightarrow> 't \<Rightarrow> 't files \<Rightarrow> 't files" where
  "atomic_write path payload fs =
     fs(path \<mapsto> \<lparr>st_regular = True, st_owned = True, st_mode = owner_only, st_text = payload\<rparr>)"

definition secret_sidecar_suffix :: string where
  "secret_sidecar_suffix = ''.mighty-colab-secrets.json''"

definition plan_secrets_path :: "string \<Rightarrow> string" where
  "plan_secrets_path path = path @ secret_sidecar_suffix"

definition secrets_json :: "secrets \<Rightarrow> json" where
  "secrets_json ss = JObj [(''urls'', JObj (map (\<lambda>(m, u). (m, JStr u)) ss))]"

definition write_plan_file :: "(json \<Rightarrow> 't) \<Rightarrow> json \<Rightarrow> string \<Rightarrow> 't files \<Rightarrow> 't files" where
  "write_plan_file dumps plan path fs =
     (case redact_json None plan [] of
        (payload, ss) \<Rightarrow>
          if ss \<noteq> [] then
            atomic_write path (dumps payload)
              (atomic_write (plan_secrets_path path) (dumps (secrets_json ss)) fs)
          else (atomic_write path (dumps payload) fs)(plan_secrets_path path := None))"

text \<open>\<open>_read_secret_map\<close>\<close>

definition secret_error :: "string \<Rightarrow> (py_error, 'a) outcome" where
  "secret_error m = Inl (hydrate_error (''plan secret sidecar '' @ m))"

definition checked_secrets :: "json \<Rightarrow> string list \<Rightarrow> (py_error, secrets) outcome" where
  "checked_secrets payload markers =
     (case (case payload of JObj d \<Rightarrow> jget d ''urls'' | _ \<Rightarrow> JNull) of
        JObj urls \<Rightarrow>
          if fst ` set urls = set markers
             \<and> list_all (\<lambda>(m, v). case v of JStr u \<Rightarrow> redacted_url u = m | _ \<Rightarrow> False) urls
          then Inr (map (\<lambda>(m, v). (m, case v of JStr u \<Rightarrow> u | _ \<Rightarrow> [])) urls)
          else secret_error ''does not match the plan''
      | _ \<Rightarrow> secret_error ''does not match the plan'')"

definition read_secret_map ::
  "('t \<Rightarrow> (string \<times> nat \<times> nat, json) outcome) \<Rightarrow> 't stored option \<Rightarrow> string list
    \<Rightarrow> (py_error, secrets) outcome" where
  "read_secret_map loads file markers =
     (case file of
        None \<Rightarrow> secret_error ''is missing or unsafe''
      | Some f \<Rightarrow>
          if \<not> st_regular f \<or> \<not> st_owned f then secret_error ''is not an owner-controlled file''
          else if st_mode f mod 64 \<noteq> 0 then secret_error ''has unsafe permissions''
          else (case loads (st_text f) of
              Inl _ \<Rightarrow> secret_error ''is invalid''
            | Inr payload \<Rightarrow> checked_secrets payload markers))"

text \<open>\<open>_validate_plan\<close>: what pydantic makes of a document.\<close>

datatype 'p validation = Valid 'p | Invalid "string list" | Refused string

definition plan_errors_shown :: nat where "plan_errors_shown = 5"

fun validated_plan :: "'p validation \<Rightarrow> (py_error, 'p) outcome" where
  "validated_plan (Valid p) = Inr p"
| "validated_plan (Invalid problems) =
     Inl (hydrate_error (''plan file is invalid: '' @ join ''; '' (take plan_errors_shown problems)
       @ (if plan_errors_shown < length problems
          then ''; and '' @ show_nat (length problems - plan_errors_shown) @ '' more'' else [])))"
| "validated_plan (Refused t) = Inl (hydrate_error (''plan file is invalid ('' @ t @ '')''))"

definition load_plan_file ::
  "('t \<Rightarrow> (string \<times> nat \<times> nat, json) outcome) \<Rightarrow> (json \<Rightarrow> 'p validation) \<Rightarrow> bool \<Rightarrow> string
    \<Rightarrow> 't files \<Rightarrow> (py_error, 'p) outcome" where
  "load_plan_file loads validate hydrate path fs =
     (case fs path of
        None \<Rightarrow> Inl (hydrate_error (''plan file cannot be read: ''
          @ describe_error \<lparr>err_type = ''FileNotFoundError'',
              err_msg = ''[Errno 2] No such file or directory: '' @ repr_str path\<rparr>))
      | Some f \<Rightarrow>
          (case loads (st_text f) of
             Inl (m, line, column) \<Rightarrow>
               Inl (hydrate_error (''plan file '' @ path @ '' is not valid JSON: '' @ m @ '' at line ''
                 @ show_nat line @ '', column '' @ show_nat column))
           | Inr payload \<Rightarrow>
               and_then (validated_plan (validate payload)) (\<lambda>metadata.
                 if \<not> hydrate then Inr metadata
                 else
                   (let markers = marker_set None payload in
                    and_then (if markers \<noteq> []
                        then read_secret_map loads (fs (plan_secrets_path path)) markers else Inr [])
                      (\<lambda>ss. and_then (hydrate_json ss None payload)
                        (\<lambda>doc. validated_plan (validate doc)))))))"

lemma plan_path_differs [simp]: "plan_secrets_path path \<noteq> path" "path \<noteq> plan_secrets_path path"
  by (simp_all add: plan_secrets_path_def secret_sidecar_suffix_def)

lemma checked_secrets_json:
  assumes "fst ` set ss = set markers" and "\<forall>(m, u) \<in> set ss. m = redacted_url u"
  shows "checked_secrets (secrets_json ss) markers = Inr ss"
proof -
  have "map (\<lambda>(m, v). (m, case v of JStr u \<Rightarrow> u | _ \<Rightarrow> [])) (map (\<lambda>(m, u). (m, JStr u)) ss) = ss"
    by (induction ss) auto
  moreover have "fst ` set (map (\<lambda>(m, u). (m, JStr u)) ss) = set markers"
    using assms(1) by (force simp: image_iff)
  ultimately show ?thesis
    using assms(2) by (auto simp: checked_secrets_def secrets_json_def jget_def list_all_iff)
qed

text \<open>
  C16. A stored plan reads back as it was written: without credentials to whoever
  asks for the plan, and with every signed URL to the apply that hydrates it.
\<close>

theorem plan_file_round_trip:
  assumes "storable (url_texts None plan)" and "\<And>v. loads (dumps v) = Inr v"
    and "validate (fst (redact_json None plan [])) = Valid metadata"
  shows "load_plan_file loads validate True path (write_plan_file dumps plan path fs)
      = validated_plan (validate plan)
    \<and> load_plan_file loads validate False path (write_plan_file dumps plan path fs) = Inr metadata"
proof -
  obtain doc ss where r: "redact_json None plan [] = (doc, ss)" by (metis prod.collapse)
  let ?fs = "write_plan_file dumps plan path fs"
  have plan: "map_option st_text (?fs path) = Some (dumps doc)"
    by (simp add: write_plan_file_def r atomic_write_def)
  have markers: "set (marker_set None doc) = fst ` set ss" using assms(1) r by (rule markers_of_redacted)
  have named: "\<forall>(m, u) \<in> set ss. m = redacted_url u"
    using r by (auto simp: redact_as_map dest!: note_urls_values)
  have side: "read_secret_map loads (?fs (plan_secrets_path path)) (marker_set None doc) = Inr ss"
    if "marker_set None doc \<noteq> []"
    using that markers checked_secrets_json [OF markers [symmetric] named] assms(2)
    by (auto simp: write_plan_file_def r atomic_write_def read_secret_map_def owner_only_def)
  have none: "ss = []" if "marker_set None doc = []" using markers that by simp
  have "load_plan_file loads validate True path ?fs = validated_plan (validate plan)"
    using plan side none assms r hydrate_redacted [OF assms(1) r]
    by (cases "marker_set None doc = []") (auto simp: load_plan_file_def Let_def)
  moreover have "load_plan_file loads validate False path ?fs = Inr metadata"
    using plan assms r by (auto simp: load_plan_file_def)
  ultimately show ?thesis by blast
qed

definition demo_plan :: json where
  "demo_plan = JObj [(''job_id'', JStr ''j''),
     (''spec'', JObj [(''data'', JArr [JObj [(''url'', JStr ''https://h.example/o?sig=1''), (''dest'', JStr ''d'')]]),
        (''control'', JObj [(''get_url'', JNull)])])]"

lemma demo_urls: "url_texts None demo_plan = [''https://h.example/o?sig=1'']"
  by (simp add: demo_plan_def suffix_def)

theorem plan_file_round_trip_witness:
  "load_plan_file Inr Valid True ''p.json'' (write_plan_file id demo_plan ''p.json'' (\<lambda>_. None)) = Inr demo_plan
   \<and> load_plan_file Inr Valid False ''p.json'' (write_plan_file id demo_plan ''p.json'' (\<lambda>_. None))
       = Inr (fst (redact_json None demo_plan []))"
proof -
  have "has_url_query ''https://h.example/o?sig=1''" "plain_url ''https://h.example/o?sig=1''"
    by code_simp+
  then have "storable (url_texts None demo_plan)" by (simp add: storable_def demo_urls)
  from plan_file_round_trip [of demo_plan Inr id Valid, OF this] show ?thesis by simp
qed

text \<open>
  Writing a plan leaves no credential in the plan's own file: no URL field of the
  document that is written has a query, and both files are the owner's alone.
\<close>

theorem stored_plan_leak_free:
  "case redact_json None plan [] of
     (doc, ss) \<Rightarrow>
       write_plan_file dumps plan path fs path
         = Some \<lparr>st_regular = True, st_owned = True, st_mode = owner_only, st_text = dumps doc\<rparr>
       \<and> list_all (\<lambda>u. \<not> has_url_query u) (url_texts None doc)
       \<and> map_option st_mode (write_plan_file dumps plan path fs (plan_secrets_path path)) \<in> {None, Some owner_only}"
  using redacted_urls_have_no_query
  by (auto simp: write_plan_file_def atomic_write_def list_all_iff split: prod.splits)

section \<open>The envelope and its events\<close>

text \<open>A job's directory: the stored envelope and the lines of \<open>events.jsonl\<close>.\<close>

record 't job_dir =
  jd_envelope :: "'t option"
  jd_events :: "json list"

definition read_envelope ::
  "('t \<Rightarrow> (py_error, job_envelope) outcome) \<Rightarrow> 't job_dir \<Rightarrow> (py_error, job_envelope option) outcome" where
  "read_envelope parse d =
     (case jd_envelope d of
        None \<Rightarrow> Inr None
      | Some t \<Rightarrow> and_then (parse t) (\<lambda>env. Inr (Some env)))"

definition read_envelope_or_problem ::
  "('t \<Rightarrow> (py_error, job_envelope) outcome) \<Rightarrow> 't job_dir \<Rightarrow> job_envelope option \<times> string option" where
  "read_envelope_or_problem parse d =
     (case read_envelope parse d of
        Inr env \<Rightarrow> (env, None)
      | Inl e \<Rightarrow>
          (let detail = join '' '' (py_words (describe_error e));
               shown = (if 500 < length detail
                  then take 500 detail @ '' [... '' @ show_nat (length detail - 500) @ '' characters omitted]''
                  else detail)
           in (None, Some (''envelope unreadable ('' @ shown @ '')''))))"

definition json_text :: "string option \<Rightarrow> json" where
  "json_text t = (case t of None \<Rightarrow> JNull | Some s \<Rightarrow> JStr s)"

definition outcome_event :: "string \<Rightarrow> job_envelope \<Rightarrow> json" where
  "outcome_event now env = JObj
     [(''ts'', JStr now), (''event'', JStr ''outcome''),
      (''workload'', JStr (workload_value (env_workload env))),
      (''offload'', JStr (offload_value (env_offload env))),
      (''cleanup'', JStr (cleanup_value (env_cleanup env))),
      (''failed_phase'', json_text (map_option phase_value (env_failed_phase env))),
      (''retry_class'', json_text (map_option retry_value (env_retry_class env))),
      (''reason'', json_text (env_reason env))]"

definition append_event :: "json \<Rightarrow> 't job_dir \<Rightarrow> 't job_dir" where
  "append_event e d = d\<lparr>jd_events := jd_events d @ [e]\<rparr>"

definition was_done :: "('t \<Rightarrow> (py_error, job_envelope) outcome) \<Rightarrow> 't job_dir \<Rightarrow> bool" where
  "was_done parse d =
     (case read_envelope_or_problem parse d of (Some env, _) \<Rightarrow> env_done env | (None, _) \<Rightarrow> False)"

definition write_envelope ::
  "('t \<Rightarrow> (py_error, job_envelope) outcome) \<Rightarrow> (job_envelope \<Rightarrow> 't) \<Rightarrow> string
    \<Rightarrow> job_envelope \<Rightarrow> 't job_dir \<Rightarrow> 't job_dir" where
  "write_envelope parse dump now env d =
     (let before = env_done env \<and> was_done parse d;
          d = d\<lparr>jd_envelope := Some (dump env)\<rparr>
      in if env_done env \<and> \<not> before then append_event (outcome_event now env) d else d)"

text \<open>The writes of a job's life, each with its time, and how often it becomes done.\<close>

definition write_all ::
  "('t \<Rightarrow> (py_error, job_envelope) outcome) \<Rightarrow> (job_envelope \<Rightarrow> 't)
    \<Rightarrow> (string \<times> job_envelope) list \<Rightarrow> 't job_dir \<Rightarrow> 't job_dir" where
  "write_all parse dump ws d = fold (\<lambda>(now, env). write_envelope parse dump now env) ws d"

fun first_done :: "bool \<Rightarrow> (string \<times> job_envelope) list \<Rightarrow> json list" where
  "first_done b [] = []"
| "first_done b ((now, env) # ws) =
     (if env_done env \<and> \<not> b then outcome_event now env # first_done True ws
      else first_done (env_done env) ws)"

lemma write_envelope_events:
  assumes "\<And>e. \<exists>e'. parse (dump e) = Inr e' \<and> env_done e' = env_done e"
  shows "was_done parse (write_envelope parse dump now env d) = env_done env"
proof -
  obtain e' where "parse (dump env) = Inr e'" "env_done e' = env_done env" using assms by blast
  then show ?thesis
    by (auto simp: write_envelope_def append_event_def was_done_def read_envelope_or_problem_def
        read_envelope_def Let_def)
qed

lemma write_all_events:
  assumes "\<And>e. \<exists>e'. parse (dump e) = Inr e' \<and> env_done e' = env_done e"
  shows "jd_events (write_all parse dump ws d) = jd_events d @ first_done (was_done parse d) ws"
proof (induction ws arbitrary: d)
  case (Cons a ws)
  obtain now env where a: "a = (now, env)" by (cases a)
  have "jd_events (write_envelope parse dump now env d)
      = jd_events d @ (if env_done env \<and> \<not> was_done parse d then [outcome_event now env] else [])"
    by (auto simp: write_envelope_def append_event_def Let_def)
  then show ?case
    using Cons [of "write_envelope parse dump now env d"] write_envelope_events [of parse dump now env d] assms
    by (auto simp: a write_all_def)
qed (simp add: write_all_def)

text \<open>
  The log has one outcome for each time the job becomes done: the first write of
  a done envelope after one that is not appends its outcome and no other write
  appends anything, so a job that stays done once it is done has exactly one.
\<close>

theorem one_outcome_per_end:
  assumes "\<And>e. \<exists>e'. parse (dump e) = Inr e' \<and> env_done e' = env_done e"
    and "list_all (\<lambda>(_, e). \<not> env_done e) before" and "env_done final"
    and "list_all (\<lambda>(_, e). env_done e) after"
  shows "jd_events (write_all parse dump (before @ (now, final) # after) \<lparr>jd_envelope = None, jd_events = []\<rparr>)
     = [outcome_event now final]"
proof -
  have "first_done True ws = []" if "list_all (\<lambda>(_, e). env_done e) ws" for ws
    using that by (induction ws) auto
  then have after: "first_done True after = []" using assms(4) .
  have "first_done False (ws @ (now, final) # after) = [outcome_event now final]"
    if "list_all (\<lambda>(_, e). \<not> env_done e) ws" for ws
    using that by (induction ws) (auto simp: after assms(3))
  then have "first_done False (before @ (now, final) # after) = [outcome_event now final]" using assms(2) .
  then show ?thesis
    using write_all_events [of parse dump "before @ (now, final) # after" "\<lparr>jd_envelope = None, jd_events = []\<rparr>"]
      assms(1) by (simp add: was_done_def read_envelope_or_problem_def read_envelope_def)
qed

definition demo_done :: job_envelope where
  "demo_done = (new_envelope ''1'' ''1'' ''j'')\<lparr>env_workload := W_Succeeded, env_offload := O_Ok,
     env_cleanup := C_Released, env_supervisor := S_Finished\<rparr>"

theorem one_outcome_per_end_witness:
  "jd_events (write_all Inr id [(''t0'', new_envelope ''1'' ''1'' ''j''), (''t1'', demo_done), (''t2'', demo_done)]
      \<lparr>jd_envelope = None, jd_events = []\<rparr>) = [outcome_event ''t1'' demo_done]"
proof -
  have d: "env_done demo_done" "\<not> env_done (new_envelope ''1'' ''1'' ''j'')" by code_simp+
  then show ?thesis
    using one_outcome_per_end [of Inr id "[(''t0'', new_envelope ''1'' ''1'' ''j'')]" demo_done "[(''t2'', demo_done)]" "''t1''"]
    by simp
qed

section \<open>The apply lock\<close>

text \<open>
  \<open>claim_apply\<close> opens \<open>apply.lock\<close>, creating it, and takes \<open>flock\<close> on what it opened;
  \<open>ApplyClaim.release\<close> unlocks and closes it, then removes the path.  The kernel locks
  the inode, so a process can hold a lock on a file that has no name any more.
  Processes interleave between these calls, and one that dies loses its locks.
\<close>

datatype claimant = Idle | Opened nat | Claimed nat | Unlocked

record lock_state =
  lk_path :: "nat option"
  lk_next :: nat
  lk_owner :: "nat \<Rightarrow> nat option"
  lk_proc :: "nat \<Rightarrow> claimant"

definition lock_init :: lock_state where
  "lock_init = \<lparr>lk_path = None, lk_next = 0, lk_owner = (\<lambda>_. None), lk_proc = (\<lambda>_. Idle)\<rparr>"

datatype lock_action = A_Open nat | A_Flock nat | A_Unlock nat | A_Unlink nat | A_Die nat

definition proc_to :: "nat \<Rightarrow> claimant \<Rightarrow> lock_state \<Rightarrow> lock_state" where
  "proc_to p c s = s\<lparr>lk_proc := (lk_proc s)(p := c)\<rparr>"

text \<open>One call of process \<open>p\<close>; an action out of turn does nothing.\<close>

fun lock_do :: "lock_action \<Rightarrow> lock_state \<Rightarrow> lock_state" where
  "lock_do (A_Open p) s =
     (if lk_proc s p = Idle then
        (case lk_path s of
           Some i \<Rightarrow> proc_to p (Opened i) s
         | None \<Rightarrow> proc_to p (Opened (lk_next s)) (s\<lparr>lk_path := Some (lk_next s), lk_next := Suc (lk_next s)\<rparr>))
      else s)"
| "lock_do (A_Flock p) s =
     (case lk_proc s p of
        Opened i \<Rightarrow>
          if lk_owner s i = None then proc_to p (Claimed i) (s\<lparr>lk_owner := (lk_owner s)(i := Some p)\<rparr>)
          else proc_to p Idle s
      | _ \<Rightarrow> s)"
| "lock_do (A_Unlock p) s =
     (case lk_proc s p of
        Claimed i \<Rightarrow> proc_to p Unlocked (s\<lparr>lk_owner := (lk_owner s)(i := None)\<rparr>)
      | _ \<Rightarrow> s)"
| "lock_do (A_Unlink p) s =
     (if lk_proc s p = Unlocked then proc_to p Idle (s\<lparr>lk_path := None\<rparr>) else s)"
| "lock_do (A_Die p) s =
     proc_to p Idle (s\<lparr>lk_owner := (\<lambda>i. if lk_owner s i = Some p then None else lk_owner s i)\<rparr>)"

definition lock_run :: "lock_action list \<Rightarrow> lock_state" where
  "lock_run acts = fold lock_do acts lock_init"

text \<open>\<open>apply_lock_held\<close>: the non-blocking test of the file the path names.\<close>

definition apply_lock_held :: "lock_state \<Rightarrow> bool" where
  "apply_lock_held s = (case lk_path s of None \<Rightarrow> False | Some i \<Rightarrow> lk_owner s i \<noteq> None)"

text \<open>What holds after every action: a claim is the kernel's lock, on an inode in use.\<close>

definition lock_inv :: "lock_state \<Rightarrow> bool" where
  "lock_inv s \<longleftrightarrow>
     (\<forall>p i. lk_owner s i = Some p \<longleftrightarrow> lk_proc s p = Claimed i)
     \<and> (\<forall>i. lk_path s = Some i \<longrightarrow> i < lk_next s)"

lemma lock_inv_step: "lock_inv s \<Longrightarrow> lock_inv (lock_do a s)"
  by (cases a; auto simp: lock_inv_def proc_to_def split: option.splits claimant.splits;
      metis option.inject option.distinct(1))

lemma lock_inv_run: "lock_inv (lock_run acts)"
proof (induction acts rule: rev_induct)
  case Nil
  then show ?case by (simp add: lock_run_def lock_inv_def lock_init_def)
next
  case (snoc a acts)
  then show ?case by (simp add: lock_run_def lock_inv_step)
qed

text \<open>Without a removal every inode a process uses is the one the path names.\<close>

definition removes :: "lock_action \<Rightarrow> bool" where
  "removes a = (case a of A_Unlink _ \<Rightarrow> True | _ \<Rightarrow> False)"

definition on_path :: "lock_state \<Rightarrow> bool" where
  "on_path s \<longleftrightarrow> (\<forall>p i. lk_proc s p \<in> {Opened i, Claimed i} \<longrightarrow> lk_path s = Some i)"

lemma on_path_step: "on_path s \<Longrightarrow> \<not> removes a \<Longrightarrow> on_path (lock_do a s)"
  by (cases a; auto simp: on_path_def proc_to_def removes_def split: option.splits claimant.splits;
      metis option.inject option.distinct(1))

lemma on_path_run: "list_all (\<lambda>a. \<not> removes a) acts \<Longrightarrow> on_path (lock_run acts)"
proof (induction acts rule: rev_induct)
  case Nil
  then show ?case by (simp add: lock_run_def on_path_def lock_init_def)
next
  case (snoc a acts)
  then show ?case by (simp add: lock_run_def on_path_step)
qed


definition lock_race :: "lock_action list" where
  "lock_race = [A_Open 1, A_Flock 1, A_Open 2, A_Unlock 1, A_Flock 2, A_Unlink 1, A_Open 3, A_Flock 3]"


section \<open>Identities and listings\<close>

text \<open>What the lock file and \<open>supervisor.json\<close> say of their writer.\<close>

definition lock_identity :: "(string, json) outcome \<Rightarrow> json_obj option" where
  "lock_identity content =
     (case content of
        Inr (JObj d) \<Rightarrow> if as_int (jget d ''pid'') \<noteq> None then Some d else None
      | _ \<Rightarrow> None)"

definition supervisor_identity :: "(string, json) outcome option \<Rightarrow> json_obj option" where
  "supervisor_identity file =
     (case file of
        Some (Inr (JObj d)) \<Rightarrow>
          if as_int (jget d ''pid'') \<noteq> None \<and> as_str (jget d ''starttime'') \<noteq> None
             \<and> as_str (jget d ''boot_id'') \<noteq> None
          then Some d else None
      | _ \<Rightarrow> None)"

definition identity_json :: "int \<Rightarrow> string \<Rightarrow> string \<Rightarrow> json_obj" where
  "identity_json pid starttime boot_id =
     [(''pid'', JInt pid), (''starttime'', JStr starttime), (''boot_id'', JStr boot_id)]"

definition apply_in_progress :: "string \<Rightarrow> json \<Rightarrow> string" where
  "apply_in_progress job pid = ''job '' @ job @ '' is already being applied''
     @ (if pid = JNull then [] else '' by pid '' @ py_str pid)
     @ ''; wait for it to finish or kill that process, then re-run''"

text \<open>The refused claim: who holds the job, from the lock file or else the other record.\<close>

definition claim_refused :: "string \<Rightarrow> (string, json) outcome \<Rightarrow> (string, json) outcome option \<Rightarrow> string" where
  "claim_refused job content file =
     (let owner = (case lock_identity content of
            Some (v # vs) \<Rightarrow> v # vs
          | _ \<Rightarrow> (case supervisor_identity file of Some d \<Rightarrow> d | None \<Rightarrow> []))
      in apply_in_progress job (jget owner ''pid''))"

end
