(* ===== verification/Bundle.thy ===== *)
theory Bundle
  imports Store Runner
begin

text \<open>
  \<open>job/payload_bundle.py\<close>: which files of the code are sent to the VM, the check
  that none holds a credential, the lock that ties them to the plan, and the uploads
  in their order, the credential channel last.  What the local file system says of a
  path is a record; the VM's client is a pair of calls over an abstract world.
\<close>

section \<open>Credentials in a file's bytes\<close>

text \<open>
  \<open>_reject_credential_content\<close> reads a file byte by byte: the last eight bytes
  outside a URL, and inside one the query key being read, \<open>False\<close> in the source
  being \<open>Q_Value\<close>.
\<close>

datatype query_state = Q_None | Q_Key string | Q_Value

record scan_state =
  sn_recent :: string
  sn_in_url :: bool
  sn_query :: query_state

definition scan_init :: scan_state where
  "scan_init = \<lparr>sn_recent = [], sn_in_url = False, sn_query = Q_None\<rparr>"

definition url_delimiter :: "char \<Rightarrow> bool" where
  "url_delimiter c \<longleftrightarrow> code c \<in> {9, 10, 13, 32, 34, 39, 40, 41, 60, 62, 123, 125}"

definition secret_query_keys :: "string list" where
  "secret_query_keys =
     [''access_token'', ''awsaccesskeyid'', ''googleaccessid'', ''sig'', ''signature'', ''token'',
      ''x-amz-credential'', ''x-amz-security-token'', ''x-amz-signature'', ''x-goog-credential'',
      ''x-goog-signature'']"

definition ascii_lower :: "char \<Rightarrow> char" where
  "ascii_lower c = (if 65 \<le> code c \<and> code c \<le> 90 then char_of (code c + 32) else c)"

definition keep_last :: "nat \<Rightarrow> string \<Rightarrow> string" where
  "keep_last n s = drop (length s - n) s"

text \<open>One byte; \<open>None\<close> is the error that refuses the file.\<close>

definition scan_url :: "char \<Rightarrow> scan_state \<Rightarrow> scan_state option" where
  "scan_url b s =
     (if url_delimiter b then Some scan_init
      else (case sn_query s of
          Q_None \<Rightarrow> Some (if b = CHR ''?'' then s\<lparr>sn_query := Q_Key []\<rparr> else s)
        | Q_Key key \<Rightarrow>
            if b = CHR ''='' \<or> b = CHR ''&'' \<or> b = CHR '';'' \<or> b = CHR ''#'' then
              (if key \<in> set secret_query_keys then None
               else Some (s\<lparr>sn_query := (if b = CHR ''&'' \<or> b = CHR '';'' then Q_Key [] else Q_Value),
                            sn_in_url := (b \<noteq> CHR ''#'')\<rparr>))
            else Some (if length key \<le> 64 then s\<lparr>sn_query := Q_Key (key @ [ascii_lower b])\<rparr> else s)
        | Q_Value \<Rightarrow>
            Some (if b = CHR ''&'' \<or> b = CHR '';'' then s\<lparr>sn_query := Q_Key []\<rparr>
                  else if b = CHR ''#'' then s\<lparr>sn_in_url := False\<rparr> else s)))"

definition scan_byte :: "char \<Rightarrow> scan_state \<Rightarrow> scan_state option" where
  "scan_byte b s =
     (if sn_in_url s then scan_url b s
      else
        (let recent = keep_last 8 (sn_recent s @ [ascii_lower b]) in
         Some (if suffix ''https://'' recent \<or> suffix ''http://'' recent
               then s\<lparr>sn_recent := recent, sn_in_url := True, sn_query := Q_None\<rparr>
               else s\<lparr>sn_recent := recent\<rparr>)))"

fun scan_from :: "scan_state \<Rightarrow> string \<Rightarrow> scan_state option" where
  "scan_from s [] = Some s"
| "scan_from s (b # bs) = (case scan_byte b s of None \<Rightarrow> None | Some s \<Rightarrow> scan_from s bs)"

definition bundle_error :: "string \<Rightarrow> py_error" where
  "bundle_error m = \<lparr>err_type = ''ValueError'', err_msg = m\<rparr>"

definition reject_credential_content :: "string \<Rightarrow> (py_error, unit) outcome" where
  "reject_credential_content content =
     (case scan_from scan_init content of
        Some _ \<Rightarrow> Inr ()
      | None \<Rightarrow> Inl (bundle_error (''code payload contains a credential-bearing URL; ''
          @ ''move transfer URLs into the active job spec'')))"

text \<open>\<open>_contains_typed_url_query\<close> on a YAML document; \<open>urlsplit\<close> may raise.\<close>

definition typed_url_query :: "string \<Rightarrow> json \<Rightarrow> (py_error, bool) outcome" where
  "typed_url_query key item =
     (let k = py_lower key in
      case item of
        JStr s \<Rightarrow>
          if k = ''url'' \<or> suffix ''_url'' k then
            (case urlsplit s of
               Inl m \<Rightarrow> Inl (bundle_error m)
             | Inr u \<Rightarrow> Inr (su_scheme u \<in> {''http'', ''https''} \<and> su_query u \<noteq> []))
          else Inr False
      | _ \<Rightarrow> Inr False)"

fun contains_typed_url_query :: "json \<Rightarrow> (py_error, bool) outcome"
  and any_typed_url_query :: "json list \<Rightarrow> (py_error, bool) outcome"
  and field_typed_url_query :: "json_obj \<Rightarrow> (py_error, bool) outcome" where
  "contains_typed_url_query (JArr vs) = any_typed_url_query vs"
| "contains_typed_url_query (JObj d) = field_typed_url_query d"
| "contains_typed_url_query v = Inr False"
| "any_typed_url_query [] = Inr False"
| "any_typed_url_query (v # vs) =
     and_then (contains_typed_url_query v) (\<lambda>b. if b then Inr True else any_typed_url_query vs)"
| "field_typed_url_query [] = Inr False"
| "field_typed_url_query ((k, v) # d) =
     and_then (typed_url_query k v) (\<lambda>b. if b then Inr True
       else and_then (contains_typed_url_query v) (\<lambda>b. if b then Inr True else field_typed_url_query d))"

text \<open>\<open>_reject_structured_url_queries\<close>: \<open>parsed\<close> is \<open>None\<close> for what is not UTF-8 or not YAML.\<close>

definition reject_structured :: "json option \<Rightarrow> (py_error, unit) outcome" where
  "reject_structured parsed =
     (case parsed of
        None \<Rightarrow> Inr ()
      | Some v \<Rightarrow> and_then (contains_typed_url_query v) (\<lambda>b.
          if b then Inl (bundle_error ''code payload contains a credential-bearing URL query'') else Inr ()))"

section \<open>No credential URL passes\<close>

lemma scan_append:
  "scan_from s (a @ b) = (case scan_from s a of None \<Rightarrow> None | Some s \<Rightarrow> scan_from s b)"
  by (induction s a rule: scan_from.induct) (auto split: option.splits)

text \<open>After a delimiter the scan is outside a URL.\<close>

lemma scan_delimiter:
  assumes "url_delimiter d" and "scan_from s (a @ [d]) = Some s'"
  shows "\<not> sn_in_url s'"
proof -
  obtain t where t: "scan_from s a = Some t" "scan_byte d t = Some s'"
    using assms(2) by (auto simp: scan_append split: option.splits)
  have no_slash: "ascii_lower d \<noteq> CHR ''/''"
  proof -
    have "code CHR ''/'' = 47" by (simp add: code_def)
    moreover have "ascii_lower d = d" using assms(1) by (auto simp: url_delimiter_def ascii_lower_def)
    ultimately show ?thesis using assms(1) by (auto simp: url_delimiter_def)
  qed
  show ?thesis
  proof (cases "sn_in_url t")
    case True
    then show ?thesis using t(2) assms(1) by (auto simp: scan_byte_def scan_url_def scan_init_def)
  next
    case False
    have last: "last (keep_last 8 (sn_recent t @ [ascii_lower d])) = ascii_lower d"
      by (simp add: keep_last_def last_drop)
    have "\<not> suffix p (keep_last 8 (sn_recent t @ [ascii_lower d]))"
      if "p \<noteq> []" "last p = CHR ''/''" for p
      using that last no_slash by (auto simp: suffix_def)
    then show ?thesis using t(2) False by (auto simp: scan_byte_def Let_def)
  qed
qed

text \<open>The scheme of a URL, in any case, takes the scan into it.\<close>

lemma keep_last_append [simp]: "keep_last n (keep_last n a @ b) = keep_last n (a @ b)"
  by (cases "length a \<le> n") (auto simp: keep_last_def add.commute)

lemma suffix_keep_last [simp]: "length p \<le> n \<Longrightarrow> suffix p (keep_last n s) \<longleftrightarrow> suffix p s"
  using suffix_length_suffix [of p s "keep_last n s"] suffix_order.trans [of p "keep_last n s" s]
    suffix_length_le [of p s]
  by (auto simp: keep_last_def suffix_drop)

lemma prefix_rev_keep_last [simp]: "length p \<le> n \<Longrightarrow> prefix p (rev (keep_last n s)) \<longleftrightarrow> prefix p (rev s)"
  using suffix_keep_last [of "rev p" n s] by (simp add: suffix_to_prefix)

lemma scan_outside:
  assumes "\<not> sn_in_url s"
  shows "scan_byte b s = Some (if suffix ''https://'' (sn_recent s @ [ascii_lower b])
        \<or> suffix ''http://'' (sn_recent s @ [ascii_lower b])
      then s\<lparr>sn_recent := keep_last 8 (sn_recent s @ [ascii_lower b]), sn_in_url := True, sn_query := Q_None\<rparr>
      else s\<lparr>sn_recent := keep_last 8 (sn_recent s @ [ascii_lower b])\<rparr>)"
  using assms by (simp add: scan_byte_def Let_def)

lemma scan_scheme:
  assumes "\<not> sn_in_url s" and "map ascii_lower scheme \<in> {''https://'', ''http://''}"
  shows "\<exists>s'. scan_from s scheme = Some s' \<and> sn_in_url s' \<and> sn_query s' = Q_None"
  using assms by (auto simp: map_eq_Cons_conv scan_outside suffix_to_prefix)

text \<open>Inside a URL: its path, its parameters and a key.\<close>

lemma scan_body:
  "sn_in_url s \<Longrightarrow> sn_query s = Q_None \<Longrightarrow> list_all (\<lambda>c. \<not> url_delimiter c \<and> c \<noteq> CHR ''?'') body
    \<Longrightarrow> scan_from s body = Some s"
  by (induction body) (auto simp: scan_byte_def scan_url_def)

definition in_query :: "scan_state \<Rightarrow> bool" where
  "in_query s \<longleftrightarrow> sn_in_url s \<and> sn_query s \<noteq> Q_None"

lemma scan_param_byte:
  "in_query s \<Longrightarrow> \<not> url_delimiter c \<Longrightarrow> c \<noteq> CHR ''#'' \<Longrightarrow> scan_byte c s = Some s'
    \<Longrightarrow> in_query s' \<and> (c = CHR ''&'' \<or> c = CHR '';'' \<longrightarrow> sn_query s' = Q_Key [])"
  by (cases "sn_query s") (auto simp: in_query_def scan_byte_def scan_url_def split: if_splits)

lemma scan_params:
  "in_query s \<Longrightarrow> list_all (\<lambda>c. \<not> url_delimiter c \<and> c \<noteq> CHR ''#'') ps \<Longrightarrow> scan_from s ps = Some s'
    \<Longrightarrow> in_query s' \<and> (ps \<noteq> [] \<and> (last ps = CHR ''&'' \<or> last ps = CHR '';'') \<longrightarrow> sn_query s' = Q_Key [])"
proof (induction ps arbitrary: s' rule: rev_induct)
  case (snoc c ps)
  then obtain t where t: "scan_from s ps = Some t" "scan_byte c t = Some s'"
    by (auto simp: scan_append split: option.splits)
  have "in_query t" using snoc.IH snoc.prems t(1) by simp
  then show ?case using scan_param_byte [OF _ _ _ t(2)] snoc.prems by simp
qed simp

definition key_char :: "char \<Rightarrow> bool" where
  "key_char c \<longleftrightarrow> \<not> url_delimiter c \<and> c \<noteq> CHR ''='' \<and> c \<noteq> CHR ''&'' \<and> c \<noteq> CHR '';'' \<and> c \<noteq> CHR ''#''"

lemma scan_key:
  "sn_in_url s \<Longrightarrow> sn_query s = Q_Key k \<Longrightarrow> list_all key_char key \<Longrightarrow> length k + length key \<le> 64
    \<Longrightarrow> scan_from s key = Some (s\<lparr>sn_query := Q_Key (k @ map ascii_lower key)\<rparr>)"
  by (induction key arbitrary: s k) (auto simp: scan_byte_def scan_url_def key_char_def)

lemma secret_keys_plain: "list_all (\<lambda>k. length k \<le> 64 \<and> list_all key_char k) secret_query_keys"
  by code_simp

lemma ascii_lower_special: "\<not> key_char c \<Longrightarrow> ascii_lower c = c"
proof -
  have "code CHR ''='' = 61" "code CHR ''&'' = 38" "code CHR '';'' = 59" "code CHR ''#'' = 35"
    by (simp_all add: code_def)
  then show "\<not> key_char c \<Longrightarrow> ascii_lower c = c"
    by (auto simp: key_char_def url_delimiter_def ascii_lower_def)
qed

lemma secret_key_chars:
  assumes "map ascii_lower key \<in> set secret_query_keys"
  shows "list_all key_char key \<and> length key \<le> 64"
proof -
  have l: "length (map ascii_lower key) \<le> 64" "list_all key_char (map ascii_lower key)"
    using assms secret_keys_plain by (auto simp: list_all_iff)
  then show ?thesis using ascii_lower_special by (fastforce simp: list_all_iff)
qed

text \<open>
  A file that holds a URL with a credential in its query is refused, wherever the
  URL starts a word (the file's start, or after a space, a quote or a bracket), in
  whatever case its scheme and the key are written, and whatever parameters come
  before the key.
\<close>

theorem credential_url_is_refused:
  assumes "before = [] \<or> url_delimiter (last before)"
    and "map ascii_lower scheme \<in> {''https://'', ''http://''}"
    and "list_all (\<lambda>c. \<not> url_delimiter c \<and> c \<noteq> CHR ''?'') body"
    and "list_all (\<lambda>c. \<not> url_delimiter c \<and> c \<noteq> CHR ''#'') params"
    and "params = [] \<or> last params = CHR ''&'' \<or> last params = CHR '';''"
    and "map ascii_lower key \<in> set secret_query_keys"
    and "ender \<in> {CHR ''='', CHR ''&'', CHR '';'', CHR ''#''}"
  shows "reject_credential_content (before @ scheme @ body @ CHR ''?'' # params @ key @ ender # rest)
     = Inl (bundle_error (''code payload contains a credential-bearing URL; ''
          @ ''move transfer URLs into the active job spec''))"
proof -
  have scan: "scan_from s0 (scheme @ body @ CHR ''?'' # params @ key @ ender # rest) = None"
    if out: "\<not> sn_in_url s0" for s0
  proof -
    from scan_scheme [OF out assms(2)] obtain s where
        s: "scan_from s0 scheme = Some s" "sn_in_url s" "sn_query s = Q_None" by blast
    have body: "scan_from s body = Some s" using scan_body [OF s(2,3) assms(3)] .
    define q where "q = s\<lparr>sn_query := Q_Key []\<rparr>"
    have mark: "scan_byte (CHR ''?'') s = Some q"
      using s by (simp add: scan_byte_def scan_url_def q_def url_delimiter_def code_def)
    have "scan_from q (params @ key @ ender # rest) = None"
    proof (cases "scan_from q params")
      case (Some t)
      have "in_query q" by (simp add: q_def in_query_def s)
      from scan_params [OF this assms(4) Some] have t: "sn_in_url t" "sn_query t = Q_Key []"
        using assms(5) Some by (auto simp: in_query_def q_def)
      note k = secret_key_chars [OF assms(6)]
      have "scan_from t key = Some (t\<lparr>sn_query := Q_Key (map ascii_lower key)\<rparr>)"
        using scan_key [OF t] k by simp
      moreover have "scan_byte ender (t\<lparr>sn_query := Q_Key (map ascii_lower key)\<rparr>) = None"
        using t assms(6,7) by (auto simp: scan_byte_def scan_url_def url_delimiter_def code_def)
      ultimately show ?thesis by (simp add: scan_append Some)
    qed (simp add: scan_append)
    then show ?thesis by (simp add: scan_append s(1) body mark)
  qed
  then have "scan_from scan_init (before @ scheme @ body @ CHR ''?'' # params @ key @ ender # rest) = None"
  proof (cases before rule: rev_cases)
    case (snoc b d)
    then have d: "url_delimiter d" using assms(1) by simp
    show ?thesis
    proof (cases "scan_from scan_init before")
      case (Some s0)
      then have "\<not> sn_in_url s0" using scan_delimiter [OF d] snoc by blast
      with scan Some show ?thesis by (simp add: scan_append)
    qed (simp add: scan_append)
  qed (use scan in \<open>simp add: scan_init_def\<close>)
  then show ?thesis by (simp add: reject_credential_content_def)
qed

theorem credential_url_is_refused_witness:
  "reject_credential_content ''u = (HTTPS://h/o?a=1&X-Goog-Signature=ab)''
     = Inl (bundle_error (''code payload contains a credential-bearing URL; ''
          @ ''move transfer URLs into the active job spec''))"
proof -
  have "map ascii_lower ''HTTPS://'' = ''https://''"
    "map ascii_lower ''X-Goog-Signature'' \<in> set secret_query_keys"
    "list_all (\<lambda>c. \<not> url_delimiter c \<and> c \<noteq> CHR ''?'') ''h/o''"
    "list_all (\<lambda>c. \<not> url_delimiter c \<and> c \<noteq> CHR ''#'') ''a=1&''"
    "url_delimiter (last ''u = ('')"
    by code_simp+
  then show ?thesis
    using credential_url_is_refused [of "''u = (''" "''HTTPS://''" "''h/o''" "''a=1&''" "''X-Goog-Signature''"
        "CHR ''=''" "''ab)''"] by simp
qed

section \<open>Which files are sent\<close>

text \<open>What the file system says of a path under the code's root.\<close>

record user_entry =
  ue_path :: string
  ue_relative :: string
  ue_parts :: "string list"
  ue_resolved :: string
  ue_is_file :: bool
  ue_is_dir :: bool
  ue_symlink :: bool
  ue_inside :: bool
  ue_nlink :: nat
  ue_bytes :: string

record code_tree =
  ct_root :: string
  ct_root_is_dir :: bool
  ct_entry :: user_entry
  ct_sorted :: "user_entry list"

definition secret_temp_prefix :: string where
  "secret_temp_prefix = ''.mighty-colab-secret-tmp-''"

definition entry_name :: "user_entry \<Rightarrow> string" where
  "entry_name e = (case ue_parts e of [] \<Rightarrow> [] | ps \<Rightarrow> last ps)"

definition not_found :: "string \<Rightarrow> py_error" where
  "not_found m = \<lparr>err_type = ''FileNotFoundError'', err_msg = m\<rparr>"

text \<open>\<open>_validate_user_file\<close>\<close>

definition validate_user_file :: "string \<Rightarrow> user_entry \<Rightarrow> (py_error, unit) outcome" where
  "validate_user_file base e =
     (if ue_symlink e then Inl (bundle_error (''code payload must not contain symbolic links: '' @ ue_path e))
      else if \<not> ue_inside e then
        Inl (bundle_error (''code payload file escapes its declared root '' @ base @ '': '' @ ue_path e))
      else if ue_nlink e \<noteq> 1 then
        Inl (bundle_error (''code payload must not contain hard-linked files: '' @ ue_path e))
      else Inr ())"

definition reserved_record :: "string option \<Rightarrow> user_entry \<Rightarrow> bool" where
  "reserved_record excluded e \<longleftrightarrow>
     excluded = Some (ue_resolved e) \<or> suffix secret_sidecar_suffix (entry_name e)
     \<or> prefix secret_temp_prefix (entry_name e)"

definition skipped_directories :: "string list" where
  "skipped_directories = [''.git'', ''__pycache__'', ''.venv'']"

definition compiled_file :: "string \<Rightarrow> bool" where
  "compiled_file name \<longleftrightarrow> suffix ''.pyc'' name \<and> length name > 4"

text \<open>
  \<open>_iter_user_files\<close>: the files in their order, ending with the error the generator
  raises, if it does.
\<close>

fun bundle_files :: "string \<Rightarrow> string option \<Rightarrow> user_entry list \<Rightarrow> (py_error, user_entry) outcome list" where
  "bundle_files base excluded [] = []"
| "bundle_files base excluded (e # es) =
     (if set (ue_parts e) \<inter> set skipped_directories \<noteq> {} then bundle_files base excluded es
      else if ue_symlink e
        then [Inl (bundle_error (''code payload must not contain symbolic links: '' @ ue_path e))]
      else if ue_is_dir e \<or> compiled_file (entry_name e) then bundle_files base excluded es
      else if reserved_record excluded e then bundle_files base excluded es
      else (case validate_user_file base e of
          Inl x \<Rightarrow> [Inl x] | Inr _ \<Rightarrow> Inr e # bundle_files base excluded es))"

definition iter_user_files ::
  "code_kind \<Rightarrow> string option \<Rightarrow> code_tree \<Rightarrow> (py_error, user_entry) outcome list" where
  "iter_user_files kind excluded tree =
     (if kind = Kind_File then
        (let e = ct_entry tree in
         if \<not> ue_is_file e then [Inl (not_found (''code entry does not exist: '' @ ue_path e))]
         else if reserved_record excluded e then [Inl (bundle_error ''code entry is a reserved credential record'')]
         else (case validate_user_file (ct_root tree) e of Inl x \<Rightarrow> [Inl x] | Inr _ \<Rightarrow> [Inr e]))
      else if \<not> ct_root_is_dir tree then
        [Inl (not_found (''code bundle root does not exist: '' @ ct_root tree))]
      else bundle_files (ct_root tree) excluded (ct_sorted tree))"

section \<open>The source lock\<close>

definition lock_of :: "user_entry \<Rightarrow> source_file_lock" where
  "lock_of e = \<lparr>sf_path = ue_relative e, sf_size_bytes = int (length (ue_bytes e)),
     sf_sha256 = sha256_hex (ue_bytes e)\<rparr>"

text \<open>\<open>collect_source_files\<close>\<close>

definition collect_source_files ::
  "(py_error, user_entry) outcome list \<Rightarrow> (py_error, source_file_lock list) outcome" where
  "collect_source_files files =
     and_then (each_ok (\<lambda>f. f) files) (\<lambda>es. Inr (sort_key sf_path (map lock_of es)))"

definition by_path :: "source_file_lock list \<Rightarrow> string \<Rightarrow> source_file_lock option" where
  "by_path locks = map_of (rev (map (\<lambda>l. (sf_path l, l)) locks))"

definition lock_paths :: "source_file_lock list \<Rightarrow> string list" where
  "lock_paths locks = sort (remdups (map sf_path locks))"

definition lock_changed :: "source_file_lock option \<Rightarrow> source_file_lock option \<Rightarrow> bool" where
  "lock_changed a b =
     (case (a, b) of
        (Some x, Some y) \<Rightarrow> sf_size_bytes x \<noteq> sf_size_bytes y \<or> sf_sha256 x \<noteq> sf_sha256 y
      | _ \<Rightarrow> False)"

definition part_of :: "string \<Rightarrow> string list \<Rightarrow> string list" where
  "part_of what paths = (if paths = [] then [] else [what @ '' '' @ join '', '' paths])"

text \<open>\<open>verify_source_files\<close>: the accepted lock against the one of the disk now.\<close>

definition verify_source_files ::
  "source_file_lock list \<Rightarrow> (py_error, source_file_lock list) outcome \<Rightarrow> (py_error, unit) outcome" where
  "verify_source_files accepted collected =
     (if accepted = [] then Inl (bundle_error ''plan has no source lock; re-run job plan'')
      else and_then collected (\<lambda>now.
        (let added = List.filter (\<lambda>p. by_path accepted p = None) (lock_paths now);
             removed = List.filter (\<lambda>p. by_path now p = None) (lock_paths accepted);
             changed = List.filter (\<lambda>p. lock_changed (by_path now p) (by_path accepted p)) (lock_paths now)
         in if added = [] \<and> removed = [] \<and> changed = [] then Inr ()
            else Inl (bundle_error (''source files changed since planning (''
              @ join ''; '' (part_of ''added'' added @ part_of ''removed'' removed @ part_of ''changed'' changed)
              @ ''); re-run job plan'')))))"

lemma lock_paths_set [simp]: "set (lock_paths locks) = sf_path ` set locks"
  by (simp add: lock_paths_def)

lemma by_path_None [simp]: "by_path locks p = None \<longleftrightarrow> p \<notin> sf_path ` set locks"
  by (force simp: by_path_def map_of_eq_None_iff)

lemma by_path_path: "by_path locks p = Some l \<Longrightarrow> sf_path l = p"
  by (auto simp: by_path_def dest: map_of_SomeD)

text \<open>
  Apply accepts the disk exactly when its lock is the plan's, path by path with
  size and SHA-256; every difference, and a plan without a lock, is an error.
\<close>

theorem verify_accepts_the_planned_files:
  "verify_source_files accepted collected = Inr () \<longleftrightarrow>
     accepted \<noteq> [] \<and> (case collected of Inl _ \<Rightarrow> False | Inr now \<Rightarrow> by_path now = by_path accepted)"
proof (cases "accepted = [] \<or> (\<exists>e. collected = Inl e)")
  case True
  then show ?thesis by (auto simp: verify_source_files_def)
next
  case False
  then obtain now where c: "collected = Inr now" and a: "accepted \<noteq> []" by (cases collected) auto
  have same: "x = y" if "sf_path x = sf_path y" "sf_size_bytes x = sf_size_bytes y" "sf_sha256 x = sf_sha256 y"
    for x y :: source_file_lock
    using that by simp
  have "verify_source_files accepted collected = Inr () \<longleftrightarrow>
      sf_path ` set now = sf_path ` set accepted
      \<and> (\<forall>p \<in> sf_path ` set now. \<not> lock_changed (by_path now p) (by_path accepted p))"
    using a by (auto simp: verify_source_files_def c Let_def filter_empty_conv)
  also have "\<dots> \<longleftrightarrow> by_path now = by_path accepted"
  proof
    assume l: "sf_path ` set now = sf_path ` set accepted
      \<and> (\<forall>p \<in> sf_path ` set now. \<not> lock_changed (by_path now p) (by_path accepted p))"
    show "by_path now = by_path accepted"
    proof
      fix p
      show "by_path now p = by_path accepted p"
      proof (cases "p \<in> sf_path ` set now")
        case True
        then obtain x y where xy: "by_path now p = Some x" "by_path accepted p = Some y"
          using l by_path_None by (metis option.exhaust)
        then have "\<not> lock_changed (Some x) (Some y)" using l True by metis
        moreover have "sf_path x = sf_path y" using xy by_path_path by metis
        ultimately show ?thesis using xy same [of x y] by (simp add: lock_changed_def)
      next
        case False
        then show ?thesis using l by_path_None by metis
      qed
    qed
  next
    assume e: "by_path now = by_path accepted"
    have "p \<in> sf_path ` set now \<longleftrightarrow> p \<in> sf_path ` set accepted" for p
      using e by_path_None by metis
    then show "sf_path ` set now = sf_path ` set accepted
      \<and> (\<forall>p \<in> sf_path ` set now. \<not> lock_changed (by_path now p) (by_path accepted p))"
      by (auto simp: e lock_changed_def split: option.splits)
  qed
  finally show ?thesis using a c by simp
qed

section \<open>The rows and the credential channel\<close>

text \<open>\<open>_url_ref\<close>, the row of each transfer, and the URLs by their reference.\<close>

definition url_ref :: "string \<Rightarrow> string" where
  "url_ref url = url_digest url"

definition json_int :: "int option \<Rightarrow> json" where
  "json_int n = (case n of None \<Rightarrow> JNull | Some i \<Rightarrow> JInt i)"

definition data_row :: "data_item \<Rightarrow> json_obj" where
  "data_row d =
     [(''url_id'', JStr (url_id (di_url d))), (''url_ref'', JStr (url_ref (di_url d))),
      (''dest'', JStr (di_dest d)), (''sha256'', json_text (di_sha256 d)),
      (''size_bytes'', json_int (di_size_bytes d))]"

definition artifact_row :: "artifact_item \<Rightarrow> json_obj" where
  "artifact_row a =
     [(''url_id'', JStr (url_id (ai_url a))), (''url_ref'', JStr (url_ref (ai_url a))),
      (''path'', JStr (ai_path a)), (''required'', JBool (ai_required a))]"

definition result_put_url :: "job_spec \<Rightarrow> string option" where
  "result_put_url spec =
     (case ctl_result (sp_control spec) of
        Some ch \<Rightarrow> if ch_put_url ch = [] then None else Some (ch_put_url ch)
      | None \<Rightarrow> None)"

definition transfer_urls :: "job_spec \<Rightarrow> string list" where
  "transfer_urls spec = map di_url (sp_data spec) @ map ai_url (sp_artifacts spec)
     @ (case result_put_url spec of None \<Rightarrow> [] | Some u \<Rightarrow> [u])"

definition referenced :: "string list \<Rightarrow> url_map" where
  "referenced urls = fold (\<lambda>u. dict_set (url_ref u) u) urls []"

definition secret_payload :: "job_spec \<Rightarrow> json" where
  "secret_payload spec = JObj
     [(''schema_version'', JInt 1),
      (''urls'', JObj (map (\<lambda>(r, u). (r, JStr u)) (referenced (transfer_urls spec)))),
      (''result_put_ref'', json_text (map_option url_ref (result_put_url spec)))]"

lemma referenced_lookup:
  "inj_on url_digest (set us) \<Longrightarrow> u \<in> set us \<Longrightarrow> map_of (referenced us) (url_ref u) = Some u"
proof (induction us rule: rev_induct)
  case (snoc a us)
  show ?case
  proof (cases "url_digest a = url_digest u")
    case True
    then have "a = u" by (rule inj_onD [OF snoc.prems(1)]) (use snoc.prems in simp_all)
    then show ?thesis by (simp add: referenced_def)
  next
    case False
    then have "u \<in> set us" using snoc.prems by auto
    moreover have "inj_on url_digest (set us)" using snoc.prems(1) by (rule inj_on_subset) auto
    ultimately have "map_of (referenced us) (url_ref u) = Some u" using snoc.IH by blast
    with False show ?thesis by (simp add: referenced_def url_ref_def)
  qed
qed simp

lemma referenced_entries: "(r, u) \<in> set (referenced us) \<Longrightarrow> r = url_ref u"
proof (induction us rule: rev_induct)
  case (snoc a us)
  then show ?case by (auto simp: referenced_def dest!: dict_set_mem)
qed (simp add: referenced_def)

lemma urls_of_texts [simp]: "urls_of (map (\<lambda>(r, u). (r, JStr u)) d) = d"
  by (induction d) (auto simp: urls_of_def)

lemma loaded_channel:
  assumes "inj_on url_digest (set (transfer_urls spec))"
  shows "load_transfer_secrets (Some fd) (Inr (secret_payload spec))
     = Inr (referenced (transfer_urls spec), result_put_url spec)"
proof -
  have "list_all reference_matches (map (\<lambda>(r, u). (r, JStr u)) (referenced (transfer_urls spec)))"
    using sha256_hex_lower
    by (auto simp: list_all_iff reference_matches_def url_ref_def url_digest_def dest!: referenced_entries)
  moreover have "u \<in> set (transfer_urls spec)" if "result_put_url spec = Some u" for u
    using that by (simp add: transfer_urls_def)
  ultimately show ?thesis using referenced_lookup [OF assms]
    by (auto simp: load_transfer_secrets_def secret_payload_def jget_def json_text_def split: option.splits)
qed

text \<open>
  C15. What the planner's machine stages is what the runner on the VM resolves: the
  credential channel loads, names the URL the result is PUT to, and every row of the
  manifests resolves to the very URL of the spec, as long as no two URLs of the job
  have the same SHA-256.
\<close>

theorem staged_references_resolve:
  assumes "inj_on url_digest (set (transfer_urls spec))"
  shows "case load_transfer_secrets (Some fd) (Inr (secret_payload spec)) of
     Inl _ \<Rightarrow> False
   | Inr (urls, put) \<Rightarrow>
       put = result_put_url spec
       \<and> list_all (\<lambda>d. resolve_transfer_url (data_row d) urls = Inr (di_url d)) (sp_data spec)
       \<and> list_all (\<lambda>a. resolve_transfer_url (artifact_row a) urls = Inr (ai_url a)) (sp_artifacts spec)"
proof -
  have "runner_url_id u = url_id u" for u by (simp add: runner_url_id_def url_id_def canonical_url_def Let_def)
  moreover have "di_url d \<in> set (transfer_urls spec)" if "d \<in> set (sp_data spec)" for d
    using that by (simp add: transfer_urls_def)
  moreover have "ai_url a \<in> set (transfer_urls spec)" if "a \<in> set (sp_artifacts spec)" for a
    using that by (simp add: transfer_urls_def)
  ultimately show ?thesis using referenced_lookup [OF assms]
    by (auto simp: loaded_channel [OF assms] list_all_iff resolve_transfer_url_def data_row_def
        artifact_row_def jget_def Let_def)
qed

theorem staged_references_resolve_witness:
  "case load_transfer_secrets (Some 3) (Inr (secret_payload ((default_spec ''job'' ''train.py'')
        \<lparr>sp_data := [\<lparr>di_url = ''https://h/o?sig=1'', di_dest = ''d'', di_sha256 = None, di_size_bytes = None\<rparr>]\<rparr>))) of
     Inl _ \<Rightarrow> False
   | Inr (urls, put) \<Rightarrow> put = None
       \<and> resolve_transfer_url (data_row \<lparr>di_url = ''https://h/o?sig=1'', di_dest = ''d'', di_sha256 = None,
            di_size_bytes = None\<rparr>) urls = Inr ''https://h/o?sig=1''"
proof -
  let ?d = "\<lparr>di_url = ''https://h/o?sig=1'', di_dest = ''d'', di_sha256 = None, di_size_bytes = None\<rparr>"
  let ?spec = "(default_spec ''job'' ''train.py'')\<lparr>sp_data := [?d]\<rparr>"
  have u: "transfer_urls ?spec = [''https://h/o?sig=1'']" "result_put_url ?spec = None"
    by (simp_all add: transfer_urls_def result_put_url_def default_spec_def)
  show ?thesis
    using staged_references_resolve [of ?spec 3] by (simp add: u split: sum.splits prod.splits)
qed

section \<open>Staging\<close>

text \<open>
  The client's two calls, the files of the runtime in their order, the private
  snapshot of a file of the code (its temporary path and bytes, or the error), and
  the parsers.
\<close>

record 'w staging =
  sg_makedirs :: "string \<Rightarrow> 'w \<Rightarrow> (py_error, unit) outcome \<times> 'w"
  sg_upload :: "string \<Rightarrow> string \<Rightarrow> 'w \<Rightarrow> (py_error, unit) outcome \<times> 'w"
  sg_runtime :: "(string \<times> string) list"
  sg_snapshot :: "user_entry \<Rightarrow> (py_error, string \<times> string) outcome"
  sg_yaml :: "string \<Rightarrow> json option"
  sg_dumps :: "json \<Rightarrow> string"

definition contents_upload_ceiling :: nat where
  "contents_upload_ceiling = 250 * 1024 * 1024"

definition remote_join :: "string \<Rightarrow> string \<Rightarrow> string" where
  "remote_join base child = rstrip (\<lambda>c. c = CHR ''/'') base @ ''/'' @ lstrip (\<lambda>c. c = CHR ''/'') child"

text \<open>\<open>remote_path.rsplit("/", 1)[0]\<close>\<close>

definition remote_parent :: "string \<Rightarrow> string" where
  "remote_parent path =
     (if CHR ''/'' \<in> set path then take (length path - length (after_last CHR ''/'' path) - 1) path else path)"

text \<open>A step that may fail, over the directories made so far and the world.\<close>

definition then_do ::
  "('e, 'a) outcome \<times> 's \<Rightarrow> ('a \<Rightarrow> 's \<Rightarrow> ('e, 'b) outcome \<times> 's) \<Rightarrow> ('e, 'b) outcome \<times> 's" where
  "then_do r f = (case r of (Inl e, s) \<Rightarrow> (Inl e, s) | (Inr x, s) \<Rightarrow> f x s)"

definition upload_checked ::
  "'w staging \<Rightarrow> string \<Rightarrow> string \<Rightarrow> string \<Rightarrow> string list \<times> 'w \<Rightarrow> (py_error, unit) outcome \<times> string list \<times> 'w" where
  "upload_checked sg local bytes remote = (\<lambda>(made, w).
     if contents_upload_ceiling < length bytes then
       (Inl (bundle_error (''Refusing upload of '' @ local @ '': '' @ show_nat (length bytes)
          @ '' bytes exceeds the 250 MB Contents ceiling; use a data URL instead.'')), made, w)
     else
       then_do
         (let parent = remote_parent remote in
          if parent \<noteq> [] \<and> parent \<notin> set made then
            (case sg_makedirs sg parent w of
               (Inl e, w) \<Rightarrow> (Inl e, made, w)
             | (Inr _, w) \<Rightarrow> (Inr (), parent # made, w))
          else (Inr (), made, w))
         (\<lambda>_ (made, w). case sg_upload sg remote bytes w of (r, w) \<Rightarrow> (r, made, w)))"

fun upload_runtime ::
  "'w staging \<Rightarrow> string \<Rightarrow> (string \<times> string) list \<Rightarrow> string list \<times> 'w
    \<Rightarrow> (py_error, unit) outcome \<times> string list \<times> 'w" where
  "upload_runtime sg dir [] s = (Inr (), s)"
| "upload_runtime sg dir ((rel, bytes) # fs) s =
     then_do (upload_checked sg rel bytes (remote_join dir rel) s) (\<lambda>_. upload_runtime sg dir fs)"

text \<open>\<open>_snapshot_user_file\<close>\<close>

definition snapshot_user_file :: "'w staging \<Rightarrow> user_entry \<Rightarrow> (py_error, string \<times> string) outcome" where
  "snapshot_user_file sg e =
     and_then (sg_snapshot sg e) (\<lambda>(path, bytes).
     and_then (reject_credential_content bytes) (\<lambda>_.
     and_then (reject_structured (sg_yaml sg bytes)) (\<lambda>_. Inr (path, bytes))))"

definition differs_from_lock :: "source_file_lock option \<Rightarrow> string \<Rightarrow> bool" where
  "differs_from_lock l bytes =
     (case l of
        None \<Rightarrow> False
      | Some l \<Rightarrow> int (length bytes) \<noteq> sf_size_bytes l \<or> sha256_hex bytes \<noteq> sf_sha256 l)"

fun stage_user_files ::
  "'w staging \<Rightarrow> string \<Rightarrow> source_file_lock list option \<Rightarrow> (py_error, user_entry) outcome list
    \<Rightarrow> string list \<Rightarrow> string list \<times> 'w \<Rightarrow> (py_error, string list) outcome \<times> string list \<times> 'w" where
  "stage_user_files sg dir locks [] uploaded s = (Inr uploaded, s)"
| "stage_user_files sg dir locks (Inl e # fs) uploaded s = (Inl e, s)"
| "stage_user_files sg dir locks (Inr e # fs) uploaded s =
     (let key = ue_relative e; l = Option.bind locks (\<lambda>ls. by_path ls key) in
      if locks \<noteq> None \<and> l = None then (Inl (bundle_error (''undeclared source file: '' @ key)), s)
      else (case snapshot_user_file sg e of
          Inl x \<Rightarrow> (Inl x, s)
        | Inr (path, bytes) \<Rightarrow>
            if differs_from_lock l bytes
            then (Inl (bundle_error (''source file changed while staging: '' @ key)), s)
            else then_do (upload_checked sg path bytes (remote_join dir key) s)
              (\<lambda>_. stage_user_files sg dir locks fs (key # uploaded))))"

definition write_manifest ::
  "'w staging \<Rightarrow> string \<Rightarrow> string \<Rightarrow> json_obj list \<Rightarrow> string list \<times> 'w
    \<Rightarrow> (py_error, unit) outcome \<times> string list \<times> 'w" where
  "write_manifest sg dir name rows s =
     (if rows = [] then (Inr (), s)
      else upload_checked sg name (sg_dumps sg (JArr (map JObj rows))) (remote_join dir name) s)"

definition secret_dir :: "string \<Rightarrow> string" where
  "secret_dir dir = remote_join (remote_join dir ''mighty_runtime'') ''.secrets''"

definition secret_path :: "string \<Rightarrow> string" where
  "secret_path dir = remote_join (secret_dir dir) ''transfer.json''"

text \<open>The kernel made the secret directory, so \<open>_write_secret\<close> does not.\<close>

definition write_secret ::
  "'w staging \<Rightarrow> job_spec \<Rightarrow> string \<Rightarrow> string list \<times> 'w \<Rightarrow> (py_error, unit) outcome \<times> string list \<times> 'w" where
  "write_secret sg spec dir = (\<lambda>(made, w).
     if transfer_urls spec = [] then (Inr (), made, w)
     else upload_checked sg secret_temp_prefix (sg_dumps sg (secret_payload spec)) (secret_path dir)
       (secret_dir dir # made, w))"

definition all_planned :: "source_file_lock list option \<Rightarrow> string list \<Rightarrow> bool" where
  "all_planned locks uploaded =
     (case locks of None \<Rightarrow> True | Some ls \<Rightarrow> set uploaded = sf_path ` set ls)"

definition stage_payload ::
  "'w staging \<Rightarrow> job_spec \<Rightarrow> string \<Rightarrow> source_file_lock list option \<Rightarrow> (py_error, user_entry) outcome list
    \<Rightarrow> 'w \<Rightarrow> (py_error, unit) outcome \<times> string list \<times> 'w" where
  "stage_payload sg spec dir locks files w =
     then_do (upload_runtime sg (remote_join dir ''mighty_runtime'') (sg_runtime sg) ([], w)) (\<lambda>_ s.
     then_do (stage_user_files sg (remote_join dir ''src'') locks files [] s) (\<lambda>uploaded s.
       if \<not> all_planned locks uploaded
       then (Inl (bundle_error ''source payload does not match the plan''), s)
       else
         then_do (write_manifest sg dir ''stage.manifest.json'' (map data_row (sp_data spec)) s) (\<lambda>_ s.
         then_do (write_manifest sg dir ''offload.manifest.json'' (map artifact_row (sp_artifacts spec)) s) (\<lambda>_ s.
           write_secret sg spec dir s))))"

section \<open>The credentials go last\<close>

text \<open>A client that records what it is asked to upload and may refuse any call.\<close>

definition recording ::
  "(string \<Rightarrow> bool) \<Rightarrow> (string \<Rightarrow> bool) \<Rightarrow> 'v staging \<Rightarrow> ((string \<times> string) list) staging" where
  "recording no_dir no_file sg =
     \<lparr>sg_makedirs = (\<lambda>d w. (if no_dir d then Inl (bundle_error d) else Inr (), w)),
      sg_upload = (\<lambda>p b w. (if no_file p then Inl (bundle_error p) else Inr (), w @ [(p, b)])),
      sg_runtime = sg_runtime sg, sg_snapshot = sg_snapshot sg, sg_yaml = sg_yaml sg, sg_dumps = sg_dumps sg\<rparr>"

lemma recording_fields [simp]:
  "sg_runtime (recording nd nf sg) = sg_runtime sg" "sg_snapshot (recording nd nf sg) = sg_snapshot sg"
  "sg_yaml (recording nd nf sg) = sg_yaml sg" "sg_dumps (recording nd nf sg) = sg_dumps sg"
  by (simp_all add: recording_def)

lemma then_do_eq: "then_do r f = (r', s') \<longleftrightarrow>
     (\<exists>e. r = (Inl e, s') \<and> r' = Inl e) \<or> (\<exists>x s. r = (Inr x, s) \<and> f x s = (r', s'))"
  by (cases r; cases "fst r") (auto simp: then_do_def)

lemma upload_checked_log:
  "upload_checked (recording nd nf sg) l b p (made, sent) = (r, made', sent')
    \<Longrightarrow> sent' = sent @ (if r = Inr () then [(p, b)] else []) \<or> sent' = sent @ [(p, b)] \<and> r \<noteq> Inr ()"
  by (auto simp: upload_checked_def recording_def then_do_eq Let_def split: if_splits)

lemma upload_runtime_log:
  "upload_runtime (recording nd nf sg) dir fs (made, sent) = (r, made', sent')
    \<Longrightarrow> \<exists>xs. sent' = sent @ xs \<and> set (map fst xs) \<subseteq> remote_join dir ` set (map fst fs)
      \<and> (r = Inr () \<longrightarrow> map fst xs = map (remote_join dir) (map fst fs))"
proof (induction fs arbitrary: made sent)
  case (Cons f fs)
  obtain rel b where f: "f = (rel, b)" by (cases f)
  from Cons.prems consider
      (stop) e where "upload_checked (recording nd nf sg) rel b (remote_join dir rel) (made, sent) = (Inl e, made', sent')"
        "r = Inl e"
    | (go) m l where "upload_checked (recording nd nf sg) rel b (remote_join dir rel) (made, sent) = (Inr (), m, l)"
        "upload_runtime (recording nd nf sg) dir fs (m, l) = (r, made', sent')"
    by (auto simp: f then_do_eq)
  then show ?case
  proof cases
    case stop
    then show ?thesis using upload_checked_log [OF stop(1)] by (auto simp: f)
  next
    case go
    have "l = sent @ [(remote_join dir rel, b)]" using upload_checked_log [OF go(1)] by auto
    moreover from Cons.IH [OF go(2)] obtain xs where "sent' = l @ xs"
      "set (map fst xs) \<subseteq> remote_join dir ` set (map fst fs)"
      "r = Inr () \<longrightarrow> map fst xs = map (remote_join dir) (map fst fs)" by blast
    ultimately show ?thesis by (intro exI [of _ "(remote_join dir rel, b) # xs"]) (auto simp: f)
  qed
qed simp

lemma stage_user_log:
  "stage_user_files (recording nd nf sg) dir locks fs up (made, sent) = (r, made', sent')
    \<Longrightarrow> \<exists>xs. sent' = sent @ xs \<and> set (map fst xs) \<subseteq> range (remote_join dir)
      \<and> (\<forall>u. r = Inr u \<longrightarrow> (\<exists>es. fs = map Inr es \<and> map fst xs = map (\<lambda>e. remote_join dir (ue_relative e)) es))"
proof (induction fs arbitrary: up made sent)
  case (Cons f fs)
  show ?case
  proof (cases f)
    case (Inl e)
    then show ?thesis using Cons.prems by auto
  next
    case (Inr e)
    from Cons.prems consider
        (refused) "sent' = sent" "\<exists>x. r = Inl x"
      | (stop) l b x where "upload_checked (recording nd nf sg) l b (remote_join dir (ue_relative e)) (made, sent)
            = (Inl x, made', sent')" "r = Inl x"
      | (go) l b m lg where "upload_checked (recording nd nf sg) l b (remote_join dir (ue_relative e)) (made, sent)
            = (Inr (), m, lg)"
          "stage_user_files (recording nd nf sg) dir locks fs (ue_relative e # up) (m, lg) = (r, made', sent')"
      by (auto simp: Inr Let_def then_do_eq split: if_splits sum.splits prod.splits)
    then show ?thesis
    proof cases
      case refused
      then show ?thesis by auto
    next
      case stop
      then show ?thesis using upload_checked_log [OF stop(1)] by auto
    next
      case go
      have lg: "lg = sent @ [(remote_join dir (ue_relative e), b)]" using upload_checked_log [OF go(1)] by auto
      from Cons.IH [OF go(2)] obtain xs where xs: "sent' = lg @ xs" "set (map fst xs) \<subseteq> range (remote_join dir)"
        "\<forall>u. r = Inr u \<longrightarrow> (\<exists>es. fs = map Inr es \<and> map fst xs = map (\<lambda>e. remote_join dir (ue_relative e)) es)"
        by blast
      have "\<exists>es. f # fs = map Inr es \<and> remote_join dir (ue_relative e) # map fst xs
          = map (\<lambda>e. remote_join dir (ue_relative e)) es" if "r = Inr u" for u
      proof -
        from xs(3) that obtain es where es: "fs = map Inr es"
          "map fst xs = map (\<lambda>e. remote_join dir (ue_relative e)) es" by blast
        then show ?thesis by (intro exI [of _ "e # es"]) (simp add: Inr)
      qed
      with xs(1,2) show ?thesis
        by (intro exI [of _ "(remote_join dir (ue_relative e), b) # xs"]) (auto simp: lg)
    qed
  qed
qed simp

lemma write_manifest_log:
  "write_manifest (recording nd nf sg) dir name rows (made, sent) = (r, made', sent')
    \<Longrightarrow> \<exists>xs. sent' = sent @ xs \<and> set (map fst xs) \<subseteq> {remote_join dir name}
      \<and> (r = Inr () \<longrightarrow> map fst xs = (if rows = [] then [] else [remote_join dir name]))"
  by (auto simp: write_manifest_def dest!: upload_checked_log split: if_splits)

text \<open>No other upload has the channel's path.\<close>

lemma remote_join_eq: "remote_join d x = rstrip (\<lambda>c. c = CHR ''/'') d @ ''/'' @ lstrip (\<lambda>c. c = CHR ''/'') x"
  by (simp add: remote_join_def)

lemma rstrip_name: "n \<noteq> [] \<Longrightarrow> last n \<noteq> CHR ''/'' \<Longrightarrow> rstrip (\<lambda>c. c = CHR ''/'') (d @ ''/'' @ n) = d @ ''/'' @ n"
  by (cases n rule: rev_cases) (simp_all add: rstrip_def)

lemma remote_join_name:
  "n \<noteq> [] \<Longrightarrow> last n \<noteq> CHR ''/'' \<Longrightarrow>
     remote_join (d @ ''/'' @ n) x = d @ ''/'' @ n @ ''/'' @ lstrip (\<lambda>c. c = CHR ''/'') x"
  using rstrip_name [of n d] by (simp add: remote_join_eq)

lemma dropWhile_to_head: "p \<noteq> [] \<Longrightarrow> \<not> P (hd p) \<Longrightarrow> dropWhile P (zs @ p) = dropWhile P zs @ p"
  by (induction zs) (cases p; auto)+

lemma named_dirs:
  "remote_join dir ''mighty_runtime'' = rstrip (\<lambda>c. c = CHR ''/'') dir @ ''/'' @ ''mighty_runtime''"
  "remote_join dir ''src'' = rstrip (\<lambda>c. c = CHR ''/'') dir @ ''/'' @ ''src''"
  by (simp_all add: remote_join_def lstrip_def)

lemma secret_path_eq:
  "secret_path dir = rstrip (\<lambda>c. c = CHR ''/'') dir @ ''/mighty_runtime/.secrets/transfer.json''"
proof -
  let ?d = "rstrip (\<lambda>c. c = CHR ''/'') dir"
  have sd: "secret_dir dir = ?d @ ''/'' @ ''mighty_runtime/.secrets''"
    unfolding secret_dir_def named_dirs by (subst remote_join_name) (simp_all add: lstrip_def)
  show ?thesis unfolding secret_path_def sd by (subst remote_join_name) (simp_all add: lstrip_def)
qed

lemma runtime_not_secret:
  "suffix ''.py'' rel \<Longrightarrow> remote_join (remote_join dir ''mighty_runtime'') rel \<noteq> secret_path dir"
proof -
  assume "suffix ''.py'' rel"
  then obtain z where "rel = z @ ''.py''" by (auto simp: suffix_def)
  then have "lstrip (\<lambda>c. c = CHR ''/'') rel = lstrip (\<lambda>c. c = CHR ''/'') z @ ''.py''"
    unfolding lstrip_def by (simp add: dropWhile_to_head)
  then have "last (remote_join (remote_join dir ''mighty_runtime'') rel) = CHR ''y''"
    by (simp add: remote_join_eq)
  moreover have "last (secret_path dir) = CHR ''n''" by (simp add: secret_path_eq)
  ultimately show ?thesis by auto
qed

lemma source_not_secret: "remote_join (remote_join dir ''src'') rel \<noteq> secret_path dir"
  unfolding named_dirs by (subst remote_join_name) (simp_all add: secret_path_eq)

lemma manifest_not_secret:
  "remote_join dir ''stage.manifest.json'' \<noteq> secret_path dir"
  "remote_join dir ''offload.manifest.json'' \<noteq> secret_path dir"
  by (simp_all add: remote_join_def lstrip_def secret_path_eq)

definition public_paths :: "'w staging \<Rightarrow> job_spec \<Rightarrow> string \<Rightarrow> user_entry list \<Rightarrow> string list" where
  "public_paths sg spec dir es =
     map (\<lambda>f. remote_join (remote_join dir ''mighty_runtime'') (fst f)) (sg_runtime sg)
     @ map (\<lambda>e. remote_join (remote_join dir ''src'') (ue_relative e)) es
     @ (if sp_data spec = [] then [] else [remote_join dir ''stage.manifest.json''])
     @ (if sp_artifacts spec = [] then [] else [remote_join dir ''offload.manifest.json''])"


definition demo_staging :: "unit staging" where
  "demo_staging = \<lparr>sg_makedirs = (\<lambda>_ w. (Inr (), w)), sg_upload = (\<lambda>_ _ w. (Inr (), w)),
     sg_runtime = [(''runner.py'', ''x''), (''watchdog.py'', ''y'')], sg_snapshot = (\<lambda>e. Inr (ue_path e, ue_bytes e)),
     sg_yaml = (\<lambda>_. None), sg_dumps = (\<lambda>_. ''{}'')\<rparr>"


end
