(* ===== verification/Netpolicy.thy ===== *)
theory Netpolicy
  imports UrlId Verdict
begin

text \<open>
  \<open>job/runtime_payload/netpolicy.py\<close> and the probe of \<open>job/spec_io.py\<close>: every request
  for a job's URL goes to an address that was looked up once and found public.  The
  address ranges are those of Python's \<open>ipaddress\<close> (3.12.4 and later); \<open>getaddrinfo\<close>,
  the connection and the server's answers are parameters over an abstract world.
\<close>

section \<open>Public addresses\<close>

datatype ip = V4 nat | V6 nat

text \<open>\<open>ip_address\<close>, and membership in a network given by its base and prefix length.\<close>

definition ip_address :: "string \<Rightarrow> ip option" where
  "ip_address s =
     (case parse_ipv4 s of
        Some n \<Rightarrow> Some (V4 n)
      | None \<Rightarrow> map_option V6 (parse_ipv6 s))"

definition net4 :: "nat list \<Rightarrow> nat \<Rightarrow> nat \<times> nat" where
  "net4 octets bits = (foldl (\<lambda>n b. 256 * n + b) 0 octets, 2 ^ (32 - bits))"

definition net6 :: "nat list \<Rightarrow> nat \<Rightarrow> nat \<times> nat" where
  "net6 hextets bits =
     (foldl (\<lambda>n h. 65536 * n + h) 0 (take 8 (hextets @ replicate 8 0)), 2 ^ (128 - bits))"

definition in_net :: "nat \<Rightarrow> nat \<times> nat \<Rightarrow> bool" where
  "in_net n net = (case net of (base, width) \<Rightarrow> n div width = base div width)"

definition private4 :: "(nat \<times> nat) list" where
  "private4 =
     [net4 [0, 0, 0, 0] 8, net4 [10, 0, 0, 0] 8, net4 [127, 0, 0, 0] 8, net4 [169, 254, 0, 0] 16,
      net4 [172, 16, 0, 0] 12, net4 [192, 0, 0, 0] 24, net4 [192, 0, 0, 170] 31, net4 [192, 0, 2, 0] 24,
      net4 [192, 168, 0, 0] 16, net4 [198, 18, 0, 0] 15, net4 [198, 51, 100, 0] 24, net4 [203, 0, 113, 0] 24,
      net4 [240, 0, 0, 0] 4, net4 [255, 255, 255, 255] 32]"

definition private4_exceptions :: "(nat \<times> nat) list" where
  "private4_exceptions = [net4 [192, 0, 0, 9] 32, net4 [192, 0, 0, 10] 32]"

definition private6 :: "(nat \<times> nat) list" where
  "private6 =
     [net6 [0, 0, 0, 0, 0, 0, 0, 1] 128, net6 [] 128, net6 [0, 0, 0, 0, 0, 0xFFFF] 96,
      net6 [0x64, 0xFF9B, 1] 48, net6 [0x100] 64, net6 [0x2001] 23, net6 [0x2001, 0xDB8] 32,
      net6 [0x2002] 16, net6 [0xFC00] 7, net6 [0xFE80] 10]"

definition private6_exceptions :: "(nat \<times> nat) list" where
  "private6_exceptions =
     [net6 [0x2001, 1, 0, 0, 0, 0, 0, 1] 128, net6 [0x2001, 1, 0, 0, 0, 0, 0, 2] 128, net6 [0x2001, 3] 32,
      net6 [0x2001, 4, 0x112] 48, net6 [0x2001, 0x20] 28, net6 [0x2001, 0x30] 28]"

text \<open>\<open>is_global and not is_multicast\<close>\<close>

fun ip_public :: "ip \<Rightarrow> bool" where
  "ip_public (V4 n) \<longleftrightarrow>
     \<not> in_net n (net4 [100, 64, 0, 0] 10)
     \<and> \<not> (list_ex (in_net n) private4 \<and> \<not> list_ex (in_net n) private4_exceptions)
     \<and> \<not> in_net n (net4 [224, 0, 0, 0] 4)"
| "ip_public (V6 n) \<longleftrightarrow>
     \<not> (list_ex (in_net n) private6 \<and> \<not> list_ex (in_net n) private6_exceptions)
     \<and> \<not> in_net n (net6 [0xFF00] 8)"

text \<open>\<open>ipv4_mapped\<close>\<close>

fun unmapped :: "ip \<Rightarrow> ip" where
  "unmapped (V4 n) = V4 n"
| "unmapped (V6 n) = (if n div 2 ^ 32 = 0xFFFF then V4 (n mod 2 ^ 32) else V6 n)"

definition literal_host :: "string \<Rightarrow> string" where
  "literal_host host =
     (let h = (if prefix ''['' host \<and> suffix '']'' host then butlast (tl host) else host)
      in takeWhile (\<lambda>c. c \<noteq> CHR ''%'') h)"

definition address_is_public :: "string \<Rightarrow> bool" where
  "address_is_public value =
     (case ip_address (literal_host value) of
        None \<Rightarrow> False
      | Some a \<Rightarrow> ip_public (unmapped a))"

section \<open>The check of a URL\<close>

definition blocked_destination :: "string \<Rightarrow> py_error" where
  "blocked_destination m = \<lparr>err_type = ''BlockedDestination'', err_msg = m\<rparr>"

type_synonym 'w lookup = "string \<Rightarrow> nat \<Rightarrow> 'w \<Rightarrow> (py_error, string list) outcome \<times> 'w"

definition public_addresses :: "string \<Rightarrow> string list \<Rightarrow> (py_error, string list) outcome" where
  "public_addresses host addresses =
     (if addresses = [] then Inl (blocked_destination (''no addresses for '' @ host))
      else (case List.filter (\<lambda>a. \<not> address_is_public a) addresses of
          [] \<Rightarrow> Inr addresses
        | bad \<Rightarrow> Inl (blocked_destination (''non-public address for '' @ host @ '': '' @ join '', '' bad))))"

definition resolve_public_addresses ::
  "'w lookup \<Rightarrow> string \<Rightarrow> nat \<Rightarrow> 'w \<Rightarrow> (py_error, string list) outcome \<times> 'w" where
  "resolve_public_addresses gai host0 port w =
     (let host = literal_host host0 in
      case ip_address host of
        Some _ \<Rightarrow> (public_addresses host [host], w)
      | None \<Rightarrow>
          (case gai host port w of
             (Inl e, w) \<Rightarrow> (Inl e, w)
           | (Inr addresses, w) \<Rightarrow> (public_addresses host addresses, w)))"

definition effective_port :: "nat option \<Rightarrow> nat" where
  "effective_port p = (case p of Some n \<Rightarrow> if n = 0 then 443 else n | None \<Rightarrow> 443)"

definition port_error :: "string \<Rightarrow> py_error" where
  "port_error m = \<lparr>err_type = ''ValueError'', err_msg = m\<rparr>"

text \<open>\<open>check_url\<close>: host, address and port; a bad port is the \<open>ValueError\<close> of \<open>parts.port\<close>.\<close>

definition check_url ::
  "'w lookup \<Rightarrow> string \<Rightarrow> 'w \<Rightarrow> (py_error, string \<times> string \<times> nat) outcome \<times> 'w" where
  "check_url gai url w =
     (case urlsplit url of
        Inl _ \<Rightarrow> (Inl (blocked_destination ''invalid URL''), w)
      | Inr u \<Rightarrow>
          if su_scheme u \<noteq> ''https'' then (Inl (blocked_destination ''URL scheme must be https''), w)
          else (case url_hostname u of
              None \<Rightarrow> (Inl (blocked_destination ''URL has no host''), w)
            | Some host \<Rightarrow>
                (case url_port u of
                   Inl m \<Rightarrow> (Inl (port_error m), w)
                 | Inr p \<Rightarrow>
                     (case resolve_public_addresses gai host (effective_port p) w of
                        (Inl e, w) \<Rightarrow> (Inl e, w)
                      | (Inr addresses, w) \<Rightarrow> (Inr (host, hd addresses, effective_port p), w)))))"

section \<open>Opening a URL\<close>

text \<open>
  A connection is to an address and a port, with the name the server's certificate
  must have.  The handler of \<open>urlopen_public\<close> is made for the first host, and every
  hop of \<open>urllib\<close>'s redirects connects through it.  A \<open>Redirect\<close> names the joined
  new URL.
\<close>

record connection =
  cx_ip :: string
  cx_port :: nat
  cx_name :: string

datatype 'r reply = Answer 'r | Failure py_error | Redirect string

type_synonym ('r, 'w) exchange = "connection \<Rightarrow> string \<Rightarrow> 'w \<Rightarrow> 'r reply \<times> 'w"

definition max_repeats :: nat where "max_repeats = 4"
definition max_redirections :: nat where "max_redirections = 10"

definition redirect_loop :: "string list \<Rightarrow> string \<Rightarrow> bool" where
  "redirect_loop visited new \<longleftrightarrow>
     visited \<noteq> [] \<and> (max_repeats \<le> count_list visited new \<or> max_redirections \<le> length (remdups visited))"

definition loop_error :: py_error where
  "loop_error = \<lparr>err_type = ''HTTPError'',
     err_msg = ''The HTTP server returned a redirect error that would lead to an infinite loop.''\<rparr>"

text \<open>
  A URL is followed at most four times and at most ten are followed in all, so a
  redirect uses up some of a budget of forty.
\<close>

definition hop_budget :: "string list \<Rightarrow> nat" where
  "hop_budget visited =
     (\<Sum>u \<in> set visited. max_repeats - count_list visited u)
       + max_repeats * (max_redirections - card (set visited))"

lemma hop_budget_decreases:
  assumes "\<not> redirect_loop visited new"
  shows "hop_budget (new # visited) < hop_budget visited"
proof (cases "new \<in> set visited")
  case True
  then have c: "count_list visited new < max_repeats" using assms by (auto simp: redirect_loop_def)
  have "(\<Sum>u \<in> set visited. max_repeats - count_list (new # visited) u)
      < (\<Sum>u \<in> set visited. max_repeats - count_list visited u)"
    using True c by (intro sum_strict_mono_ex1) auto
  with True show ?thesis by (simp add: hop_budget_def insert_absorb)
next
  case False
  then have n: "count_list visited new = 0" by simp
  have card: "card (set visited) < max_redirections"
    using assms by (cases "visited = []") (auto simp: redirect_loop_def max_redirections_def length_remdups_card_conv)
  have "(\<Sum>u \<in> set visited. max_repeats - count_list (new # visited) u)
      = (\<Sum>u \<in> set visited. max_repeats - count_list visited u)"
    using False by (intro sum.cong) auto
  with False n card show ?thesis by (simp add: hop_budget_def max_repeats_def)
qed

text \<open>The hops from a URL on, with the URLs redirected to so far; the list is of the connections made.\<close>

function open_hops ::
  "'w lookup \<Rightarrow> ('r, 'w) exchange \<Rightarrow> connection \<Rightarrow> string list \<Rightarrow> string \<Rightarrow> 'w
    \<Rightarrow> (py_error, 'r) outcome \<times> (connection \<times> string) list \<times> 'w" where
  "open_hops gai ex cx visited url w =
     (case ex cx url w of
        (Answer r, w) \<Rightarrow> (Inr r, [(cx, url)], w)
      | (Failure e, w) \<Rightarrow> (Inl e, [(cx, url)], w)
      | (Redirect new, w) \<Rightarrow>
          (case check_url gai new w of
             (Inl e, w) \<Rightarrow> (Inl e, [(cx, url)], w)
           | (Inr _, w) \<Rightarrow>
               if redirect_loop visited new then (Inl loop_error, [(cx, url)], w)
               else (case open_hops gai ex cx (new # visited) new w of
                   (r, hops, w) \<Rightarrow> (r, (cx, url) # hops, w))))"
  by pat_completeness auto
termination
  by (relation "measure (\<lambda>(gai, ex, cx, visited, url, w). hop_budget visited)")
    (auto intro: hop_budget_decreases)

declare open_hops.simps [simp del]

definition pinned_netloc :: "string \<Rightarrow> nat \<Rightarrow> string" where
  "pinned_netloc ip port =
     (if CHR '':'' \<in> set ip \<and> \<not> prefix ''['' ip then ''['' @ ip @ '']:'' @ show_nat port
      else ip @ '':'' @ show_nat port)"

definition urlunsplit :: "split_url \<Rightarrow> string" where
  "urlunsplit u = su_scheme u @ ''://'' @ su_netloc u
     @ (if su_path u \<noteq> [] \<and> \<not> prefix ''/'' (su_path u) then ''/'' else []) @ su_path u
     @ (if su_query u = [] then [] else ''?'' @ su_query u)
     @ (if su_fragment u = [] then [] else ''#'' @ su_fragment u)"

definition pinned_url :: "string \<Rightarrow> string \<Rightarrow> nat \<Rightarrow> string" where
  "pinned_url url ip port =
     (case urlsplit url of
        Inl _ \<Rightarrow> url
      | Inr u \<Rightarrow> urlunsplit (u\<lparr>su_netloc := pinned_netloc ip port\<rparr>))"

definition urlopen_public ::
  "'w lookup \<Rightarrow> ('r, 'w) exchange \<Rightarrow> string \<Rightarrow> 'w
    \<Rightarrow> (py_error, 'r) outcome \<times> (connection \<times> string) list \<times> 'w" where
  "urlopen_public gai ex url w =
     (case check_url gai url w of
        (Inl e, w) \<Rightarrow> (Inl e, [], w)
      | (Inr (host, ip, port), w) \<Rightarrow>
          open_hops gai ex \<lparr>cx_ip = ip, cx_port = port, cx_name = host\<rparr> [] (pinned_url url ip port) w)"

section \<open>Every connection is to a public address\<close>

lemma public_addresses_Inr:
  "public_addresses host as = Inr bs \<Longrightarrow> bs = as \<and> as \<noteq> [] \<and> list_all address_is_public as"
  by (auto simp: public_addresses_def filter_empty_conv list_all_iff split: if_splits list.splits)

lemma resolved_are_public:
  "resolve_public_addresses gai host port w = (Inr as, w') \<Longrightarrow> as \<noteq> [] \<and> list_all address_is_public as"
  by (auto simp: resolve_public_addresses_def Let_def dest!: public_addresses_Inr
      split: option.splits prod.splits sum.splits)

lemma checked_is_public:
  "check_url gai url w = (Inr (host, ip, port), w')
    \<Longrightarrow> address_is_public ip \<and> (case urlsplit url of Inl _ \<Rightarrow> False
      | Inr u \<Rightarrow> su_scheme u = ''https'' \<and> url_hostname u = Some host)"
  by (auto simp: check_url_def split: sum.splits if_splits option.splits prod.splits
      dest!: resolved_are_public) (auto simp: list_all_iff)

text \<open>
  After the first hop every URL passed the check; all hops use the connection of the
  first, and there are at most as many as the budget allows.
\<close>

definition https_host :: "string \<Rightarrow> bool" where
  "https_host url = (case urlsplit url of Inl _ \<Rightarrow> False
     | Inr u \<Rightarrow> su_scheme u = ''https'' \<and> url_hostname u \<noteq> None)"

lemma open_hops_shape:
  "open_hops gai ex cx visited url w = (r, hops, w') \<Longrightarrow>
     list_all (\<lambda>(c, _). c = cx) hops \<and> hops \<noteq> [] \<and> hd hops = (cx, url)
     \<and> list_all (\<lambda>(_, u). https_host u) (tl hops) \<and> length hops \<le> Suc (hop_budget visited)"
proof (induction gai ex cx visited url w arbitrary: r hops w' rule: open_hops.induct)
  case (1 gai ex cx visited url w)
  show ?case
  proof (cases "\<exists>new w1 x w2. ex cx url w = (Redirect new, w1) \<and> check_url gai new w1 = (Inr x, w2)
      \<and> \<not> redirect_loop visited new")
    case True
    then obtain new w1 x w2 where
        step: "ex cx url w = (Redirect new, w1)" "check_url gai new w1 = (Inr x, w2)" "\<not> redirect_loop visited new"
      by blast
    obtain r' hops' w'' where go: "open_hops gai ex cx (new # visited) new w2 = (r', hops', w'')" by (metis prod.collapse)
    have hops: "hops = (cx, url) # hops'" using "1.prems" step go by (subst (asm) open_hops.simps) auto
    have "https_host new" using step(2) by (cases x) (auto simp: https_host_def dest!: checked_is_public split: sum.splits)
    moreover have "list_all (\<lambda>(c, _). c = cx) hops' \<and> hops' \<noteq> [] \<and> hd hops' = (cx, new)
        \<and> list_all (\<lambda>(_, u). https_host u) (tl hops') \<and> length hops' \<le> Suc (hop_budget (new # visited))"
      using "1.IH" [OF step(1) [symmetric] refl step(2) [symmetric] refl step(3) go] by simp
    moreover have "hop_budget (new # visited) < hop_budget visited" using step(3) by (rule hop_budget_decreases)
    ultimately show ?thesis by (cases hops') (auto simp: hops)
  next
    case False
    with "1.prems" show ?thesis
      by (subst (asm) open_hops.simps) (fastforce split: prod.splits reply.splits sum.splits if_splits)
  qed
qed


section \<open>Uploads\<close>

text \<open>
  \<open>put_public\<close>: the request line and headers, what went wrong while the body was
  sent, and what reading the response gave: an error, or status, reason and the
  first bytes of the body.
\<close>

record put_request =
  pr_target :: string
  pr_headers :: "(string \<times> string) list"

record put_response =
  ps_status :: int
  ps_reason :: string
  ps_excerpt :: string

record put_exchange =
  px_send_error :: "py_error option"
  px_response :: "(py_error, put_response) outcome"

datatype put_error =
    Put_Raised py_error
  | Http_Status_Error int string string "py_error option"
  | Upload_Cut_Short py_error string

definition typed :: "py_error \<Rightarrow> string" where
  "typed e = err_type e @ '': '' @ err_msg e"

text \<open>The messages of the two exceptions.\<close>

fun put_error_text :: "put_error \<Rightarrow> string" where
  "put_error_text (Put_Raised e) = err_msg e"
| "put_error_text (Http_Status_Error status reason body send_error) =
     rstrip is_space (''HTTP '' @ show_int status @ '' '' @ reason)
     @ (case send_error of None \<Rightarrow> [] | Some e \<Rightarrow> '' (upload cut short: '' @ typed e @ '')'')"
| "put_error_text (Upload_Cut_Short e after) = typed e @ ''; '' @ after"

definition put_target :: "string \<Rightarrow> string" where
  "put_target url =
     (case urlsplit url of
        Inl _ \<Rightarrow> ''/''
      | Inr u \<Rightarrow> (if su_path u = [] then ''/'' else su_path u)
          @ (if su_query u = [] then [] else ''?'' @ su_query u))"

definition put_headers :: "string \<Rightarrow> string \<Rightarrow> nat \<Rightarrow> (string \<times> string) list \<Rightarrow> (string \<times> string) list" where
  "put_headers agent host n headers =
     [(''Host'', host), (''User-Agent'', agent), (''Accept-Encoding'', ''identity''),
      (''Connection'', ''close''), (''Content-Length'', show_nat n)] @ headers"

definition put_outcome :: "put_exchange \<Rightarrow> (put_error, int) outcome" where
  "put_outcome x =
     (case (px_response x, px_send_error x) of
        (Inl e, None) \<Rightarrow> Inl (Put_Raised e)
      | (Inl e, Some s) \<Rightarrow> Inl (Upload_Cut_Short s (''then reading the response failed: '' @ typed e))
      | (Inr r, send) \<Rightarrow>
          if 200 \<le> ps_status r \<and> ps_status r < 300 then
            (case send of
               Some s \<Rightarrow> Inl (Upload_Cut_Short s
                 (''the server answered HTTP '' @ show_int (ps_status r) @ '' '' @ ps_reason r))
             | None \<Rightarrow> Inr (ps_status r))
          else Inl (Http_Status_Error (ps_status r) (ps_reason r) (ps_excerpt r) send))"

definition put_public ::
  "'w lookup \<Rightarrow> (connection \<Rightarrow> put_request \<Rightarrow> 'w \<Rightarrow> put_exchange \<times> 'w) \<Rightarrow> string \<Rightarrow> string \<Rightarrow> nat
    \<Rightarrow> (string \<times> string) list \<Rightarrow> 'w \<Rightarrow> (put_error, int) outcome \<times> 'w" where
  "put_public gai send agent url n headers w =
     (case check_url gai url w of
        (Inl e, w) \<Rightarrow> (Inl (Put_Raised e), w)
      | (Inr (host, ip, port), w) \<Rightarrow>
          (case send \<lparr>cx_ip = ip, cx_port = port, cx_name = host\<rparr>
                 \<lparr>pr_target = put_target url, pr_headers = put_headers agent host n headers\<rparr> w of
             (x, w) \<Rightarrow> (put_outcome x, w)))"


section \<open>The probe of an input\<close>

text \<open>\<open>ProbeResult\<close> and \<open>probe_get_url\<close> of \<open>job/spec_io.py\<close>.\<close>

record probe_result =
  pb_status :: "int option"
  pb_size_bytes :: "int option"
  pb_error :: "transfer_error option"
  pb_range_honored :: bool

definition range_ignored :: "probe_result \<Rightarrow> bool" where
  "range_ignored p \<longleftrightarrow> pb_status p = Some 200 \<and> \<not> pb_range_honored p"

definition probe_error_body_bytes :: nat where "probe_error_body_bytes = 300"

text \<open>
  \<open>_content_range_size\<close>: the regular expression \<open>\\s*bytes\\s+0-0/(\\d+)\\s*\<close> over the
  whole header; \<open>get\<close> finds it by its name in any case.
\<close>

definition too_many_digits :: "nat \<Rightarrow> py_error" where
  "too_many_digits n = \<lparr>err_type = ''ValueError'',
     err_msg = ''Exceeds the limit (4300 digits) for integer string conversion: value has '' @ show_nat n
       @ '' digits; use sys.set_int_max_str_digits() to increase the limit''\<rparr>"

definition content_range_size :: "string option \<Rightarrow> (py_error, int option) outcome" where
  "content_range_size header =
     (case header of
        None \<Rightarrow> Inr None
      | Some h \<Rightarrow>
          (let s = strip h; rest = drop 5 s; gap = takeWhile is_space rest;
               tail = dropWhile is_space rest; digits = drop 4 tail
           in if prefix ''bytes'' s \<and> gap \<noteq> [] \<and> prefix ''0-0/'' tail \<and> digits \<noteq> [] \<and> list_all is_digit digits
              then if 4300 < length digits then Inl (too_many_digits (length digits))
                   else Inr (Some (int (digits_value 0 digits)))
              else Inr None))"

record probe_answer =
  pa_status :: "int option"
  pa_content_range :: "string option"

text \<open>
  What the request raised, by the handler that catches it: the server's status with
  the body's first bytes decoded, \<open>BlockedDestination\<close>, an \<open>OSError\<close>, a
  \<open>ValueError\<close>, or an exception that leaves the probe.
\<close>

datatype probe_failure =
    Http_Failure int "string option" py_error
  | Blocked_Failure py_error
  | Os_Failure py_error
  | Value_Failure py_error
  | Other_Failure py_error

definition probe_error ::
  "py_error \<Rightarrow> string \<Rightarrow> transfer_category \<Rightarrow> int option \<Rightarrow> string option \<Rightarrow> transfer_error" where
  "probe_error e url category status body =
     \<lparr>te_exception = err_type e, te_reason = redact_url (err_msg e) (Some url) (url_id url),
      te_http_status = status,
      te_body = (case body of None \<Rightarrow> None
        | Some b \<Rightarrow> if b = [] then None else Some (redact_url b (Some url) (url_id url))),
      te_category = Some category, te_extra = []\<rparr>"

definition unexpected_status :: "int option \<Rightarrow> transfer_error" where
  "unexpected_status status =
     \<lparr>te_exception = ''UnexpectedStatus'',
      te_reason = ''unexpected HTTP status '' @ (case status of None \<Rightarrow> ''None'' | Some n \<Rightarrow> show_int n),
      te_http_status = status, te_body = None, te_category = Some Cat_Http, te_extra = []\<rparr>"

definition failed_probe :: "int option \<Rightarrow> transfer_error \<Rightarrow> probe_result" where
  "failed_probe status e =
     \<lparr>pb_status = status, pb_size_bytes = None, pb_error = Some e, pb_range_honored = False\<rparr>"

definition empty_object :: probe_result where
  "empty_object = \<lparr>pb_status = Some 416, pb_size_bytes = Some 0, pb_error = None, pb_range_honored = True\<rparr>"

definition probe_get_url ::
  "string \<Rightarrow> (probe_failure, probe_answer) outcome \<Rightarrow> (py_error, probe_result) outcome" where
  "probe_get_url url opened =
     (case opened of
        Inr a \<Rightarrow>
          Inr (case pa_status a of
             Some status \<Rightarrow>
               if status = 206 then
                 (case content_range_size (pa_content_range a) of
                    Inr measured \<Rightarrow>
                      \<lparr>pb_status = Some 206, pb_size_bytes = measured, pb_error = None, pb_range_honored = True\<rparr>
                  | Inl e \<Rightarrow> failed_probe None (probe_error e url Cat_Error None None))
               else if status = 200 then
                 \<lparr>pb_status = Some 200, pb_size_bytes = None, pb_error = None, pb_range_honored = False\<rparr>
               else if status = 416 then empty_object
               else failed_probe (Some status) (unexpected_status (Some status))
           | None \<Rightarrow> failed_probe None (unexpected_status None))
      | Inl (Http_Failure status body e) \<Rightarrow>
          Inr (if status = 416 then empty_object
               else failed_probe (Some status) (probe_error e url Cat_Http (Some status) body))
      | Inl (Blocked_Failure e) \<Rightarrow> Inr (failed_probe None (probe_error e url Cat_Blocked None None))
      | Inl (Os_Failure e) \<Rightarrow> Inr (failed_probe None (probe_error e url Cat_Network None None))
      | Inl (Value_Failure e) \<Rightarrow> Inr (failed_probe None (probe_error e url Cat_Error None None))
      | Inl (Other_Failure e) \<Rightarrow> Inl e)"

text \<open>
  A probe measures a size only from a range that the server honoured, and every
  probe without an error has a status of 200, 206 or 416; what it keeps of a failure
  quotes no query credential.
\<close>

theorem probe_sizes_and_errors:
  "case probe_get_url url opened of
     Inl _ \<Rightarrow> True
   | Inr p \<Rightarrow>
       (case pb_error p of
          None \<Rightarrow> pb_status p \<in> {Some 200, Some 206, Some 416}
            \<and> (pb_range_honored p = (pb_status p \<noteq> Some 200))
            \<and> (if pb_range_honored p then True else pb_size_bytes p = None)
        | Some e \<Rightarrow> pb_size_bytes p = None \<and> \<not> pb_range_honored p
            \<and> \<not> leaks_query (te_reason e) \<and> \<not> leaks_query (case te_body e of None \<Rightarrow> [] | Some b \<Rightarrow> b))"
proof -
  have "CHR ''?'' \<notin> set (te_reason (unexpected_status s))" for s
    by (auto simp: unexpected_status_def split: option.splits)
  then have plain: "\<not> leaks_query (te_reason (unexpected_status s))" for s by (rule leaks_query_neither)
  have body: "te_body (unexpected_status s) = None" for s by (simp add: unexpected_status_def)
  show ?thesis
    using redact_url_leak_free plain
    by (auto simp: probe_get_url_def failed_probe_def empty_object_def probe_error_def body
        split: sum.splits option.splits probe_failure.splits if_splits)
qed

end
