(* ===== verification/Planner.thy ===== *)
theory Planner
  imports Netpolicy Expiry Bundle Install
begin

text \<open>
  \<open>job/planner.py\<close>: the plan-time checks of a spec, each a list of diagnostics, and
  the plan they end in.  Parameters are the name lookup, the probe's answers, the
  resolution of paths and the file system, the hash of the spec and the parsers of
  \<open>Expiry\<close>; a moment is its microseconds since the epoch.
\<close>

section \<open>Diagnostics\<close>

definition diag :: "severity \<Rightarrow> string \<Rightarrow> string \<Rightarrow> retry_class option \<Rightarrow> string \<Rightarrow> diagnostic" where
  "diag severity dcode message cl hint =
     \<lparr>dg_severity = severity, dg_code = dcode, dg_message = message, dg_retry_class = cl,
      dg_hint = Some hint\<rparr>"

abbreviation err :: "string \<Rightarrow> string \<Rightarrow> retry_class \<Rightarrow> string \<Rightarrow> diagnostic" where
  "err dcode message cl hint \<equiv> diag Sev_Error dcode message (Some cl) hint"

definition known_accelerators :: "string list" where
  "known_accelerators = [''T4'', ''L4'', ''G4'', ''H100'', ''A100'', ''v5e1'', ''v6e1'']"

section \<open>The URLs of a spec\<close>

datatype purpose = For_Data | For_Artifact | For_Control

definition indexed :: "string \<Rightarrow> nat \<Rightarrow> string \<Rightarrow> string" where
  "indexed what i field = what @ ''['' @ show_nat i @ '']'' @ field"

definition channel_items :: "string \<Rightarrow> control_channel option \<Rightarrow> (string \<times> string \<times> purpose) list" where
  "channel_items name channel =
     (case channel of
        None \<Rightarrow> []
      | Some ch \<Rightarrow>
          (if ch_put_url ch = [] then [] else [(''control.'' @ name @ ''.put_url'', ch_put_url ch, For_Control)])
          @ (if ch_get_url ch = [] then [] else [(''control.'' @ name @ ''.get_url'', ch_get_url ch, For_Control)]))"

definition url_items :: "job_spec \<Rightarrow> (string \<times> string \<times> purpose) list" where
  "url_items spec =
     map (\<lambda>(i, d). (indexed ''data'' i ''.url'', di_url d, For_Data)) (enumerate 0 (sp_data spec))
     @ map (\<lambda>(i, a). (indexed ''artifacts'' i ''.url'', ai_url a, For_Artifact)) (enumerate 0 (sp_artifacts spec))
     @ channel_items ''result'' (ctl_result (sp_control spec))
     @ channel_items ''log'' (ctl_log (sp_control spec))"

section \<open>Hosts\<close>

text \<open>
  One lookup of a URL's host.  \<open>getaddrinfo\<close> raises an \<open>OSError\<close>, or a \<open>UnicodeError\<close>
  for a label it cannot encode, which leaves the planner.
\<close>

datatype host_check = Public | Blocked string | Unresolved string | Malformed string

definition check_host :: "'w lookup \<Rightarrow> string \<Rightarrow> 'w \<Rightarrow> (py_error, host_check) outcome \<times> 'w" where
  "check_host gai url w =
     (case urlsplit url of
        Inl m \<Rightarrow> (Inr (Malformed m), w)
      | Inr u \<Rightarrow>
          (case url_port u of
             Inl m \<Rightarrow> (Inr (Malformed m), w)
           | Inr p \<Rightarrow>
               (case url_hostname u of
                  None \<Rightarrow> (Inr (Malformed ''no host''), w)
                | Some host \<Rightarrow>
                    (case resolve_public_addresses gai host (effective_port p) w of
                       (Inr _, w) \<Rightarrow> (Inr Public, w)
                     | (Inl e, w) \<Rightarrow>
                         if err_type e = ''BlockedDestination'' then (Inr (Blocked (err_msg e)), w)
                         else if err_type e = ''UnicodeError'' then (Inl e, w)
                         else (Inr (Unresolved (host @ '': '' @ describe_error e)), w)))))"

text \<open>\<open>_HostChecks\<close>: what was found is kept for the whole plan.\<close>

type_synonym seen_hosts = "(string \<times> host_check) list"

definition host_checks ::
  "'w lookup \<Rightarrow> string \<Rightarrow> seen_hosts \<times> 'w \<Rightarrow> (py_error, host_check) outcome \<times> seen_hosts \<times> 'w" where
  "host_checks gai url = (\<lambda>(seen, w).
     case map_of seen url of
       Some c \<Rightarrow> (Inr c, seen, w)
     | None \<Rightarrow>
         (case check_host gai url w of
            (Inl e, w) \<Rightarrow> (Inl e, seen, w)
          | (Inr c, w) \<Rightarrow> (Inr c, dict_set url c seen, w)))"

definition https_scheme :: "string \<Rightarrow> bool" where
  "https_scheme url = (case urlsplit url of Inl _ \<Rightarrow> False | Inr u \<Rightarrow> su_scheme u = ''https'')"

definition host_problem :: "string \<Rightarrow> string \<Rightarrow> host_check \<Rightarrow> diagnostic list" where
  "host_problem field url c =
     (case c of
        Public \<Rightarrow> []
      | Blocked detail \<Rightarrow>
          [err ''url_host_not_public''
             (field @ '' targets a link-local or private address ('' @ detail @ '')'') Fix_Human
             ''Use a public storage endpoint; private and link-local hosts are blocked.'']
      | Malformed detail \<Rightarrow>
          [err ''url_malformed'' (field @ '' ('' @ url_id url @ '') is not a usable URL: '' @ detail) Fix_Code
             (''Correct '' @ field @ ''.'')]
      | Unresolved detail \<Rightarrow>
          [err ''url_host_unresolved''
             (field @ '' ('' @ url_id url @ '') host does not resolve: '' @ detail) Fix_Code
             ''Check the host name; if this machine was offline, re-run job plan.''])"

fun url_diagnostics ::
  "'w lookup \<Rightarrow> (string \<times> string \<times> purpose) list \<Rightarrow> seen_hosts \<times> 'w
    \<Rightarrow> (py_error, diagnostic list) outcome \<times> seen_hosts \<times> 'w" where
  "url_diagnostics gai [] s = (Inr [], s)"
| "url_diagnostics gai ((field, url, _) # items) s =
     (if \<not> https_scheme url then
        then_do (url_diagnostics gai items s) (\<lambda>ds s.
          (Inr (err ''url_scheme_not_https'' (field @ '' ('' @ url_id url @ '') does not use https'') Fix_Human
             ''Use an https URL signed for the required HTTP method.'' # ds), s))
      else
        then_do (host_checks gai url s) (\<lambda>c s.
        then_do (url_diagnostics gai items s) (\<lambda>ds s. (Inr (host_problem field url c @ ds), s))))"

section \<open>Paths\<close>

text \<open>
  A resolved path is the list of its parts below the file system's root; \<open>rp\<close> is
  \<open>Path.resolve(strict=False)\<close> on an absolute path.
\<close>

definition content_root :: "string list" where "content_root = [''content'']"

definition reserved_files :: "string list" where
  "reserved_files = [''launch.json'', ''result.json'', ''exception.json'', ''watchdog.json'', ''cancel.json'',
     ''install.log'']"

definition reserved_directories :: "string list" where
  "reserved_directories = [''mighty_runtime'']"

definition path_text :: "string list \<Rightarrow> string" where
  "path_text parts = (if parts = [] then ''/'' else concat (map (\<lambda>p. ''/'' @ p) parts))"

definition job_root :: "string \<Rightarrow> string" where
  "job_root job = ''/content/jobs/'' @ job"

definition resolved_destination :: "(string \<Rightarrow> string list) \<Rightarrow> string list \<Rightarrow> string \<Rightarrow> string list" where
  "resolved_destination rp base raw =
     rp (if prefix ''/'' raw then raw else path_text base @ ''/'' @ raw)"

definition reserved_path :: "string list \<Rightarrow> string list \<Rightarrow> bool" where
  "reserved_path path base \<longleftrightarrow> prefix base path
     \<and> (let rel = drop (length base) path in
        set rel \<inter> set reserved_directories \<noteq> {} \<or> (rel \<noteq> [] \<and> last rel \<in> set reserved_files))"

text \<open>The data destinations and the artifact paths, in the order they are checked.\<close>

definition destinations :: "(string \<Rightarrow> string list) \<Rightarrow> job_spec \<Rightarrow> string list \<Rightarrow> (string \<times> string list) list" where
  "destinations rp spec base =
     map (\<lambda>(i, d). (indexed ''data'' i ''.dest'', resolved_destination rp base (di_dest d)))
       (enumerate 0 (sp_data spec))
     @ map (\<lambda>(i, a). (indexed ''artifacts'' i ''.path'', resolved_destination rp base (ai_path a)))
       (enumerate 0 (sp_artifacts spec))"

definition collision :: "string \<Rightarrow> string \<Rightarrow> diagnostic" where
  "collision field prior =
     (if prefix ''data['' field \<and> prefix ''artifacts['' prior then
        err ''data_dest_collides_with_artifact'' (field @ '' duplicates artifact destination '' @ prior) Fix_Code
          ''Use a data destination distinct from every artifact path.''
      else if prefix ''artifacts['' field \<and> prefix ''data['' prior then
        err ''data_dest_collides_with_artifact'' (field @ '' duplicates data destination '' @ prior) Fix_Code
          ''Use an artifact path distinct from every data destination.''
      else
        err ''duplicate_destination'' (field @ '' duplicates destination '' @ prior) Fix_Code
          ''Give each data and artifact item a distinct destination path.'')"

definition path_problems :: "string list \<Rightarrow> string \<Rightarrow> string list \<Rightarrow> diagnostic list" where
  "path_problems base field path =
     (if prefix content_root path then [] else
        [err ''destination_outside_job_dir'' (field @ '' resolves outside /content'') Fix_Code
           (''Set '' @ field @ '' to a path below /content; it is the ''
            @ ''only writable scratch that survives on a Colab VM.'')])
     @ (if reserved_path path base then
          [err ''reserved_path'' (field @ '' resolves onto a supervisor-owned path'') Fix_Code
             ''Choose a destination outside mighty_runtime and supervisor JSON files.'']
        else [])"

fun path_checks ::
  "string list \<Rightarrow> (string list \<times> string) list \<Rightarrow> (string \<times> string list) list \<Rightarrow> diagnostic list" where
  "path_checks base seen [] = []"
| "path_checks base seen ((field, path) # ds) =
     path_problems base field path
     @ (case map_of seen path of
          Some prior \<Rightarrow> collision field prior # path_checks base seen ds
        | None \<Rightarrow> path_checks base ((path, field) # seen) ds)"

definition path_diagnostics :: "(string \<Rightarrow> string list) \<Rightarrow> job_spec \<Rightarrow> string \<Rightarrow> diagnostic list" where
  "path_diagnostics rp spec job =
     (let base = rp (job_root job) in path_checks base [] (destinations rp spec base))"

section \<open>Expiry\<close>

definition url_slack_seconds :: int where "url_slack_seconds = 900"

definition install_allowance_seconds :: int where
  "install_allowance_seconds = int install_kernel_timeout"

text \<open>\<open>_duration\<close>: whole minutes, rounded up.\<close>

definition duration :: "int \<Rightarrow> string" where
  "duration seconds =
     (let total = (max 0 seconds + 59) div 60; hours = total div 60; minutes = total mod 60 in
      if hours \<noteq> 0 \<and> minutes \<noteq> 0 then show_int hours @ ''h'' @ show_int minutes @ ''m''
      else if hours \<noteq> 0 then show_int hours @ ''h''
      else show_int minutes @ ''m'')"

text \<open>How long the URLs of a purpose must stay valid, and how that is explained.\<close>

definition data_seconds :: "job_spec \<Rightarrow> bool \<Rightarrow> int" where
  "data_seconds spec after_install =
     bud_wall_clock (sp_budgets spec) + url_slack_seconds
     + (if sp_deps spec \<noteq> [] \<and> \<not> after_install then install_allowance_seconds else 0)"

definition data_parts :: "job_spec \<Rightarrow> bool \<Rightarrow> string list" where
  "data_parts spec after_install =
     [''wall_clock '' @ show_int (bud_wall_clock (sp_budgets spec)) @ ''s'', ''15 min for staging and offload'']
     @ (if sp_deps spec \<noteq> [] \<and> \<not> after_install
        then [duration install_allowance_seconds @ '' for installing deps''] else [])"

definition control_needs :: "job_spec \<Rightarrow> bool \<Rightarrow> int \<times> string list" where
  "control_needs spec after_install =
     (let d = data_seconds spec after_install; parts = data_parts spec after_install;
          budget = rt_budget_seconds (sp_retry spec) + url_slack_seconds
      in if after_install then (d, parts)
         else if d \<le> budget
           then (budget, [''retry.budget_seconds '' @ show_int (rt_budget_seconds (sp_retry spec)) @ ''s'', ''15 min''])
         else (d, parts @ [''(longer than retry.budget_seconds + 15 min)'']))"

definition url_needs :: "job_spec \<Rightarrow> bool \<Rightarrow> purpose \<Rightarrow> int \<times> string list" where
  "url_needs spec after_install purpose =
     (if purpose = For_Control then control_needs spec after_install
      else (data_seconds spec after_install, data_parts spec after_install))"

text \<open>
  \<open>fiso\<close> is \<open>datetime.fromisoformat\<close>, a time without a zone being UTC: the moment and
  the text of its own \<open>isoformat\<close>.  The plan's recorded expiry is used for a field
  whose URL advertises none.
\<close>

type_synonym fiso = "string \<Rightarrow> (int \<times> string) option"

definition url_expiry ::
  "(string \<Rightarrow> string) \<Rightarrow> fiso \<Rightarrow> (string \<times> string option) list \<Rightarrow> string \<Rightarrow> string
    \<Rightarrow> (py_error, (int \<times> string) option) outcome" where
  "url_expiry dec fiso stored field url =
     and_then (parse_signed_url_expiry dec (\<lambda>t. map_option fst (fiso t)) url) (\<lambda>e. Inr
       (case e of
          Some us \<Rightarrow> Some (us, iso_utc us)
        | None \<Rightarrow>
            (case map_of stored field of
               Some (Some t) \<Rightarrow> fiso t
             | _ \<Rightarrow> None)))"

definition seconds_between :: "int \<Rightarrow> int \<Rightarrow> int" where
  "seconds_between a b = (let us = b - a in if 0 \<le> us then us div 1000000 else - ((- us) div 1000000))"

definition expiry_problem ::
  "job_spec \<Rightarrow> bool \<Rightarrow> int \<Rightarrow> string \<times> string \<times> purpose \<Rightarrow> int \<times> string \<Rightarrow> diagnostic" where
  "expiry_problem spec after_install now = (\<lambda>(field, url, purpose) (expiry, text).
     (case url_needs spec after_install purpose of
        (needed, parts) \<Rightarrow>
          (let remaining = seconds_between now expiry;
               when = (if remaining \<le> 0 then ''has already expired'' else ''expires in '' @ duration remaining)
           in err ''url_expiry_too_soon''
                (field @ '' ('' @ url_id url @ '') '' @ when @ '' ('' @ text @ ''); it must stay valid for ''
                 @ duration needed @ '': '' @ join '' + '' parts)
                Refresh_Urls
                (''Re-sign '' @ field @ '' so it remains valid for at least '' @ duration needed @ ''.''))))"

fun expiry_checks ::
  "(string \<Rightarrow> string) \<Rightarrow> fiso \<Rightarrow> (string \<times> string option) list \<Rightarrow> job_spec \<Rightarrow> bool \<Rightarrow> int
    \<Rightarrow> (string \<times> string \<times> purpose) list \<Rightarrow> (py_error, diagnostic list) outcome" where
  "expiry_checks dec fiso stored spec after_install now [] = Inr []"
| "expiry_checks dec fiso stored spec after_install now ((field, url, purpose) # items) =
     and_then (url_expiry dec fiso stored field url) (\<lambda>e.
       case e of
         None \<Rightarrow> expiry_checks dec fiso stored spec after_install now items
       | Some (expiry, text) \<Rightarrow>
           and_then (plus_seconds now (fst (url_needs spec after_install purpose))) (\<lambda>deadline.
             if deadline \<le> expiry then expiry_checks dec fiso stored spec after_install now items
             else and_then (expiry_checks dec fiso stored spec after_install now items) (\<lambda>ds.
               Inr (expiry_problem spec after_install now (field, url, purpose) (expiry, text) # ds))))"

definition expiry_problems ::
  "(string \<Rightarrow> string) \<Rightarrow> fiso \<Rightarrow> (string \<times> string option) list \<Rightarrow> job_spec \<Rightarrow> bool \<Rightarrow> int
    \<Rightarrow> (py_error, diagnostic list) outcome" where
  "expiry_problems dec fiso stored spec after_install now =
     expiry_checks dec fiso stored spec after_install now (url_items spec)"

definition revalidate_expiry ::
  "(string \<Rightarrow> string) \<Rightarrow> fiso \<Rightarrow> plan \<Rightarrow> bool \<Rightarrow> int \<Rightarrow> (py_error, diagnostic list) outcome" where
  "revalidate_expiry dec fiso p after_install now =
     expiry_problems dec fiso (pl_url_expiry p) (pl_spec p) after_install now"

text \<open>\<open>_expiry_map\<close>: a dict, so a repeated field keeps its last value.\<close>

definition expiry_map ::
  "(string \<Rightarrow> string) \<Rightarrow> fiso \<Rightarrow> job_spec \<Rightarrow> (py_error, (string \<times> string option) list) outcome" where
  "expiry_map dec fiso spec =
     and_then (each_ok (\<lambda>(field, url, _).
         and_then (parse_signed_url_expiry dec (\<lambda>t. map_option fst (fiso t)) url)
           (\<lambda>e. Inr (field, map_option iso_utc e))) (url_items spec))
       (\<lambda>es. Inr (fold (\<lambda>(f, e). dict_set f e) es []))"

section \<open>Which URLs are reported, and for how long a plan holds\<close>

text \<open>The reference: an item is too soon when its expiry is known and before its deadline.\<close>

definition too_soon ::
  "(string \<Rightarrow> string) \<Rightarrow> fiso \<Rightarrow> (string \<times> string option) list \<Rightarrow> job_spec \<Rightarrow> bool \<Rightarrow> int
    \<Rightarrow> string \<times> string \<times> purpose \<Rightarrow> bool" where
  "too_soon dec fiso stored spec after_install now = (\<lambda>(field, url, purpose).
     case url_expiry dec fiso stored field url of
       Inr (Some (expiry, _)) \<Rightarrow> expiry < now + fst (url_needs spec after_install purpose) * 1000000
     | _ \<Rightarrow> False)"

lemma plus_seconds_value: "plus_seconds now n = Inr t \<Longrightarrow> t = now + n * 1000000"
  by (auto simp: plus_seconds_def Let_def split: if_splits)

lemma expiry_checks_reported:
  "expiry_checks dec fiso stored spec ai now items = Inr ds \<Longrightarrow>
     length ds = length (List.filter (too_soon dec fiso stored spec ai now) items)
     \<and> list_all (\<lambda>d. dg_severity d = Sev_Error \<and> dg_code d = ''url_expiry_too_soon''
          \<and> dg_retry_class d = Some Refresh_Urls) ds"
proof (induction items arbitrary: ds)
  case (Cons item items)
  obtain field url purpose where item: "item = (field, url, purpose)" by (cases item)
  let ?late = "\<lambda>x. expiry_problem spec ai now (field, url, purpose) x"
  have late: "dg_severity (?late x) = Sev_Error \<and> dg_code (?late x) = ''url_expiry_too_soon''
      \<and> dg_retry_class (?late x) = Some Refresh_Urls" for x
    by (cases x) (auto simp: expiry_problem_def diag_def Let_def split: prod.splits)
  from Cons.prems obtain e where e: "url_expiry dec fiso stored field url = Inr e"
    by (auto simp: item and_then_Inr)
  show ?case
  proof (cases e)
    case None
    with Cons e show ?thesis by (simp add: item too_soon_def)
  next
    case (Some x)
    obtain expiry shown where x: "x = (expiry, shown)" by (cases x)
    from Cons.prems e Some x obtain t where t: "plus_seconds now (fst (url_needs spec ai purpose)) = Inr t"
      by (auto simp: item and_then_Inr)
    have soon: "too_soon dec fiso stored spec ai now item = (expiry < t)"
      using plus_seconds_value [OF t] by (simp add: too_soon_def item e Some x)
    show ?thesis
    proof (cases "t \<le> expiry")
      case True
      with Cons e Some x t soon show ?thesis by (simp add: item)
    next
      case False
      with Cons.prems e Some x t obtain ds' where
          ds': "expiry_checks dec fiso stored spec ai now items = Inr ds'" and ds: "ds = ?late (expiry, shown) # ds'"
        by (auto simp: item and_then_Inr)
      with False Cons.IH [OF ds'] soon late show ?thesis by simp
    qed
  qed
qed simp

lemma needs_shrink:
  "fst (url_needs spec True purpose) + (if sp_deps spec \<noteq> [] then install_allowance_seconds else 0)
     \<le> fst (url_needs spec False purpose)"
  by (auto simp: url_needs_def control_needs_def data_seconds_def Let_def)

text \<open>
  A plan that passes the expiry check still passes the one after install, however
  long install took within its allowance: if no URL is reported at plan time, none is
  at any later time up to the allowance when there are dependencies, and none at the
  same time when there are none.
\<close>

theorem accepted_plan_survives_install:
  assumes "expiry_problems dec fiso stored spec False now = Inr []"
    and "later \<le> now + (if sp_deps spec \<noteq> [] then install_allowance_seconds * 1000000 else 0)"
    and "expiry_problems dec fiso stored spec True later = Inr ds"
  shows "ds = []"
proof -
  have "too_soon dec fiso stored spec False now item" if "too_soon dec fiso stored spec True later item" for item
    using that assms(2) needs_shrink [of spec "snd (snd item)"]
    by (auto simp: too_soon_def split: prod.splits sum.splits option.splits if_splits)
  moreover have "List.filter (too_soon dec fiso stored spec False now) (url_items spec) = []"
    using expiry_checks_reported [OF assms(1) [unfolded expiry_problems_def]] by simp
  ultimately have "List.filter (too_soon dec fiso stored spec True later) (url_items spec) = []"
    by (auto simp: filter_empty_conv)
  then show ?thesis using expiry_checks_reported [OF assms(3) [unfolded expiry_problems_def]] by simp
qed

definition demo_signed_url :: string where
  "demo_signed_url = ''https://storage.googleapis.com/b/o?X-Goog-Date=20260101T000000Z&X-Goog-Expires=86400''"

definition demo_signed_spec :: job_spec where
  "demo_signed_spec = (default_spec ''job'' ''train.py'')\<lparr>sp_deps := [''numpy''],
     sp_data := [\<lparr>di_url = demo_signed_url, di_dest = ''x'', di_sha256 = None, di_size_bytes = None\<rparr>]\<rparr>"

lemma demo_signed_expiry:
  "url_expiry id (\<lambda>_. None) [] f demo_signed_url = Inr (Some (1767312000000000, iso_utc 1767312000000000))"
proof -
  have q: "query_of id demo_signed_url = [(''X-Goog-Date'', ''20260101T000000Z''), (''X-Goog-Expires'', ''86400'')]"
    by code_simp
  have n: "parse_seconds (Some ''86400'') = Some 86400"
    by (simp add: parse_seconds_def parse_int_def strip_def lstrip_def rstrip_def digit_groups_def
        is_space_def is_digit_def code_def Let_def)
  have "\<not> 9999 < micros_year 1767312000000000 \<and> \<not> micros_year 1767312000000000 < 1" by code_simp
  then show ?thesis
    by (simp add: url_expiry_def parse_signed_url_expiry_def q signed_expiry_def date_endless n plus_seconds_def Let_def)
qed

lemma install_allowance_value: "install_allowance_seconds = 3300"
  by (simp add: install_allowance_seconds_def install_kernel_timeout_def install_attempt_timeout_def
      install_probe_timeout_def)

lemma demo_signed_needs:
  "fst (url_needs demo_signed_spec ai For_Data) = (if ai then 4500 else 7800)"
  by (simp add: demo_signed_spec_def default_spec_def url_needs_def data_seconds_def default_budgets_def
      url_slack_seconds_def install_allowance_value)

lemma demo_signed_checks:
  assumes "1 \<le> micros_year (now + fst (url_needs demo_signed_spec ai For_Data) * 1000000)"
    and "micros_year (now + fst (url_needs demo_signed_spec ai For_Data) * 1000000) \<le> 9999"
    and "now + fst (url_needs demo_signed_spec ai For_Data) * 1000000 \<le> 1767312000000000"
  shows "expiry_problems id (\<lambda>_. None) [] demo_signed_spec ai now = Inr []"
proof -
  have "url_items demo_signed_spec = [(indexed ''data'' 0 ''.url'', demo_signed_url, For_Data)]"
    by (simp add: url_items_def demo_signed_spec_def default_spec_def channel_items_def)
  with assms demo_signed_expiry show ?thesis
    by (simp add: expiry_problems_def plus_seconds_def demo_signed_needs Let_def not_less split: if_splits)
qed

theorem accepted_plan_survives_install_witness:
  "expiry_problems id (\<lambda>_. None) [] demo_signed_spec False 1767225600000000 = Inr []
   \<and> expiry_problems id (\<lambda>_. None) [] demo_signed_spec True 1767227400000000 = Inr []"
proof -
  have "1 \<le> micros_year 1767233400000000" "micros_year 1767233400000000 \<le> 9999"
    "1 \<le> micros_year 1767231900000000" "micros_year 1767231900000000 \<le> 9999" by code_simp+
  then have plan: "expiry_problems id (\<lambda>_. None) [] demo_signed_spec False 1767225600000000 = Inr []"
    and later: "expiry_problems id (\<lambda>_. None) [] demo_signed_spec True 1767227400000000 = Inr []"
    by (simp_all add: demo_signed_checks demo_signed_needs)
  have deps: "sp_deps demo_signed_spec \<noteq> []" by (simp add: demo_signed_spec_def)
  have "ds = []" if "expiry_problems id (\<lambda>_. None) [] demo_signed_spec True 1767227400000000 = Inr ds" for ds
    by (rule accepted_plan_survives_install [OF plan _ that]) (simp add: deps install_allowance_value)
  with plan later show ?thesis by auto
qed

section \<open>Control objects, probes and sizes\<close>

definition control_mismatch ::
  "(string \<Rightarrow> string) \<Rightarrow> string \<Rightarrow> control_channel option \<Rightarrow> diagnostic list" where
  "control_mismatch dec name channel =
     (case channel of
        None \<Rightarrow> []
      | Some ch \<Rightarrow>
          (case (control_object_identity dec (ch_put_url ch), control_object_identity dec (ch_get_url ch)) of
             (Some p, Some g) \<Rightarrow>
               if p = g then []
               else [err ''control_url_object_mismatch''
                  (''control.'' @ name @ '' PUT and GET URLs identify different GCS objects'') Fix_Human
                  (''Sign both control.'' @ name @ '' URLs for the same GCS object.'')]
           | _ \<Rightarrow> []))"

definition control_url_diagnostics :: "(string \<Rightarrow> string) \<Rightarrow> job_spec \<Rightarrow> diagnostic list" where
  "control_url_diagnostics dec spec =
     control_mismatch dec ''result'' (ctl_result (sp_control spec))
     @ control_mismatch dec ''log'' (ctl_log (sp_control spec))"

text \<open>What one probe says of its input, and the size it measured.\<close>

definition probe_report :: "nat \<Rightarrow> data_item \<Rightarrow> probe_result \<Rightarrow> diagnostic list \<times> (string \<times> int) list" where
  "probe_report i item p =
     (let field = indexed ''data'' i ''.url''; ident = url_id (di_url item); name = indexed ''data'' i [] in
      case pb_error p of
        Some e \<Rightarrow>
          ([err ''ranged_get_failed''
              (field @ '' ('' @ ident @ '') ranged GET failed: '' @ transfer_summary e
               @ (case te_body e of
                    None \<Rightarrow> []
                  | Some b \<Rightarrow> if b = [] then [] else ''; response body: '' @ join '' '' (py_words b)))
              (transfer_retry_class e M_GET)
              (''401/403: re-sign the URL or fix the grant; 404: the object ''
               @ ''is not at this URL; 408/429/5xx or no response: re-run job plan.'')], [])
      | None \<Rightarrow>
          if range_ignored p then
            ([diag Sev_Warn ''ranged_get_ignored_range''
                (field @ '' server ignored the ranged GET; size is unknown'') (Some Retry_Same)
                ''Use a storage endpoint that supports ranged GETs, or acknowledge the warning.''], [])
          else
            (case (pb_size_bytes p, di_size_bytes item) of
               (None, _) \<Rightarrow> ([], [])
             | (Some measured, Some declared) \<Rightarrow>
                 if declared \<noteq> measured then
                   ([err ''data_size_mismatch''
                       (name @ '' ('' @ ident @ '') is '' @ show_int measured
                        @ '' bytes at the URL but size_bytes declares '' @ show_int declared) Fix_Code
                       (''Set '' @ name @ ''.size_bytes to '' @ show_int measured
                        @ '', or point the URL at the intended object.'')], [])
                 else ([], [])
             | (Some measured, None) \<Rightarrow>
                 ([diag Sev_Info ''data_size_probed''
                     (name @ '' ('' @ ident @ '') declares no size_bytes; the ranged GET measured ''
                      @ show_int measured @ '' bytes, used for disk planning'') None
                     (''Declare '' @ name @ ''.size_bytes to have staging check it.'')], [(name, measured)])))"

text \<open>Only a URL with a public https host is probed; \<open>probe\<close> is \<open>probe_get_url\<close>.\<close>

fun probe_diagnostics ::
  "'w lookup \<Rightarrow> (string \<Rightarrow> 'w \<Rightarrow> (py_error, probe_result) outcome \<times> 'w) \<Rightarrow> (nat \<times> data_item) list
    \<Rightarrow> seen_hosts \<times> 'w \<Rightarrow> (py_error, diagnostic list \<times> (string \<times> int) list) outcome \<times> seen_hosts \<times> 'w" where
  "probe_diagnostics gai probe [] s = (Inr ([], []), s)"
| "probe_diagnostics gai probe ((i, item) # items) s =
     (if \<not> https_scheme (di_url item) then probe_diagnostics gai probe items s
      else
        then_do (host_checks gai (di_url item) s) (\<lambda>c s.
          if c \<noteq> Public then probe_diagnostics gai probe items s
          else
            then_do (case s of (seen, w) \<Rightarrow> (case probe (di_url item) w of (r, w) \<Rightarrow> (r, seen, w))) (\<lambda>p s.
            then_do (probe_diagnostics gai probe items s) (\<lambda>(ds, sizes) s.
              (case probe_report i item p of
                 (ds', sizes') \<Rightarrow> (Inr (ds' @ ds, sizes' @ sizes), s))))))"

text \<open>Why the source lock could not be built, by the handler that catches it.\<close>

datatype source_failure = Layout_Failure py_error | Io_Failure py_error

definition collect_source ::
  "bool \<Rightarrow> (source_failure, source_file_lock list) outcome \<Rightarrow> source_file_lock list \<times> diagnostic list" where
  "collect_source covered collected =
     (case collected of
        Inr files \<Rightarrow> (files, [])
      | Inl (Layout_Failure e) \<Rightarrow>
          ([], if covered then []
               else [err ''source_unreadable'' (''the source files cannot be locked: '' @ err_msg e) Fix_Code
                       ''Fix the source layout named above, then re-run job plan.''])
      | Inl (Io_Failure e) \<Rightarrow>
          ([], [err ''source_unreadable'' (''a source file cannot be read: '' @ describe_error e) Fix_Human
                  ''Fix the file's permissions or remove it, then re-run job plan.'']))"

definition source_size_diagnostics :: "source_file_lock list \<Rightarrow> diagnostic list" where
  "source_size_diagnostics files =
     (let large = map (\<lambda>f.
            err ''source_file_too_large''
              (''source file '' @ sf_path f @ '' is '' @ show_int (sf_size_bytes f)
               @ '' bytes; Contents uploads are limited to 250 MB per file'') Fix_Code
              ''Move large inputs to a data URL instead of the source bundle.'')
            (List.filter (\<lambda>f. int contents_upload_ceiling < sf_size_bytes f) files);
          total = sum_list (map sf_size_bytes files)
      in if large \<noteq> [] then large
         else if int contents_upload_ceiling < total then
           [diag Sev_Warn ''source_payload_large''
              (''aggregate source payload is '' @ show_int total @ '' bytes across '' @ show_nat (length files)
               @ '' files'') (Some Fix_Code)
              ''Prefer data URLs for datasets; Contents is for code, not bulk data.'']
         else [])"

section \<open>The settings of a spec\<close>

definition accelerator_diagnostics :: "job_spec \<Rightarrow> diagnostic list" where
  "accelerator_diagnostics spec =
     (let unknown = sort (remdups (List.filter
            (\<lambda>n. py_lower n \<notin> set (map py_lower known_accelerators)) (acc_prefer (sp_accelerator spec))))
      in if unknown = [] then []
         else [err ''accelerator_unknown'' (''Unknown accelerator name(s): '' @ join '', '' unknown) Fix_Code
                 (''Use only one of: '' @ join '', '' (sort known_accelerators) @ ''.'')])"

definition retry_diagnostics :: "job_spec \<Rightarrow> diagnostic list" where
  "retry_diagnostics spec =
     (let r = sp_retry spec;
          unsupported =
            (if rt_max_attempts r = 1 then [] else [''max_attempts='' @ show_int (rt_max_attempts r)])
            @ (if rt_when r = [Retry_Same] then [] else [''when''])
            @ (if rt_mode r = Mode_Recreate then [] else [''mode=resume''])
      in if unsupported = [] then []
         else [err ''retry_not_implemented''
                 (''retry is not implemented; unsupported settings: '' @ join '', '' unsupported) Do_Not_Retry
                 ''Use retry.max_attempts=1, retry.when=[retry_same], and retry.mode=recreate.''])"

definition policy_diagnostics :: "job_spec \<Rightarrow> diagnostic list" where
  "policy_diagnostics spec =
     (let unsupported =
            (if sp_on_run_fail spec = Offload_Anyway then [] else [''on_run_fail=skip''])
            @ (if ctl_log (sp_control spec) = None then [] else [''control.log''])
      in if unsupported = [] then []
         else [err ''policy_not_implemented'' (''unsupported inactive setting(s): '' @ join '', '' unsupported)
                 Do_Not_Retry ''Remove these settings until their behavior is implemented.''])"

definition sync_diagnostics :: "job_spec \<Rightarrow> diagnostic list" where
  "sync_diagnostics spec =
     (let wall = bud_wall_clock (sp_budgets spec) in
      case bud_artifact_sync_interval (sp_budgets spec) of
        None \<Rightarrow> []
      | Some n \<Rightarrow>
          if n \<le> 0 then
            [err ''artifact_sync_interval_invalid''
               (''budgets.artifact_sync_interval_seconds must be positive, got '' @ show_int n) Do_Not_Retry
               ''Remove artifact_sync_interval_seconds or set it to a positive number of seconds.'']
          else if sp_artifacts spec = [] then
            [diag Sev_Warn ''artifact_sync_interval_invalid''
               (''budgets.artifact_sync_interval_seconds is set but artifacts[] is empty; ''
                @ ''there is nothing to periodically sync'') (Some Retry_Same)
               ''Declare artifacts[] to sync, or remove artifact_sync_interval_seconds.'']
          else if wall \<le> n then
            [diag Sev_Warn ''artifact_sync_interval_invalid''
               (''budgets.artifact_sync_interval_seconds ('' @ show_int n @ '') is not smaller than wall_clock (''
                @ show_int wall @ ''); periodic sync may never fire before the run's own deadline'')
               (Some Retry_Same) ''Set artifact_sync_interval_seconds well below wall_clock.'']
          else [])"

definition artifact_size_diagnostics :: "job_spec \<Rightarrow> diagnostic list" where
  "artifact_size_diagnostics spec =
     map (\<lambda>(i, _). diag Sev_Warn ''artifact_size_unknown''
          (indexed ''artifacts'' i '' has no declared size'') (Some Retry_Same)
          ''Declare artifact size_bytes to improve disk-space planning.'')
       (List.filter (\<lambda>(_, a). ai_size_bytes a = None) (enumerate 0 (sp_artifacts spec)))"

definition data_size_diagnostics :: "job_spec \<Rightarrow> (string \<times> int) list \<Rightarrow> diagnostic list" where
  "data_size_diagnostics spec probed =
     (let unknown = map (\<lambda>(i, _). indexed ''data'' i [])
            (List.filter (\<lambda>(i, d). di_size_bytes d = None \<and> map_of probed (indexed ''data'' i []) = None)
               (enumerate 0 (sp_data spec)))
      in if unknown = [] then []
         else [diag Sev_Warn ''data_size_unknown''
                 (''size unknown for '' @ join '', '' unknown
                  @ '': no size_bytes declared and the ranged GET did not measure one'') (Some Retry_Same)
                 ''Declare size_bytes for every data item to enable disk-space planning.''])"

section \<open>The plan\<close>

text \<open>
  The code on disk: its resolved root and entry, the entry's path as a part of the
  root, whether it is a file, and what the source lock gives.
\<close>

record local_code =
  lc_root :: "string list"
  lc_entry :: "string list"
  lc_is_file :: bool
  lc_collected :: "(source_failure, source_file_lock list) outcome"

definition entry_diagnostics :: "job_spec \<Rightarrow> local_code \<Rightarrow> diagnostic list \<times> diagnostic list" where
  "entry_diagnostics spec lc =
     (if prefix (lc_root lc) (lc_entry lc) then [] else
        [err ''entry_not_under_bundle'' ''code.entry resolves outside its configured code root'' Fix_Code
           ''Keep code.entry below code.root; remove symlink traversal outside that directory.''],
      if lc_is_file lc then [] else
        [err ''code_entry_missing''
           (''code.entry does not exist on disk under '' @ path_text (lc_root lc) @ '': ''
            @ cs_entry (sp_code spec)) Fix_Code
           ''Create code.entry or provide the path to an existing file.''])"

record 'w planner =
  pn_lookup :: "'w lookup"
  pn_probe :: "string \<Rightarrow> 'w \<Rightarrow> (py_error, probe_result) outcome \<times> 'w"
  pn_resolve :: "string \<Rightarrow> string list"
  pn_code :: local_code
  pn_spec_hash :: "job_spec \<Rightarrow> string"
  pn_decode :: "string \<Rightarrow> string"
  pn_fiso :: fiso
  pn_now :: "'w \<Rightarrow> int \<times> 'w"

definition settings_diagnostics :: "job_spec \<Rightarrow> diagnostic list" where
  "settings_diagnostics spec =
     accelerator_diagnostics spec @ retry_diagnostics spec @ policy_diagnostics spec @ sync_diagnostics spec"

definition covered_entry :: "diagnostic list \<Rightarrow> bool" where
  "covered_entry ds \<longleftrightarrow> list_ex (\<lambda>d. dg_code d \<in> {''code_entry_missing'', ''entry_not_under_bundle''}) ds"

definition build_plan ::
  "'w planner \<Rightarrow> job_spec \<Rightarrow> string \<Rightarrow> bool \<Rightarrow> string option \<Rightarrow> 'w \<Rightarrow> (py_error, plan) outcome \<times> seen_hosts \<times> 'w" where
  "build_plan pn spec job probe source w =
     then_do (url_diagnostics (pn_lookup pn) (url_items spec) ([], w)) (\<lambda>urls s.
       (case entry_diagnostics spec (pn_code pn) of
          (escapes, missing) \<Rightarrow>
            (case s of
               (seen, w) \<Rightarrow>
                 (case pn_now pn w of
                    (now, w) \<Rightarrow>
                      then_do (expiry_problems (pn_decode pn) (pn_fiso pn) [] spec False now, seen, w) (\<lambda>expiries s.
                      then_do (if probe then probe_diagnostics (pn_lookup pn) (pn_probe pn) (enumerate 0 (sp_data spec)) s
                               else (Inr ([], []), s)) (\<lambda>(probes, sizes) s.
                      (let ds = settings_diagnostics spec @ urls @ control_url_diagnostics (pn_decode pn) spec
                             @ path_diagnostics (pn_resolve pn) spec job @ escapes @ missing @ expiries
                             @ artifact_size_diagnostics spec @ probes @ data_size_diagnostics spec sizes
                       in case collect_source (covered_entry ds) (lc_collected (pn_code pn)) of
                            (files, source_ds) \<Rightarrow>
                              then_do (expiry_map (pn_decode pn) (pn_fiso pn) spec, s) (\<lambda>expiry s.
                                (Inr \<lparr>pl_schema_version = ''1'', pl_job_id = job,
                                  pl_spec_hash = pn_spec_hash pn spec, pl_created_at = iso_utc now, pl_spec = spec,
                                  pl_diagnostics = ds @ source_ds @ source_size_diagnostics files,
                                  pl_url_expiry = expiry, pl_probed_size_bytes = sizes,
                                  pl_source_spec_path = source, pl_source_files = files\<rparr>, s)))))))))"

section \<open>What a plan without errors has been checked for\<close>

definition errors_of :: "diagnostic list \<Rightarrow> diagnostic list" where
  "errors_of ds = List.filter (\<lambda>d. dg_severity d = Sev_Error) ds"

lemma errors_of_append [simp]: "errors_of (xs @ ys) = errors_of xs @ errors_of ys"
  by (simp add: errors_of_def)

lemma has_errors_errors_of: "has_errors p \<longleftrightarrow> errors_of (pl_diagnostics p) \<noteq> []"
  by (auto simp: has_errors_def errors_of_def filter_empty_conv list_ex_iff)

lemma errors_of_Nil [simp]: "errors_of [] = []"
  by (simp add: errors_of_def)

lemma errors_of_Cons [simp]:
  "errors_of (d # ds) = (if dg_severity d = Sev_Error then d # errors_of ds else errors_of ds)"
  by (simp add: errors_of_def)

lemma severity_diag [simp]: "dg_severity (diag s c m cl h) = s"
  by (simp add: diag_def)

lemma severity_collision [simp]: "dg_severity (collision f prior) = Sev_Error"
  by (simp add: collision_def)

lemma errors_path_checks:
  "errors_of (path_checks base seen ds) = [] \<longleftrightarrow>
     list_all (\<lambda>(_, p). prefix content_root p \<and> \<not> reserved_path p base \<and> map_of seen p = None) ds
     \<and> distinct (map snd ds)"
proof (induction ds arbitrary: seen)
  case (Cons d ds)
  obtain f p where d: "d = (f, p)" by (cases d)
  have "list_all (\<lambda>(_, q). prefix content_root q \<and> \<not> reserved_path q base
        \<and> map_of ((p, f) # seen) q = None) ds
      \<longleftrightarrow> list_all (\<lambda>(_, q). prefix content_root q \<and> \<not> reserved_path q base \<and> map_of seen q = None) ds
        \<and> p \<notin> snd ` set ds"
    by (force simp: list_all_iff)
  with Cons show ?case by (auto simp: d path_problems_def split: option.splits)
qed simp

text \<open>A host once looked up keeps what was found.\<close>

lemma host_checks_keeps:
  assumes "host_checks gai url (seen, w) = (r, seen', w')"
  shows "map_of seen \<subseteq>\<^sub>m map_of seen' \<and> (case r of Inl _ \<Rightarrow> True | Inr c \<Rightarrow> map_of seen' url = Some c)"
  using assms by (auto simp: host_checks_def map_le_def split: option.splits prod.splits sum.splits)

lemma then_do_Inr: "then_do r f = (Inr y, s') \<longleftrightarrow> (\<exists>x s. r = (Inr x, s) \<and> f x s = (Inr y, s'))"
  by (auto simp: then_do_eq)

lemma errors_url_diagnostics:
  "url_diagnostics gai items (seen, w) = (Inr ds, seen', w') \<Longrightarrow>
     map_of seen \<subseteq>\<^sub>m map_of seen' \<and>
     (errors_of ds = [] \<longrightarrow>
        list_all (\<lambda>(_, url, _). https_scheme url \<and> map_of seen' url = Some Public) items)"
proof (induction items arbitrary: ds seen w)
  case (Cons item items)
  obtain field url purpose where item: "item = (field, url, purpose)" by (cases item)
  show ?case
  proof (cases "https_scheme url")
    case False
    with Cons show ?thesis by (auto simp: item then_do_Inr)
  next
    case True
    with Cons.prems obtain c seen1 w1 ds1 where
        c: "host_checks gai url (seen, w) = (Inr c, seen1, w1)"
      and ds1: "url_diagnostics gai items (seen1, w1) = (Inr ds1, seen', w')"
      and ds: "ds = host_problem field url c @ ds1"
      by (auto simp: item then_do_Inr)
    from host_checks_keeps [OF c] have le: "map_of seen \<subseteq>\<^sub>m map_of seen1" and at: "map_of seen1 url = Some c"
      by simp_all
    from Cons.IH [OF ds1] have ih: "map_of seen1 \<subseteq>\<^sub>m map_of seen'"
      "errors_of ds1 = [] \<longrightarrow> list_all (\<lambda>(_, url, _). https_scheme url \<and> map_of seen' url = Some Public) items"
      by auto
    have kept: "map_of seen' url = Some c" using ih(1) at by (metis domI map_le_def)
    have "c = Public" if "errors_of (host_problem field url c) = []"
      using that by (cases c) (simp_all add: host_problem_def)
    with ih map_le_trans [OF le ih(1)] kept True show ?thesis by (simp add: item ds)
  qed
qed simp

lemma probe_diagnostics_keeps:
  "probe_diagnostics gai probe items (seen, w) = (Inr x, seen', w') \<Longrightarrow> map_of seen \<subseteq>\<^sub>m map_of seen'"
proof (induction items arbitrary: x seen w)
  case (Cons item items)
  obtain i d where item: "item = (i, d)" by (cases item)
  show ?case
  proof (cases "https_scheme (di_url d)")
    case False
    with Cons show ?thesis by (simp add: item)
  next
    case True
    with Cons.prems obtain c seen1 w1 where c: "host_checks gai (di_url d) (seen, w) = (Inr c, seen1, w1)"
      by (auto simp: item then_do_Inr)
    have "map_of seen1 \<subseteq>\<^sub>m map_of seen'"
      using Cons.prems Cons.IH True c by (auto simp: item then_do_Inr split_beta split: if_splits)
    with host_checks_keeps [OF c] show ?thesis by (auto intro: map_le_trans)
  qed
qed simp

lemma errors_expiry_problems:
  assumes "expiry_problems dec fiso stored spec ai now = Inr ds" and "errors_of ds = []"
  shows "list_all (\<lambda>item. \<not> too_soon dec fiso stored spec ai now item) (url_items spec)"
proof -
  from expiry_checks_reported [OF assms(1) [unfolded expiry_problems_def]]
  have len: "length ds = length (List.filter (too_soon dec fiso stored spec ai now) (url_items spec))"
    and "list_all (\<lambda>d. dg_severity d = Sev_Error) ds" by (auto simp: list_all_iff)
  then have "errors_of ds = ds" by (simp add: errors_of_def list_all_iff)
  with assms(2) len have "List.filter (too_soon dec fiso stored spec ai now) (url_items spec) = []" by simp
  then show ?thesis by (simp add: filter_empty_conv list_all_iff)
qed

lemma errors_settings:
  "errors_of (settings_diagnostics spec) = [] \<longleftrightarrow>
     list_all (\<lambda>n. py_lower n \<in> set (map py_lower known_accelerators)) (acc_prefer (sp_accelerator spec))
     \<and> rt_max_attempts (sp_retry spec) = 1 \<and> rt_when (sp_retry spec) = [Retry_Same]
     \<and> rt_mode (sp_retry spec) = Mode_Recreate
     \<and> sp_on_run_fail spec = Offload_Anyway \<and> ctl_log (sp_control spec) = None
     \<and> (case bud_artifact_sync_interval (sp_budgets spec) of None \<Rightarrow> True | Some n \<Rightarrow> 0 < n)"
proof -
  have "sort (remdups xs) = [] \<longleftrightarrow> xs = []" for xs :: "string list"
    by (metis remdups_eq_nil_iff set_empty set_sort sort_key_simps(1))
  then have "errors_of (accelerator_diagnostics spec) = [] \<longleftrightarrow>
      list_all (\<lambda>n. py_lower n \<in> set (map py_lower known_accelerators)) (acc_prefer (sp_accelerator spec))"
    by (simp add: accelerator_diagnostics_def Let_def filter_empty_conv list_all_iff)
  moreover have "errors_of (retry_diagnostics spec) = [] \<longleftrightarrow> rt_max_attempts (sp_retry spec) = 1
      \<and> rt_when (sp_retry spec) = [Retry_Same] \<and> rt_mode (sp_retry spec) = Mode_Recreate"
    by (simp add: retry_diagnostics_def Let_def)
  moreover have "errors_of (policy_diagnostics spec) = [] \<longleftrightarrow>
      sp_on_run_fail spec = Offload_Anyway \<and> ctl_log (sp_control spec) = None"
    by (simp add: policy_diagnostics_def Let_def)
  moreover have "errors_of (sync_diagnostics spec) = [] \<longleftrightarrow>
      (case bud_artifact_sync_interval (sp_budgets spec) of None \<Rightarrow> True | Some n \<Rightarrow> 0 < n)"
    by (simp add: sync_diagnostics_def Let_def split: option.splits)
  ultimately show ?thesis by (simp add: settings_diagnostics_def)
qed

lemma errors_source:
  assumes "collect_source covered collected = (files, ds)" and "\<not> covered"
    and "errors_of (ds @ source_size_diagnostics files) = []"
  shows "collected = Inr files \<and> list_all (\<lambda>f. sf_size_bytes f \<le> int contents_upload_ceiling) files"
proof -
  have "errors_of (map (\<lambda>f. err a (b f) c d) xs) = [] \<longleftrightarrow> xs = []" for a b c d and xs :: "source_file_lock list"
    by (cases xs) simp_all
  with assms show ?thesis
    by (auto simp: collect_source_def source_size_diagnostics_def Let_def filter_empty_conv list_all_iff not_less
        split: sum.splits source_failure.splits if_splits)
qed

text \<open>What a plan is put together from.\<close>

lemma build_plan_parts:
  assumes "build_plan pn spec job probe source w = (Inr p, seen, w')"
  obtains urls seen0 w0 now w1 es pds sizes ds where
    "url_diagnostics (pn_lookup pn) (url_items spec) ([], w) = (Inr urls, seen0, w0)"
    "expiry_problems (pn_decode pn) (pn_fiso pn) [] spec False now = Inr es"
    "(if probe then probe_diagnostics (pn_lookup pn) (pn_probe pn) (enumerate 0 (sp_data spec)) (seen0, w1)
      else (Inr ([], []), seen0, w1)) = (Inr (pds, sizes), seen, w')"
    "ds = settings_diagnostics spec @ urls @ control_url_diagnostics (pn_decode pn) spec
       @ path_diagnostics (pn_resolve pn) spec job @ fst (entry_diagnostics spec (pn_code pn))
       @ snd (entry_diagnostics spec (pn_code pn)) @ es @ artifact_size_diagnostics spec @ pds
       @ data_size_diagnostics spec sizes"
    "pl_diagnostics p = ds @ snd (collect_source (covered_entry ds) (lc_collected (pn_code pn)))
       @ source_size_diagnostics (fst (collect_source (covered_entry ds) (lc_collected (pn_code pn))))"
    "pl_source_files p = fst (collect_source (covered_entry ds) (lc_collected (pn_code pn)))"
    "pl_spec p = spec" "pl_job_id p = job" "pl_created_at p = iso_utc now"
  using assms unfolding build_plan_def Let_def split_beta
  by (clarsimp simp: then_do_Inr simp del: if_split) (rule that; (assumption | simp)?)

text \<open>Only the checks of the entry report a code that the source lock takes as covered.\<close>

lemma covered_append [simp]: "covered_entry (xs @ ys) \<longleftrightarrow> covered_entry xs \<or> covered_entry ys"
  by (simp add: covered_entry_def)

lemma covered_Nil [simp]: "\<not> covered_entry []"
  by (simp add: covered_entry_def)

lemma covered_Cons [simp]:
  "covered_entry (d # ds) \<longleftrightarrow> dg_code d = ''code_entry_missing'' \<or> dg_code d = ''entry_not_under_bundle''
     \<or> covered_entry ds"
  by (simp add: covered_entry_def)

lemma code_diag [simp]: "dg_code (diag s c m cl h) = c"
  by (simp add: diag_def)

lemma covered_map: "covered_entry (map (\<lambda>x. diag s c (m x) cl h) xs) \<Longrightarrow>
    c = ''code_entry_missing'' \<or> c = ''entry_not_under_bundle''"
  by (induction xs) auto

lemma not_covered_settings [simp]: "\<not> covered_entry (settings_diagnostics spec)"
  by (simp add: settings_diagnostics_def accelerator_diagnostics_def retry_diagnostics_def
      policy_diagnostics_def sync_diagnostics_def Let_def split: option.splits)

lemma not_covered_host [simp]: "\<not> covered_entry (host_problem field url c)"
  by (cases c) (simp_all add: host_problem_def)

lemma not_covered_urls:
  "url_diagnostics gai items s = (Inr ds, s') \<Longrightarrow> \<not> covered_entry ds"
  by (induction gai items s arbitrary: ds rule: url_diagnostics.induct)
    (fastforce simp: then_do_Inr split: if_splits)+

lemma not_covered_control [simp]: "\<not> covered_entry (control_url_diagnostics dec spec)"
  by (simp add: control_url_diagnostics_def control_mismatch_def split: option.splits)

lemma not_covered_path_checks [simp]: "\<not> covered_entry (path_checks base seen ds)"
  by (induction base seen ds rule: path_checks.induct)
    (simp_all add: path_problems_def collision_def split: option.splits)

lemma not_covered_expiry: "expiry_problems dec fiso stored spec ai now = Inr ds \<Longrightarrow> \<not> covered_entry ds"
  using expiry_checks_reported [of dec fiso stored spec ai now "url_items spec" ds]
  by (auto simp: expiry_problems_def covered_entry_def list_ex_iff list_all_iff)

lemma not_covered_sizes [simp]:
  "\<not> covered_entry (artifact_size_diagnostics spec)" "\<not> covered_entry (data_size_diagnostics spec sizes)"
  by (auto simp: artifact_size_diagnostics_def case_prod_beta' dest!: covered_map)
    (simp add: data_size_diagnostics_def Let_def split: if_splits)

lemma not_covered_report [simp]: "\<not> covered_entry (fst (probe_report i d p))"
  by (simp add: probe_report_def Let_def split: option.splits)

lemma not_covered_probes:
  "probe_diagnostics gai probe items s = (Inr (ds, sizes), s') \<Longrightarrow> \<not> covered_entry ds"
proof (induction items arbitrary: ds sizes s)
  case (Cons item items)
  then show ?case
    by (cases item) (auto simp: then_do_Inr split_beta split: if_splits)
qed simp

text \<open>
  C23. What a plan without errors was checked for, whatever the name lookup, the probe,
  the file system and the clock answer: every URL is https on a host found to have
  only public addresses; the destinations of the data and artifacts are distinct, below
  \<open>/content\<close> and none the supervisor's own; the accelerators, the retry policy and the
  sync interval are ones the supervisor acts on; no URL whose expiry is known ends
  before its deadline; and the entry is a file below its root, in a source lock that
  was collected whole and whose files the server takes.
\<close>

theorem error_free_plan_is_sound:
  "case build_plan pn spec job probe source w of
     (Inl _, _) \<Rightarrow> True
   | (Inr p, seen, _) \<Rightarrow>
       pl_spec p = spec \<and> pl_job_id p = job \<and>
       (if has_errors p then True else
          list_all (\<lambda>(_, url, _). https_scheme url \<and> map_of seen url = Some Public) (url_items spec)
          \<and> (let base = pn_resolve pn (job_root job); dests = map snd (destinations (pn_resolve pn) spec base) in
               distinct dests \<and> list_all (\<lambda>d. prefix content_root d \<and> \<not> reserved_path d base) dests)
          \<and> list_all (\<lambda>n. py_lower n \<in> set (map py_lower known_accelerators)) (acc_prefer (sp_accelerator spec))
          \<and> rt_max_attempts (sp_retry spec) = 1 \<and> rt_when (sp_retry spec) = [Retry_Same]
          \<and> rt_mode (sp_retry spec) = Mode_Recreate
          \<and> (case bud_artifact_sync_interval (sp_budgets spec) of None \<Rightarrow> True | Some n \<Rightarrow> 0 < n)
          \<and> (\<exists>now. pl_created_at p = iso_utc now
               \<and> list_all (\<lambda>item. \<not> too_soon (pn_decode pn) (pn_fiso pn) [] spec False now item) (url_items spec))
          \<and> prefix (lc_root (pn_code pn)) (lc_entry (pn_code pn)) \<and> lc_is_file (pn_code pn)
          \<and> lc_collected (pn_code pn) = Inr (pl_source_files p)
          \<and> list_all (\<lambda>f. sf_size_bytes f \<le> int contents_upload_ceiling) (pl_source_files p))"
proof (cases "build_plan pn spec job probe source w")
  case (fields r seen w')
  show ?thesis
  proof (cases r)
    case (Inr p)
    from fields Inr have "build_plan pn spec job probe source w = (Inr p, seen, w')" by simp
    then show ?thesis
    proof (cases rule: build_plan_parts)
      case (1 urls seen0 w0 now w1 es pds sizes ds)
      let ?src = "collect_source (covered_entry ds) (lc_collected (pn_code pn))"
      have le: "map_of seen0 \<subseteq>\<^sub>m map_of seen"
        using 1(3) by (auto split: if_splits dest: probe_diagnostics_keeps)
      show ?thesis
      proof (cases "has_errors p")
        case False
        then have no: "errors_of (pl_diagnostics p) = []" by (simp add: has_errors_errors_of)
        note no = no [unfolded 1(5) 1(4) errors_of_append append_is_Nil_conv]
        have entry: "fst (entry_diagnostics spec (pn_code pn)) = []" "snd (entry_diagnostics spec (pn_code pn)) = []"
          and under: "prefix (lc_root (pn_code pn)) (lc_entry (pn_code pn))" "lc_is_file (pn_code pn)"
          using no by (auto simp: entry_diagnostics_def split: if_splits)
        have "\<not> covered_entry pds" using 1(3) by (auto split: if_splits dest: not_covered_probes)
        then have "\<not> covered_entry ds"
          using entry not_covered_urls [OF 1(1)] not_covered_expiry [OF 1(2)]
          by (simp add: 1(4) path_diagnostics_def Let_def)
        then have src: "lc_collected (pn_code pn) = Inr (pl_source_files p)"
          "list_all (\<lambda>f. sf_size_bytes f \<le> int contents_upload_ceiling) (pl_source_files p)"
          using no errors_source [of "covered_entry ds" "lc_collected (pn_code pn)" "fst ?src" "snd ?src"]
          by (simp_all add: 1)
        have urls: "list_all (\<lambda>(_, url, _). https_scheme url \<and> map_of seen url = Some Public) (url_items spec)"
          using errors_url_diagnostics [OF 1(1)] no le
          by (auto simp: list_all_iff map_le_def dom_def)
        have paths: "let base = pn_resolve pn (job_root job); dests = map snd (destinations (pn_resolve pn) spec base) in
             distinct dests \<and> list_all (\<lambda>d. prefix content_root d \<and> \<not> reserved_path d base) dests"
          using no by (auto simp: path_diagnostics_def Let_def errors_path_checks list_all_iff)
        have expiry: "list_all (\<lambda>item. \<not> too_soon (pn_decode pn) (pn_fiso pn) [] spec False now item) (url_items spec)"
          using errors_expiry_problems [OF 1(2)] no by simp
        have settings: "errors_of (settings_diagnostics spec) = []" using no by simp
        show ?thesis
          using False urls paths expiry under src settings [unfolded errors_settings]
          by (auto simp: fields Inr 1 Let_def)
      qed (simp add: fields Inr 1)
    qed
  qed (simp add: fields)
qed

end
