(* ===== verification/SpecHash.thy ===== *)
theory SpecHash
  imports Store Verdict
begin

text \<open>
  The hashes of \<open>job/spec_io.py\<close> that bind a plan: the canonical form of a spec, in
  which a URL is its public identity and whether it needs a credential, the text
  \<open>json.dumps(..., sort_keys=True, separators=(",", ":"), ensure_ascii=True)\<close> of it, and
  \<open>spec_hash\<close> and \<open>plan_hash\<close>.  The spec's document, which pydantic makes, is an argument.
\<close>

section \<open>The canonical form\<close>

definition canonical_field :: "string \<Rightarrow> json" where
  "canonical_field url =
     JObj [(''identity'', JStr (canonical_url url)),
       (''credential_required'', JBool (has_url_query url \<or> is_redacted_url url))]"

fun canonicalize :: "string option \<Rightarrow> json \<Rightarrow> json" where
  "canonicalize key (JObj d) = JObj (map (\<lambda>(k, v). (k, canonicalize (Some k) v)) d)"
| "canonicalize key (JArr vs) = JArr (map (canonicalize key) vs)"
| "canonicalize key (JStr s) = (if url_field key then canonical_field s else JStr s)"
| "canonicalize key v = v"

section \<open>The text of a document\<close>

definition json_char :: "char \<Rightarrow> string" where
  "json_char c =
     (if c = CHR 0x22 \<or> c = CHR 0x5C then [CHR 0x5C, c]
      else if code c = 10 then [CHR 0x5C, CHR ''n'']
      else if code c = 13 then [CHR 0x5C, CHR ''r'']
      else if code c = 9 then [CHR 0x5C, CHR ''t'']
      else if code c = 8 then [CHR 0x5C, CHR ''b'']
      else if code c = 12 then [CHR 0x5C, CHR ''f'']
      else if 32 \<le> code c \<and> code c \<le> 126 then [c]
      else [CHR 0x5C, CHR ''u'', CHR ''0'', CHR ''0'', hex_digit (code c div 16), hex_digit (code c mod 16)])"

definition json_str :: "string \<Rightarrow> string" where
  "json_str s = CHR 0x22 # concat (map json_char s) @ [CHR 0x22]"

fun dump_text :: "json \<Rightarrow> string" where
  "dump_text JNull = ''null''"
| "dump_text (JBool b) = (if b then ''true'' else ''false'')"
| "dump_text (JInt i) = show_int i"
| "dump_text (JFloat r t) = t"
| "dump_text (JStr s) = json_str s"
| "dump_text (JArr vs) = ''['' @ join '','' (map dump_text vs) @ '']''"
| "dump_text (JObj d) = ''{'' @ join '',''
     (map (\<lambda>(k, t). json_str k @ '':'' @ t) (sort_key fst (map (\<lambda>(k, v). (k, dump_text v)) d))) @ ''}''"

section \<open>The hashes\<close>

text \<open>The text is ASCII, so its UTF-8 bytes are its characters.\<close>

definition spec_text :: "json \<Rightarrow> string" where
  "spec_text doc = dump_text (canonicalize None doc)"

definition spec_hash :: "json \<Rightarrow> string" where
  "spec_hash doc = sha256_hex (spec_text doc)"

definition source_row :: "source_file_lock \<Rightarrow> json" where
  "source_row f = JObj [(''path'', JStr (sf_path f)), (''size_bytes'', JInt (sf_size_bytes f)),
     (''sha256'', JStr (sf_sha256 f))]"

definition plan_text :: "json \<Rightarrow> string option \<Rightarrow> source_file_lock list \<Rightarrow> string" where
  "plan_text doc source files =
     dump_text (JObj [(''spec'', JStr (spec_hash doc)), (''source_spec_path'', jopt JStr source),
       (''source_files'', JArr (map source_row files))])"

definition plan_hash :: "json \<Rightarrow> string option \<Rightarrow> source_file_lock list \<Rightarrow> string" where
  "plan_hash doc source files = sha256_hex (plan_text doc source files)"

section \<open>A stored plan hashes as the plan\<close>

lemma after_last_absent: "c \<notin> set s \<Longrightarrow> after_last c s = s"
proof -
  assume "c \<notin> set s"
  then have all: "takeWhile (\<lambda>x. x \<noteq> c) (rev s) = rev s" by (intro takeWhile_eq_all_conv [THEN iffD2]) auto
  show ?thesis unfolding after_last_def all by simp
qed

lemma lower_sign: "lower_char c = CHR ''@'' \<longleftrightarrow> c = CHR ''@''" "lower_char c = CHR ''%'' \<longleftrightarrow> c = CHR ''%''"
proof -
  have sign: "x = CHR ''@'' \<longleftrightarrow> code x = 64" "x = CHR ''%'' \<longleftrightarrow> code x = 37" for x
    using code_inj [of x "CHR ''@''"] code_inj [of x "CHR ''%''"] by (simp_all add: code_def)
  show "lower_char c = CHR ''@'' \<longleftrightarrow> c = CHR ''@''" "lower_char c = CHR ''%'' \<longleftrightarrow> c = CHR ''%''"
    unfolding sign by (simp_all add: lower_code_same)
qed

text \<open>The host of a public location, without its port: a name in lower case, then a zone.\<close>

definition bare_host :: "split_url \<Rightarrow> string" where
  "bare_host u = (case url_hostname u of Some h \<Rightarrow> h | None \<Rightarrow> [])"

lemma bare_host_chars:
  assumes "CHR ''['' \<notin> set (su_netloc u)"
  shows "CHR ''@'' \<notin> set (bare_host u) \<and> CHR '':'' \<notin> set (bare_host u)"
proof -
  let ?info = "after_last CHR ''@'' (su_netloc u)"
  have "CHR ''['' \<notin> set ?info" using assms set_after_last by blast
  then have "fst (hostinfo u) = fst (partition_at CHR '':'' ?info)"
    by (simp add: hostinfo_def Let_def partition_at_missing split: prod.splits)
  moreover obtain a f b where p: "partition_at CHR '':'' ?info = (a, f, b)" by (metis prod.collapse)
  ultimately have host: "fst (hostinfo u) = a" by simp
  have a: "CHR ''@'' \<notin> set a" using partition_at_sets [OF p] after_last_free [of "CHR ''@''" "su_netloc u"] by blast
  obtain n g z where q: "partition_at CHR ''%'' a = (n, g, z)" by (metis prod.collapse)
  have "\<forall>c \<in> set n \<union> set z. c \<noteq> CHR ''@''" using partition_at_sets [OF q] a by blast
  then have "CHR ''@'' \<notin> set z" and "CHR ''@'' \<notin> set (py_lower n)"
    unfolding py_lower_def set_map image_iff by (blast, metis lower_sign(1) UnI1)
  then have "CHR ''@'' \<notin> set (bare_host u)"
    by (auto simp: bare_host_def url_hostname_def host q Let_def)
  then show ?thesis using hostname_no_colon [OF assms] by (auto simp: bare_host_def split: option.splits)
qed

lemma bare_host_twice:
  assumes "CHR ''['' \<notin> set (su_netloc u)" and "fst (hostinfo v) = bare_host u"
  shows "bare_host v = bare_host u"
proof -
  obtain n g z where q: "partition_at CHR ''%'' (fst (hostinfo u)) = (n, g, z)" by (metis prod.collapse)
  show ?thesis
  proof (cases "fst (hostinfo u) = []")
    case True
    then have "bare_host u = []" by (simp add: bare_host_def url_hostname_def)
    with assms(2) show ?thesis by (simp add: bare_host_def [of v] url_hostname_def)
  next
    case False
    then have u: "bare_host u = py_lower n @ (if g then CHR ''%'' # z else [])"
      by (simp add: bare_host_def url_hostname_def q Let_def)
    have "CHR ''%'' \<notin> set n"
      using q partition_at_None [of "CHR ''%''" "fst (hostinfo u)"] partition_at_missing [of "CHR ''%''" "fst (hostinfo u)"]
      by (cases g) (auto simp: partition_at_eq)
    then have n: "CHR ''%'' \<notin> set (py_lower n)"
      unfolding py_lower_def set_map image_iff by (metis lower_sign(2))
    have "partition_at CHR ''%'' (bare_host u) = (py_lower n, g, if g then z else [])"
      using n partition_at_append [of "CHR ''%''" "py_lower n" z] by (simp add: u partition_at_missing)
    then show ?thesis using assms(2) u by (cases g) (auto simp: bare_host_def [of v] url_hostname_def Let_def)
  qed
qed

lemma public_host_idem:
  assumes "list_all host_char (su_netloc u)" and "su_netloc v = public_host u"
  shows "public_host v = public_host u"
proof -
  let ?p = "case url_port u of Inr (Some p) \<Rightarrow> CHR '':'' # show_nat p | _ \<Rightarrow> []"
  let ?d = "case url_port u of Inr (Some p) \<Rightarrow> show_nat p | _ \<Rightarrow> []"
  have br: "CHR ''['' \<notin> set (su_netloc w)" if "list_all host_char (su_netloc w)" for w
    using that by (auto simp: list_all_iff host_char_def)
  note host = bare_host_chars [OF br [OF assms(1)]]
  have pub: "public_host w = bare_host w @ (case url_port w of Inr (Some p) \<Rightarrow> CHR '':'' # show_nat p | _ \<Rightarrow> [])"
    if "CHR '':'' \<notin> set (bare_host w)" for w
    using that by (auto simp: public_host_def bare_host_def Let_def split: option.splits sum.splits)
  have v: "su_netloc v = bare_host u @ ?p" using pub host assms(2) by simp
  have "list_all host_char (su_netloc v)" using public_host_chars [OF assms(1)] assms(2) by simp
  note brv = br [OF this]
  have digits: "\<forall>c \<in> set (show_nat p). c \<noteq> CHR ''@'' \<and> c \<noteq> CHR '':''" for p
    using show_nat_digits [of p] by (auto simp: is_digit_def code_def)
  then have "CHR ''@'' \<notin> set (su_netloc v)"
    using host by (auto simp: v split: sum.splits option.splits)
  then have info: "after_last CHR ''@'' (su_netloc v) = su_netloc v" by (rule after_last_absent)
  have "hostinfo v = (case partition_at CHR '':'' (su_netloc v) of (h, _, p) \<Rightarrow> (h, p))"
    by (simp add: hostinfo_def info Let_def partition_at_missing [OF brv])
  then have parts: "hostinfo v = (bare_host u, ?d)"
    using host partition_at_append [of "CHR '':''" "bare_host u"]
    by (simp add: partition_at_missing v split: sum.splits option.splits)
  have "bare_host v = bare_host u" using bare_host_twice [OF br [OF assms(1)]] parts by simp
  moreover have "list_all is_digit (show_nat p)" for p using show_nat_digits by (simp add: list_all_iff)
  then have "url_port v = (case url_port u of Inr p \<Rightarrow> Inr p | Inl _ \<Rightarrow> Inr None)"
    by (auto simp: url_port_def parts Let_def digits_value_show split: sum.splits option.splits if_splits)
  ultimately show ?thesis using pub [of u] pub [of v] host by (simp split: sum.splits)
qed


lemma canonical_redacted:
  assumes "plain_url url"
  shows "canonical_url (redacted_url url) = canonical_url url"
proof -
  from assms obtain u where u: "urlsplit url = Inr u" "list_all host_char (su_netloc u)"
    by (auto simp: plain_url_def split: sum.splits)
  from plain_url_redacted [OF assms u(1)] show ?thesis
    by (simp add: canonical_url_def u(1) public_host_idem [OF u(2)])
qed


lemma canonical_field_redacted:
  assumes "plain_url url" and "has_url_query url"
  shows "canonical_field (redacted_url url) = canonical_field url"
proof -
  have "\<not> has_url_query (redacted_url url)"
    using redacted_url_no_question [of url] query_needs_mark
    by (auto simp: has_url_query_def split: sum.splits)
  with assms show ?thesis
    by (simp add: canonical_field_def canonical_redacted plain_url_marker)
qed

lemma canonicalize_map_urls:
  "(\<And>u. u \<in> set (url_texts key v) \<Longrightarrow> canonical_field (f u) = canonical_field u) \<Longrightarrow>
     canonicalize key (map_urls f key v) = canonicalize key v"
  by (induction f key v rule: map_urls.induct) (auto simp: Bex_def, blast)

text \<open>
  The hash of a spec ignores the credentials of its URLs: the stored plan, in which
  every URL with a query is its marker, has the hash of the plan that was written, so
  a plan can be checked against its recorded hash without the sidecar.
\<close>

theorem stored_plan_keeps_its_hash:
  assumes "list_all (\<lambda>u. if has_url_query u then plain_url u else True) (url_texts None doc)"
  shows "spec_hash (fst (redact_json None doc [])) = spec_hash doc
    \<and> plan_hash (fst (redact_json None doc [])) source files = plan_hash doc source files"
proof -
  have "canonical_field (mark_url u) = canonical_field u" if "u \<in> set (url_texts None doc)" for u
    using assms that canonical_field_redacted by (auto simp: mark_url_def list_all_iff split: if_splits)
  then have "canonicalize None (map_urls mark_url None doc) = canonicalize None doc"
    by (rule canonicalize_map_urls)
  then show ?thesis
    by (simp add: redact_as_map spec_hash_def spec_text_def plan_hash_def plan_text_def)
qed

theorem stored_plan_keeps_its_hash_witness:
  "fst (redact_json None demo_plan []) \<noteq> demo_plan
   \<and> plan_hash (fst (redact_json None demo_plan [])) None [] = plan_hash demo_plan None []"
proof -
  have q: "has_url_query ''https://h.example/o?sig=1''" and p: "plain_url ''https://h.example/o?sig=1''" by code_simp+
  have "redacted_url ''https://h.example/o?sig=1'' \<noteq> ''https://h.example/o?sig=1''"
    using redacted_url_no_question [of "''https://h.example/o?sig=1''"] by (metis (no_types) list.set_intros append_Cons in_set_conv_decomp)
  then have "fst (redact_json None demo_plan []) \<noteq> demo_plan"
    by (simp add: demo_plan_def q suffix_def)
  then show ?thesis using stored_plan_keeps_its_hash [of demo_plan None "[]"] p by (simp add: demo_urls)
qed

section \<open>The text of a document determines it\<close>

text \<open>A reader of one character of a JSON text.\<close>

definition read_hex :: "char \<Rightarrow> nat" where
  "read_hex c = (if code c < 58 then code c - 48 else code c - 87)"

fun read_char :: "string \<Rightarrow> (char \<times> string) option" where
  "read_char [] = None"
| "read_char (a # t) =
     (if a \<noteq> CHR 0x5C then Some (a, t)
      else (case t of
          [] \<Rightarrow> None
        | b # t \<Rightarrow>
            if b = CHR 0x22 \<or> b = CHR 0x5C then Some (b, t)
            else if b = CHR ''n'' then Some (char_of (10 :: nat), t)
            else if b = CHR ''r'' then Some (char_of (13 :: nat), t)
            else if b = CHR ''t'' then Some (char_of (9 :: nat), t)
            else if b = CHR ''b'' then Some (char_of (8 :: nat), t)
            else if b = CHR ''f'' then Some (char_of (12 :: nat), t)
            else (case t of
                _ # _ # h # l # t \<Rightarrow> Some (char_of (16 * read_hex h + read_hex l), t)
              | _ \<Rightarrow> None)))"

lemma read_hex_digit: "n < 16 \<Longrightarrow> read_hex (hex_digit n) = n"
  by (simp add: read_hex_def hex_digit_def)

lemma char_of_code_eq: "code c = n \<Longrightarrow> char_of n = c"
  by (auto simp: code_def)

lemma code_below: "code c < 256"
  by (simp add: code_def)

lemma read_json_char: "read_char (json_char c @ t) = Some (c, t)"
proof -
  have "16 * read_hex (hex_digit (code c div 16)) + read_hex (hex_digit (code c mod 16)) = code c"
    using code_below [of c] by (simp add: read_hex_digit)
  note hex = this
  consider (quote) "c = CHR 0x22 \<or> c = CHR 0x5C" | (n) "c \<noteq> CHR 0x22 \<and> c \<noteq> CHR 0x5C" "code c = 10"
    | (r) "c \<noteq> CHR 0x22 \<and> c \<noteq> CHR 0x5C" "code c = 13" | (t) "c \<noteq> CHR 0x22 \<and> c \<noteq> CHR 0x5C" "code c = 9"
    | (b) "c \<noteq> CHR 0x22 \<and> c \<noteq> CHR 0x5C" "code c = 8" | (f) "c \<noteq> CHR 0x22 \<and> c \<noteq> CHR 0x5C" "code c = 12"
    | (plain) "c \<noteq> CHR 0x22 \<and> c \<noteq> CHR 0x5C" "code c \<notin> {8, 9, 10, 12, 13}" "32 \<le> code c \<and> code c \<le> 126"
    | (wide) "c \<noteq> CHR 0x22 \<and> c \<noteq> CHR 0x5C" "code c \<notin> {8, 9, 10, 12, 13}" "\<not> (32 \<le> code c \<and> code c \<le> 126)"
    by blast
  then show ?thesis
  proof cases
    case wide
    then have "json_char c = [CHR 0x5C, CHR ''u'', CHR ''0'', CHR ''0'', hex_digit (code c div 16), hex_digit (code c mod 16)]"
      by (simp add: json_char_def)
    then show ?thesis using hex char_of_code_eq [of c "code c"] by simp
  next
    case n
    from char_of_code_eq [OF n(2)] n show ?thesis by (simp add: json_char_def)
  next
    case r
    from char_of_code_eq [OF r(2)] r show ?thesis by (simp add: json_char_def)
  next
    case t
    from char_of_code_eq [OF t(2)] t show ?thesis by (simp add: json_char_def)
  next
    case b
    from char_of_code_eq [OF b(2)] b show ?thesis by (simp add: json_char_def)
  next
    case f
    from char_of_code_eq [OF f(2)] f show ?thesis by (simp add: json_char_def)
  next
    case plain
    then show ?thesis by (simp add: json_char_def)
  next
    case quote
    then have "json_char c = [CHR 0x5C, c]" unfolding json_char_def by (rule if_P)
    moreover have "read_char ([CHR 0x5C, c] @ t) = Some (c, t)"
      unfolding append.simps read_char.simps list.case using quote by (simp only: if_P simp_thms if_False)
    ultimately show ?thesis by (simp only:)
  qed
qed

lemma json_char_inj: "json_char c @ x = json_char d @ y \<Longrightarrow> c = d \<and> x = y"
  by (metis option.inject prod.inject read_json_char)

lemma json_char_not_quote: "hd (json_char c @ x) \<noteq> CHR 0x22" "json_char c \<noteq> []"
  by (auto simp: json_char_def)

lemma json_str_inj: "json_str k @ r = json_str l @ s \<Longrightarrow> k = l \<and> r = s"
proof -
  let ?f = "\<lambda>k r. concat (map json_char k) @ CHR 0x22 # r"
  have "k = l \<and> r = s" if "?f k r = ?f l s"
    using that
  proof (induction k arbitrary: l)
    case Nil
    then show ?case
      using json_char_not_quote by (cases l) (auto dest!: arg_cong [where f = hd], metis)
  next
    case (Cons c k)
    show ?case
    proof (cases l)
      case Nil
      with Cons.prems json_char_not_quote(1) [of c "?f k r"] show ?thesis by simp
    next
      case (Cons d l')
      with Cons.prems json_char_inj [of c "?f k r" d "?f l' s"] Cons.IH show ?thesis by simp
    qed
  qed
  then show "json_str k @ r = json_str l @ s \<Longrightarrow> k = l \<and> r = s" by (simp add: json_str_def)
qed

text \<open>What follows a number is no digit.\<close>

definition no_digit :: "string \<Rightarrow> bool" where
  "no_digit r \<longleftrightarrow> r = [] \<or> \<not> is_digit (hd r)"

lemma show_nat_ends:
  assumes "show_nat m @ r = show_nat n @ s" and "no_digit r" and "no_digit s"
  shows "m = n \<and> r = s"
proof -
  have "takeWhile is_digit (show_nat m @ r) = show_nat m \<and> dropWhile is_digit (show_nat m @ r) = r"
    if "no_digit r" for m r
    using takeWhile_head [of "show_nat m" is_digit r] show_nat_digits [of m] that by (simp add: no_digit_def)
  from this [OF assms(2), of m] this [OF assms(3), of n] assms(1) show ?thesis by (metis show_nat_inject)
qed

lemma hd_show_nat: "is_digit (hd (show_nat n))"
  using show_nat_digits [of n] hd_in_set [OF show_nat_nonempty] by blast

lemma show_int_ends:
  assumes "show_int i @ r = show_int j @ s" and "no_digit r" and "no_digit s"
  shows "i = j \<and> r = s"
proof -
  have minus: "hd (show_nat n @ t) \<noteq> CHR ''-''" for n t
  proof -
    have "is_digit (hd (show_nat n @ t))" using hd_show_nat [of n] by simp
    moreover have "\<not> is_digit CHR ''-''" by (simp add: is_digit_def code_def)
    ultimately show ?thesis by metis
  qed
  show ?thesis
  proof (cases "i < 0"; cases "j < 0")
    assume "i < 0" "\<not> j < 0"
    with assms(1) minus [of "nat j" s] show ?thesis by (metis append_Cons list.sel(1) show_int_def)
  next
    assume "\<not> i < 0" "j < 0"
    with assms(1) minus [of "nat i" r] show ?thesis by (metis append_Cons list.sel(1) show_int_def)
  qed (use assms show_nat_ends [of "nat i" r "nat j" s] show_nat_ends [of "nat (- i)" r "nat (- j)" s]
        in \<open>auto simp: show_int_def\<close>)
qed

text \<open>Documents without floats, and with the keys of every object sorted.\<close>

fun no_floats :: "json \<Rightarrow> bool" where
  "no_floats (JFloat r t) = False"
| "no_floats (JArr vs) = list_all no_floats vs"
| "no_floats (JObj d) = list_all (\<lambda>(k, v). no_floats v) d"
| "no_floats v = True"

fun sort_keys :: "json \<Rightarrow> json" where
  "sort_keys (JArr vs) = JArr (map sort_keys vs)"
| "sort_keys (JObj d) = JObj (sort_key fst (map (\<lambda>(k, v). (k, sort_keys v)) d))"
| "sort_keys v = v"

text \<open>The text of the items after the first, and of a document as it is.\<close>

fun more_items :: "char \<Rightarrow> ('a \<Rightarrow> string) \<Rightarrow> 'a list \<Rightarrow> string" where
  "more_items close f [] = [close]"
| "more_items close f (x # xs) = '','' @ f x @ more_items close f xs"

definition all_items :: "char \<Rightarrow> ('a \<Rightarrow> string) \<Rightarrow> 'a list \<Rightarrow> string" where
  "all_items close f xs = (case xs of [] \<Rightarrow> [close] | x # xs \<Rightarrow> f x @ more_items close f xs)"

lemma join_items: "join '','' (map f xs) @ [close] = all_items close f xs"
proof -
  have "join '','' (f x # map f xs) @ [close] = f x @ more_items close f xs" for x xs
    by (induction xs arbitrary: x) auto
  then show ?thesis by (cases xs) (auto simp: all_items_def)
qed

lemma sort_key_map:
  "sort_key fst (map (\<lambda>(k, v). (k, f v)) d) = map (\<lambda>(k, v). (k, f v)) (sort_key fst d)"
proof -
  have ins: "insort_key fst (k, f v) (map (\<lambda>(k, v). (k, f v)) d) = map (\<lambda>(k, v). (k, f v)) (insort_key fst (k, v) d)" for k v d
    by (induction d) auto
  show ?thesis
  proof (induction d)
    case (Cons x d)
    then show ?case by (cases x) (simp add: ins)
  qed simp
qed

definition field_text :: "string \<times> json \<Rightarrow> string" where
  "field_text = (\<lambda>(k, v). json_str k @ '':'' @ dump_text v)"

lemma dump_text_items:
  "dump_text (JArr vs) = ''['' @ all_items CHR '']'' dump_text vs"
  "dump_text (JObj d) = ''{'' @ all_items CHR ''}'' field_text (sort_key fst d)"
proof -
  show "dump_text (JArr vs) = ''['' @ all_items CHR '']'' dump_text vs" by (simp flip: join_items)
  have "(\<lambda>(k, t). json_str k @ '':'' @ t) \<circ> (\<lambda>(k, v). (k, dump_text v)) = field_text"
    by (auto simp: field_text_def)
  then show "dump_text (JObj d) = ''{'' @ all_items CHR ''}'' field_text (sort_key fst d)"
    unfolding dump_text.simps sort_key_map map_map by (simp only: join_items append_assoc)
qed

lemma more_items_inj:
  assumes "\<And>x b r s. x \<in> set xs \<Longrightarrow> ok b \<Longrightarrow> no_digit r \<Longrightarrow> no_digit s \<Longrightarrow> f x @ r = f b @ s \<Longrightarrow> g x = g b \<and> r = s"
    and "list_all ok ys" and "close \<noteq> CHR '',''" and "\<not> is_digit close"
    and "more_items close f xs @ r = more_items close f ys @ s"
  shows "map g xs = map g ys \<and> r = s"
  using assms
proof (induction xs arbitrary: ys)
  case Nil
  then show ?case by (cases ys) auto
next
  case (Cons x xs)
  have nd: "no_digit (more_items close f zs @ t)" for zs t
    using Cons.prems(4) by (cases zs) (auto simp: no_digit_def is_digit_def code_def)
  show ?case
  proof (cases ys)
    case Nil
    with Cons.prems show ?thesis by auto
  next
    case (Cons y zs)
    then have "f x @ more_items close f xs @ r = f y @ more_items close f zs @ s" using Cons.prems(5) by simp
    moreover have "x \<in> set (x # xs)" "ok y" using Cons.prems(2) Cons by simp_all
    ultimately have "g x = g y \<and> more_items close f xs @ r = more_items close f zs @ s"
      using Cons.prems(1) nd by blast
    then have "g x = g y" and rest: "more_items close f xs @ r = more_items close f zs @ s" by blast+
    moreover have "map g xs = map g zs \<and> r = s"
    proof (rule Cons.IH [OF _ _ Cons.prems(3,4) rest])
      show "list_all ok zs" using Cons.prems(2) Cons by simp
    qed (rule Cons.prems(1); simp)
    ultimately show ?thesis using Cons by simp
  qed
qed

lemma all_items_inj:
  assumes "\<And>x b r s. x \<in> set xs \<Longrightarrow> ok b \<Longrightarrow> no_digit r \<Longrightarrow> no_digit s \<Longrightarrow> f x @ r = f b @ s \<Longrightarrow> g x = g b \<and> r = s"
    and "list_all ok ys" and "close \<noteq> CHR '',''" and "\<not> is_digit close"
    and "list_all (\<lambda>x. f x \<noteq> [] \<and> hd (f x) \<noteq> close) (xs @ ys)"
    and "all_items close f xs @ r = all_items close f ys @ s"
  shows "map g xs = map g ys \<and> r = s"
proof (cases xs; cases ys)
  fix x xs' y ys'
  assume eq: "xs = x # xs'" "ys = y # ys'"
  have "more_items close f (x # xs') @ r = more_items close f (y # ys') @ s"
    using assms(6) by (simp add: all_items_def eq)
  from more_items_inj [OF _ assms(2) assms(3,4), of xs f g r s] assms(1) this show ?thesis by (simp add: eq)
next
  fix y ys'
  assume eq: "xs = []" "ys = y # ys'"
  with assms(6) have "hd (f y) = close" using assms(5) eq by (cases "f y") (auto simp: all_items_def)
  with assms(5) eq show ?thesis by simp
next
  fix x xs'
  assume eq: "xs = x # xs'" "ys = []"
  with assms(6) have "hd (f x) = close" using assms(5) eq by (cases "f x") (auto simp: all_items_def)
  with assms(5) eq show ?thesis by simp
next
  assume "xs = []" "ys = []"
  with assms(6) show ?thesis by (simp add: all_items_def)
qed


lemma lead_int: "show_int i \<noteq> [] \<and> hd (show_int i) \<notin> {CHR ''n'', CHR ''t'', CHR ''f'', CHR 0x22, CHR ''['', CHR '']'', CHR ''{'', CHR ''}''}"
proof -
  have "is_digit c \<Longrightarrow> c \<notin> {CHR ''n'', CHR ''t'', CHR ''f'', CHR 0x22, CHR ''['', CHR '']'', CHR ''{'', CHR ''}''}" for c
    by (auto simp: is_digit_def code_def)
  from this [OF hd_show_nat] show ?thesis by (simp add: show_int_def)
qed

fun lead :: "json \<Rightarrow> char" where
  "lead JNull = CHR ''n''"
| "lead (JBool b) = (if b then CHR ''t'' else CHR ''f'')"
| "lead (JInt i) = hd (show_int i)"
| "lead (JStr s) = CHR 0x22"
| "lead (JArr vs) = CHR ''[''"
| "lead (JObj d) = CHR ''{''"
| "lead (JFloat r t) = hd t"

lemma text_lead: "no_floats a \<Longrightarrow> dump_text a \<noteq> [] \<and> hd (dump_text a @ r) = lead a \<and> lead a \<notin> {CHR '']'', CHR ''}''}"
  using lead_int by (cases a) (simp_all add: json_str_def)

lemma sort_keys_obj: "sort_keys (JObj d) = JObj (map (\<lambda>(k, v). (k, sort_keys v)) (sort_key fst d))"
  by (simp add: sort_key_map)

lemma lead_eq:
  assumes "dump_text a @ r = dump_text b @ s" and "no_floats a" and "no_floats b"
  shows "lead b = lead a"
  using text_lead [OF assms(2), of r] text_lead [OF assms(3), of s] assms(1) by simp

lemma dump_text_inj:
  "no_floats a \<Longrightarrow> no_floats b \<Longrightarrow> no_digit r \<Longrightarrow> no_digit s \<Longrightarrow> dump_text a @ r = dump_text b @ s
    \<Longrightarrow> sort_keys a = sort_keys b \<and> r = s"
proof (induction a arbitrary: b r s)
  case (JArr vs)
  have "lead b = CHR ''[''" using lead_eq [OF JArr.prems(5,1,2)] by simp
  then obtain ws where b: "b = JArr ws" using JArr.prems(2) lead_int by (cases b) (auto split: if_splits)
  have "map sort_keys vs = map sort_keys ws \<and> r = s"
  proof (rule all_items_inj [where ok = no_floats and f = dump_text and close = "CHR '']''"])
    show "all_items CHR '']'' dump_text vs @ r = all_items CHR '']'' dump_text ws @ s"
      using JArr.prems(5) by (simp add: b dump_text_items del: dump_text.simps)
    show "list_all (\<lambda>x. dump_text x \<noteq> [] \<and> hd (dump_text x) \<noteq> CHR '']'') (vs @ ws)"
      using JArr.prems(1,2) text_lead [of _ "[]"] by (fastforce simp: b list_all_iff)
    fix x c r s
    assume "x \<in> set vs" "no_floats c" "no_digit r" "no_digit s" "dump_text x @ r = dump_text c @ s"
    then show "sort_keys x = sort_keys c \<and> r = s" using JArr.IH JArr.prems(1) by (simp add: list_all_iff)
  qed (use JArr.prems(2) in \<open>simp_all add: b is_digit_def code_def\<close>)
  then show ?case by (simp add: b)
next
  case (JObj d)
  have "lead b = CHR ''{''" using lead_eq [OF JObj.prems(5,1,2)] by simp
  then obtain e where b: "b = JObj e" using JObj.prems(2) lead_int by (cases b) (auto split: if_splits)
  let ?g = "\<lambda>(k, v). (k, sort_keys v)"
  have "map ?g (sort_key fst d) = map ?g (sort_key fst e) \<and> r = s"
  proof (rule all_items_inj [where ok = "\<lambda>(k, v). no_floats v" and f = field_text and close = "CHR ''}''"])
    show "all_items CHR ''}'' field_text (sort_key fst d) @ r = all_items CHR ''}'' field_text (sort_key fst e) @ s"
      using JObj.prems(5) by (simp add: b dump_text_items del: dump_text.simps)
    show "list_all (\<lambda>x. field_text x \<noteq> [] \<and> hd (field_text x) \<noteq> CHR ''}'') (sort_key fst d @ sort_key fst e)"
      by (auto simp: list_all_iff field_text_def json_str_def)
    fix x c r s
    assume x: "x \<in> set (sort_key fst d)" "case c of (k, v) \<Rightarrow> no_floats v" "no_digit r" "no_digit s"
      "field_text x @ r = field_text c @ s"
    obtain k v l w where kv: "x = (k, v)" "c = (l, w)" by (metis surj_pair)
    from x(5) have "json_str k @ '':'' @ dump_text v @ r = json_str l @ '':'' @ dump_text w @ s"
      by (simp add: field_text_def kv)
    from json_str_inj [OF this] have "k = l" "dump_text v @ r = dump_text w @ s" by simp_all
    moreover have "(k, v) \<in> set d" "no_floats v" using x(1) JObj.prems(1) by (auto simp: kv list_all_iff)
    ultimately show "?g x = ?g c \<and> r = s" using JObj.IH [of "(k, v)" v w r s] x kv by simp
  qed (use JObj.prems(2) in \<open>simp_all add: b is_digit_def code_def list_all_iff\<close>)
  then show ?case by (simp add: b sort_keys_obj del: sort_keys.simps)
next
  case (JStr t)
  have "lead b = CHR 0x22" using lead_eq [OF JStr.prems(5,1,2)] by simp
  then obtain u where b: "b = JStr u" using JStr.prems(2) lead_int by (cases b) (auto split: if_splits)
  have "json_str t @ r = json_str u @ s" using JStr.prems(5) by (simp only: b dump_text.simps)
  from json_str_inj [OF this] show ?case by (simp add: b)
next
  case (JInt i)
  have "lead b = hd (show_int i)" using lead_eq [OF JInt.prems(5,1,2)] by simp
  then obtain j where b: "b = JInt j" using JInt.prems(2) lead_int [of i] by (cases b) (auto split: if_splits)
  have "show_int i @ r = show_int j @ s" using JInt.prems(5) by (simp only: b dump_text.simps)
  from show_int_ends [OF this JInt.prems(3,4)] show ?case by (simp add: b)
next
  case JNull
  have "lead b = CHR ''n''" using lead_eq [OF JNull.prems(5,1,2)] by simp
  then have "b = JNull" using JNull.prems(2) lead_int by (cases b) (auto split: if_splits)
  with JNull show ?case by simp
next
  case (JBool c)
  have "lead b = (if c then CHR ''t'' else CHR ''f'')" using lead_eq [OF JBool.prems(5,1,2)] by simp
  then have "b = JBool c" using JBool.prems(2) lead_int by (cases b; cases c) (auto split: if_splits)
  with JBool show ?case by simp
qed simp

lemma dump_sorted: "dump_text (sort_keys v) = dump_text v"
proof (induction v)
  case (JArr vs)
  then have "map dump_text (map sort_keys vs) = map dump_text vs" by simp
  then show ?case by (simp del: map_map)
next
  case (JObj d)
  let ?g = "\<lambda>(k, v). (k, sort_keys v)"
  have "dump_text (JObj (map ?g (sort_key fst d)))
      = ''{'' @ all_items CHR ''}'' field_text (map ?g (sort_key fst d))"
    by (simp add: dump_text_items sort_key_map sort_key_id_if_sorted del: dump_text.simps)
  also have "all_items CHR ''}'' field_text (map ?g (sort_key fst d)) = all_items CHR ''}'' field_text (sort_key fst d)"
  proof -
    have "field_text (?g x) = field_text x" if "x \<in> set (sort_key fst d)" for x
      using JObj [of x "snd x"] that by (cases x) (simp add: field_text_def)
    then have "map field_text (map ?g (sort_key fst d)) = map field_text (sort_key fst d)" by simp
    then show ?thesis by (metis join_items)
  qed
  finally show ?case by (simp add: dump_text_items sort_keys_obj del: sort_keys.simps dump_text.simps)
qed simp_all

lemma no_floats_canonicalize [simp]: "no_floats (canonicalize key v) = no_floats v"
  by (induction key v rule: canonicalize.induct) (auto simp: list_all_iff canonical_field_def)

lemma dump_text_eq:
  assumes "no_floats a" and "no_floats b"
  shows "dump_text a = dump_text b \<longleftrightarrow> sort_keys a = sort_keys b"
  using dump_text_inj [OF assms, of "[]" "[]"] dump_sorted [of a] dump_sorted [of b]
  by (auto simp: no_digit_def)

text \<open>Objects with the same keys, once each, and the same sorted fields have the same values.\<close>

lemma sorted_field:
  assumes "sort_keys (JObj d) = sort_keys (JObj e)" and "distinct (map fst e)"
    and "(k, v) \<in> set d" and "(k, w) \<in> set e"
  shows "sort_keys v = sort_keys w"
proof -
  let ?g = "\<lambda>(k, v). (k, sort_keys v)"
  have "map ?g (sort_key fst d) = map ?g (sort_key fst e)"
    using assms(1) by (simp only: sort_keys_obj json.inject)
  then have "set (map ?g (sort_key fst d)) = set (map ?g (sort_key fst e))" by (rule arg_cong)
  then have "?g ` set d = ?g ` set e" by simp
  moreover have "(k, sort_keys v) \<in> ?g ` set d" using assms(3) by force
  ultimately have "(k, sort_keys v) \<in> ?g ` set e" by (simp only:)
  then obtain w' where w': "(k, w') \<in> set e" "sort_keys w' = sort_keys v" by auto
  with assms(2,4) have "w' = w" by (meson eq_key_imp_eq_value)
  with w' show ?thesis by simp
qed

lemma source_row_inj:
  assumes "sort_keys (source_row f) = sort_keys (source_row g)"
  shows "f = g"
proof -
  have d: "distinct (map fst [(''path'', JStr (sf_path g)), (''size_bytes'', JInt (sf_size_bytes g)),
      (''sha256'', JStr (sf_sha256 g))])" by simp
  note field = sorted_field [OF assms [unfolded source_row_def] d]
  have "sf_path f = sf_path g" using field [of "''path''" "JStr (sf_path f)"] by simp
  moreover have "sf_size_bytes f = sf_size_bytes g" using field [of "''size_bytes''" "JInt (sf_size_bytes f)"] by simp
  moreover have "sf_sha256 f = sf_sha256 g" using field [of "''sha256''" "JStr (sf_sha256 f)"] by simp
  ultimately show ?thesis by simp
qed

lemma source_rows_inj: "map (sort_keys \<circ> source_row) fs = map (sort_keys \<circ> source_row) gs \<Longrightarrow> fs = gs"
  by (rule map_injective) (auto intro!: injI dest: source_row_inj)


end
