(* ===== verification/Phases.thy ===== *)
theory Phases
  imports Poll Planner State
begin

text \<open>
  The phases of the class \<open>Orchestrator\<close> of \<open>job/orchestrator.py\<close>, from provisioning
  to the launch of the runner, and its cleanup.  The object is the record \<open>orch\<close>; a
  method is a function on the object and the world that returns, or raises a
  \<open>PhaseError\<close> or another exception.  What the methods call outside the sources (the
  Colab API, the kernel client, the session file, the daemon) is the record \<open>site\<close>.
  The programs sent to the kernel are the datatype \<open>kernel_code\<close>, one constructor for
  each.
\<close>

section \<open>Errors\<close>

text \<open>\<open>pe_transport\<close> is \<open>None\<close> for a \<open>PhaseError\<close> and its \<open>transport\<close> for a \<open>KernelCallError\<close>.\<close>

record phase_error =
  pe_phase :: phase
  pe_reason :: string
  pe_retry :: "retry_class option"
  pe_hints :: "string list"
  pe_transport :: "bool option"

datatype problem = Phase_Problem phase_error | Raised py_error

definition phase_fails :: "phase \<Rightarrow> string \<Rightarrow> retry_class option \<Rightarrow> string list \<Rightarrow> problem" where
  "phase_fails p reason cl hints =
     Phase_Problem \<lparr>pe_phase = p, pe_reason = reason, pe_retry = cl, pe_hints = hints, pe_transport = None\<rparr>"

definition py_raise :: "string \<Rightarrow> string \<Rightarrow> problem" where
  "py_raise t m = Raised \<lparr>err_type = t, err_msg = m\<rparr>"

definition problem_error :: "problem \<Rightarrow> py_error" where
  "problem_error p =
     (case p of
        Raised e \<Rightarrow> e
      | Phase_Problem pe \<Rightarrow>
          \<lparr>err_type = (if pe_transport pe = None then ''PhaseError'' else ''KernelCallError''),
           err_msg = pe_reason pe\<rparr>)"

text \<open>What a kernel call raised: the exception, and which classes it is an instance of.\<close>

record kernel_error =
  ke_error :: py_error
  ke_os :: bool
  ke_timeout :: bool
  ke_interrupted :: bool
  ke_requests :: bool
  ke_websocket :: bool
  ke_runtime :: bool

definition kernel_transport_messages :: "string list" where
  "kernel_transport_messages =
     [''Connection was lost'', ''channel must be running'', ''must first start a kernel'',
      ''didn'' @ [CHR 0x27] @ ''t respond to heartbeats'', ''Kernel died before replying'']"

definition kernel_transport_failure :: "kernel_error \<Rightarrow> bool" where
  "kernel_transport_failure e \<longleftrightarrow>
     ke_os e \<or> ke_interrupted e \<or> ke_requests e \<or> ke_websocket e
     \<or> (ke_runtime e \<and> list_ex (\<lambda>m. py_in m (err_msg (ke_error e))) kernel_transport_messages)"

definition kernel_call_error :: "phase \<Rightarrow> kernel_error \<Rightarrow> string list \<Rightarrow> problem" where
  "kernel_call_error p e hints =
     (let transport = kernel_transport_failure e;
          what = (if ke_interrupted e then ''kernel interrupted''
                  else if transport then ''kernel connection failed'' else ''kernel call failed'')
      in Phase_Problem \<lparr>pe_phase = p,
           pe_reason = what @ '' during '' @ phase_value p @ '': '' @ describe_error (ke_error e),
           pe_retry = Some (if transport then Retry_Same else Do_Not_Retry),
           pe_hints = hints, pe_transport = Some transport\<rparr>)"

definition cell_interrupted :: kernel_error where
  "cell_interrupted =
     \<lparr>ke_error = \<lparr>err_type = ''KernelInterrupted'',
        err_msg = ''the cell was interrupted (KeyboardInterrupt): the kernel was ''
          @ ''interrupted, restarted or shut down while it ran''\<rparr>,
      ke_os = False, ke_timeout = False, ke_interrupted = True, ke_requests = False,
      ke_websocket = False, ke_runtime = False\<rparr>"

section \<open>The programs sent to the kernel\<close>

record launch_request =
  lr_dir :: string
  lr_job_id :: string
  lr_deadline :: int
  lr_cli_version :: string
  lr_entry :: string
  lr_secrets_required :: bool
  lr_sync :: "int option"
  lr_args :: "string list"

datatype kernel_code =
    Kc_Install string "string list"
  | Kc_Verify "string list"
  | Kc_Prepare string
  | Kc_Seal string bool
  | Kc_Remove string string
  | Kc_Launch launch_request

text \<open>
  What the launch program finds of the credential file: absent, or the descriptor it
  was opened on and whether it is a regular file of this user; and the command line
  it starts the runner with, after the interpreter and its bootstrap.
\<close>

definition os_path_join :: "string \<Rightarrow> string \<Rightarrow> string" where
  "os_path_join a b =
     (if prefix ''/'' b then b else if a = [] \<or> suffix ''/'' a then a @ b else a @ ''/'' @ b)"

definition launch_refusal :: "launch_request \<Rightarrow> (nat \<times> bool) option \<Rightarrow> string option" where
  "launch_refusal r secret =
     (case secret of
        None \<Rightarrow> if lr_secrets_required r then Some ''required transfer credential file is missing'' else None
      | Some (_, safe) \<Rightarrow> if safe then None else Some ''unsafe transfer credential file'')"

definition launch_argv :: "launch_request \<Rightarrow> (nat \<times> bool) option \<Rightarrow> bool \<Rightarrow> bool \<Rightarrow> string list" where
  "launch_argv r secret stage offload =
     (let d = lr_dir r in
      [''--job-dir'', d, ''--deadline'', show_int (lr_deadline r), ''--cli-version'', lr_cli_version r,
       ''--entry'', os_path_join (os_path_join d ''src'') (lr_entry r)]
      @ (case secret of None \<Rightarrow> [] | Some (fd, _) \<Rightarrow> [''--secrets-fd'', show_nat fd])
      @ (if lr_secrets_required r then [''--secrets-required''] else [])
      @ (if stage then [''--stage-manifest'', os_path_join d ''stage.manifest.json''] else [])
      @ (if offload then [''--offload-manifest'', os_path_join d ''offload.manifest.json''] else [])
      @ (case lr_sync r of None \<Rightarrow> [] | Some n \<Rightarrow> [''--artifact-sync-interval'', show_int n])
      @ [''--''] @ lr_args r)"

section \<open>The object and the world\<close>

record ('t, 'r) orch =
  oc_sup :: sup
  oc_session :: "session_state option"
  oc_runtime :: "'r option"
  oc_transport :: "'t option"
  oc_prepared :: bool
  oc_secret_problem :: "string option"

record ('t, 'r, 'w) site =
  st_plan :: plan
  st_colab :: "'w colab"
  st_remote :: "('t, 'w) remote"
  st_pydantic :: pydantic
  st_open :: "string \<Rightarrow> nat \<Rightarrow> 'w \<Rightarrow> (py_error, string) outcome \<times> 'w"
  st_loads :: "string \<Rightarrow> (py_error, json) outcome"
  st_attempts :: "string \<Rightarrow> (py_error, raw_attempt list) outcome"
  st_float :: "rat \<Rightarrow> string"
  st_local_dir :: string
  st_event :: "phase \<Rightarrow> 'w \<Rightarrow> 'w"
  st_transport :: "session_state option \<Rightarrow> 'w \<Rightarrow> (py_error, 't) outcome \<times> 'w"
  st_remove :: "string \<Rightarrow> 't \<Rightarrow> 'w \<Rightarrow> (py_error, read_status) outcome \<times> 't \<times> 'w"
  st_connect :: "session_state \<Rightarrow> 'w \<Rightarrow> (py_error, 'r) outcome \<times> 'w"
  st_execute :: "'r \<Rightarrow> kernel_code \<Rightarrow> nat \<Rightarrow> 'w \<Rightarrow> (kernel_error, json list) outcome \<times> 'r \<times> 'w"
  st_restart :: "'r \<Rightarrow> nat \<Rightarrow> 'w \<Rightarrow> (kernel_error, unit) outcome \<times> 'r \<times> 'w"
  st_stop :: "'r \<Rightarrow> 'w \<Rightarrow> (py_error, unit) outcome \<times> 'w"
  st_identity :: "'r \<Rightarrow> string option \<times> string option"
  st_add :: "session_state \<Rightarrow> 'w \<Rightarrow> (py_error, unit) outcome \<times> 'w"
  st_drop :: "string \<Rightarrow> 'w \<Rightarrow> (py_error, unit) outcome \<times> 'w"
  st_spawn :: "session_state \<Rightarrow> 'w \<Rightarrow> (py_error, int option) outcome \<times> 'w"
  st_kill :: "int \<Rightarrow> 'w \<Rightarrow> 'w"
  st_micros :: "'w \<Rightarrow> int \<times> 'w"
  st_decode :: "string \<Rightarrow> string"
  st_fiso :: fiso

abbreviation st_spec :: "('t, 'r, 'w) site \<Rightarrow> job_spec" where
  "st_spec st \<equiv> pl_spec (st_plan st)"

abbreviation st_job :: "('t, 'r, 'w) site \<Rightarrow> string" where
  "st_job st \<equiv> pl_job_id (st_plan st)"

abbreviation oc_env :: "('t, 'r) orch \<Rightarrow> job_envelope" where
  "oc_env oc \<equiv> sup_env (oc_sup oc)"

definition edit_env :: "(job_envelope \<Rightarrow> job_envelope) \<Rightarrow> ('t, 'r) orch \<Rightarrow> ('t, 'r) orch" where
  "edit_env f oc = oc\<lparr>oc_sup := edit f (oc_sup oc)\<rparr>"

definition orch_init :: "string \<Rightarrow> string \<Rightarrow> ('t, 'r, 'w) site \<Rightarrow> ('t, 'r) orch" where
  "orch_init cli payload st =
     \<lparr>oc_sup = sup_init (new_envelope cli payload (st_job st)), oc_session = None, oc_runtime = None,
      oc_transport = None, oc_prepared = False, oc_secret_problem = None\<rparr>"

definition result_put_url_set :: "job_spec \<Rightarrow> bool" where
  "result_put_url_set spec = (case ctl_result (sp_control spec) of None \<Rightarrow> False | Some ch \<Rightarrow> ch_put_url ch \<noteq> [])"

definition secrets_required :: "job_spec \<Rightarrow> bool" where
  "secrets_required spec \<longleftrightarrow> sp_data spec \<noteq> [] \<or> sp_artifacts spec \<noteq> [] \<or> result_put_url_set spec"

definition persist :: "('t, 'r, 'w) site \<Rightarrow> ('t, 'r) orch \<times> 'w \<Rightarrow> ('t, 'r) orch \<times> 'w" where
  "persist st = (\<lambda>(oc, w). (oc, rm_persist (st_remote st) (oc_env oc) w))"

definition set_phase :: "('t, 'r, 'w) site \<Rightarrow> phase \<Rightarrow> ('t, 'r) orch \<times> 'w \<Rightarrow> ('t, 'r) orch \<times> 'w" where
  "set_phase st p = (\<lambda>(oc, w). persist st (edit_env (\<lambda>e. e\<lparr>env_phase := p\<rparr>) oc, st_event st p w))"

definition job_transport ::
  "('t, 'r, 'w) site \<Rightarrow> ('t, 'r) orch \<times> 'w \<Rightarrow> (problem, 't) outcome \<times> ('t, 'r) orch \<times> 'w" where
  "job_transport st = (\<lambda>(oc, w).
     case oc_transport oc of
       Some t \<Rightarrow> (Inr t, oc, w)
     | None \<Rightarrow>
         (case st_transport st (oc_session oc) w of
            (Inl e, w) \<Rightarrow> (Inl (Raised e), oc, w)
          | (Inr t, w) \<Rightarrow> (Inr t, oc\<lparr>oc_transport := Some t\<rparr>, w)))"

section \<open>Provisioning\<close>

text \<open>
  \<open>resolve_runtime_options\<close> of \<open>commands/session.py\<close> for a candidate, the machine shape
  being the standard one: the variant and the accelerator that are asked for.
\<close>

definition gpu_names :: "(string \<times> string) list" where
  "gpu_names = [(''a100'', ''A100''), (''h100'', ''H100''), (''l4'', ''L4''), (''t4'', ''T4''), (''g4'', ''G4'')]"

definition is_tpu :: "string \<Rightarrow> bool" where
  "is_tpu want \<longleftrightarrow> prefix ''v5'' (py_lower want) \<or> prefix ''v6'' (py_lower want)"

definition runtime_options :: "string \<Rightarrow> string \<times> string \<times> bool" where
  "runtime_options want =
     (if is_tpu want then (''TPU'', if py_lower want = ''v5e1'' then ''V5E1'' else ''V6E1'', False)
      else if want \<noteq> ''NONE'' \<and> want \<noteq> [] then
        (''GPU'', case map_of gpu_names (py_lower want) of Some a \<Rightarrow> a | None \<Rightarrow> ''A100'', False)
      else (''DEFAULT'', ''NONE'', False))"

definition assign_body_chars :: nat where "assign_body_chars = 300"

text \<open>\<open>_failed_assign\<close>: an attempt that raised.\<close>

definition assign_body :: "client_error \<Rightarrow> string option" where
  "assign_body e =
     (let raw = (case cl_body e of None \<Rightarrow> [] | Some b \<Rightarrow> b) in
      case response_body_if_json e (length raw) of
        Some b \<Rightarrow>
          (let body = redact_credentials (join '' '' (py_words b)) in
           Some (if assign_body_chars < length body
             then take assign_body_chars body @ '' [... '' @ show_nat (length body - assign_body_chars)
               @ '' characters omitted]''
             else body))
      | None \<Rightarrow>
          if raw = [] then None
          else Some (''['' @ (case cl_content_type e of None \<Rightarrow> ''unknown type'' | Some ct \<Rightarrow> ct)
            @ '' body of '' @ show_nat (length raw) @ '' characters not kept]''))"

definition failed_assign :: "string \<Rightarrow> client_error \<Rightarrow> provision_attempt" where
  "failed_assign want e =
     (let status = ae_status (cl_error e) in
      \<lparr>pa_accelerator = want, pa_outcome = Attempt_Failed, pa_granted = None, pa_http_status = status,
       pa_error = Some (client_text e), pa_body = assign_body e,
       pa_retry_class = Some (assign_retry_class status (cl_requests_error e))\<rparr>)"

definition granted_attempt :: "string \<Rightarrow> string \<Rightarrow> provision_attempt" where
  "granted_attempt want granted =
     \<lparr>pa_accelerator = want, pa_outcome = Granted, pa_granted = Some granted, pa_http_status = None,
      pa_error = None, pa_body = None, pa_retry_class = None\<rparr>"

definition refused_attempt :: "string \<Rightarrow> string \<Rightarrow> provision_attempt" where
  "refused_attempt want granted =
     \<lparr>pa_accelerator = want, pa_outcome = Refused_Cpu, pa_granted = Some granted, pa_http_status = None,
      pa_error = None, pa_body = None, pa_retry_class = Some Retry_Different\<rparr>"

definition body_suffix :: "string option \<Rightarrow> string" where
  "body_suffix b = (case b of None \<Rightarrow> [] | Some t \<Rightarrow> if t = [] then [] else ''; response body: '' @ t)"

definition too_many :: "provision_attempt \<Rightarrow> problem" where
  "too_many a =
     phase_fails P_Provision
       (''account is at its concurrent-assignment limit: '' @ show_opt id (pa_error a) @ body_suffix (pa_body a))
       (Some Fix_Human) [''run `mighty-colab sessions` and stop what you are not using'']"

text \<open>No candidate was granted.\<close>

definition capacity_hints :: "retry_class option \<Rightarrow> string list" where
  "capacity_hints cl =
     (if cl = Some Fix_Human then
        [''Colab refused the account: a 400 means no quota or entitlement ''
         @ ''for that accelerator on this account's plan; 401/403 are its credentials or OAuth scope.'']
      else if cl = Some Retry_Different then
        [''Colab capacity varies by hour; a different accelerator in ''
         @ ''`accelerator.prefer` is usually available sooner than the same one later.'',
         ''Set `accelerator.accept_cpu: true` only if the workload is ''
         @ ''genuinely useful without a GPU.'']
      else [])"

definition none_granted :: "string list \<Rightarrow> provision_attempt list \<Rightarrow> problem" where
  "none_granted candidates attempts =
     (let cl = strongest (map pa_retry_class attempts) in
      phase_fails P_Provision
        (''no acceptable accelerator from '' @ repr (JArr (map JStr candidates)) @ '': ''
         @ join ''; '' (map provision_summary attempts)) cl (capacity_hints cl))"

text \<open>\<open>_is_scope_error\<close> of \<open>commands/session.py\<close>\<close>

definition is_scope_error :: "client_error \<Rightarrow> bool" where
  "is_scope_error e =
     (let body = (case cl_body e of None \<Rightarrow> [] | Some b \<Rightarrow> b) in
      py_in ''SCOPE_NOT_PERMITTED'' body \<or> py_in ''insufficient authentication scopes'' body)"

definition preflight_hint :: "client_error \<Rightarrow> string" where
  "preflight_hint e =
     ''keep-alive pre-flight failed (''
     @ (case ae_status (cl_error e) of
          Some n \<Rightarrow> if n = 0 then [] else ''HTTP '' @ show_int n @ ''; '' | None \<Rightarrow> [])
     @ client_text e
     @ (case response_body_if_json e assign_body_chars of
          None \<Rightarrow> []
        | Some b \<Rightarrow> if b = [] then [] else ''; response body: '' @ redact_credentials (join '' '' (py_words b)))
     @ ''); the daemon was started anyway''"

definition scope_missing :: problem where
  "scope_missing =
     phase_fails P_Provision
       ''keep-alive pre-flight failed: credentials are missing an OAuth scope required by Colab''
       (Some Fix_Human) [''re-authenticate with the colaboratory and userinfo.email scopes'']"

definition no_daemon :: "py_error \<Rightarrow> problem" where
  "no_daemon e =
     phase_fails P_Provision
       (''the keep-alive daemon could not be started ('' @ describe_error e @ ''); ''
        @ ''the job was applied with keep-alive on, so it stops here: apply ''
        @ ''with --no-keepalive to run without one'') (Some Fix_Human) []"

text \<open>\<open>session_store.add\<close> of the object's session, an exception leaving the method.\<close>

definition save_session ::
  "('t, 'r, 'w) site \<Rightarrow> session_state \<Rightarrow> ('t, 'r) orch \<times> 'w \<Rightarrow> (problem, unit) outcome \<times> ('t, 'r) orch \<times> 'w" where
  "save_session st ss = (\<lambda>(oc, w).
     case st_add st ss w of
       (Inl e, w) \<Rightarrow> (Inl (Raised e), oc\<lparr>oc_session := Some ss\<rparr>, w)
     | (Inr _, w) \<Rightarrow> (Inr (), oc\<lparr>oc_session := Some ss\<rparr>, w))"

definition spawn_daemon ::
  "('t, 'r, 'w) site \<Rightarrow> session_state \<Rightarrow> ('t, 'r) orch \<times> 'w \<Rightarrow> (problem, unit) outcome \<times> ('t, 'r) orch \<times> 'w" where
  "spawn_daemon st ss s =
     then_do (save_session st ss s) (\<lambda>_ (oc, w).
       (case st_spawn st ss w of
          (Inl e, w) \<Rightarrow> (Inl (no_daemon e), oc, w)
        | (Inr pid, w) \<Rightarrow> save_session st (ss\<lparr>ss_keep_alive_pid := pid\<rparr>) (oc, w)))"

definition start_keep_alive ::
  "('t, 'r, 'w) site \<Rightarrow> session_state \<Rightarrow> ('t, 'r) orch \<times> 'w \<Rightarrow> (problem, unit) outcome \<times> ('t, 'r) orch \<times> 'w" where
  "start_keep_alive st ss = (\<lambda>(oc, w).
     if env_keep_alive_disabled (oc_env oc) then
       save_session st (ss\<lparr>ss_keep_alive_disabled := True\<rparr>) (oc, w)
     else
       (case co_keep_alive (st_colab st) (ss_endpoint ss) w of
          (Inr _, w) \<Rightarrow>
            (case rm_now (st_remote st) w of
               (at_time, w) \<Rightarrow>
                 spawn_daemon st (ss\<lparr>ss_keep_alive_failures := 0, ss_last_keep_alive_ping := Some at_time\<rparr>) (oc, w))
        | (Inl e, w) \<Rightarrow>
            if cl_colab_request_error e \<and> ae_status (cl_error e) = Some 403 \<and> is_scope_error e then
              (case release_assignment (st_colab st) (ss_endpoint ss) w of
                 ((released, detail), w) \<Rightarrow>
                   (Inl scope_missing,
                    (if released = C_Failed then
                       edit_env (hint (''releasing '' @ ss_endpoint ss @ '' after the keep-alive scope error failed (''
                         @ show_opt id detail @ ''); it may still be billing'')) oc
                     else (edit_env (\<lambda>env. env\<lparr>env_endpoint := None, env_session := None\<rparr>) oc)
                       \<lparr>oc_session := None\<rparr>), w))
            else spawn_daemon st (ss\<lparr>ss_keep_alive_failures := ss_keep_alive_failures ss + 1\<rparr>)
                   (edit_env (hint (preflight_hint e)) oc, w)))"

text \<open>A granted VM: the envelope holds its endpoint before anything that may fail.\<close>

definition session_of :: "string \<Rightarrow> assigned \<Rightarrow> session_state" where
  "session_of name a =
     (new_session name (as_token a) (as_url a) (as_endpoint a))
       \<lparr>ss_variant := as_variant a, ss_accelerator := as_accelerator a, ss_machine_shape := as_shape a\<rparr>"

definition take_vm ::
  "('t, 'r, 'w) site \<Rightarrow> string \<Rightarrow> assigned \<Rightarrow> provision_attempt list \<Rightarrow> ('t, 'r) orch \<times> 'w
    \<Rightarrow> (problem, unit) outcome \<times> ('t, 'r) orch \<times> 'w" where
  "take_vm st want a attempts = (\<lambda>(oc, w).
     (let name = ''job-'' @ st_job st; ss = session_of name a;
          oc = (edit_env (\<lambda>e. e\<lparr>env_session := Some name,
                 env_provision_attempts := (if attempts = [] then env_provision_attempts e
                   else attempts @ [granted_attempt want (as_accelerator a)])\<rparr>) oc)\<lparr>oc_session := Some ss\<rparr>
      in then_do (start_keep_alive st ss (persist st (oc, w))) (\<lambda>_ (oc, w).
           (case rm_now (st_remote st) w of
              (at_time, w) \<Rightarrow>
                (case read_compute_units (st_colab st) at_time ''provision'' (oc_env oc) w of
                   (reading, env, w) \<Rightarrow>
                     (Inr (), edit_env (\<lambda>_. env\<lparr>env_compute_units_at_provision := reading\<rparr>) oc, w))))))"

definition cpu_for_gpu :: "string \<Rightarrow> string \<Rightarrow> bool" where
  "cpu_for_gpu granted want \<longleftrightarrow> granted \<in> {''NONE'', ''UNRECOGNIZED''} \<and> want \<noteq> ''NONE''"

fun try_candidates ::
  "('t, 'r, 'w) site \<Rightarrow> string list \<Rightarrow> string list \<Rightarrow> provision_attempt list \<Rightarrow> ('t, 'r) orch \<times> 'w
    \<Rightarrow> (problem, unit) outcome \<times> ('t, 'r) orch \<times> 'w" where
  "try_candidates st all [] attempts (oc, w) =
     (Inl (none_granted all attempts), edit_env (\<lambda>e. e\<lparr>env_provision_attempts := attempts\<rparr>) oc, w)"
| "try_candidates st all (want # wants) attempts (oc, w) =
     (let oc = edit_env (\<lambda>e. e\<lparr>env_requested_accelerator := Some want\<rparr>) oc in
      case co_assign (st_colab st) (runtime_options want) w of
        (Inl e, w) \<Rightarrow>
          if cl_too_many e then
            (let a = (failed_assign want e)\<lparr>pa_retry_class := Some Fix_Human\<rparr> in
             (Inl (too_many a), edit_env (\<lambda>e. e\<lparr>env_provision_attempts := attempts @ [a]\<rparr>) oc, w))
          else try_candidates st all wants (attempts @ [failed_assign want e]) (oc, w)
      | (Inr a, w) \<Rightarrow>
          (let granted = as_accelerator a;
               oc = edit_env (\<lambda>e. e\<lparr>env_actual_accelerator := Some granted, env_endpoint := Some (as_endpoint a)\<rparr>) oc
           in if cpu_for_gpu granted want then
                (case release_assignment (st_colab st) (as_endpoint a) w of
                   ((released, detail), w) \<Rightarrow>
                     if released = C_Failed then
                       (Inl (phase_fails P_Provision
                          (want @ '' was granted as '' @ granted @ '' and releasing it ('' @ as_endpoint a
                           @ '') failed: '' @ show_opt id detail) (Some Retry_Same) []), oc, w)
                     else try_candidates st all wants (attempts @ [refused_attempt want granted])
                            (edit_env (\<lambda>e. e\<lparr>env_endpoint := None\<rparr>) oc, w))
              else take_vm st want a attempts (oc, w)))"

definition candidates :: "job_spec \<Rightarrow> string list" where
  "candidates spec =
     acc_prefer (sp_accelerator spec) @ (if acc_accept_cpu (sp_accelerator spec) then [''NONE''] else [])"

definition provision ::
  "('t, 'r, 'w) site \<Rightarrow> ('t, 'r) orch \<times> 'w \<Rightarrow> (problem, unit) outcome \<times> ('t, 'r) orch \<times> 'w" where
  "provision st s =
     try_candidates st (candidates (st_spec st)) (candidates (st_spec st)) [] (set_phase st P_Provision s)"

section \<open>Kernel calls\<close>

definition runtime_handle ::
  "('t, 'r, 'w) site \<Rightarrow> ('t, 'r) orch \<times> 'w \<Rightarrow> (problem, 'r) outcome \<times> ('t, 'r) orch \<times> 'w" where
  "runtime_handle st = (\<lambda>(oc, w).
     case oc_runtime oc of
       Some r \<Rightarrow> (Inr r, oc, w)
     | None \<Rightarrow>
         (case oc_session oc of
            None \<Rightarrow> (Inl (py_raise ''AttributeError'' (repr_str ''NoneType'' @ '' object has no attribute '' @ repr_str ''url'')), oc, w)
          | Some ss \<Rightarrow>
              (case st_connect st ss w of
                 (Inl e, w) \<Rightarrow> (Inl (Raised e), oc, w)
               | (Inr r, w) \<Rightarrow> (Inr r, oc\<lparr>oc_runtime := Some r\<rparr>, w))))"

text \<open>\<open>_sync_runtime_identity\<close>: the kernel's ids go into the session record.\<close>

definition new_id :: "string option \<Rightarrow> string option \<Rightarrow> string option" where
  "new_id value old = (case value of Some v \<Rightarrow> if v \<noteq> [] then Some v else old | None \<Rightarrow> old)"

definition sync_identity ::
  "('t, 'r, 'w) site \<Rightarrow> ('t, 'r) orch \<times> 'w \<Rightarrow> (problem, unit) outcome \<times> ('t, 'r) orch \<times> 'w" where
  "sync_identity st = (\<lambda>(oc, w).
     case (oc_session oc, oc_runtime oc) of
       (Some ss, Some r) \<Rightarrow>
         (let new = ss\<lparr>ss_kernel_id := new_id (fst (st_identity st r)) (ss_kernel_id ss),
                ss_session_id := new_id (snd (st_identity st r)) (ss_session_id ss)\<rparr>
          in if new = ss then (Inr (), oc, w) else save_session st new (oc, w))
     | _ \<Rightarrow> (Inr (), oc, w))"

text \<open>\<open>finally: self._sync_runtime_identity()\<close>: what it raises replaces the outcome.\<close>

definition then_sync ::
  "('t, 'r, 'w) site \<Rightarrow> (problem, 'a) outcome \<Rightarrow> ('t, 'r) orch \<times> 'w \<Rightarrow> (problem, 'a) outcome \<times> ('t, 'r) orch \<times> 'w" where
  "then_sync st r s = then_do (sync_identity st s) (\<lambda>_ s. (r, s))"

definition was_interrupted :: "json list \<Rightarrow> bool" where
  "was_interrupted outputs =
     list_ex (\<lambda>v. case v of
        JObj d \<Rightarrow> jget d ''output_type'' = JStr ''error'' \<and> jget d ''ename'' = JStr ''KeyboardInterrupt''
      | _ \<Rightarrow> False) outputs"

definition execute_code ::
  "('t, 'r, 'w) site \<Rightarrow> kernel_code \<Rightarrow> nat \<Rightarrow> phase \<Rightarrow> string list \<Rightarrow> ('t, 'r) orch \<times> 'w
    \<Rightarrow> (problem, json list) outcome \<times> ('t, 'r) orch \<times> 'w" where
  "execute_code st kc limit p hints s =
     then_do (runtime_handle st s) (\<lambda>r (oc, w).
       (case st_execute st r kc limit w of
          (res, r, w) \<Rightarrow>
            then_sync st
              (case res of
                 Inl e \<Rightarrow> Inl (kernel_call_error p e hints)
               | Inr outputs \<Rightarrow>
                   if was_interrupted outputs then Inl (kernel_call_error p cell_interrupted hints) else Inr outputs)
              (oc\<lparr>oc_runtime := Some r\<rparr>, w)))"

definition close_runtime :: "('t, 'r, 'w) site \<Rightarrow> ('t, 'r) orch \<times> 'w \<Rightarrow> ('t, 'r) orch \<times> 'w" where
  "close_runtime st = (\<lambda>(oc, w).
     case oc_runtime oc of
       None \<Rightarrow> (oc, w)
     | Some r \<Rightarrow>
         (case st_stop st r w of
            (Inr _, w) \<Rightarrow> (oc\<lparr>oc_runtime := None\<rparr>, w)
          | (Inl e, w) \<Rightarrow>
              (edit_env (hint (''local runtime client close failed ('' @ describe_error e @ '')''))
                 (oc\<lparr>oc_runtime := None\<rparr>), w)))"

section \<open>Install and restart\<close>

definition install_log_hint :: string where
  "install_log_hint = ''full installer output: install.log in the local job directory, copied from the VM before release''"

definition install_record :: "classified_attempt \<Rightarrow> install_attempt" where
  "install_record a =
     \<lparr>ia_installer = ra_installer a, ia_version = ra_version a, ia_command = ra_command a,
      ia_index = ra_index a, ia_exit_code = ra_exit_code a, ia_timed_out = ra_timed_out a,
      ia_seconds = ra_seconds a, ia_failure = ca_failure a, ia_key_lines = ca_key_lines a\<rparr>"

text \<open>No installer reported: what the kernel's error outputs say, or the end of its text.\<close>

definition cell_error :: "json \<Rightarrow> string list" where
  "cell_error v =
     (case v of
        JObj d \<Rightarrow>
          if jget d ''output_type'' = JStr ''error''
          then [py_str (jget d ''ename'') @ '': '' @ py_str (jget d ''evalue'')] else []
      | _ \<Rightarrow> [])"

definition no_installer :: "json list \<Rightarrow> problem" where
  "no_installer outputs =
     (let errors = concat (map cell_error outputs) in
      phase_fails P_Install
        (''the install step failed on the VM before an installer reported: ''
         @ redact_credentials (if errors = [] then tail_of (outputs_text outputs) else join ''; '' errors))
        (Some Do_Not_Retry) [install_log_hint])"

definition installed :: "(rat \<Rightarrow> string) \<Rightarrow> classified_attempt list \<Rightarrow> job_envelope \<Rightarrow> job_envelope" where
  "installed float attempts env =
     (let final = last attempts; first = hd attempts in
      if length attempts = 1 then
        hint (''dependencies installed with '' @ short_version (ra_version final) @ '' in ''
              @ float (ra_seconds final) @ ''s'') env
      else
        hint (installer_name (ra_installer first) @ '' failed ('' @ show_opt failure_name (ca_failure first) @ ''): ''
              @ (case ca_key_lines first of [] \<Rightarrow> ''no error line'' | l # _ \<Rightarrow> l)
              @ ''; dependencies installed with '' @ short_version (ra_version final) @ '' instead'')
          (env\<lparr>env_install_attempts := map install_record attempts\<rparr>))"

definition not_installed :: "string list \<Rightarrow> classified_attempt list \<Rightarrow> problem" where
  "not_installed deps attempts =
     (case install_verdict (map ca_failure attempts) of
        (cl, failure) \<Rightarrow>
          phase_fails P_Install (failure_reason deps attempts failure) (Some cl)
            [failure_hint failure, install_log_hint])"

definition install ::
  "('t, 'r, 'w) site \<Rightarrow> ('t, 'r) orch \<times> 'w \<Rightarrow> (problem, unit) outcome \<times> ('t, 'r) orch \<times> 'w" where
  "install st s =
     (let deps = sp_deps (st_spec st) in
      if deps = [] then (Inr (), s)
      else
        then_do (execute_code st (Kc_Install (remote_file (st_job st) ''install.log'') deps)
                   install_kernel_timeout P_Install [install_log_hint] (set_phase st P_Install s)) (\<lambda>outputs (oc, w).
          (case install_result_payload (outputs_text outputs) of
             None \<Rightarrow> (Inl (no_installer outputs), oc, w)
           | Some payload \<Rightarrow>
               (case st_attempts st payload of
                  Inl e \<Rightarrow> (Inl (Raised e), oc, w)
                | Inr raws \<Rightarrow>
                    (let attempts = map classified raws in
                     if attempts = [] then (Inl (py_raise ''IndexError'' ''list index out of range''), oc, w)
                     else if ra_exit_code (last attempts) = Some 0
                       then (Inr (), edit_env (installed (st_float st) attempts) oc, w)
                     else (Inl (not_installed deps attempts),
                           edit_env (\<lambda>e. e\<lparr>env_install_attempts := map install_record attempts\<rparr>) oc, w))))))"

definition restart_timeout :: nat where "restart_timeout = 60"

definition restart_failed :: "kernel_error \<Rightarrow> problem" where
  "restart_failed e =
     (let what = (if ke_timeout e \<or> err_type (ke_error e) \<in> {''Timeout'', ''ReadTimeout'', ''ConnectTimeout''}
            then ''kernel restart did not complete within '' @ show_nat restart_timeout @ ''s''
            else ''kernel restart failed'')
      in phase_fails P_Restart (what @ '': '' @ describe_error (ke_error e)) (Some Retry_Same) [])"

definition restart ::
  "('t, 'r, 'w) site \<Rightarrow> ('t, 'r) orch \<times> 'w \<Rightarrow> (problem, unit) outcome \<times> ('t, 'r) orch \<times> 'w" where
  "restart st s =
     (if sp_deps (st_spec st) = [] then (Inr (), s)
      else
        then_do (runtime_handle st (set_phase st P_Restart s)) (\<lambda>r (oc, w).
          (case st_restart st r restart_timeout w of
             (res, r, w) \<Rightarrow>
               then_sync st (case res of Inl e \<Rightarrow> Inl (restart_failed e) | Inr _ \<Rightarrow> Inr ())
                 (oc\<lparr>oc_runtime := Some r\<rparr>, w))))"

section \<open>Verify\<close>

definition verify_timeout :: nat where "verify_timeout = 180"

definition wants_gpu :: "string option \<Rightarrow> bool" where
  "wants_gpu actual = (case actual of None \<Rightarrow> False | Some a \<Rightarrow> a \<notin> {''NONE'', ''UNRECOGNIZED''})"

definition missing_deps :: "json_obj \<Rightarrow> string list" where
  "missing_deps deps = map fst (List.filter (\<lambda>(_, v). prefix ''MISSING'' (py_str v)) deps)"

definition declared_bytes :: "plan \<Rightarrow> int \<times> int \<times> int" where
  "declared_bytes p =
     (sum_list (map sf_size_bytes (pl_source_files p)), input_bytes p,
      sum_list (map (\<lambda>a. case ai_size_bytes a of Some n \<Rightarrow> n | None \<Rightarrow> 0) (sp_artifacts (pl_spec p))))"

definition sizes_text :: "int \<times> int \<times> int \<Rightarrow> string" where
  "sizes_text = (\<lambda>(source, input, output).
     ''source='' @ show_int source @ '' input='' @ show_int input @ '' output='' @ show_int output)"

text \<open>
  \<open>_check_disk\<close>: \<open>free\<close> is what the probe printed; a value that is no number raises
  once it is multiplied.
\<close>

definition number :: "json \<Rightarrow> rat option" where
  "number v = (case v of JFloat r _ \<Rightarrow> Some r | _ \<Rightarrow> map_option of_int (as_int v))"

definition check_disk :: "json \<Rightarrow> int \<times> int \<times> int \<Rightarrow> (problem, unit) outcome" where
  "check_disk free sizes =
     (let declared = fst sizes + fst (snd sizes) + snd (snd sizes) in
      if \<not> truthy free \<or> declared = 0 then Inr ()
      else (case number free of
          None \<Rightarrow> Inl (py_raise ''TypeError'' (''can'' @ [CHR 0x27] @ ''t multiply sequence by non-int of type ''
                   @ repr_str ''float''))
        | Some n \<Rightarrow>
            if n * 8 / 10 < of_int declared then
              Inl (phase_fails P_Verify (sizes_text sizes @ '' bytes but only '' @ py_str free @ '' free on /content'')
                (Some Retry_Different) [''request a high-RAM/larger-disk shape, or reduce staged data/output''])
            else Inr ()))"

definition check_url_expiry :: "('t, 'r, 'w) site \<Rightarrow> int \<Rightarrow> (problem, unit) outcome" where
  "check_url_expiry st now =
     (case revalidate_expiry (st_decode st) (st_fiso st) (st_plan st) True now of
        Inl e \<Rightarrow> Inl (Raised e)
      | Inr problems \<Rightarrow>
          if problems = [] then Inr ()
          else Inl (phase_fails P_Verify
            (''signed URLs no longer last until the end of the run: '' @ join ''; '' (map dg_message problems))
            (Some Refresh_Urls) [''re-sign the URLs with a longer expiry, re-plan and re-apply'']))"

text \<open>What the probe printed, read as the code reads it.\<close>

definition verify_payload :: "('t, 'r, 'w) site \<Rightarrow> string \<Rightarrow> json" where
  "verify_payload st output =
     (case extract_tagged output ''VERIFY='' of
        None \<Rightarrow> JNull
      | Some t \<Rightarrow> (case st_loads st t of Inl _ \<Rightarrow> JNull | Inr v \<Rightarrow> v))"

definition verified_deps :: "json \<Rightarrow> (problem, json_obj \<times> json_obj) outcome" where
  "verified_deps v =
     (case v of
        JNull \<Rightarrow> Inl (phase_fails P_Verify ''verification probe produced no parseable output'' (Some Retry_Same) [])
      | JObj d \<Rightarrow>
          (case map_of d ''deps'' of
             None \<Rightarrow> Inl (py_raise ''KeyError'' (repr_str ''deps''))
           | Some (JObj deps) \<Rightarrow> Inr (d, deps)
           | Some x \<Rightarrow> Inl (py_raise ''AttributeError''
               (repr_str (type_name x) @ '' object has no attribute '' @ repr_str ''items'')))
      | _ \<Rightarrow> Inl (py_raise ''TypeError'' (repr_str (type_name v) @ '' object is not subscriptable'')))"

definition verify_gates :: "string option \<Rightarrow> json_obj \<times> json_obj \<Rightarrow> (problem, unit) outcome" where
  "verify_gates actual = (\<lambda>(d, deps).
     if missing_deps deps \<noteq> [] then
       Inl (phase_fails P_Verify
         (''declared dependencies not importable after restart: '' @ repr (JArr (map JStr (missing_deps deps))))
         (Some Fix_Code) [''the distribution name in `deps` may differ from the import name''])
     else if wants_gpu actual \<and> \<not> truthy (jget d ''device'') then
       Inl (phase_fails P_Verify
         (''requested '' @ show_opt id actual @ '' but no GPU is visible to the runtime after restart'')
         (Some Retry_Different)
         [''the VM was assigned a GPU that the driver cannot see; a fresh assignment usually clears it''])
     else Inr ())"

definition verified_hint :: "json_obj \<Rightarrow> int \<times> int \<times> int \<Rightarrow> string" where
  "verified_hint d sizes =
     ''verified device='' @ py_str (jget d ''device'') @ '' '' @ sizes_text sizes @ '' free='' @ py_str (jget d ''free'')"

definition verify ::
  "('t, 'r, 'w) site \<Rightarrow> ('t, 'r) orch \<times> 'w \<Rightarrow> (problem, unit) outcome \<times> ('t, 'r) orch \<times> 'w" where
  "verify st s =
     then_do (execute_code st (Kc_Verify (map dep_name (sp_deps (st_spec st)))) verify_timeout P_Verify []
                (set_phase st P_Verify s)) (\<lambda>outputs s.
     then_do (verified_deps (verify_payload st (outputs_text outputs)), s) (\<lambda>(d, deps) (oc, w).
     then_do (verify_gates (env_actual_accelerator (oc_env oc)) (d, deps), oc, w) (\<lambda>_ (oc, w).
       (let sizes = declared_bytes (st_plan st) in
        then_do (check_disk (jget d ''free'') sizes, edit_env (hint (verified_hint d sizes)) oc, w) (\<lambda>_ (oc, w).
          (case st_micros st w of
             (now, w) \<Rightarrow>
               then_do (check_url_expiry st now, oc, w) (\<lambda>_ s. (Inr (), persist st s))))))))"

section \<open>The credential channel\<close>

definition launch_timeout :: nat where "launch_timeout = 120"

definition channel_dir :: "string \<Rightarrow> string" where
  "channel_dir job = remote_file job ''mighty_runtime/.secrets''"

definition channel_path :: "string \<Rightarrow> string" where
  "channel_path job = channel_dir job @ ''/transfer.json''"

definition channel_step ::
  "('t, 'r, 'w) site \<Rightarrow> kernel_code \<Rightarrow> string \<Rightarrow> string \<Rightarrow> ('t, 'r) orch \<times> 'w
    \<Rightarrow> (problem, unit) outcome \<times> ('t, 'r) orch \<times> 'w" where
  "channel_step st kc marker what s =
     then_do (execute_code st kc launch_timeout P_Stage [] s) (\<lambda>outputs s.
       if py_in marker (outputs_text outputs) then (Inr (), s)
       else (Inl (phase_fails P_Stage (''credential channel '' @ what @ '' failed: '' @ tail_of (outputs_text outputs))
               (Some Retry_Same) []), s))"

definition prepare_secret_channel ::
  "('t, 'r, 'w) site \<Rightarrow> ('t, 'r) orch \<times> 'w \<Rightarrow> (problem, unit) outcome \<times> ('t, 'r) orch \<times> 'w" where
  "prepare_secret_channel st s =
     then_do (channel_step st (Kc_Prepare (channel_dir (st_job st))) ''SECRET_CHANNEL_READY=1'' ''preparation'' s)
       (\<lambda>_ (oc, w). (Inr (), oc\<lparr>oc_prepared := True\<rparr>, w))"

definition seal_secret_channel ::
  "('t, 'r, 'w) site \<Rightarrow> ('t, 'r) orch \<times> 'w \<Rightarrow> (problem, unit) outcome \<times> ('t, 'r) orch \<times> 'w" where
  "seal_secret_channel st s =
     channel_step st (Kc_Seal (channel_path (st_job st)) (secrets_required (st_spec st)))
       ''SECRET_CHANNEL_SEALED=1'' ''sealing'' s"

text \<open>The two ways to remove the file: whether each proved it absent, and what it said otherwise.\<close>

definition kernel_removal ::
  "('t, 'r, 'w) site \<Rightarrow> ('t, 'r) orch \<times> 'w \<Rightarrow> (bool \<times> string) \<times> ('t, 'r) orch \<times> 'w" where
  "kernel_removal st s =
     (case execute_code st (Kc_Remove (channel_path (st_job st)) (channel_dir (st_job st))) launch_timeout
             P_Cleanup [] s of
        (Inl e, s) \<Rightarrow> ((False, ''the kernel call failed ('' @ describe_error (problem_error e) @ '')''), s)
      | (Inr outputs, s) \<Rightarrow>
          ((py_in ''SECRET_CHANNEL_ABSENT=1'' (outputs_text outputs), ''the kernel did not confirm it''), s))"

definition contents_removal ::
  "('t, 'r, 'w) site \<Rightarrow> ('t, 'r) orch \<times> 'w \<Rightarrow> (bool \<times> string) \<times> ('t, 'r) orch \<times> 'w" where
  "contents_removal st s =
     (case job_transport st s of
        (Inl e, s) \<Rightarrow> ((False, ''Contents removal failed ('' @ describe_error (problem_error e) @ '')''), s)
      | (Inr t, oc, w) \<Rightarrow>
          (case st_remove st (channel_path (st_job st)) t w of
             (Inl e, t, w) \<Rightarrow>
               ((False, ''Contents removal failed ('' @ describe_error e @ '')''), oc\<lparr>oc_transport := Some t\<rparr>, w)
           | (Inr status, t, w) \<Rightarrow>
               ((status \<in> {Rs_Ok, Rs_Session_Lost}, ''Contents removal returned '' @ status_name status),
                oc\<lparr>oc_transport := Some t\<rparr>, w)))"

definition cleanup_secret_channel ::
  "('t, 'r, 'w) site \<Rightarrow> ('t, 'r) orch \<times> 'w \<Rightarrow> bool \<times> ('t, 'r) orch \<times> 'w" where
  "cleanup_secret_channel st = (\<lambda>(oc, w).
     if \<not> oc_prepared oc then (True, oc, w)
     else if oc_session oc = None then
       (False, oc\<lparr>oc_secret_problem := Some ''no session to reach the VM with''\<rparr>, w)
     else
       (case kernel_removal st (oc, w) of
          ((kernel_absent, kernel_note), s) \<Rightarrow>
            (case contents_removal st s of
               ((contents_absent, contents_note), oc, w) \<Rightarrow>
                 if kernel_absent \<or> contents_absent
                 then (True, oc\<lparr>oc_prepared := False, oc_secret_problem := None\<rparr>, w)
                 else (False, oc\<lparr>oc_secret_problem := Some (kernel_note @ ''; '' @ contents_note)\<rparr>, w))))"

section \<open>Launch\<close>

definition launch_request_of :: "('t, 'r, 'w) site \<Rightarrow> job_envelope \<Rightarrow> launch_request" where
  "launch_request_of st env =
     \<lparr>lr_dir = remote_root @ ''/'' @ st_job st, lr_job_id = st_job st,
      lr_deadline = bud_wall_clock (sp_budgets (st_spec st)), lr_cli_version = env_cli_version env,
      lr_entry = cs_entry (sp_code (st_spec st)), lr_secrets_required = secrets_required (st_spec st),
      lr_sync = bud_artifact_sync_interval (sp_budgets (st_spec st)), lr_args = cs_args (sp_code (st_spec st))\<rparr>"

definition running :: "('t, 'r, 'w) site \<Rightarrow> (job_envelope \<Rightarrow> job_envelope) \<Rightarrow> ('t, 'r) orch \<times> 'w \<Rightarrow> ('t, 'r) orch \<times> 'w" where
  "running st f = (\<lambda>(oc, w).
     case rm_now (st_remote st) w of
       (at_time, w) \<Rightarrow>
         persist st (edit_env (\<lambda>e. f (e\<lparr>env_workload := W_Running, env_started_at := Some at_time\<rparr>)) oc, w))"

text \<open>The pid of the runner, or \<open>None\<close> when the reply was lost.\<close>

definition launch ::
  "('t, 'r, 'w) site \<Rightarrow> ('t, 'r) orch \<times> 'w \<Rightarrow> (problem, int option) outcome \<times> ('t, 'r) orch \<times> 'w" where
  "launch st s =
     (case set_phase st P_Run s of
        (oc, w) \<Rightarrow>
          (case execute_code st (Kc_Launch (launch_request_of st (oc_env oc))) launch_timeout P_Run [] (oc, w) of
             (Inl (Phase_Problem pe), s) \<Rightarrow>
               if pe_transport pe = Some True then
                 (Inr None, running st (hint (''the launch call'' @ [CHR 0x27] @ ''s reply was lost ('' @ pe_reason pe
                    @ ''); the runner is observed through its files instead'')) s)
               else (Inl (Phase_Problem pe), s)
           | (Inl e, s) \<Rightarrow> (Inl e, s)
           | (Inr outputs, s) \<Rightarrow>
               (case extract_tagged (outputs_text outputs) ''LAUNCHED_PID='' of
                  None \<Rightarrow>
                    (Inl (phase_fails P_Run (''launch RPC returned no pid: '' @ tail_of (outputs_text outputs))
                       (Some Retry_Same) []), s)
                | Some t \<Rightarrow>
                    (case parse_int t of
                       None \<Rightarrow> (Inl (py_raise ''ValueError''
                           (''invalid literal for int() with base 10: '' @ repr_str t)), running st id s)
                     | Some pid \<Rightarrow> (Inr (Some pid), running st id s)))))"

section \<open>Cleanup\<close>

definition stop_keep_alive :: "('t, 'r, 'w) site \<Rightarrow> ('t, 'r) orch \<times> 'w \<Rightarrow> ('t, 'r) orch \<times> 'w" where
  "stop_keep_alive st = (\<lambda>(oc, w).
     case Option.bind (oc_session oc) ss_keep_alive_pid of
       Some pid \<Rightarrow> (oc, if pid = 0 then w else st_kill st pid w)
     | None \<Rightarrow> (oc, w))"

definition drop_session :: "('t, 'r, 'w) site \<Rightarrow> ('t, 'r) orch \<times> 'w \<Rightarrow> ('t, 'r) orch \<times> 'w" where
  "drop_session st = (\<lambda>(oc, w).
     case oc_session oc of
       None \<Rightarrow> (oc, w)
     | Some ss \<Rightarrow>
         (case st_drop st (ss_name ss) w of
            (Inr _, w) \<Rightarrow> (oc, w)
          | (Inl e, w) \<Rightarrow>
              (edit_env (hint (''local session record '' @ ss_name ss @ '' not removed ('' @ describe_error e
                 @ ''); `mighty-colab sessions` may still list it'')) oc, w)))"

definition copy_records_hint ::
  "('t, 'r, 'w) site \<Rightarrow> ('t, 'r) orch \<times> 'w \<Rightarrow> ('t, 'r) orch \<times> 'w" where
  "copy_records_hint st s =
     (case job_transport st s of
        (Inl e, oc, w) \<Rightarrow>
          (edit_env (hint (''VM records not copied before release ('' @ describe_error (problem_error e) @ '')'')) oc, w)
      | (Inr t, oc, w) \<Rightarrow>
          (case copy_vm_records (st_remote st) (st_local_dir st) (st_job st) vm_record_copy_budget t w of
             (h, t, w) \<Rightarrow> (edit_env (hint h) (oc\<lparr>oc_transport := Some t\<rparr>), w)))"

definition released :: "string \<Rightarrow> string \<Rightarrow> cleanup \<times> string option \<Rightarrow> compute_unit_reading option
    \<Rightarrow> job_envelope \<Rightarrow> job_envelope" where
  "released job endpoint outcome reading env =
     (let env = env\<lparr>env_cleanup := fst outcome, env_compute_units_at_release := reading\<rparr>;
          env = (if fst outcome = C_Failed then record_failure P_Cleanup env else env)
      in case snd outcome of
           None \<Rightarrow> env
         | Some detail \<Rightarrow>
             if detail = [] then env
             else hint (''teardown failed ('' @ detail @ ''); endpoint '' @ endpoint
               @ '' may still be billing -- retry with `mighty-colab job destroy '' @ job @ ''`'') env)"

definition release_vm :: "('t, 'r, 'w) site \<Rightarrow> string \<Rightarrow> ('t, 'r) orch \<times> 'w \<Rightarrow> ('t, 'r) orch \<times> 'w" where
  "release_vm st endpoint = (\<lambda>(oc, w).
     case release_assignment (st_colab st) endpoint w of
       (outcome, w) \<Rightarrow>
         (case rm_now (st_remote st) w of
            (at_time, w) \<Rightarrow>
              (case read_compute_units (st_colab st) at_time ''release'' (oc_env oc) w of
                 (reading, env, w) \<Rightarrow> (edit_env (\<lambda>_. released (st_job st) endpoint outcome reading env) oc, w))))"

definition cleanup_job ::
  "('t, 'r, 'w) site \<Rightarrow> bool \<Rightarrow> ('t, 'r) orch \<times> 'w \<Rightarrow> ('t, 'r) orch \<times> 'w" where
  "cleanup_job st leave_up s =
     (case set_phase st P_Cleanup (close_runtime st s) of
        (oc, w) \<Rightarrow>
          (case env_endpoint (oc_env oc) of
             Some endpoint \<Rightarrow>
               if endpoint = [] then
                 (case drop_session st (stop_keep_alive st (oc, w)) of
                    (oc, w) \<Rightarrow> persist st (edit_env (\<lambda>e. e\<lparr>env_cleanup := C_Already_Absent\<rparr>) oc, w))
               else if leave_up then persist st (edit_env (record_vm_kept (st_job st)) oc, w)
               else persist st (drop_session st (release_vm st endpoint
                      (stop_keep_alive st (copy_records_hint st (oc, w)))))
           | None \<Rightarrow>
               (case drop_session st (stop_keep_alive st (oc, w)) of
                  (oc, w) \<Rightarrow> persist st (edit_env (\<lambda>e. e\<lparr>env_cleanup := C_Already_Absent\<rparr>) oc, w))))"

end
