(* ===== verification/Assignment.thy ===== *)
theory Assignment
  imports Phases
begin

text \<open>
  What provisioning and cleanup do to the VM and to the envelope.  The steps of the end
  of a job add hints and edit only the fields cleanup owns (\<open>same_verdict\<close>,
  \<open>cleaned\<close>); the VMs the account is billed for are a function of the world, and
  provisioning leaves none that the envelope does not name while cleanup frees the one
  it names (\<open>site_bills\<close>, \<open>accounted\<close>); and a grant is one the spec asks for.
\<close>

section \<open>What the end of a job keeps\<close>

text \<open>A step that adds hints to the envelope and edits nothing else of it.\<close>

definition only_hints :: "job_envelope \<Rightarrow> job_envelope \<Rightarrow> bool" where
  "only_hints env env' \<longleftrightarrow> (\<exists>hs. env' = env\<lparr>env_hints := env_hints env @ hs\<rparr>)"

lemma only_hints_refl [simp, intro]: "only_hints env env"
  unfolding only_hints_def by (rule exI [where x = "[]"]) simp

lemma only_hints_trans [trans]: "only_hints a b \<Longrightarrow> only_hints b c \<Longrightarrow> only_hints a c"
  unfolding only_hints_def by (elim exE) (auto intro!: exI)

lemma only_hints_hint [intro]: "only_hints env (hint h env)"
  by (auto simp: only_hints_def hint_def)

lemma oc_env_edit [simp]: "oc_env (edit_env f oc) = f (oc_env oc)"
  by (simp add: edit_env_def edit_def)

lemma edit_env_same [simp]:
  "oc_prepared (edit_env f oc) = oc_prepared oc" "oc_session (edit_env f oc) = oc_session oc"
  "oc_runtime (edit_env f oc) = oc_runtime oc" "oc_transport (edit_env f oc) = oc_transport oc"
  "oc_secret_problem (edit_env f oc) = oc_secret_problem oc"
  by (simp_all add: edit_env_def)

lemma only_hints_fields:
  assumes "only_hints env env'"
  shows "env_workload env' = env_workload env" "env_offload env' = env_offload env"
    "env_cleanup env' = env_cleanup env" "env_supervisor env' = env_supervisor env"
    "env_endpoint env' = env_endpoint env" "env_artifacts env' = env_artifacts env"
    "env_leave_up env' = env_leave_up env" "env_reason env' = env_reason env"
    "env_retry_class env' = env_retry_class env" "env_failed_phase env' = env_failed_phase env"
    "env_phase env' = env_phase env" "env_finished_at env' = env_finished_at env"
    "env_surviving_descendants env' = env_surviving_descendants env"
    "prefix (env_hints env) (env_hints env')"
  using assms by (auto simp: only_hints_def)

text \<open>What a step of the object keeps, whatever the world answers.\<close>

definition calm :: "('t, 'r) orch \<Rightarrow> ('t, 'r) orch \<Rightarrow> bool" where
  "calm oc oc' \<longleftrightarrow> only_hints (oc_env oc) (oc_env oc') \<and> oc_prepared oc' = oc_prepared oc"

lemma calm_refl [simp, intro]: "calm oc oc"
  by (simp add: calm_def)

lemma calm_trans [trans]: "calm a b \<Longrightarrow> calm b c \<Longrightarrow> calm a c"
  by (auto simp: calm_def intro: only_hints_trans)

lemma persist_eq [simp]: "persist st (oc, w) = (oc, rm_persist (st_remote st) (oc_env oc) w)"
  by (simp add: persist_def)

lemma fst_persist [simp]: "fst (persist st s) = fst s"
  by (cases s) simp

lemma set_phase_env: "oc_env (fst (set_phase st p s)) = (oc_env (fst s))\<lparr>env_phase := p\<rparr>"
  "oc_prepared (fst (set_phase st p s)) = oc_prepared (fst s)"
  by (cases s; simp add: set_phase_def)+

lemma close_runtime_calm: "calm (fst s) (fst (close_runtime st s))"
  by (cases s) (auto simp: close_runtime_def calm_def split: option.splits prod.splits sum.splits)

lemma job_transport_calm: "calm (fst s) (fst (snd (job_transport st s)))"
  by (cases s) (auto simp: job_transport_def calm_def split: option.splits prod.splits sum.splits)

lemma save_session_calm: "calm (fst s) (fst (snd (save_session st ss s)))"
  by (cases s) (auto simp: save_session_def calm_def split: prod.splits sum.splits)

lemma runtime_handle_calm: "calm (fst s) (fst (snd (runtime_handle st s)))"
  by (cases s) (auto simp: runtime_handle_def calm_def split: option.splits prod.splits sum.splits)

lemma sync_identity_calm: "calm (fst s) (fst (snd (sync_identity st s)))"
  using save_session_calm [of "s"]
  by (cases s) (auto simp: sync_identity_def Let_def split: option.splits)

lemma snd_then_do:
  "snd (then_do (r, s) f) = (case r of Inl e \<Rightarrow> s | Inr a \<Rightarrow> snd (f a s))"
  by (cases r) (simp_all add: then_do_def)

lemma execute_code_calm: "calm (fst s) (fst (snd (execute_code st kc limit p hints s)))"
proof -
  obtain r oc w where h: "runtime_handle st s = (r, oc, w)" by (metis prod.collapse)
  have 1: "calm (fst s) oc" using runtime_handle_calm [of s st] by (simp add: h)
  show ?thesis
  proof (cases r)
    case (Inl e)
    then show ?thesis using 1 by (simp add: execute_code_def h snd_then_do)
  next
    case (Inr k)
    obtain res k' w' where e: "st_execute st k kc limit w = (res, k', w')" by (metis prod.collapse)
    obtain r2 oc2 w2 where y: "sync_identity st (oc\<lparr>oc_runtime := Some k'\<rparr>, w') = (r2, oc2, w2)"
      by (metis prod.collapse)
    have "calm oc (oc\<lparr>oc_runtime := Some k'\<rparr>)" by (simp add: calm_def)
    also have "calm \<dots> oc2"
      using sync_identity_calm [of "(oc\<lparr>oc_runtime := Some k'\<rparr>, w')" st] by (simp add: y)
    finally have "calm oc oc2" .
    then show ?thesis
      using calm_trans [OF 1] by (simp add: execute_code_def h Inr snd_then_do e then_sync_def y split: sum.split)
  qed
qed

lemma kernel_removal_calm: "calm (fst s) (fst (snd (kernel_removal st s)))"
  using execute_code_calm [of s st]
  by (auto simp: kernel_removal_def split: prod.splits sum.splits) (metis fst_conv snd_conv)+

lemma contents_removal_calm: "calm (fst s) (fst (snd (contents_removal st s)))"
  using job_transport_calm [of s st]
  by (auto simp: contents_removal_def calm_def split: prod.splits sum.splits)

lemma drop_session_calm: "calm (fst s) (fst (drop_session st s))"
  by (cases s) (auto simp: drop_session_def calm_def split: option.splits prod.splits sum.splits)

lemma stop_keep_alive_same: "fst (stop_keep_alive st s) = fst s"
  by (cases s) (auto simp: stop_keep_alive_def split: option.splits)

lemma copy_records_hint_calm: "calm (fst s) (fst (copy_records_hint st s))"
proof -
  obtain r oc w where h: "job_transport st s = (r, oc, w)" by (metis prod.collapse)
  have 1: "calm (fst s) oc" using job_transport_calm [of s st] by (simp add: h)
  have "calm oc (fst (copy_records_hint st s))"
    by (auto simp: copy_records_hint_def h calm_def split: sum.split prod.split)
  then show ?thesis using 1 calm_trans by blast
qed

text \<open>The credential channel: confirmed removed exactly when the object no longer holds it.\<close>

lemma cleanup_secret_channel_env:
  assumes "cleanup_secret_channel st s = (removed, oc', w')"
  shows "only_hints (oc_env (fst s)) (oc_env oc')" "oc_prepared oc' \<longleftrightarrow> \<not> removed"
proof -
  obtain oc w where s: "s = (oc, w)" by (cases s)
  obtain ka kn s1 where k: "kernel_removal st (oc, w) = ((ka, kn), s1)" by (metis prod.collapse)
  obtain ca cn oc2 w2 where c: "contents_removal st s1 = ((ca, cn), oc2, w2)" by (metis prod.collapse)
  have 1: "calm oc (fst s1)" using kernel_removal_calm [of "(oc, w)" st] by (simp add: k)
  have "calm (fst s1) oc2" using contents_removal_calm [of s1 st] by (simp add: c)
  with 1 have 2: "calm oc oc2" by (rule calm_trans)
  show "only_hints (oc_env (fst s)) (oc_env oc')" "oc_prepared oc' \<longleftrightarrow> \<not> removed"
    using assms 2 by (auto simp: cleanup_secret_channel_def s k c calm_def split: if_splits)
qed


lemma release_assignment_cleanup:
  "release_assignment co endpoint w = (outcome, w') \<Longrightarrow> fst outcome \<in> {C_Released, C_Already_Absent, C_Failed}"
  by (auto simp: release_assignment_def split: prod.splits sum.splits if_splits)

text \<open>
  What cleanup may write: its own fields, and beside hints nothing of the verdict.
  Only a VM kept with processes still on it gives a missing reason and advice.
\<close>

definition same_verdict :: "job_envelope \<Rightarrow> job_envelope \<Rightarrow> bool" where
  "same_verdict a b \<longleftrightarrow>
     env_workload b = env_workload a \<and> env_offload b = env_offload a \<and> env_supervisor b = env_supervisor a
     \<and> env_exit_code b = env_exit_code a \<and> env_signal b = env_signal a \<and> env_exception b = env_exception a
     \<and> env_artifacts b = env_artifacts a \<and> env_endpoint b = env_endpoint a \<and> env_finished_at b = env_finished_at a
     \<and> prefix (env_hints a) (env_hints b)
     \<and> (env_failed_phase b = env_failed_phase a
        \<or> env_failed_phase a = None \<and> env_failed_phase b = Some P_Cleanup)"

lemma same_verdict_hints: "only_hints a b \<Longrightarrow> same_verdict a b"
  by (auto simp: only_hints_def same_verdict_def)

lemma same_verdict_trans: "same_verdict a b \<Longrightarrow> same_verdict b c \<Longrightarrow> same_verdict a c"
  unfolding same_verdict_def by (intro conjI) (auto intro: prefix_order.trans)

definition same_advice :: "job_envelope \<Rightarrow> job_envelope \<Rightarrow> bool" where
  "same_advice a b \<longleftrightarrow> env_reason b = env_reason a \<and> env_retry_class b = env_retry_class a"

lemma released_env:
  assumes "fst outcome \<in> {C_Released, C_Already_Absent, C_Failed}"
  shows "same_verdict env (released job endpoint outcome reading env)"
    "same_advice env (released job endpoint outcome reading env)"
    "env_cleanup (released job endpoint outcome reading env) = fst outcome"
    "env_phase (released job endpoint outcome reading env) = env_phase env"
    "fst outcome = C_Failed \<Longrightarrow> env_failed_phase (released job endpoint outcome reading env) \<noteq> None"
  using assms
  by (auto simp: released_def same_verdict_def same_advice_def Let_def record_failure_def hint_def split: option.splits)

lemma read_compute_units_env:
  "read_compute_units co at_time when env w = (reading, env', w') \<Longrightarrow> only_hints env env'"
  by (auto simp: read_compute_units_def only_hints_hint [unfolded hint_def] split: prod.splits sum.splits)

lemma release_vm_env:
  "let a = oc_env (fst s); b = oc_env (fst (release_vm st endpoint s)) in
     same_verdict a b \<and> same_advice a b \<and> env_phase b = env_phase a
     \<and> env_cleanup b \<in> {C_Released, C_Already_Absent, C_Failed}
     \<and> (env_cleanup b = C_Failed \<longrightarrow> env_failed_phase b \<noteq> None)
     \<and> oc_prepared (fst (release_vm st endpoint s)) = oc_prepared (fst s)"
proof -
  obtain oc w where s: "s = (oc, w)" by (cases s)
  obtain outcome w1 where r: "release_assignment (st_colab st) endpoint w = (outcome, w1)" by (metis prod.collapse)
  obtain at_time w2 where n: "rm_now (st_remote st) w1 = (at_time, w2)" by (metis prod.collapse)
  obtain reading env w3 where u: "read_compute_units (st_colab st) at_time ''release'' (oc_env oc) w2 = (reading, env, w3)"
    by (metis prod.collapse)
  note h = read_compute_units_env [OF u]
  show ?thesis
    using release_assignment_cleanup [OF r] released_env [OF release_assignment_cleanup [OF r], where env = env and job = "st_job st" and endpoint = endpoint and reading = reading]
      same_verdict_trans [OF same_verdict_hints [OF h]] only_hints_fields [OF h]
    by (simp add: release_vm_def s r n u Let_def same_advice_def)
qed

lemma record_vm_kept_env:
  "same_verdict env (record_vm_kept job env)"
  "env_cleanup (record_vm_kept job env) \<in> {C_Left_Up, C_Failed}"
  "env_phase (record_vm_kept job env) = env_phase env"
  "if env_surviving_descendants env \<noteq> []
   then env_cleanup (record_vm_kept job env) = C_Failed \<and> env_reason (record_vm_kept job env) \<noteq> None
     \<and> env_retry_class (record_vm_kept job env) \<noteq> None
   else same_advice env (record_vm_kept job env)"
  "env_cleanup (record_vm_kept job env) = C_Failed \<Longrightarrow> env_failed_phase (record_vm_kept job env) \<noteq> None"
  by (auto simp: record_vm_kept_def same_verdict_def same_advice_def Let_def record_failure_def split: option.splits)

definition has_vm :: "job_envelope \<Rightarrow> bool" where
  "has_vm env \<longleftrightarrow> (case env_endpoint env of None \<Rightarrow> False | Some e \<Rightarrow> e \<noteq> [])"

lemma set_phase_close:
  assumes "set_phase st p (close_runtime st s) = (oc, w)"
  shows "same_verdict (oc_env (fst s)) (oc_env oc)" "same_advice (oc_env (fst s)) (oc_env oc)"
    "env_phase (oc_env oc) = p" "oc_prepared oc = oc_prepared (fst s)"
    "env_surviving_descendants (oc_env oc) = env_surviving_descendants (oc_env (fst s))"
proof -
  have e: "oc_env oc = (oc_env (fst (close_runtime st s)))\<lparr>env_phase := p\<rparr>"
    and p: "oc_prepared oc = oc_prepared (fst (close_runtime st s))"
    using set_phase_env [of st p "close_runtime st s"] by (simp_all add: assms)
  have c: "calm (fst s) (fst (close_runtime st s))" by (rule close_runtime_calm)
  note h = c [unfolded calm_def, THEN conjunct1]
  show "same_verdict (oc_env (fst s)) (oc_env oc)" "same_advice (oc_env (fst s)) (oc_env oc)"
    "env_phase (oc_env oc) = p"
    "env_surviving_descendants (oc_env oc) = env_surviving_descendants (oc_env (fst s))"
    using same_verdict_hints [OF h] only_hints_fields [OF h]
    by (simp_all add: e same_verdict_def same_advice_def)
  show "oc_prepared oc = oc_prepared (fst s)" using c p by (simp add: calm_def)
qed

text \<open>What both ways to drop the session record leave.\<close>

lemma calm_verdict: "calm a b \<Longrightarrow> same_verdict (oc_env a) (oc_env b)"
  by (simp add: calm_def same_verdict_hints)

lemma calm_fields:
  "calm a b \<Longrightarrow> oc_prepared b = oc_prepared a \<and> env_phase (oc_env b) = env_phase (oc_env a)
     \<and> env_cleanup (oc_env b) = env_cleanup (oc_env a) \<and> env_failed_phase (oc_env b) = env_failed_phase (oc_env a)
     \<and> same_advice (oc_env a) (oc_env b)"
  by (simp add: calm_def only_hints_fields same_advice_def)

lemma same_advice_trans: "same_advice a b \<Longrightarrow> same_advice b c \<Longrightarrow> same_advice a c"
  by (simp add: same_advice_def)

text \<open>What cleanup ends in; \<open>keep\<close> is whether there was a VM it was told to leave up.\<close>

definition cleaned :: "bool \<Rightarrow> job_envelope \<Rightarrow> job_envelope \<Rightarrow> bool" where
  "cleaned keep a b \<longleftrightarrow>
     same_verdict a b \<and> env_phase b = P_Cleanup
     \<and> env_cleanup b \<in> (if keep then {C_Left_Up, C_Failed} else {C_Released, C_Already_Absent, C_Failed})
     \<and> (if env_cleanup b = C_Failed then env_failed_phase b \<noteq> None else True)
     \<and> (if keep \<and> env_surviving_descendants a \<noteq> []
        then env_cleanup b = C_Failed \<and> env_reason b \<noteq> None \<and> env_retry_class b \<noteq> None
        else same_advice a b)"

lemma nothing_to_release:
  assumes "same_verdict (oc_env oc) (oc_env oc1)" "same_advice (oc_env oc) (oc_env oc1)"
    "env_phase (oc_env oc1) = P_Cleanup"
  shows "cleaned False (oc_env oc) (oc_env (fst (persist st (case drop_session st (stop_keep_alive st (oc1, w)) of
           (oc, w) \<Rightarrow> (edit_env (\<lambda>e. e\<lparr>env_cleanup := C_Already_Absent\<rparr>) oc, w)))))"
proof -
  obtain oc2 w2 where d: "drop_session st (stop_keep_alive st (oc1, w)) = (oc2, w2)" by (metis prod.collapse)
  have c: "calm oc1 oc2"
    using drop_session_calm [of "stop_keep_alive st (oc1, w)" st] by (simp add: d stop_keep_alive_same)
  show ?thesis
    using same_verdict_trans [OF assms(1) calm_verdict [OF c]] calm_fields [OF c] assms
    by (auto simp: cleaned_def d same_verdict_def same_advice_def)
qed

lemma released_cleanly:
  assumes "same_verdict (oc_env oc) (oc_env oc1)" "same_advice (oc_env oc) (oc_env oc1)"
    "env_phase (oc_env oc1) = P_Cleanup"
  shows "cleaned False (oc_env oc) (oc_env (fst (persist st (drop_session st (release_vm st endpoint
           (stop_keep_alive st (copy_records_hint st (oc1, w))))))))"
proof -
  let ?s2 = "stop_keep_alive st (copy_records_hint st (oc1, w))"
  let ?s3 = "release_vm st endpoint ?s2"
  have c: "calm oc1 (fst ?s2)" using copy_records_hint_calm [of "(oc1, w)" st] by (simp add: stop_keep_alive_same)
  have d: "calm (fst ?s3) (fst (drop_session st ?s3))" by (rule drop_session_calm)
  note r = release_vm_env [of ?s2 st endpoint, unfolded Let_def]
  have v: "same_verdict (oc_env oc) (oc_env (fst (drop_session st ?s3)))"
    using same_verdict_trans [OF same_verdict_trans [OF same_verdict_trans [OF assms(1) calm_verdict [OF c]] conjunct1 [OF r]]
        calm_verdict [OF d]] .
  show ?thesis
    using v calm_fields [OF c] calm_fields [OF d] r assms by (auto simp: cleaned_def same_advice_def)
qed

lemma kept_cleanly:
  assumes "same_verdict (oc_env oc) (oc_env oc1)" "same_advice (oc_env oc) (oc_env oc1)"
    "env_phase (oc_env oc1) = P_Cleanup"
    "env_surviving_descendants (oc_env oc1) = env_surviving_descendants (oc_env oc)"
  shows "cleaned True (oc_env oc) (oc_env (fst (persist st (edit_env (record_vm_kept job) oc1, w))))"
  using assms same_verdict_trans [OF assms(1) record_vm_kept_env(1)] record_vm_kept_env(2-) [where job = job and env = "oc_env oc1"]
  by (auto simp: cleaned_def same_advice_def)

lemma cleanup_job_prepared: "oc_prepared (fst (cleanup_job st leave_up s)) = oc_prepared (fst s)"
proof -
  obtain oc w where p: "set_phase st P_Cleanup (close_runtime st s) = (oc, w)" by (metis prod.collapse)
  have d: "oc_prepared (fst (drop_session st (stop_keep_alive st (oc', w')))) = oc_prepared oc'" for oc' w'
    using calm_fields [OF drop_session_calm [of "stop_keep_alive st (oc', w')" st]] by (simp add: stop_keep_alive_same)
  have v: "oc_prepared (fst (drop_session st (release_vm st endpoint (stop_keep_alive st (copy_records_hint st (oc, w))))))
      = oc_prepared oc" for endpoint
    using calm_fields [OF drop_session_calm [of "release_vm st endpoint (stop_keep_alive st (copy_records_hint st (oc, w)))" st]]
      release_vm_env [of "stop_keep_alive st (copy_records_hint st (oc, w))" st endpoint]
      calm_fields [OF copy_records_hint_calm [of "(oc, w)" st]]
    by (simp add: stop_keep_alive_same Let_def)
  show ?thesis
    using set_phase_close(4) [OF p] d v
    by (auto simp: cleanup_job_def p split: option.splits prod.split) (metis edit_env_same(1) fst_conv)+
qed

lemma cleanup_job_cleaned:
  "cleaned (leave_up \<and> has_vm (oc_env (fst s))) (oc_env (fst s)) (oc_env (fst (cleanup_job st leave_up s)))"
proof -
  obtain oc w where p: "set_phase st P_Cleanup (close_runtime st s) = (oc, w)" by (metis prod.collapse)
  note f = set_phase_close [OF p]
  have e: "env_endpoint (oc_env oc) = env_endpoint (oc_env (fst s))" using f(1) by (simp add: same_verdict_def)
  note n = nothing_to_release [OF f(1-3), of st w]
  show ?thesis
  proof (cases "has_vm (oc_env (fst s))")
    case False
    then have "fst (cleanup_job st leave_up s) = fst (persist st (case drop_session st (stop_keep_alive st (oc, w)) of
           (oc, w) \<Rightarrow> (edit_env (\<lambda>e. e\<lparr>env_cleanup := C_Already_Absent\<rparr>) oc, w)))"
      by (auto simp: cleanup_job_def p has_vm_def e split: option.splits prod.splits)
    with n False show ?thesis by simp
  next
    case True
    then obtain endpoint where x: "env_endpoint (oc_env oc) = Some endpoint" "endpoint \<noteq> []"
      by (auto simp: has_vm_def e split: option.splits)
    show ?thesis
      using True released_cleanly [OF f(1-3), of st endpoint w] kept_cleanly [OF f(1-3,5), of st "st_job st" w]
      by (cases leave_up) (simp_all add: cleanup_job_def p x)
  qed
qed


text \<open>
  C19. Cleanup never edits the verdict: workload, offload, supervisor, exit and artifacts
  stay, hints only grow, and it ends released, absent, left up or failed, left up only
  when it was asked to and there is a VM.  A failed cleanup is named as the failed
  phase if none was.  Reason and retry advice stay too, but for a VM left up with
  processes of the job on it, which is a failed cleanup with both set.
\<close>

theorem cleanup_edits_no_verdict:
  "let a = oc_env (fst s); b = oc_env (fst (cleanup_job st leave_up s)) in
     same_verdict a b \<and> env_phase b = P_Cleanup
     \<and> env_cleanup b \<in> (if leave_up \<and> has_vm a then {C_Left_Up, C_Failed} else {C_Released, C_Already_Absent, C_Failed})
     \<and> (if env_cleanup b = C_Failed then env_failed_phase b \<noteq> None else True)
     \<and> (if leave_up \<and> has_vm a \<and> env_surviving_descendants a \<noteq> []
        then env_cleanup b = C_Failed \<and> env_reason b \<noteq> None \<and> env_retry_class b \<noteq> None
        else same_advice a b)"
  using cleanup_job_cleaned [of leave_up s st] unfolding cleaned_def Let_def conj_assoc .

section \<open>Assigned VMs\<close>

text \<open>
  The VMs the account is billed for, as a function \<open>held\<close> of the world, and what the
  service's answers say of it: a granted assignment adds its endpoint and a refused one
  adds none, an unassign that succeeds removes its endpoint, and a listing names every
  VM.  Nothing else of the world assigns or releases one.
\<close>

definition keeps :: "('w \<Rightarrow> string set) \<Rightarrow> ('w \<Rightarrow> 'a \<times> 'w) \<Rightarrow> bool" where
  "keeps held f \<longleftrightarrow> (\<forall>w. held (snd (f w)) = held w)"

lemma keepsD: "keeps held f \<Longrightarrow> f w = (x, w') \<Longrightarrow> held w' = held w"
  by (metis keeps_def snd_conv)

definition remote_keeps :: "('w \<Rightarrow> string set) \<Rightarrow> ('t, 'w) remote \<Rightarrow> bool" where
  "remote_keeps held rm \<longleftrightarrow>
     (\<forall>p t. keeps held (\<lambda>w. (case rm_read_text rm p t w of (x, t, w) \<Rightarrow> ((x, t), w))))
     \<and> keeps held (rm_clock rm) \<and> keeps held (rm_now rm)
     \<and> (\<forall>n s. keeps held (rm_write_local rm n s)) \<and> (\<forall>e w. held (rm_persist rm e w) = held w)"

definition colab_bills :: "('w \<Rightarrow> string set) \<Rightarrow> 'w colab \<Rightarrow> bool" where
  "colab_bills held co \<longleftrightarrow>
     (\<forall>opts w. held (snd (co_assign co opts w))
        = (case fst (co_assign co opts w) of Inl _ \<Rightarrow> held w | Inr a \<Rightarrow> insert (as_endpoint a) (held w)))
     \<and> (\<forall>e w. held (snd (co_unassign co e w))
        \<subseteq> (case fst (co_unassign co e w) of Inl _ \<Rightarrow> held w | Inr _ \<Rightarrow> held w - {e}))
     \<and> keeps held (co_list co)
     \<and> (\<forall>w. case fst (co_list co w) of Inl _ \<Rightarrow> True | Inr asgs \<Rightarrow> Some ` held w \<subseteq> asg_endpoint ` set asgs)
     \<and> (\<forall>e. keeps held (co_keep_alive co e)) \<and> keeps held (co_ccu co)"

lemma colab_billsD:
  assumes "colab_bills held co"
  shows "co_assign co opts w = (a, w') \<Longrightarrow>
      held w' = (case a of Inl _ \<Rightarrow> held w | Inr x \<Rightarrow> insert (as_endpoint x) (held w))"
    "co_unassign co e w = (u, w') \<Longrightarrow> held w' \<subseteq> (case u of Inl _ \<Rightarrow> held w | Inr _ \<Rightarrow> held w - {e})"
    "co_list co w = (l, w') \<Longrightarrow> held w' = held w"
    "co_list co w = (Inr asgs, w') \<Longrightarrow> Some ` held w \<subseteq> asg_endpoint ` set asgs"
    "co_keep_alive co e w = (k, w') \<Longrightarrow> held w' = held w"
    "co_ccu co w = (c, w') \<Longrightarrow> held w' = held w"
proof -
  note d = assms [unfolded colab_bills_def keeps_def]
  show "co_assign co opts w = (a, w') \<Longrightarrow>
      held w' = (case a of Inl _ \<Rightarrow> held w | Inr x \<Rightarrow> insert (as_endpoint x) (held w))"
    using d [THEN conjunct1, rule_format, of opts w] by simp
  show "co_unassign co e w = (u, w') \<Longrightarrow> held w' \<subseteq> (case u of Inl _ \<Rightarrow> held w | Inr _ \<Rightarrow> held w - {e})"
    using d [THEN conjunct2, THEN conjunct1, rule_format, of e w] by simp
  show "co_list co w = (l, w') \<Longrightarrow> held w' = held w" using d by (metis snd_conv)
  show "co_list co w = (Inr asgs, w') \<Longrightarrow> Some ` held w \<subseteq> asg_endpoint ` set asgs"
    using d [THEN conjunct2, THEN conjunct2, THEN conjunct2, THEN conjunct1, rule_format, of w] by simp
  show "co_keep_alive co e w = (k, w') \<Longrightarrow> held w' = held w" "co_ccu co w = (c, w') \<Longrightarrow> held w' = held w"
    using d by (metis snd_conv)+
qed

definition site_bills :: "('w \<Rightarrow> string set) \<Rightarrow> ('t, 'r, 'w) site \<Rightarrow> bool" where
  "site_bills held st \<longleftrightarrow>
     colab_bills held (st_colab st) \<and> remote_keeps held (st_remote st)
     \<and> (\<forall>p w. held (st_event st p w) = held w) \<and> (\<forall>ss. keeps held (st_add st ss))
     \<and> (\<forall>n. keeps held (st_drop st n)) \<and> (\<forall>ss. keeps held (st_spawn st ss))
     \<and> (\<forall>n w. held (st_kill st n w) = held w) \<and> (\<forall>x. keeps held (st_transport st x))
     \<and> (\<forall>r. keeps held (st_stop st r))"

lemma release_assignment_bills:
  assumes "colab_bills held co" "release_assignment co endpoint w = (outcome, w')"
  shows "held w' \<subseteq> held w" "fst outcome \<noteq> C_Failed \<Longrightarrow> endpoint \<notin> held w'"
proof -
  obtain u w1 where u: "co_unassign co endpoint w = (u, w1)" by (metis prod.collapse)
  obtain l w2 where l: "co_list co w1 = (l, w2)" by (metis prod.collapse)
  note 1 = colab_billsD(2) [OF assms(1) u]
  note 2 = colab_billsD(3) [OF assms(1) l]
  show "held w' \<subseteq> held w"
    using assms(2) 1 2 by (auto simp: release_assignment_def u l split: sum.splits if_splits)
  show "endpoint \<notin> held w'" if "fst outcome \<noteq> C_Failed"
  proof
    assume "endpoint \<in> held w'"
    with that assms(2) 1 2 obtain asgs where "l = Inr asgs" "\<not> list_ex (\<lambda>a. asg_endpoint a = Some endpoint) asgs"
      "endpoint \<in> held w1"
      by (auto simp: release_assignment_def u l split: sum.splits if_splits)
    with colab_billsD(4) [OF assms(1), of w1 _ w2] l show False by (fastforce simp: list_ex_iff)
  qed
qed

text \<open>A step that assigns and releases nothing, and keeps the endpoint the envelope names.\<close>

definition idle_step :: "('w \<Rightarrow> string set) \<Rightarrow> ('t, 'r) orch \<times> 'w \<Rightarrow> ('t, 'r) orch \<times> 'w \<Rightarrow> bool" where
  "idle_step held s s' \<longleftrightarrow>
     held (snd s') = held (snd s) \<and> env_endpoint (oc_env (fst s')) = env_endpoint (oc_env (fst s))"

lemma idle_step_refl [simp]: "idle_step held s s"
  by (simp add: idle_step_def)

lemma idle_step_trans [trans]: "idle_step held a b \<Longrightarrow> idle_step held b c \<Longrightarrow> idle_step held a c"
  by (simp add: idle_step_def)

lemma save_session_idle:
  assumes "site_bills held st"
  shows "idle_step held s (snd (save_session st ss s))"
proof (cases s)
  case (Pair oc w)
  have "keeps held (st_add st ss)" using assms by (simp add: site_bills_def)
  then show ?thesis
    by (auto simp: Pair save_session_def idle_step_def dest: keepsD split: prod.splits sum.splits)
qed

lemma spawn_daemon_idle:
  assumes "site_bills held st"
  shows "idle_step held s (snd (spawn_daemon st ss s))"
proof -
  obtain r oc w where a: "save_session st ss s = (r, oc, w)" by (metis prod.collapse)
  have 1: "idle_step held s (oc, w)" using save_session_idle [OF assms, of s ss] by (simp add: a)
  obtain p w2 where d: "st_spawn st ss w = (p, w2)" by (metis prod.collapse)
  have "keeps held (st_spawn st ss)" using assms by (simp add: site_bills_def)
  then have 2: "idle_step held (oc, w) (oc, w2)" using keepsD d by (fastforce simp: idle_step_def)
  show ?thesis
  proof (cases r)
    case (Inl e)
    then show ?thesis using 1 by (simp add: spawn_daemon_def a snd_then_do)
  next
    case (Inr u)
    then show ?thesis
      using idle_step_trans [OF 1 2] idle_step_trans [OF idle_step_trans [OF 1 2] save_session_idle [OF assms]]
      by (simp add: spawn_daemon_def a snd_then_do d split: sum.split)
  qed
qed

text \<open>
  What provisioning owes the account: beside the VMs it found, only one whose
  endpoint the envelope names is assigned.
\<close>

definition accounted :: "('w \<Rightarrow> string set) \<Rightarrow> string set \<Rightarrow> ('t, 'r) orch \<times> 'w \<Rightarrow> bool" where
  "accounted held before s \<longleftrightarrow> held (snd s) \<subseteq> before \<union> {e. env_endpoint (oc_env (fst s)) = Some e}"

lemma accounted_idle: "idle_step held s s' \<Longrightarrow> accounted held before s \<Longrightarrow> accounted held before s'"
  by (simp add: idle_step_def accounted_def)

lemma start_keep_alive_accounted:
  assumes "site_bills held st" "accounted held before s" "env_endpoint (oc_env (fst s)) = Some (ss_endpoint ss)"
  shows "accounted held before (snd (start_keep_alive st ss s))"
proof -
  obtain oc w where s: "s = (oc, w)" by (cases s)
  obtain k w1 where k: "co_keep_alive (st_colab st) (ss_endpoint ss) w = (k, w1)" by (metis prod.collapse)
  obtain at_time w2 where n: "rm_now (st_remote st) w1 = (at_time, w2)" by (metis prod.collapse)
  have co: "colab_bills held (st_colab st)" and rm: "remote_keeps held (st_remote st)"
    using assms(1) by (simp_all add: site_bills_def)
  have w1: "held w1 = held w" by (rule colab_billsD(5) [OF co k])
  have w2: "held w2 = held w1" using rm n by (auto simp: remote_keeps_def dest: keepsD)
  have i: "idle_step held s (edit_env (hint h) oc, w1)" "idle_step held s (oc, w2)" for h
    using w1 w2 by (simp_all add: s idle_step_def hint_def)
  note keep = accounted_idle [OF _ assms(2)]
  note spawned = keep [OF idle_step_trans [OF _ spawn_daemon_idle [OF assms(1)]]]
  show ?thesis
  proof (cases k)
    case (Inr u)
    then show ?thesis
      using keep [OF save_session_idle [OF assms(1)]] spawned [OF i(2)]
      by (auto simp: start_keep_alive_def s k n)
  next
    case (Inl e)
    obtain outcome w3 where r: "release_assignment (st_colab st) (ss_endpoint ss) w1 = (outcome, w3)"
      by (metis prod.collapse)
    note b = release_assignment_bills [OF co r]
    have "accounted held before (edit_env (hint h) oc, w3)" for h
      using b(1) w1 assms(2) by (auto simp: accounted_def s hint_def)
    moreover have "held w3 \<subseteq> before" if "fst outcome \<noteq> C_Failed"
      using b w1 assms(2,3) that by (auto simp: accounted_def s)
    ultimately show ?thesis
      using keep [OF save_session_idle [OF assms(1)]] spawned [OF i(1)]
      by (cases outcome) (auto simp: start_keep_alive_def s k Inl r accounted_def)
  qed
qed


lemma read_compute_units_bills:
  assumes "colab_bills held co" "read_compute_units co at_time when env w = (reading, env', w')"
  shows "held w' = held w" "env_endpoint env' = env_endpoint env"
proof -
  obtain c w1 where c: "co_ccu co w = (c, w1)" by (metis prod.collapse)
  show "held w' = held w" using assms(2) colab_billsD(6) [OF assms(1) c]
    by (auto simp: read_compute_units_def c split: sum.splits)
  show "env_endpoint env' = env_endpoint env"
    using only_hints_fields [OF read_compute_units_env [OF assms(2)]] by simp
qed

lemma take_vm_accounted:
  assumes "site_bills held st" "accounted held before s" "env_endpoint (oc_env (fst s)) = Some (as_endpoint a)"
  shows "accounted held before (snd (take_vm st want a attempts s))"
proof -
  obtain oc w where s: "s = (oc, w)" by (cases s)
  let ?ss = "session_of (''job-'' @ st_job st) a"
  define oc1 where "oc1 = (edit_env (\<lambda>e. e\<lparr>env_session := Some (''job-'' @ st_job st),
      env_provision_attempts := (if attempts = [] then env_provision_attempts e
        else attempts @ [granted_attempt want (as_accelerator a)])\<rparr>) oc)\<lparr>oc_session := Some ?ss\<rparr>"
  obtain w1 where p: "persist st (oc1, w) = (oc1, w1)" by simp
  have co: "colab_bills held (st_colab st)" and rm: "remote_keeps held (st_remote st)"
    using assms(1) by (simp_all add: site_bills_def)
  have "held w1 = held w" using rm p by (auto simp: remote_keeps_def)
  then have a1: "accounted held before (oc1, w1)" using assms(2) by (simp add: s accounted_def oc1_def)
  have e1: "env_endpoint (oc_env (fst (oc1, w1))) = Some (ss_endpoint ?ss)"
    using assms(3) by (simp add: s oc1_def session_of_def new_session_def)
  obtain r oc2 w2 where k: "start_keep_alive st ?ss (oc1, w1) = (r, oc2, w2)" by (metis prod.collapse)
  have a2: "accounted held before (oc2, w2)"
    using start_keep_alive_accounted [OF assms(1) a1 e1] unfolding k by simp
  obtain at_time w3 where n: "rm_now (st_remote st) w2 = (at_time, w3)" by (metis prod.collapse)
  obtain reading env w4 where u: "read_compute_units (st_colab st) at_time ''provision'' (oc_env oc2) w3 = (reading, env, w4)"
    by (metis prod.collapse)
  have "held w4 = held w2"
    using read_compute_units_bills(1) [OF co u] rm n by (auto simp: remote_keeps_def dest: keepsD)
  then have a3: "accounted held before (edit_env (\<lambda>_. env\<lparr>env_compute_units_at_provision := reading\<rparr>) oc2, w4)"
    using a2 read_compute_units_bills(2) [OF co u] by (simp add: accounted_def)
  have "snd (take_vm st want a attempts s) = (case r of Inl e \<Rightarrow> (oc2, w2)
      | Inr _ \<Rightarrow> (edit_env (\<lambda>_. env\<lparr>env_compute_units_at_provision := reading\<rparr>) oc2, w4))"
    unfolding take_vm_def s prod.case Let_def oc1_def [symmetric] p k by (simp add: snd_then_do n u split: sum.split)
  then show ?thesis using a2 a3 by (cases r) simp_all
qed

lemma try_candidates_accounted:
  assumes "site_bills held st"
  shows "held w \<subseteq> before \<Longrightarrow> accounted held before (snd (try_candidates st all wants attempts (oc, w)))"
proof (induction wants arbitrary: attempts oc w)
  case Nil
  then show ?case by (auto simp: accounted_def)
next
  case (Cons want wants)
  have co: "colab_bills held (st_colab st)" using assms by (simp add: site_bills_def)
  obtain g w1 where g: "co_assign (st_colab st) (runtime_options want) w = (g, w1)" by (metis prod.collapse)
  note b = colab_billsD(1) [OF co g]
  show ?case
  proof (cases g)
    case (Inl e)
    then have "held w1 \<subseteq> before" using b Cons.prems by simp
    then show ?thesis using Cons.IH by (simp add: Let_def g Inl accounted_def subset_iff)
  next
    case (Inr a)
    obtain outcome w2 where r: "release_assignment (st_colab st) (as_endpoint a) w1 = (outcome, w2)"
      by (metis prod.collapse)
    note rel = release_assignment_bills [OF co r]
    have h: "held w1 = insert (as_endpoint a) (held w)" using b Inr by simp
    have freed: "held w2 \<subseteq> before" if "fst outcome \<noteq> C_Failed"
      using rel h Cons.prems that by auto
    define oc1 where "oc1 = edit_env (\<lambda>e. e\<lparr>env_actual_accelerator := Some (as_accelerator a),
        env_endpoint := Some (as_endpoint a)\<rparr>) (edit_env (\<lambda>e. e\<lparr>env_requested_accelerator := Some want\<rparr>) oc)"
    have e1: "env_endpoint (oc_env oc1) = Some (as_endpoint a)" by (simp add: oc1_def)
    have a1: "accounted held before (oc1, w1)" using h Cons.prems e1 by (auto simp: accounted_def)
    have a2: "accounted held before (oc1, w2)" using rel(1) a1 by (auto simp: accounted_def)
    show ?thesis
      using Cons.IH [OF freed] a2 take_vm_accounted [OF assms a1, of a want attempts] e1
      by (cases outcome) (simp add: Let_def g Inr r oc1_def [symmetric])
  qed
qed



lemma remote_keepsD:
  assumes "remote_keeps held rm"
  shows "rm_read_text rm p t w = (x, t', w') \<Longrightarrow> held w' = held w"
    "rm_clock rm w = (n, w') \<Longrightarrow> held w' = held w" "rm_now rm w = (at_time, w') \<Longrightarrow> held w' = held w"
    "rm_write_local rm f b w = (u, w') \<Longrightarrow> held w' = held w" "held (rm_persist rm e w) = held w"
proof -
  note d = assms [unfolded remote_keeps_def]
  have r: "keeps held (\<lambda>w. case rm_read_text rm p t w of (x, t, w) \<Rightarrow> ((x, t), w))" using d by blast
  show "rm_read_text rm p t w = (x, t', w') \<Longrightarrow> held w' = held w"
    using keepsD [OF r, of w "(x, t')" w'] by simp
  have k: "keeps held (rm_clock rm)" "keeps held (rm_now rm)" "keeps held (rm_write_local rm f b)" using d by blast+
  show "rm_clock rm w = (n, w') \<Longrightarrow> held w' = held w" by (rule keepsD [OF k(1)])
  show "rm_now rm w = (at_time, w') \<Longrightarrow> held w' = held w" by (rule keepsD [OF k(2)])
  show "rm_write_local rm f b w = (u, w') \<Longrightarrow> held w' = held w" by (rule keepsD [OF k(3)])
  show "held (rm_persist rm e w) = held w" using d by blast
qed

lemma copy_records_keeps:
  assumes "remote_keeps held rm"
  shows "copy_records rm job budget deadline names c t w = (c', t', w') \<Longrightarrow> held w' = held w"
proof (induction names arbitrary: c t w)
  case Nil
  then show ?case by simp
next
  case (Cons name names)
  obtain now w1 where n: "rm_clock rm w = (now, w1)" by (metis prod.collapse)
  obtain text1 status t2 w2 where r: "rm_read_text rm (remote_file job name) t w1 = ((text1, status), t2, w2)"
    by (metis prod.collapse)
  have w1: "held w1 = held w" "held w2 = held w1"
    using remote_keepsD(1,2) [OF assms] n r by blast+
  show ?case
  proof (cases "status = Rs_Ok \<and> text1 \<noteq> None")
    case True
    then obtain b where b: "status = Rs_Ok" "text1 = Some b" by auto
    obtain u w3 where l: "rm_write_local rm name b w2 = (u, w3)" by (metis prod.collapse)
    have "held w3 = held w2" by (rule remote_keepsD(4) [OF assms l])
    then show ?thesis
      using Cons.prems Cons.IH w1 by (cases u) (auto simp: n r b l split: if_splits)
  next
    case False
    then have "copy_records rm job budget deadline (name # names) c t w
        \<in> {(c', t1, w1') | c' t1 w1'. held w1' = held w}
          \<union> {copy_records rm job budget deadline names c' t2 w2 | c'. True}"
      using w1 by (auto simp: n r split: read_status.splits option.splits)
    then show ?thesis using Cons.prems Cons.IH w1 by auto
  qed
qed

lemma copy_vm_records_keeps:
  assumes "remote_keeps held rm" "copy_vm_records rm dir job budget t w = (h, t', w')"
  shows "held w' = held w"
  using assms(2) copy_records_keeps [OF assms(1)] remote_keepsD(2) [OF assms(1)]
  by (auto simp: copy_vm_records_def split: prod.splits)

lemma job_transport_idle:
  assumes "site_bills held st"
  shows "idle_step held s (snd (job_transport st s))"
proof (cases s)
  case (Pair oc w)
  have "keeps held (st_transport st x)" for x using assms by (simp add: site_bills_def)
  then show ?thesis
    by (auto simp: Pair job_transport_def idle_step_def dest: keepsD split: option.splits prod.splits sum.splits)
qed

lemma copy_records_hint_idle:
  assumes "site_bills held st"
  shows "idle_step held s (copy_records_hint st s)"
proof -
  obtain r oc w where t: "job_transport st s = (r, oc, w)" by (metis prod.collapse)
  have 1: "idle_step held s (oc, w)" using job_transport_idle [OF assms, of s] by (simp add: t)
  have rm: "remote_keeps held (st_remote st)" using assms by (simp add: site_bills_def)
  have "idle_step held (oc, w) (copy_records_hint st s)"
    by (auto simp: copy_records_hint_def t idle_step_def hint_def dest: copy_vm_records_keeps [OF rm]
        split: sum.split prod.split)
  with 1 show ?thesis by (rule idle_step_trans)
qed

lemma close_runtime_idle:
  assumes "site_bills held st"
  shows "idle_step held s (close_runtime st s)"
proof (cases s)
  case (Pair oc w)
  have "keeps held (st_stop st r)" for r using assms by (simp add: site_bills_def)
  then show ?thesis
    by (auto simp: Pair close_runtime_def idle_step_def hint_def dest: keepsD split: option.splits prod.splits sum.splits)
qed

lemma drop_session_idle:
  assumes "site_bills held st"
  shows "idle_step held s (drop_session st s)"
proof (cases s)
  case (Pair oc w)
  have "keeps held (st_drop st n)" for n using assms by (simp add: site_bills_def)
  then show ?thesis
    by (auto simp: Pair drop_session_def idle_step_def hint_def dest: keepsD split: option.splits prod.splits sum.splits)
qed

lemma stop_keep_alive_idle:
  assumes "site_bills held st"
  shows "idle_step held s (stop_keep_alive st s)"
  using assms by (cases s) (auto simp: stop_keep_alive_def idle_step_def site_bills_def split: option.splits)

lemma set_phase_idle:
  assumes "site_bills held st"
  shows "idle_step held s (set_phase st p s)"
  using assms by (cases s) (auto simp: set_phase_def idle_step_def site_bills_def remote_keepsD(5))

lemma persist_idle:
  assumes "site_bills held st"
  shows "idle_step held s (persist st s)"
  using assms by (cases s) (auto simp: idle_step_def site_bills_def remote_keepsD(5))

lemma release_vm_bills:
  assumes "site_bills held st" "release_vm st endpoint s = s'"
  shows "held (snd s') \<subseteq> held (snd s)"
    "env_cleanup (oc_env (fst s')) \<noteq> C_Failed \<Longrightarrow> endpoint \<notin> held (snd s')"
proof -
  obtain oc w where s: "s = (oc, w)" by (cases s)
  have co: "colab_bills held (st_colab st)" and rm: "remote_keeps held (st_remote st)"
    using assms(1) by (simp_all add: site_bills_def)
  obtain outcome w1 where r: "release_assignment (st_colab st) endpoint w = (outcome, w1)" by (metis prod.collapse)
  obtain at_time w2 where n: "rm_now (st_remote st) w1 = (at_time, w2)" by (metis prod.collapse)
  obtain reading env w3 where u: "read_compute_units (st_colab st) at_time ''release'' (oc_env oc) w2 = (reading, env, w3)"
    by (metis prod.collapse)
  have s': "s' = (edit_env (\<lambda>_. released (st_job st) endpoint outcome reading env) oc, w3)"
    using assms(2) by (simp add: release_vm_def s r n u)
  have w3: "held w3 = held w1"
    using read_compute_units_bills(1) [OF co u] remote_keepsD(3) [OF rm n] by simp
  have "env_cleanup (released (st_job st) endpoint outcome reading env) = fst outcome"
    using released_env(3) [OF release_assignment_cleanup [OF r]] .
  then show "held (snd s') \<subseteq> held (snd s)"
    "env_cleanup (oc_env (fst s')) \<noteq> C_Failed \<Longrightarrow> endpoint \<notin> held (snd s')"
    using release_assignment_bills [OF co r] w3 by (simp_all add: s' s)
qed

lemma idle_billed: "idle_step held a b \<Longrightarrow> held (snd b) = held (snd a)"
  by (simp add: idle_step_def)

text \<open>
  C7. Cleanup assigns nothing, and when it reports the VM released or already absent, the
  VM the envelope names is not assigned any more.
\<close>

theorem cleanup_frees_the_vm:
  assumes "site_bills held st"
  shows "let s' = cleanup_job st leave_up s in
    held (snd s') \<subseteq> held (snd s)
    \<and> (case env_endpoint (oc_env (fst s)) of
         None \<Rightarrow> True
       | Some endpoint \<Rightarrow>
           if endpoint \<noteq> [] \<and> env_cleanup (oc_env (fst s')) \<in> {C_Released, C_Already_Absent}
           then endpoint \<notin> held (snd s') else True)"
proof -
  obtain oc w where p: "set_phase st P_Cleanup (close_runtime st s) = (oc, w)" by (metis prod.collapse)
  have i: "idle_step held s (oc, w)"
    using idle_step_trans [OF close_runtime_idle [OF assms] set_phase_idle [OF assms], of s P_Cleanup] by (simp add: p)
  have e: "env_endpoint (oc_env oc) = env_endpoint (oc_env (fst s))" and h: "held w = held (snd s)"
    using i by (simp_all add: idle_step_def)
  let ?d = "drop_session st (stop_keep_alive st (oc, w))"
  have d: "held (snd ?d) = held w"
    using idle_billed [OF idle_step_trans [OF stop_keep_alive_idle [OF assms] drop_session_idle [OF assms]], of "(oc, w)"]
    by simp
  have none: "held (snd (persist st (case ?d of (oc, w) \<Rightarrow> (edit_env (\<lambda>e. e\<lparr>env_cleanup := C_Already_Absent\<rparr>) oc, w)))) = held w"
    using assms d by (cases ?d) (simp add: site_bills_def remote_keepsD(5))
  let ?k = "stop_keep_alive st (copy_records_hint st (oc, w))"
  have k: "held (snd ?k) = held w"
    using idle_billed [OF idle_step_trans [OF copy_records_hint_idle [OF assms] stop_keep_alive_idle [OF assms]], of "(oc, w)"]
    by simp
  show ?thesis
  proof (cases "has_vm (oc_env oc)")
    case False
    then have "snd (cleanup_job st leave_up s) = snd (persist st (case ?d of (oc, w) \<Rightarrow>
        (edit_env (\<lambda>e. e\<lparr>env_cleanup := C_Already_Absent\<rparr>) oc, w)))"
      by (auto simp: cleanup_job_def p has_vm_def split: option.splits prod.splits)
    then show ?thesis using none h False e by (auto simp: Let_def has_vm_def split: option.splits)
  next
    case True
    then obtain endpoint where x: "env_endpoint (oc_env oc) = Some endpoint" "endpoint \<noteq> []"
      by (auto simp: has_vm_def split: option.splits)
    let ?r = "release_vm st endpoint ?k"
    have r: "held (snd (persist st (drop_session st ?r))) = held (snd ?r)"
      using idle_billed [OF idle_step_trans [OF drop_session_idle [OF assms] persist_idle [OF assms]], of ?r] by simp
    have c: "env_cleanup (oc_env (fst (persist st (drop_session st ?r)))) = env_cleanup (oc_env (fst ?r))"
      using calm_fields [OF drop_session_calm [of ?r st]] by simp
    have kept: "env_cleanup (record_vm_kept (st_job st) (oc_env oc)) \<notin> {C_Released, C_Already_Absent}"
      using record_vm_kept_env(2) [of "st_job st" "oc_env oc"] by auto
    have "held (snd (persist st (edit_env (record_vm_kept (st_job st)) oc, w))) = held w"
      using assms by (simp add: site_bills_def remote_keepsD(5))
    then show ?thesis
      using release_vm_bills [OF assms refl, of endpoint ?k] k r c h x kept e
      by (cases leave_up) (simp_all add: cleanup_job_def p Let_def)
  qed
qed


section \<open>A service for the witnesses\<close>

text \<open>
  The world is the list of assigned endpoints.  The service grants every accelerator;
  the VM answers no kernel call and no file request.
\<close>

definition still_remote :: "(unit, 'w) remote" where
  "still_remote = \<lparr>rm_read_json = (\<lambda>p t w. ((None, Rs_Degraded), t, w)),
     rm_read_text = (\<lambda>p t w. ((None, Rs_Degraded), t, w)), rm_write_json = (\<lambda>p v t w. (Rs_Degraded, t, w)),
     rm_problem = (\<lambda>t. None), rm_note = (\<lambda>t. []), rm_clock = (\<lambda>w. (0, w)), rm_time = (\<lambda>w. (0, w)),
     rm_now = (\<lambda>w. (''2026-01-01T00:00:00+00:00'', w)), rm_sleep = (\<lambda>d w. w),
     rm_write_local = (\<lambda>n s w. (Inr (), w)), rm_persist = (\<lambda>e w. w)\<rparr>"

definition granting_colab :: "string list colab" where
  "granting_colab = \<lparr>co_assign = (\<lambda>opts w. (Inr \<lparr>as_accelerator = ''T4'', as_endpoint = ''vm-1'', as_token = ''t'',
       as_url = ''u'', as_variant = ''GPU'', as_shape = ''STANDARD''\<rparr>, ''vm-1'' # w)),
     co_unassign = (\<lambda>e w. (Inr (), List.filter (\<lambda>x. x \<noteq> e) w)),
     co_list = (\<lambda>w. (Inr (map (\<lambda>e. \<lparr>asg_endpoint = Some e, asg_proxy = None\<rparr>) w), w)),
     co_keep_alive = (\<lambda>e w. (Inr (), w)), co_ccu = (\<lambda>w. (Inr (0, 0, 1), w))\<rparr>"

definition demo_plan_of :: "job_spec \<Rightarrow> plan" where
  "demo_plan_of spec = \<lparr>pl_schema_version = ''2'', pl_job_id = ''j'', pl_spec_hash = [],
     pl_created_at = [], pl_spec = spec, pl_diagnostics = [], pl_url_expiry = [],
     pl_probed_size_bytes = [], pl_source_spec_path = None, pl_source_files = []\<rparr>"

definition silent_vm :: kernel_error where
  "silent_vm = \<lparr>ke_error = \<lparr>err_type = ''TimeoutError'', err_msg = []\<rparr>, ke_os = True, ke_timeout = True,
     ke_interrupted = False, ke_requests = False, ke_websocket = False, ke_runtime = False\<rparr>"

definition demo_site :: "(unit, unit, string list) site" where
  "demo_site = \<lparr>st_plan = demo_plan_of (default_spec ''job'' ''train.py''), st_colab = granting_colab,
     st_remote = still_remote, st_pydantic = strict_pydantic, st_open = (\<lambda>u n w. (Inr [], w)),
     st_loads = (\<lambda>t. Inr JNull), st_attempts = (\<lambda>t. Inr []), st_float = (\<lambda>r. ''0.0''), st_local_dir = ''/jobs/j'',
     st_event = (\<lambda>p w. w), st_transport = (\<lambda>s w. (Inr (), w)), st_remove = (\<lambda>p t w. (Inr Rs_Degraded, t, w)),
     st_connect = (\<lambda>s w. (Inr (), w)), st_execute = (\<lambda>r k n w. (Inl silent_vm, r, w)),
     st_restart = (\<lambda>r n w. (Inl silent_vm, r, w)), st_stop = (\<lambda>r w. (Inr (), w)),
     st_identity = (\<lambda>r. (None, None)), st_add = (\<lambda>s w. (Inr (), w)), st_drop = (\<lambda>n w. (Inr (), w)),
     st_spawn = (\<lambda>s w. (Inr (Some 7), w)), st_kill = (\<lambda>n w. w), st_micros = (\<lambda>w. (0, w)),
     st_decode = id, st_fiso = (\<lambda>t. None)\<rparr>"

lemma demo_site_bills: "site_bills set demo_site"
  by (simp add: site_bills_def colab_bills_def remote_keeps_def keeps_def demo_site_def granting_colab_def
      still_remote_def image_image) (auto simp: image_iff)

abbreviation demo_start :: "(unit, unit) orch \<times> string list" where
  "demo_start \<equiv> (orch_init ''1'' ''1'' demo_site, [])"

lemma demo_provision:
  "snd (snd (provision demo_site demo_start)) = [''vm-1'']
   \<and> env_endpoint (oc_env (fst (snd (provision demo_site demo_start)))) = Some ''vm-1''"
  by code_simp


theorem cleanup_frees_the_vm_witness:
  "let s = snd (provision demo_site demo_start); s' = cleanup_job demo_site False s in
     set (snd s) = {''vm-1''} \<and> ''vm-1'' \<notin> set (snd s')"
proof -
  let ?s = "snd (provision demo_site demo_start)"
  have c: "env_cleanup (oc_env (fst (cleanup_job demo_site False ?s))) = C_Released" by code_simp
  show ?thesis
    using cleanup_frees_the_vm [OF demo_site_bills, of False ?s] demo_provision c by (simp add: Let_def)
qed

text \<open>Provisioning edits the accelerator fields only where it picks a candidate.\<close>

definition same_accelerator :: "('t, 'r) orch \<Rightarrow> ('t, 'r) orch \<Rightarrow> bool" where
  "same_accelerator a b \<longleftrightarrow>
     env_requested_accelerator (oc_env b) = env_requested_accelerator (oc_env a)
     \<and> env_actual_accelerator (oc_env b) = env_actual_accelerator (oc_env a)"

lemma same_accelerator_calm: "calm a b \<Longrightarrow> same_accelerator a b"
  by (auto simp: calm_def only_hints_def same_accelerator_def)

lemma same_accelerator_trans: "same_accelerator a b \<Longrightarrow> same_accelerator b c \<Longrightarrow> same_accelerator a c"
  by (simp add: same_accelerator_def)

lemma spawn_daemon_accelerator: "same_accelerator (fst s) (fst (snd (spawn_daemon st ss s)))"
proof -
  obtain r oc w where a: "save_session st ss s = (r, oc, w)" by (metis prod.collapse)
  have 1: "same_accelerator (fst s) oc"
    using same_accelerator_calm [OF save_session_calm [of s st ss]] by (simp add: a)
  show ?thesis
  proof (cases r)
    case (Inl e)
    then show ?thesis using 1 by (simp add: spawn_daemon_def a snd_then_do)
  next
    case (Inr u)
    obtain p w2 where d: "st_spawn st ss w = (p, w2)" by (metis prod.collapse)
    show ?thesis
      using 1 same_accelerator_trans [OF 1 same_accelerator_calm [OF save_session_calm [of "(oc, w2)", simplified]]]
      by (simp add: spawn_daemon_def a Inr snd_then_do d split: sum.split)
  qed
qed

lemma start_keep_alive_accelerator: "same_accelerator (fst s) (fst (snd (start_keep_alive st ss s)))"
proof -
  obtain oc w where s: "s = (oc, w)" by (cases s)
  have e: "same_accelerator oc (edit_env (hint h) oc)" for h by (simp add: same_accelerator_def hint_def)
  have d: "same_accelerator oc (fst (snd (spawn_daemon st ss' (edit_env (hint h) oc, w'))))"
    "same_accelerator oc (fst (snd (spawn_daemon st ss' (oc, w'))))" for ss' w' h
    using same_accelerator_trans [OF e spawn_daemon_accelerator [of "(edit_env (hint h) oc, w')", unfolded fst_conv]]
      spawn_daemon_accelerator [of "(oc, w')"] by simp_all
  have v: "same_accelerator oc (fst (snd (save_session st ss' (oc, w'))))" for ss' w'
    using same_accelerator_calm [OF save_session_calm [of "(oc, w')"]] by simp
  have x: "same_accelerator oc ((edit_env (\<lambda>env. env\<lparr>env_endpoint := None, env_session := None\<rparr>) oc)\<lparr>oc_session := None\<rparr>)"
    by (simp add: same_accelerator_def)
  show ?thesis
    using d v e x by (auto simp: s start_keep_alive_def split: sum.split prod.split)
qed

lemma take_vm_accelerator: "same_accelerator (fst s) (fst (snd (take_vm st want a attempts s)))"
proof -
  obtain oc w where s: "s = (oc, w)" by (cases s)
  define ss where "ss = session_of (''job-'' @ st_job st) a"
  define oc1 where "oc1 = (edit_env (\<lambda>e. e\<lparr>env_session := Some (''job-'' @ st_job st),
      env_provision_attempts := (if attempts = [] then env_provision_attempts e
        else attempts @ [granted_attempt want (as_accelerator a)])\<rparr>) oc)\<lparr>oc_session := Some ss\<rparr>"
  obtain w1 where p: "persist st (oc1, w) = (oc1, w1)" by simp
  obtain r oc2 w2 where k: "start_keep_alive st ss (oc1, w1) = (r, oc2, w2)" by (metis prod.collapse)
  have "same_accelerator oc oc1" by (simp add: same_accelerator_def oc1_def)
  moreover have "same_accelerator oc1 oc2" using start_keep_alive_accelerator [of "(oc1, w1)" st ss] by (simp add: k)
  ultimately have 1: "same_accelerator oc oc2" by (rule same_accelerator_trans)
  obtain at_time w3 where n: "rm_now (st_remote st) w2 = (at_time, w3)" by (metis prod.collapse)
  obtain reading env w4 where u: "read_compute_units (st_colab st) at_time ''provision'' (oc_env oc2) w3 = (reading, env, w4)"
    by (metis prod.collapse)
  have "same_accelerator oc2 (edit_env (\<lambda>_. env\<lparr>env_compute_units_at_provision := reading\<rparr>) oc2)"
    using read_compute_units_env [OF u] by (auto simp: only_hints_def same_accelerator_def)
  then show ?thesis
    using 1 same_accelerator_trans [OF 1]
    unfolding take_vm_def s prod.case Let_def ss_def [symmetric] oc1_def [symmetric] p k
    by (simp add: snd_then_do n u split: sum.split)
qed

text \<open>What a grant must be: asked for, and a CPU only where a CPU was asked for.\<close>

definition fair_grant :: "string list \<Rightarrow> job_envelope \<Rightarrow> bool" where
  "fair_grant wanted env \<longleftrightarrow>
     (case (env_requested_accelerator env, env_actual_accelerator env) of
        (Some want, Some granted) \<Rightarrow> want \<in> set wanted \<and> \<not> cpu_for_gpu granted want
      | _ \<Rightarrow> False)"

lemma try_candidates_fair:
  "set wants \<subseteq> set all \<Longrightarrow> fst (try_candidates st all wants attempts (oc, w)) = Inr () \<Longrightarrow>
     fair_grant all (oc_env (fst (snd (try_candidates st all wants attempts (oc, w)))))"
proof (induction wants arbitrary: attempts oc w)
  case Nil
  then show ?case by simp
next
  case (Cons want wants)
  obtain g w1 where g: "co_assign (st_colab st) (runtime_options want) w = (g, w1)" by (metis prod.collapse)
  show ?case
  proof (cases g)
    case (Inl e)
    then show ?thesis using Cons by (auto simp: Let_def g split: if_splits)
  next
    case (Inr a)
    obtain freed detail w2 where r: "release_assignment (st_colab st) (as_endpoint a) w1 = ((freed, detail), w2)"
      by (metis prod.collapse)
    define oc1 where "oc1 = edit_env (\<lambda>e. e\<lparr>env_actual_accelerator := Some (as_accelerator a),
        env_endpoint := Some (as_endpoint a)\<rparr>) (edit_env (\<lambda>e. e\<lparr>env_requested_accelerator := Some want\<rparr>) oc)"
    show ?thesis
    proof (cases "cpu_for_gpu (as_accelerator a) want")
      case True
      then show ?thesis using Cons by (auto simp: Let_def g Inr r split: if_splits)
    next
      case False
      have "same_accelerator oc1 (fst (snd (take_vm st want a attempts (oc1, w1))))"
        using take_vm_accelerator [of "(oc1, w1)"] by simp
      then show ?thesis
        using False Cons.prems(1) by (simp add: Let_def g Inr oc1_def [symmetric] same_accelerator_def fair_grant_def)
          (simp add: oc1_def)
    qed
  qed
qed

text \<open>
  A provisioned VM has an accelerator the spec asks for, and the CPU runtime is taken
  only where the candidate was the CPU, which is one only under \<open>accept_cpu\<close>.
\<close>

theorem provision_never_substitutes_silently:
  "case provision st s of
     (Inl _, _) \<Rightarrow> True
   | (Inr _, oc, _) \<Rightarrow>
       (case (env_requested_accelerator (oc_env oc), env_actual_accelerator (oc_env oc)) of
          (Some want, Some granted) \<Rightarrow>
            want \<in> set (acc_prefer (sp_accelerator (st_spec st)))
              \<union> (if acc_accept_cpu (sp_accelerator (st_spec st)) then {''NONE''} else {})
            \<and> (if granted \<in> {''NONE'', ''UNRECOGNIZED''} then want = ''NONE'' else True)
        | _ \<Rightarrow> False)"
proof -
  obtain oc w where p: "set_phase st P_Provision s = (oc, w)" by (metis prod.collapse)
  let ?c = "candidates (st_spec st)"
  obtain r oc' w' where t: "try_candidates st ?c ?c [] (oc, w) = (r, oc', w')" by (metis prod.collapse)
  have f: "fair_grant ?c (oc_env oc')" if "r = Inr u" for u
    using try_candidates_fair [of ?c ?c st "[]" oc w] that by (simp add: t)
  have c: "set ?c = set (acc_prefer (sp_accelerator (st_spec st)))
      \<union> (if acc_accept_cpu (sp_accelerator (st_spec st)) then {''NONE''} else {})"
    by (simp only: candidates_def set_append split: if_split) simp
  show ?thesis
  proof (cases r)
    case (Inl e)
    then show ?thesis by (simp only: provision_def p t) simp
  next
    case (Inr u)
    show ?thesis
      using f [OF Inr] Inr unfolding provision_def p t fair_grant_def c cpu_for_gpu_def prod.case
      by (auto split: option.splits)
  qed
qed

end
