(* ===== verification/Launch.thy ===== *)
theory Launch
  imports Assignment RunnerMain
begin

text \<open>
  The seam between the launch program of \<open>job/orchestrator.py\<close> and the command line of
  \<open>runtime_payload/runner.py\<close>: the runner reads from the argument list it is started
  with the job the supervisor launched.
\<close>

section \<open>Numbers on the command line\<close>

lemma split_on_digits: "list_all is_digit s \<Longrightarrow> split_on CHR ''_'' s = [s]"
  by (induction s) (auto simp: is_digit_def code_def)

lemma strip_digits:
  assumes "list_all is_digit s"
  shows "strip s = s"
proof -
  have d: "\<not> is_space c" if "is_digit c" for c
    using that by (auto simp: is_digit_def is_space_def)
  have "dropWhile is_space t = t" if "list_all is_digit t" for t
    using that d by (cases t) auto
  then show ?thesis using assms by (simp add: strip_def rstrip_def lstrip_def)
qed

lemma parse_int_show_nat:
  assumes "n < 10 ^ 20"
  shows "parse_int (show_nat n) = Some (int n)"
proof -
  have d: "list_all is_digit (show_nat n)" using show_nat_digits by (simp add: list_all_iff)
  have "length (show_nat n) \<le> 4300" using length_show_nat [OF assms] by simp
  then have g: "digit_groups (show_nat n) = Some n"
    using d split_on_digits [OF d] by (simp add: digit_groups_def digits_value_show)
  obtain c cs where c: "show_nat n = c # cs" by (cases "show_nat n") auto
  then have "is_digit c" using d by simp
  then have "c \<noteq> CHR ''-'' \<and> c \<noteq> CHR ''+''" by (auto simp: is_digit_def code_def)
  then show ?thesis using g strip_digits [OF d] c by (simp add: parse_int_def)
qed

section \<open>The arguments before the separator\<close>

definition own_args :: "launch_request \<Rightarrow> (nat \<times> bool) option \<Rightarrow> bool \<Rightarrow> bool \<Rightarrow> string list" where
  "own_args r secret stage offload =
     [''--job-dir'', lr_dir r, ''--deadline'', show_int (lr_deadline r), ''--cli-version'', lr_cli_version r,
      ''--entry'', os_path_join (os_path_join (lr_dir r) ''src'') (lr_entry r)]
     @ (case secret of None \<Rightarrow> [] | Some (fd, _) \<Rightarrow> [''--secrets-fd'', show_nat fd])
     @ (if lr_secrets_required r then [''--secrets-required''] else [])
     @ (if stage then [''--stage-manifest'', os_path_join (lr_dir r) ''stage.manifest.json''] else [])
     @ (if offload then [''--offload-manifest'', os_path_join (lr_dir r) ''offload.manifest.json''] else [])
     @ (case lr_sync r of None \<Rightarrow> [] | Some n \<Rightarrow> [''--artifact-sync-interval'', show_int n])"

lemma launch_argv_own: "launch_argv r secret stage offload = own_args r secret stage offload @ ''--'' # lr_args r"
  by (simp add: launch_argv_def own_args_def Let_def)

lemma show_int_no_separator: "show_int n \<noteq> ''--''"
proof -
  have "CHR ''-'' \<notin> set (show_nat m)" for m
    using show_nat_digits [of m] by (auto simp: is_digit_def code_def)
  then have "show_nat m \<noteq> ''--''" "show_nat m \<noteq> ''-''" for m
    by (metis list.set_intros(1))+
  then show ?thesis by (simp add: show_int_def)
qed

lemma path_join_slash:
  assumes "CHR ''/'' \<in> set a"
  shows "CHR ''/'' \<in> set (os_path_join a b)"
proof (cases "prefix ''/'' b")
  case True
  then obtain t where "b = ''/'' @ t" by (rule prefixE)
  then show ?thesis using True by (simp add: os_path_join_def)
next
  case False
  then show ?thesis using assms by (simp add: os_path_join_def)
qed

lemma slash_no_separator: "CHR ''/'' \<in> set a \<Longrightarrow> a \<noteq> ''--''"
  by auto

lemmas path_join_no_separator = slash_no_separator [OF path_join_slash]

lemma own_args_no_separator:
  assumes "CHR ''/'' \<in> set (lr_dir r)" "lr_cli_version r \<noteq> ''--''"
  shows "\<forall>a \<in> set (own_args r secret stage offload). a \<noteq> ''--''"
proof -
  have d: "lr_dir r \<noteq> ''--''" using assms(1) by auto
  have n: "show_nat m \<noteq> ''--''" for m using show_int_no_separator [of "int m"] by (simp add: show_int_def)
  note p = path_join_no_separator [OF assms(1)] path_join_no_separator [OF path_join_slash [OF assms(1)]]
  show ?thesis
    using assms(2) d n p show_int_no_separator unfolding own_args_def
    by (auto split: option.splits) metis+
qed

text \<open>The runner's parser on one option and its value.\<close>

lemma parse_option:
  "x \<in> set value_options \<Longrightarrow> set_option pf x v ae = Inr ae' \<Longrightarrow>
     parse_runner_args pf ae (x # v # rest) = parse_runner_args pf ae' rest"
  by (auto simp: value_options_def)

lemma parse_required:
  "parse_runner_args pf ae (''--secrets-required'' # rest)
     = parse_runner_args pf ((fst ae)\<lparr>rg_secrets_required := True\<rparr>, snd ae) rest"
  by simp

lemma parse_own_args:
  assumes "pf (show_int (lr_deadline r)) = Some (of_int (lr_deadline r))"
    and "case lr_sync r of None \<Rightarrow> True | Some n \<Rightarrow> pf (show_int n) = Some (of_int n)"
    and "case secret of None \<Rightarrow> True | Some (fd, _) \<Rightarrow> fd < 10 ^ 20"
    and "CHR ''/'' \<in> set (lr_dir r)"
  shows "parse_runner_args pf (default_runner_args, None) (own_args r secret stage offload)
    = Inr \<lparr>rg_job_dir = Some (lr_dir r), rg_deadline = Some (of_int (lr_deadline r)),
        rg_cli_version = lr_cli_version r, rg_secrets_fd = map_option (\<lambda>(fd, _). int fd) secret,
        rg_secrets_required = lr_secrets_required r,
        rg_stage_manifest = (if stage then Some (os_path_join (lr_dir r) ''stage.manifest.json'') else None),
        rg_offload_manifest = (if offload then Some (os_path_join (lr_dir r) ''offload.manifest.json'') else None),
        rg_sync_interval = map_option of_int (lr_sync r),
        rg_rest = [os_path_join (os_path_join (lr_dir r) ''src'') (lr_entry r)]\<rparr>"
proof -
  let ?e = "os_path_join (os_path_join (lr_dir r) ''src'') (lr_entry r)"
  have e: "?e \<noteq> []" using path_join_slash [OF path_join_slash [OF assms(4)]] by (metis empty_iff empty_set)
  define sy where "sy = (case lr_sync r of None \<Rightarrow> [] | Some n \<Rightarrow> [''--artifact-sync-interval'', show_int n])"
  define off where "off = (if offload then [''--offload-manifest'', os_path_join (lr_dir r) ''offload.manifest.json''] else []) @ sy"
  define sta where "sta = (if stage then [''--stage-manifest'', os_path_join (lr_dir r) ''stage.manifest.json''] else []) @ off"
  define req where "req = (if lr_secrets_required r then [''--secrets-required''] else []) @ sta"
  define sec where "sec = (case secret of None \<Rightarrow> [] | Some (fd, _) \<Rightarrow> [''--secrets-fd'', show_nat fd]) @ req"
  have 1: "parse_runner_args pf (a, Some ?e) sy = Inr (a\<lparr>rg_sync_interval := (case lr_sync r of
      None \<Rightarrow> rg_sync_interval a | Some n \<Rightarrow> Some (of_int n)), rg_rest := [?e]\<rparr>)" for a
    using assms(2) e unfolding sy_def
    by (cases "lr_sync r") (simp_all add: entry_list_def value_options_def set_option_def)
  have 2: "parse_runner_args pf (a, Some ?e) off = parse_runner_args pf
      (a\<lparr>rg_offload_manifest := (if offload then Some (os_path_join (lr_dir r) ''offload.manifest.json'')
          else rg_offload_manifest a)\<rparr>, Some ?e) sy" for a
    unfolding off_def by (cases offload) (simp_all add: value_options_def set_option_def)
  have 3: "parse_runner_args pf (a, Some ?e) sta = parse_runner_args pf
      (a\<lparr>rg_stage_manifest := (if stage then Some (os_path_join (lr_dir r) ''stage.manifest.json'')
          else rg_stage_manifest a)\<rparr>, Some ?e) off" for a
    unfolding sta_def by (cases stage) (simp_all add: value_options_def set_option_def)
  have 4: "parse_runner_args pf (a, Some ?e) req = parse_runner_args pf
      (a\<lparr>rg_secrets_required := lr_secrets_required r \<or> rg_secrets_required a\<rparr>, Some ?e) sta" for a
    unfolding req_def by (cases "lr_secrets_required r") simp_all
  have 5: "parse_runner_args pf (a, Some ?e) sec = parse_runner_args pf
      (a\<lparr>rg_secrets_fd := (case secret of None \<Rightarrow> rg_secrets_fd a | Some (fd, _) \<Rightarrow> Some (int fd))\<rparr>, Some ?e) req" for a
    using assms(3) parse_int_show_nat unfolding sec_def
    by (cases secret) (auto simp: value_options_def set_option_def)
  have own: "own_args r secret stage offload
      = ''--job-dir'' # lr_dir r # ''--deadline'' # show_int (lr_deadline r) # ''--cli-version'' # lr_cli_version r
        # ''--entry'' # ?e # sec"
    by (simp add: own_args_def sec_def req_def sta_def off_def sy_def)
  have first: "set_option pf ''--job-dir'' d (a, n) = Inr (a\<lparr>rg_job_dir := Some d\<rparr>, n)"
    "set_option pf ''--deadline'' (show_int (lr_deadline r)) (a, n) = Inr (a\<lparr>rg_deadline := Some (of_int (lr_deadline r))\<rparr>, n)"
    "set_option pf ''--cli-version'' d (a, n) = Inr (a\<lparr>rg_cli_version := d\<rparr>, n)"
    "set_option pf ''--entry'' d (a, n) = Inr (a, Some d)" for a n d
    by (simp_all add: set_option_def assms(1))
  have o: "''--job-dir'' \<in> set value_options" "''--deadline'' \<in> set value_options"
    "''--cli-version'' \<in> set value_options" "''--entry'' \<in> set value_options"
    by (simp_all add: value_options_def)
  have "parse_runner_args pf (default_runner_args, None) (own_args r secret stage offload)
      = parse_runner_args pf (default_runner_args\<lparr>rg_job_dir := Some (lr_dir r),
          rg_deadline := Some (of_int (lr_deadline r)), rg_cli_version := lr_cli_version r\<rparr>, Some ?e) sec"
    unfolding own parse_option [OF o(1) first(1)] parse_option [OF o(2) first(2)]
      parse_option [OF o(3) first(3)] parse_option [OF o(4) first(4)] by simp
  then show ?thesis
    unfolding 5 4 3 2 1
    by (cases secret; cases "lr_sync r") (auto simp: default_runner_args_def)
qed

text \<open>
  C18. The runner starts as the supervisor launched it: from the command line of the
  launch program it reads the job directory, the deadline, the descriptor of the
  credential file, the manifests that are there, the interval of the periodic upload
  and the entry point, and hands the script exactly the spec's arguments, whatever
  they are.
\<close>

theorem runner_starts_as_launched:
  assumes "\<And>n. pf (show_int n) = Some (of_int n)"
    and "case secret of None \<Rightarrow> True | Some (fd, _) \<Rightarrow> fd < 2 ^ 31"
    and "env_cli_version env \<noteq> ''--''"
  shows "runner_start pf (launch_argv (launch_request_of st env) secret stage offload) =
    (let spec = st_spec st; dir = ''/content/jobs/'' @ st_job st;
         entry = os_path_join (os_path_join dir ''src'') (cs_entry (sp_code spec))
     in Start \<lparr>rg_job_dir = Some dir, rg_deadline = Some (of_int (bud_wall_clock (sp_budgets spec))),
          rg_cli_version = env_cli_version env, rg_secrets_fd = map_option (\<lambda>(fd, _). int fd) secret,
          rg_secrets_required = secrets_required spec,
          rg_stage_manifest = (if stage then Some (os_path_join dir ''stage.manifest.json'') else None),
          rg_offload_manifest = (if offload then Some (os_path_join dir ''offload.manifest.json'') else None),
          rg_sync_interval = map_option of_int (bud_artifact_sync_interval (sp_budgets spec)),
          rg_rest = [entry]\<rparr> entry (cs_args (sp_code spec)))"
proof -
  let ?r = "launch_request_of st env"
  have dir: "lr_dir ?r = ''/content/jobs/'' @ st_job st"
    by (simp add: launch_request_of_def remote_root_def)
  then have slash: "CHR ''/'' \<in> set (lr_dir ?r)" by simp
  have fd: "case secret of None \<Rightarrow> True | Some (fd, _) \<Rightarrow> fd < 10 ^ 20"
    using assms(2) by (auto split: option.splits)
  have sync: "case lr_sync ?r of None \<Rightarrow> True | Some n \<Rightarrow> pf (show_int n) = Some (of_int n)"
    using assms(1) by (simp split: option.split)
  have v: "lr_cli_version ?r \<noteq> ''--''" using assms(3) by (simp add: launch_request_of_def)
  have split: "split_consumer_args (launch_argv ?r secret stage offload) = (own_args ?r secret stage offload, lr_args ?r)"
    using own_args_no_separator [OF slash v, of secret stage offload]
    unfolding launch_argv_own split_consumer_args_def
    by (simp add: takeWhile_append dropWhile_append takeWhile_eq_all_conv)
  show ?thesis
    unfolding runner_start_def split prod.case parse_own_args [OF assms(1) sync fd slash] Let_def
    by (simp add: dir) (simp add: launch_request_of_def)
qed

definition exact_floats :: "string \<Rightarrow> rat option" where
  "exact_floats s = (case s of
     CHR ''-'' # ds \<Rightarrow> Some (- of_nat (digits_value 0 ds)) | _ \<Rightarrow> Some (of_nat (digits_value 0 s)))"

theorem runner_starts_as_launched_witness:
  "\<exists>a. runner_start exact_floats (launch_argv (launch_request_of demo_site (new_envelope ''1'' ''1'' ''j''))
         (Some (5, True)) True False) = Start a ''/content/jobs/j/src/train.py'' []
     \<and> rg_secrets_fd a = Some 5 \<and> rg_deadline a = Some 3600"
proof -
  have 1: "exact_floats (show_int n) = Some (of_int n)" for n
  proof (cases "n < 0")
    case True
    then show ?thesis by (simp add: exact_floats_def show_int_def digits_value_show)
  next
    case False
    obtain c cs where c: "show_nat (nat n) = c # cs" by (cases "show_nat (nat n)") auto
    have "c \<noteq> CHR ''-''" using show_nat_digits [of "nat n"] c by (auto simp: is_digit_def code_def)
    then have "exact_floats (show_nat (nat n)) = Some (of_nat (digits_value 0 (show_nat (nat n))))"
      unfolding exact_floats_def c by (auto split: list.split char.split bool.split)
    then show ?thesis using False by (simp add: show_int_def digits_value_show)
  qed
  have 2: "os_path_join (os_path_join ''/content/jobs/j'' ''src'') ''train.py'' = ''/content/jobs/j/src/train.py''"
    by code_simp
  show ?thesis
    using 2 runner_starts_as_launched [OF 1, of "Some (5, True)" "new_envelope ''1'' ''1'' ''j''" demo_site True False]
    by (simp add: new_envelope_def Let_def demo_site_def demo_plan_of_def default_spec_def path_join_def default_budgets_def)
qed

end
