(* ===== verification/Apply.thy ===== *)
theory Apply
  imports Assignment SpecHash
begin

text \<open>
  \<open>job apply\<close> of \<open>commands/job.py\<close>: the checks of a plan before a VM is assigned, the
  phases in their order, what each way out of them makes of the envelope, and the
  cleanup that follows all of them.  Output to the terminal is not modelled.
\<close>

section \<open>The checks before a VM\<close>

text \<open>A refusal: its reason code, its message and the diagnostics that decided it.\<close>

record refusal =
  rf_reason :: string
  rf_message :: string
  rf_diagnostics :: "diagnostic list"

definition refuse :: "string \<Rightarrow> string \<Rightarrow> diagnostic list \<Rightarrow> refusal" where
  "refuse reason message ds = \<lparr>rf_reason = reason, rf_message = ''[colab] '' @ message, rf_diagnostics = ds\<rparr>"

datatype gate = Pass | Refuse refusal | Crash py_error

definition check_hash :: "json \<Rightarrow> plan \<Rightarrow> refusal option" where
  "check_hash doc p =
     (let actual = plan_hash doc (pl_source_spec_path p) (pl_source_files p) in
      if actual = pl_spec_hash p then None
      else Some (refuse ''plan_refused''
        (''This plan file is inconsistent: its spec does not match its own recorded hash (recorded ''
         @ take 12 (pl_spec_hash p) @ '', spec hashes to '' @ take 12 actual
         @ ''). The plan was modified or truncated after it was written. Re-run job plan to produce a fresh one.'') []))"

definition check_diagnostics :: "plan \<Rightarrow> refusal option" where
  "check_diagnostics p =
     (if has_errors p then
        Some (refuse ''plan_refused'' ''This plan has errors and will not be applied. Fix the spec and re-plan.''
          (List.filter (\<lambda>d. dg_severity d = Sev_Error) (pl_diagnostics p)))
      else if has_warnings p \<and> \<not> sp_ignore_warnings (pl_spec p) then
        Some (refuse ''plan_refused''
          ''This plan has warnings. Set ignore_warnings: true in the spec to accept them explicitly.''
          (List.filter (\<lambda>d. dg_severity d = Sev_Warn) (pl_diagnostics p)))
      else None)"

definition check_sources :: "(source_failure, unit) outcome \<Rightarrow> refusal option" where
  "check_sources verified =
     (case verified of
        Inr _ \<Rightarrow> None
      | Inl (Layout_Failure e) \<Rightarrow> Some (refuse ''plan_refused'' (err_msg e) [])
      | Inl (Io_Failure e) \<Rightarrow>
          Some (refuse ''plan_refused''
            (''A source file in the plan cannot be read: '' @ describe_error e
             @ ''. Restore it, or re-run job plan.'') []))"

definition oversized :: "plan \<Rightarrow> string list" where
  "oversized p = map sf_path (List.filter (\<lambda>f. int contents_upload_ceiling < sf_size_bytes f) (pl_source_files p))"

definition check_sizes :: "plan \<Rightarrow> refusal option" where
  "check_sizes p =
     (if oversized p = [] then None
      else Some (refuse ''plan_refused''
        (''Source files exceed the 250 MB Contents ceiling: '' @ join '', '' (oversized p)
         @ ''. Move them to a data URL and re-plan.'') []))"

definition check_bundle :: "plan \<Rightarrow> refusal option" where
  "check_bundle p =
     (if cs_kind (sp_code (pl_spec p)) = Kind_Bundle \<and> pl_source_spec_path p = None
      then Some (refuse ''plan_refused''
        ''This bundle plan lacks its protected source exclusion. Re-run job plan to produce a fresh one.'' [])
      else None)"

definition check_expired :: "(py_error, diagnostic list) outcome \<Rightarrow> gate" where
  "check_expired expired =
     (case expired of
        Inl e \<Rightarrow> Crash e
      | Inr [] \<Rightarrow> Pass
      | Inr ds \<Rightarrow>
          Refuse (refuse ''plan_refused''
            ''Signed URLs in this plan have expired or will expire before the job needs them. Re-sign and re-plan.'' ds))"

text \<open>
  The checks in their order: \<open>doc\<close> is the spec's document, \<open>verified\<close> what
  \<open>verify_source_files\<close> says of the disk, \<open>expired\<close> what \<open>revalidate_expiry\<close> says now.
\<close>

definition first_refusal :: "refusal option list \<Rightarrow> refusal option" where
  "first_refusal rs = (case List.filter (\<lambda>r. r \<noteq> None) rs of [] \<Rightarrow> None | r # _ \<Rightarrow> r)"

definition plan_gate ::
  "json \<Rightarrow> (source_failure, unit) outcome \<Rightarrow> (py_error, diagnostic list) outcome \<Rightarrow> plan \<Rightarrow> gate" where
  "plan_gate doc verified expired p =
     (case first_refusal [check_bundle p, check_hash doc p, check_diagnostics p, check_sources verified, check_sizes p] of
        Some r \<Rightarrow> Refuse r
      | None \<Rightarrow> check_expired expired)"

text \<open>The claim of the job, and a job that already has a VM; a refusal releases the claim it took.\<close>

definition claim_gate :: "(string, unit) outcome \<Rightarrow> job_envelope option \<Rightarrow> string \<Rightarrow> gate \<times> bool" where
  "claim_gate claim existing job =
     (case claim of
        Inl m \<Rightarrow> (Refuse (refuse ''apply_in_progress'' m []), False)
      | Inr _ \<Rightarrow>
          (case Option.bind existing env_endpoint of
             Some endpoint \<Rightarrow>
               if endpoint = [] then (Pass, True)
               else (Refuse (refuse ''job_already_active''
                       (''Job '' @ job @ '' already has endpoint '' @ endpoint
                        @ ''. Use `mighty-colab job status --poll` instead of a second apply.'') []), False)
           | None \<Rightarrow> (Pass, True)))"

section \<open>Staging\<close>

text \<open>Which of the handlers of \<open>_stage_payload\<close> an exception of the upload meets.\<close>

datatype stage_failure = Transport_Failure bool | Refused_Payload | Unreadable_Source | Other_Failure

definition staging_problem :: "stage_failure \<Rightarrow> py_error \<Rightarrow> problem" where
  "staging_problem cl e =
     (case cl of
        Transport_Failure lost \<Rightarrow>
          phase_fails P_Stage (err_msg e) (Some (if lost then Retry_Different else Retry_Same)) []
      | Refused_Payload \<Rightarrow> phase_fails P_Stage (''staging refused: '' @ describe_error e) (Some Fix_Code) []
      | Unreadable_Source \<Rightarrow>
          phase_fails P_Stage (''a local source file could not be read: '' @ describe_error e) (Some Fix_Human) []
      | Other_Failure \<Rightarrow> Raised e)"

record ('t, 'r, 'w) applier =
  ap_site :: "('t, 'r, 'w) site"
  ap_staging :: "('t \<times> 'w) staging"
  ap_files :: "(py_error, user_entry) outcome list"
  ap_class :: "py_error \<Rightarrow> stage_failure"
  ap_timeout :: "int option"
  ap_debug :: bool
  ap_clear :: "'w \<Rightarrow> 'w"
  ap_release_claim :: "'w \<Rightarrow> 'w"
  ap_spawn_poll :: "'w \<Rightarrow> (py_error, unit) outcome \<times> 'w"

definition stage_step ::
  "('t, 'r, 'w) applier \<Rightarrow> ('t, 'r) orch \<times> 'w \<Rightarrow> (problem, unit) outcome \<times> ('t, 'r) orch \<times> 'w" where
  "stage_step ap s =
     (let st = ap_site ap; spec = st_spec st in
      then_do (if secrets_required spec then prepare_secret_channel st (set_phase st P_Stage s)
               else (Inr (), set_phase st P_Stage s)) (\<lambda>_ s.
        (case job_transport st s of
           (Inl e, s) \<Rightarrow> (Inl (staging_problem (ap_class ap (problem_error e)) (problem_error e)), s)
         | (Inr t, oc, w) \<Rightarrow>
             (case stage_payload (ap_staging ap) spec (remote_root @ ''/'' @ st_job st)
                     (Some (pl_source_files (st_plan st))) (ap_files ap) (t, w) of
                (r, _, t, w) \<Rightarrow>
                  ((case r of Inl e \<Rightarrow> Inl (staging_problem (ap_class ap e) e) | Inr _ \<Rightarrow> Inr ()),
                   oc\<lparr>oc_transport := Some t\<rparr>, w)))))"

section \<open>The phases\<close>

definition poller_of :: "('t, 'r, 'w) site \<Rightarrow> ('t, 'w) poller" where
  "poller_of st =
     \<lparr>po_remote = st_remote st, po_pydantic = st_pydantic st, po_spec = st_spec st, po_job_id = st_job st,
      po_open = st_open st, po_loads = st_loads st\<rparr>"

definition run_deadline_margin :: int where "run_deadline_margin = 600"

definition run_deadline_seconds :: "job_spec \<Rightarrow> int" where
  "run_deadline_seconds spec = bud_wall_clock (sp_budgets spec) + run_deadline_margin"

definition poll_interval :: rat where "poll_interval = 15"

text \<open>The methods of the poll on the object and the transport it holds.\<close>

definition lift_poll ::
  "(sup \<Rightarrow> 't \<Rightarrow> 'w \<Rightarrow> ((py_error, unit) outcome \<times> sup \<times> 't \<times> 'w) option) \<Rightarrow> 't \<Rightarrow> ('t, 'r) orch \<times> 'w
    \<Rightarrow> ((problem, unit) outcome \<times> ('t, 'r) orch \<times> 'w) option" where
  "lift_poll f t = (\<lambda>(oc, w).
     map_option (\<lambda>(r, sp, t, w).
         (case r of Inl e \<Rightarrow> Inl (Raised e) | Inr _ \<Rightarrow> Inr (), oc\<lparr>oc_sup := sp, oc_transport := Some t\<rparr>, w))
       (f (oc_sup oc) t w))"

text \<open>
  After the launch: the deadline of this call, or of the run; then the poll, and the
  cancel when its deadline passed.  \<open>None\<close> is a poll that does not return.
\<close>

definition passed_text :: "job_spec \<Rightarrow> int option \<Rightarrow> string" where
  "passed_text spec limit =
     (case limit of
        Some n \<Rightarrow> ''apply'' @ [CHR 0x27] @ ''s --timeout of '' @ show_int n @ ''s passed before a verdict''
      | None \<Rightarrow> ''no verdict within '' @ show_int (run_deadline_seconds spec) @ ''s of launch (wall_clock ''
          @ show_int (bud_wall_clock (sp_budgets spec)) @ ''s + '' @ show_int run_deadline_margin @ ''s)'')"

definition requester_text :: "int option \<Rightarrow> string" where
  "requester_text limit = (if limit = None then ''job apply deadline'' else ''job apply --timeout'')"

definition supervise ::
  "('t, 'r, 'w) site \<Rightarrow> int option \<Rightarrow> rat \<Rightarrow> ('t, 'r) orch \<times> 'w
    \<Rightarrow> ((problem, unit) outcome \<times> ('t, 'r) orch \<times> 'w) option" where
  "supervise st limit started s =
     (case job_transport st s of
        (Inl e, s) \<Rightarrow> Some (Inl e, s)
      | (Inr t, oc, w) \<Rightarrow>
          (case (case limit of Some n \<Rightarrow> (started + of_int n, w)
                 | None \<Rightarrow> (case rm_time (st_remote st) w of
                     (now, w) \<Rightarrow> (now + of_int (run_deadline_seconds (st_spec st)), w))) of
             (deadline, w) \<Rightarrow>
               Option.bind (lift_poll (poll (poller_of st) deadline poll_interval) t (oc, w)) (\<lambda>(r, oc, w).
                 case (r, oc_transport oc) of
                   (Inr _, Some t) \<Rightarrow>
                     if env_supervisor (oc_env oc) = S_Interrupted then
                       lift_poll (cancel_after_deadline (poller_of st) (passed_text (st_spec st) limit)
                         (requester_text limit) runner_stop_wait_seconds) t (oc, w)
                     else Some (r, oc, w)
                 | _ \<Rightarrow> Some (r, oc, w))))"

text \<open>The first phases end in the launch, whose pid proves the credential file was taken.\<close>

definition before_run ::
  "('t, 'r, 'w) applier \<Rightarrow> ('t, 'r) orch \<times> 'w \<Rightarrow> (problem, int option) outcome \<times> ('t, 'r) orch \<times> 'w" where
  "before_run ap s =
     (let st = ap_site ap in
      then_do (provision st s) (\<lambda>_ s.
      then_do (install st s) (\<lambda>_ s.
      then_do (restart st s) (\<lambda>_ s.
      then_do (verify st s) (\<lambda>_ s.
      then_do (stage_step ap s) (\<lambda>_ s.
      then_do (seal_secret_channel st s) (\<lambda>_ s. launch st s)))))))"

definition effective_limit :: "int option \<Rightarrow> int option" where
  "effective_limit timeout = (case timeout of Some n \<Rightarrow> if n = 0 then None else Some n | None \<Rightarrow> None)"

definition apply_body ::
  "('t, 'r, 'w) applier \<Rightarrow> ('t, 'r) orch \<times> 'w \<Rightarrow> ((problem, unit) outcome \<times> bool \<times> ('t, 'r) orch \<times> 'w) option" where
  "apply_body ap = (\<lambda>(oc, w).
     (let st = ap_site ap; limit = effective_limit (ap_timeout ap) in
      case (case limit of None \<Rightarrow> (0, w) | Some _ \<Rightarrow> rm_time (st_remote st) w) of
        (started, w) \<Rightarrow>
          (case before_run ap (oc, w) of
             (Inl e, s) \<Rightarrow> Some (Inl e, False, s)
           | (Inr pid, s) \<Rightarrow>
               map_option (\<lambda>(r, s). (r, pid \<noteq> None, s)) (supervise st limit started s))))"

section \<open>What a way out makes of the envelope\<close>

text \<open>A signal may stop the body anywhere, so every state of the object is one it may be stopped in.\<close>

datatype stop = Ctrl_C | Stop_Signal string

datatype exit = Ended | Failed problem | Stopped stop

definition nothing_uploaded :: "job_spec \<Rightarrow> offload" where
  "nothing_uploaded spec = (if sp_artifacts spec = [] then O_Not_Required else O_Skipped)"

definition set_if_unset :: "string \<Rightarrow> string option \<Rightarrow> string option" where
  "set_if_unset v x = (case x of None \<Rightarrow> Some v | Some t \<Rightarrow> if t = [] then Some v else Some t)"

definition phase_failed :: "job_spec \<Rightarrow> string \<Rightarrow> phase_error \<Rightarrow> job_envelope \<Rightarrow> job_envelope" where
  "phase_failed spec now pe env =
     (let e = record_failure (pe_phase pe) env in
      e\<lparr>env_finished_at := set_if_unset now (env_finished_at e), env_workload := W_Failed,
        env_offload := nothing_uploaded spec, env_supervisor := S_Finished,
        env_reason := Some (pe_reason pe), env_retry_class := pe_retry pe,
        env_hints := env_hints e @ pe_hints pe, env_phase := pe_phase pe\<rparr>)"

definition early_phases :: "phase list" where
  "early_phases = [P_Plan, P_Provision, P_Install, P_Restart, P_Verify, P_Stage]"

definition crashed :: "job_spec \<Rightarrow> string \<Rightarrow> py_error \<Rightarrow> job_envelope \<Rightarrow> job_envelope" where
  "crashed spec now raised env =
     (let e = record_failure (env_phase env) env in
      e\<lparr>env_finished_at := set_if_unset now (env_finished_at e),
        env_workload := (if workload_terminal (env_workload e) then env_workload e
          else if env_phase e \<in> set early_phases then W_Failed else W_Unknown),
        env_offload := (if offload_terminal (env_offload e) then env_offload e
          else if sp_artifacts spec = [] then O_Not_Required
          else if env_phase e = P_Offload then O_Failed else O_Skipped),
        env_supervisor := S_Finished,
        env_reason := Some (''internal supervisor failure in '' @ phase_value (env_phase e) @ '': '' @ describe_error raised),
        env_retry_class := Some Do_Not_Retry,
        env_hints := env_hints e @ [''local traceback logged to ~/.config/colab-cli/colab.log'']\<rparr>)"

definition stop_name :: "stop \<Rightarrow> string" where
  "stop_name s = (case s of Ctrl_C \<Rightarrow> ''Ctrl-C (SIGINT)'' | Stop_Signal n \<Rightarrow> n)"

definition destroy_hint :: "string \<Rightarrow> string" where
  "destroy_hint job =
     ''the VM is still billing: `mighty-colab job destroy '' @ job @ ''` stops the job and releases the VM now''"

definition stopped_early :: "job_spec \<Rightarrow> string \<Rightarrow> stop \<Rightarrow> job_envelope \<Rightarrow> job_envelope" where
  "stopped_early spec now s env =
     env\<lparr>env_workload := W_Cancelled, env_offload := nothing_uploaded spec, env_supervisor := S_Finished,
       env_finished_at := Some now,
       env_reason := Some (''interrupted locally by '' @ stop_name s @ '' during '' @ phase_value (env_phase env)
         @ '', before the runner was launched; the VM is released''),
       env_retry_class := Some Retry_Same\<rparr>"

definition stopped_late :: "string \<Rightarrow> string \<Rightarrow> stop \<Rightarrow> job_envelope \<Rightarrow> job_envelope" where
  "stopped_late job logfile s env =
     (case s of
        Stop_Signal n \<Rightarrow>
          env\<lparr>env_supervisor := S_Interrupted,
            env_reason := Some (''stopped by '' @ n @ '' after the runner was launched; the job keeps ''
              @ ''running, and a detached `job status --poll` collects the result and releases the VM when it ends''),
            env_retry_class := None,
            env_hints := env_hints env @ [''the VM is still billing: the detached poll logs to '' @ logfile, destroy_hint job]\<rparr>
      | Ctrl_C \<Rightarrow>
          env\<lparr>env_supervisor := S_Interrupted,
            env_reason := Some (''interrupted locally by Ctrl-C (SIGINT) after the runner was launched; the ''
              @ ''job keeps running on the VM, which bills until the job is released''),
            env_retry_class := None,
            env_hints := env_hints env @ [''the VM is still billing: `mighty-colab job status '' @ job
              @ '' --poll` collects the result and releases the VM when the job ends'', destroy_hint job]\<rparr>)"

definition settle_exit :: "('t, 'r, 'w) applier \<Rightarrow> string \<Rightarrow> exit \<Rightarrow> job_envelope \<Rightarrow> job_envelope" where
  "settle_exit ap now x env =
     (let st = ap_site ap; spec = st_spec st in
      case x of
        Ended \<Rightarrow> env
      | Failed (Phase_Problem pe) \<Rightarrow> phase_failed spec now pe env
      | Failed (Raised e) \<Rightarrow> if ap_debug ap then env else crashed spec now e env
      | Stopped s \<Rightarrow>
          if env_workload env = W_Pending then stopped_early spec now s env
          else stopped_late (st_job st) (st_local_dir st @ ''/status-poll.log'') s env)"

text \<open>Only a signal after the launch hands the job to a detached poll.\<close>

definition hands_off :: "exit \<Rightarrow> job_envelope \<Rightarrow> bool" where
  "hands_off x env = (case x of Stopped (Stop_Signal n) \<Rightarrow> env_workload env \<noteq> W_Pending | _ \<Rightarrow> False)"

section \<open>The end of every apply\<close>

definition unconfirmed_secret :: "string option \<Rightarrow> job_envelope \<Rightarrow> job_envelope" where
  "unconfirmed_secret cause env =
     env\<lparr>env_reason := (case env_reason env of
           None \<Rightarrow> Some ''transfer credential deletion could not be confirmed'' | r \<Rightarrow> r),
       env_retry_class := (case env_retry_class env of None \<Rightarrow> Some Do_Not_Retry | c \<Rightarrow> c),
       env_hints := env_hints env @ [''transfer credential deletion could not be confirmed''
         @ (case cause of None \<Rightarrow> [] | Some t \<Rightarrow> if t = [] then [] else '' ('' @ t @ '')'')
         @ ''; forced VM teardown to remove the secret'']\<rparr>"

definition hand_over ::
  "('t, 'r, 'w) applier \<Rightarrow> bool \<Rightarrow> ('t, 'r) orch \<times> 'w \<Rightarrow> ('t, 'r) orch \<times> 'w" where
  "hand_over ap hand = (\<lambda>(oc, w).
     if hand \<and> env_cleanup (oc_env oc) = C_Pending then
       (case ap_spawn_poll ap w of
          (Inr _, w) \<Rightarrow> (oc, w)
        | (Inl e, w) \<Rightarrow>
            persist (ap_site ap) (edit_env (hint (''the VM is still billing: the detached poll could not start (''
              @ describe_error e @ ''); run `mighty-colab job status '' @ st_job (ap_site ap)
              @ '' --poll` or `mighty-colab job destroy '' @ st_job (ap_site ap) @ ''`'')) oc, w))
     else (oc, w))"

definition finish_apply ::
  "('t, 'r, 'w) applier \<Rightarrow> bool \<Rightarrow> bool \<Rightarrow> ('t, 'r) orch \<times> 'w \<Rightarrow> ('t, 'r) orch \<times> 'w" where
  "finish_apply ap taken hand s =
     (let st = ap_site ap in
      case (if taken then (True, s) else cleanup_secret_channel st s) of
        (removed, oc, w) \<Rightarrow>
          (let keep = keep_vm (oc_env oc) (Some (st_spec st)) removed;
               oc = (if removed then oc else edit_env (unconfirmed_secret (oc_secret_problem oc)) oc)
           in case (if env_supervisor (oc_env oc) = S_Interrupted \<and> removed
                    then persist st (close_runtime st (oc, w)) else cleanup_job st keep (oc, w)) of
                (oc, w) \<Rightarrow> hand_over ap hand (oc, ap_release_claim ap (ap_clear ap w))))"

text \<open>The whole: how the body went, then the settlement and the end.\<close>

definition conclude ::
  "('t, 'r, 'w) applier \<Rightarrow> exit \<Rightarrow> bool \<Rightarrow> ('t, 'r) orch \<times> 'w \<Rightarrow> ('t, 'r) orch \<times> 'w" where
  "conclude ap x taken = (\<lambda>(oc, w).
     case rm_now (st_remote (ap_site ap)) w of
       (now, w) \<Rightarrow> finish_apply ap taken (hands_off x (oc_env oc)) (edit_env (settle_exit ap now x) oc, w))"

definition exit_of :: "(problem, unit) outcome \<Rightarrow> exit" where
  "exit_of r = (case r of Inl e \<Rightarrow> Failed e | Inr _ \<Rightarrow> Ended)"

definition apply_job ::
  "('t, 'r, 'w) applier \<Rightarrow> ('t, 'r) orch \<times> 'w \<Rightarrow> (('t, 'r) orch \<times> 'w) option" where
  "apply_job ap s = map_option (\<lambda>(r, taken, s). conclude ap (exit_of r) taken s) (apply_body ap s)"

section \<open>The end of an apply\<close>

lemma hand_over_env:
  "only_hints (oc_env (fst s)) (oc_env (fst (hand_over ap hand s)))"
  "oc_prepared (fst (hand_over ap hand s)) = oc_prepared (fst s)"
  by (cases s; auto simp: hand_over_def split: prod.split sum.split)+

lemma unconfirmed_secret_env:
  "same_verdict env (unconfirmed_secret cause env)"
  "env_reason (unconfirmed_secret cause env) \<noteq> None" "env_retry_class (unconfirmed_secret cause env) \<noteq> None"
  "env_reason env \<noteq> None \<Longrightarrow> env_reason (unconfirmed_secret cause env) = env_reason env"
  "env_retry_class env \<noteq> None \<Longrightarrow> env_retry_class (unconfirmed_secret cause env) = env_retry_class env"
  "env_cleanup (unconfirmed_secret cause env) = env_cleanup env"
  "env_surviving_descendants (unconfirmed_secret cause env) = env_surviving_descendants env"
  by (auto simp: unconfirmed_secret_def same_verdict_def split: option.splits)

text \<open>
  The three ways an apply ends, on the envelope after the settlement: the secret is
  not confirmed removed; the run goes on without it; or the VM is kept or released.
\<close>

definition vm_wanted :: "job_spec \<Rightarrow> job_envelope \<Rightarrow> bool" where
  "vm_wanted spec a \<longleftrightarrow>
     has_vm a \<and> (env_leave_up a \<or> sp_on_offload_fail spec = Leave_Up \<and> upload_failed a)"

lemma keep_vm_wanted: "keep_vm a (Some spec) True \<and> has_vm a \<longleftrightarrow> vm_wanted spec a"
  by (auto simp: keep_vm_def vm_wanted_def)

lemma finish_apply_cases:
  assumes "finish_apply ap taken hand s = (oc', w')"
  obtains
    (unconfirmed) cause a where "\<not> taken" "oc_prepared oc'" "only_hints (oc_env (fst s)) a"
      "cleaned False (unconfirmed_secret cause a) (oc_env oc')"
  | (detached) "taken \<or> \<not> oc_prepared oc'" "env_supervisor (oc_env (fst s)) = S_Interrupted"
      "only_hints (oc_env (fst s)) (oc_env oc')"
  | (closed) a where "taken \<or> \<not> oc_prepared oc'" "env_supervisor (oc_env (fst s)) \<noteq> S_Interrupted"
      "only_hints (oc_env (fst s)) a" "cleaned (vm_wanted (st_spec (ap_site ap)) a) a (oc_env oc')"
proof -
  let ?st = "ap_site ap"
  obtain removed oc w where r: "(if taken then (True, s) else cleanup_secret_channel ?st s) = (removed, oc, w)"
    by (metis prod.collapse)
  have h: "only_hints (oc_env (fst s)) (oc_env oc)"
    and prep: "\<not> taken \<Longrightarrow> oc_prepared oc \<longleftrightarrow> \<not> removed" and took: "taken \<Longrightarrow> removed"
    using r cleanup_secret_channel_env [of ?st s removed oc w] by (auto split: if_splits)
  define oc1 where "oc1 = (if removed then oc else edit_env (unconfirmed_secret (oc_secret_problem oc)) oc)"
  define s2 where "s2 = (if env_supervisor (oc_env oc1) = S_Interrupted \<and> removed
      then persist ?st (close_runtime ?st (oc1, w))
      else cleanup_job ?st (keep_vm (oc_env oc) (Some (st_spec ?st)) removed) (oc1, w))"
  have sup: "env_supervisor (oc_env oc1) = env_supervisor (oc_env (fst s))"
    using only_hints_fields [OF h] unconfirmed_secret_env(1) [of "oc_env oc"]
    by (simp add: oc1_def same_verdict_def)
  have p1: "oc_prepared oc1 = oc_prepared oc" by (simp add: oc1_def)
  have p2: "oc_prepared (fst s2) = oc_prepared oc"
    using cleanup_job_prepared [of ?st _ "(oc1, w)"] calm_fields [OF close_runtime_calm [of "(oc1, w)" ?st]]
    by (simp add: s2_def p1)
  have "(case s2 of (oc, w) \<Rightarrow> hand_over ap hand (oc, ap_release_claim ap (ap_clear ap w))) = (oc', w')"
    using assms unfolding finish_apply_def Let_def r prod.case s2_def oc1_def .
  then have fin: "\<exists>w2. hand_over ap hand (fst s2, w2) = (oc', w')" by (cases s2) auto
  then have e: "only_hints (oc_env (fst s2)) (oc_env oc')" and p: "oc_prepared oc' = oc_prepared oc"
    using hand_over_env [where ap = ap and hand = hand] p2 by (metis fst_conv)+
  have late: "cleaned k a (oc_env (fst s2)) \<Longrightarrow> cleaned k a (oc_env oc')" for k a
    using only_hints_fields [OF e] same_verdict_trans [OF _ same_verdict_hints [OF e]]
    by (auto simp: cleaned_def same_advice_def)
  show ?thesis
  proof (cases removed)
    case False
    then have "\<not> taken" "oc_prepared oc'" using took prep p by auto
    moreover have "cleaned False (unconfirmed_secret (oc_secret_problem oc) (oc_env oc)) (oc_env (fst s2))"
      using cleanup_job_cleaned [of False "(oc1, w)" ?st] False by (simp add: s2_def oc1_def keep_vm_def)
    ultimately show ?thesis using unconfirmed h late by blast
  next
    case True
    then have t: "taken \<or> \<not> oc_prepared oc'" using prep p by auto
    have o: "oc1 = oc" using True by (simp add: oc1_def)
    show ?thesis
    proof (cases "env_supervisor (oc_env (fst s)) = S_Interrupted")
      case i: True
      have "only_hints (oc_env oc) (oc_env (fst s2))"
        using close_runtime_calm [of "(oc, w)" ?st] sup i True by (simp add: s2_def o calm_def)
      then show ?thesis using detached [OF t i] only_hints_trans [OF h] only_hints_trans [OF _ e] by blast
    next
      case n: False
      have "cleaned (vm_wanted (st_spec ?st) (oc_env oc)) (oc_env oc) (oc_env (fst s2))"
        using cleanup_job_cleaned [of "keep_vm (oc_env oc) (Some (st_spec ?st)) True" "(oc, w)" ?st] sup n True
        by (simp add: s2_def o keep_vm_wanted)
      then show ?thesis using closed [OF t n h] late by blast
    qed
  qed
qed


lemma conclude_finish:
  obtains now w1 where "conclude ap x taken s
    = finish_apply ap taken (hands_off x (oc_env (fst s))) (edit_env (settle_exit ap now x) (fst s), w1)"
  by (cases s; cases "rm_now (st_remote (ap_site ap)) (snd s)") (simp add: conclude_def)

lemma settle_exit_keeps:
  "env_cleanup (settle_exit ap now x env) = env_cleanup env"
  "vm_wanted spec (settle_exit ap now x env) \<longleftrightarrow> vm_wanted spec env"
  by (auto simp: settle_exit_def phase_failed_def crashed_def stopped_early_def stopped_late_def record_failure_def
      vm_wanted_def has_vm_def upload_failed_def Let_def split: exit.split problem.split stop.split)

lemma vm_wanted_hints: "only_hints a b \<Longrightarrow> vm_wanted spec b \<longleftrightarrow> vm_wanted spec a"
  by (simp add: only_hints_fields vm_wanted_def has_vm_def upload_failed_def)

text \<open>The end of an apply on the object \<open>oc\<close> it leaves and the envelope \<open>a\<close> the body left.\<close>

definition ends_safely :: "job_spec \<Rightarrow> bool \<Rightarrow> job_envelope \<Rightarrow> ('t, 'r) orch \<Rightarrow> bool" where
  "ends_safely spec taken a oc \<longleftrightarrow>
     (if \<not> taken \<and> oc_prepared oc then
        env_cleanup (oc_env oc) \<in> {C_Released, C_Already_Absent, C_Failed}
        \<and> env_reason (oc_env oc) \<noteq> None \<and> env_retry_class (oc_env oc) \<noteq> None
      else if env_supervisor (oc_env oc) = S_Interrupted then env_cleanup (oc_env oc) = env_cleanup a
      else env_cleanup (oc_env oc) \<in> {C_Released, C_Already_Absent, C_Failed}
             \<union> (if vm_wanted spec a then {C_Left_Up} else {}))"

lemma finish_apply_safe:
  assumes "finish_apply ap taken hand s = (oc', w')"
  shows "ends_safely (st_spec (ap_site ap)) taken (oc_env (fst s)) oc'"
  using assms
proof (cases rule: finish_apply_cases)
  case (unconfirmed cause a)
  then have "same_advice (unconfirmed_secret cause a) (oc_env oc')"
    and "env_cleanup (oc_env oc') \<in> {C_Released, C_Already_Absent, C_Failed}"
    by (simp_all add: cleaned_def)
  then show ?thesis using unconfirmed unconfirmed_secret_env(2,3) [of cause a] by (simp add: same_advice_def ends_safely_def)
next
  case detached
  then show ?thesis using only_hints_fields(3,4) [OF detached(3)] by (auto simp: ends_safely_def)
next
  case (closed a)
  have "env_supervisor (oc_env oc') \<noteq> S_Interrupted"
    using closed(2,4) only_hints_fields [OF closed(3)] by (simp add: cleaned_def same_verdict_def)
  then show ?thesis
    using closed(1,4) vm_wanted_hints [OF closed(3)] by (auto simp: cleaned_def ends_safely_def split: if_splits)
qed


section \<open>How an apply settles the envelope\<close>

text \<open>The end keeps what the settlement wrote, and terminates the cleanup of a settled job.\<close>

lemma finish_apply_keeps:
  assumes "finish_apply ap taken hand s = (oc', w')"
  shows "same_verdict (oc_env (fst s)) (oc_env oc')
    \<and> (env_supervisor (oc_env (fst s)) \<noteq> S_Interrupted \<longrightarrow> cleanup_terminal (env_cleanup (oc_env oc')))"
  using assms
proof (cases rule: finish_apply_cases)
  case (unconfirmed cause a)
  then show ?thesis
    using same_verdict_trans [OF same_verdict_trans [OF same_verdict_hints [OF unconfirmed(3)] unconfirmed_secret_env(1)]]
    by (auto simp: cleaned_def cleanup_terminal_def)
next
  case detached
  then show ?thesis using same_verdict_hints by blast
next
  case (closed a)
  then show ?thesis
    using same_verdict_trans [OF same_verdict_hints [OF closed(3)]]
    by (auto simp: cleaned_def cleanup_terminal_def split: if_splits)
qed

lemma nothing_uploaded_terminal: "offload_terminal (nothing_uploaded spec)" "nothing_uploaded spec \<noteq> O_Ok"
  by (auto simp: nothing_uploaded_def offload_terminal_def)

lemma record_failure_env:
  "env_workload (record_failure p env) = env_workload env" "env_offload (record_failure p env) = env_offload env"
  "env_phase (record_failure p env) = env_phase env" "env_failed_phase (record_failure p env) \<noteq> None"
  by (simp_all add: record_failure_def)

lemma settled_fields:
  "let e = phase_failed spec now pe env in
     env_workload e = W_Failed \<and> offload_terminal (env_offload e) \<and> env_supervisor e = S_Finished
     \<and> env_failed_phase e \<noteq> None"
  "let e = crashed spec now raised env in
     workload_terminal (env_workload e) \<and> offload_terminal (env_offload e) \<and> env_supervisor e = S_Finished
     \<and> env_failed_phase e \<noteq> None"
  "let e = stopped_early spec now s env in
     env_workload e = W_Cancelled \<and> offload_terminal (env_offload e) \<and> env_supervisor e = S_Finished"
  "let e = stopped_late job logfile s env in
     env_workload e = env_workload env \<and> env_supervisor e = S_Interrupted"
  using nothing_uploaded_terminal [of spec]
  by (auto simp: phase_failed_def crashed_def stopped_early_def stopped_late_def record_failure_env Let_def
      workload_terminal_def offload_terminal_def split: stop.split)
    (simp_all add: record_failure_def)

lemma same_verdict_done:
  assumes "same_verdict a b" "cleanup_terminal (env_cleanup b)" "env_supervisor a = S_Finished"
    "workload_terminal (env_workload a)" "offload_terminal (env_offload a)"
  shows "env_done b"
  using assms by (simp add: same_verdict_def env_done_def supervisor_terminal_def)

text \<open>
  C17. What each way out makes of the job: a phase that fails ends it as failed, an exception
  ends it too (but under \<open>--debug\<close>), a stop before the launch cancels it, all three with
  every status terminal, and a stop after the launch leaves the workload as it was.
\<close>

theorem apply_end_settles_the_job:
  "let a = oc_env (fst s); b = oc_env (fst (conclude ap x taken s))
   in case x of
        Ended \<Rightarrow> same_verdict a b
      | Failed (Phase_Problem pe) \<Rightarrow> env_done b \<and> env_workload b = W_Failed \<and> env_failed_phase b \<noteq> None
      | Failed (Raised e) \<Rightarrow> if ap_debug ap then same_verdict a b else env_done b \<and> env_failed_phase b \<noteq> None
      | Stopped how \<Rightarrow>
          if env_workload a = W_Pending then env_done b \<and> env_workload b = W_Cancelled
          else env_supervisor b = S_Interrupted \<and> env_workload b = env_workload a"
proof -
  obtain now w1 where c: "conclude ap x taken s
      = finish_apply ap taken (hands_off x (oc_env (fst s))) (edit_env (settle_exit ap now x) (fst s), w1)"
    by (rule conclude_finish)
  let ?a = "oc_env (fst s)" and ?b = "oc_env (fst (conclude ap x taken s))" and ?e = "settle_exit ap now x (oc_env (fst s))"
  have k: "same_verdict ?e ?b \<and> (env_supervisor ?e \<noteq> S_Interrupted \<longrightarrow> cleanup_terminal (env_cleanup ?b))"
    using finish_apply_keeps [of ap taken _ "(edit_env (settle_exit ap now x) (fst s), w1)"] unfolding c
    by (metis fst_conv oc_env_edit prod.collapse)
  have same: "env_workload ?b = env_workload ?e" "env_supervisor ?b = env_supervisor ?e"
    and phase: "env_failed_phase ?e \<noteq> None \<Longrightarrow> env_failed_phase ?b \<noteq> None"
    using k by (auto simp: same_verdict_def)
  have over: "env_done ?b" if "env_supervisor ?e = S_Finished" "workload_terminal (env_workload ?e)" "offload_terminal (env_offload ?e)"
    using same_verdict_done [OF conjunct1 [OF k]] k that by simp
  show ?thesis
  proof (cases x)
    case Ended
    then show ?thesis using k by (simp add: settle_exit_def)
  next
    case (Failed p)
    then show ?thesis
      using k same phase over settled_fields(1,2) [where spec = "st_spec (ap_site ap)" and now = now and env = ?a]
      by (cases p; cases "ap_debug ap") (simp_all add: settle_exit_def Let_def workload_terminal_def)
  next
    case (Stopped how)
    then show ?thesis
      using same over settled_fields(3,4) [where s = how and env = ?a]
      by (simp add: settle_exit_def Let_def workload_terminal_def)
  qed
qed


section \<open>An apply nobody stops\<close>

lemma failed_deadline_fields:
  "env_supervisor (failed_deadline passed note confirmed requester d env) = env_supervisor env"
  "env_offload (failed_deadline passed note confirmed requester d env) = env_offload env"
  by (simp_all add: failed_deadline_def Let_def record_failure_def)

text \<open>The supervisor is finished and nothing is left to upload.\<close>

definition closed_run :: "sup \<Rightarrow> bool" where
  "closed_run s \<longleftrightarrow> env_supervisor (sup_env s) = S_Finished \<and> offload_terminal (env_offload (sup_env s))"

lemma closed_run_hint: "closed_run s \<Longrightarrow> closed_run (edit (hint h) s)"
  by (simp add: closed_run_def edit_def hint_def)

lemma cancel_after_deadline_closes:
  assumes "cancel_after_deadline po passed requester wait s t w = Some (Inr (), s', t', w')"
  shows "closed_run s'"
proof -
  obtain said confirmed t1 w1 where q: "request_cancel (po_remote po) (po_job_id po) requester t w = ((said, confirmed), t1, w1)"
    by (metis prod.collapse)
  obtain r t2 w2 where a: "await_runner_result (po_remote po) (po_job_id po) wait t1 w1 = (r, t2, w2)"
    by (metis prod.collapse)
  show ?thesis
  proof (cases r)
    case (Inl why)
    obtain s2 t3 w3 where f: "finish_without_result po (passed @ ''; '' @ said @ ''; '' @ why) s t2 w2 = Some (Inr (), s2, t3, w3)"
      and s': "s' = edit (hint budget_hint) s2"
      using assms by (auto simp: cancel_after_deadline_def q a Inl Let_def bind_eq_Some_conv split: if_splits)
    have "closed_run s2" using finish_settled [OF f] by (simp add: settled_def closed_run_def)
    then show ?thesis unfolding s' by (rule closed_run_hint)
  next
    case (Inr d)
    obtain s2 t3 w3 where f: "absorb_or_keep po d s t2 w2 = Some (Inr (), s2, t3, w3)"
      and s': "s' = edit (hint budget_hint) (edit (failed_deadline passed said confirmed requester d) s2)"
      using assms by (auto simp: cancel_after_deadline_def q a Inr Let_def bind_eq_Some_conv split: if_splits)
    have "closed_run (edit (failed_deadline passed said confirmed requester d) s2)"
      using absorb_or_keep_settled [OF f] by (simp add: settled_def closed_run_def edit_def failed_deadline_fields)
    then show ?thesis unfolding s' by (rule closed_run_hint)
  qed
qed

lemma supervise_closes:
  assumes "supervise st limit started s = Some (Inr (), oc', w')"
  shows "closed_run (oc_sup oc')"
proof -
  obtain r oc w where t: "job_transport st s = (r, oc, w)" by (metis prod.collapse)
  with assms obtain tr where r: "r = Inr tr" by (cases r) (simp_all add: supervise_def)
  obtain deadline w1 where d: "(case limit of Some n \<Rightarrow> (started + of_int n, w)
      | None \<Rightarrow> (case rm_time (st_remote st) w of
          (now, w) \<Rightarrow> (now + of_int (run_deadline_seconds (st_spec st)), w))) = (deadline, w1)"
    by (metis prod.collapse)
  obtain res where p: "poll (poller_of st) deadline poll_interval (oc_sup oc) tr w1 = Some res"
    using assms by (auto simp: supervise_def t r d lift_poll_def bind_eq_Some_conv)
  obtain r2 sp tr2 w2 where res: "res = (r2, sp, tr2, w2)" by (metis prod.collapse)
  have e: "case r2 of Inl _ \<Rightarrow> True | Inr _ \<Rightarrow> closed_run sp \<or> env_supervisor (sup_env sp) = S_Interrupted"
    using poll_loop_ended [OF p [unfolded poll_def]]
    by (auto simp: res closed_run_def poll_ended_def settled_def split: sum.splits)
  show ?thesis
  proof (cases r2)
    case (Inl x)
    then show ?thesis using assms by (simp add: supervise_def t r d lift_poll_def p res)
  next
    case (Inr u)
    show ?thesis
    proof (cases "env_supervisor (sup_env sp) = S_Interrupted")
      case True
      then show ?thesis
        using assms Inr
        by (auto simp: supervise_def t r d lift_poll_def p res split: sum.splits
            dest!: cancel_after_deadline_closes) (metis old.unit.exhaust sum.exhaust)
    next
      case False
      then show ?thesis using assms Inr e by (auto simp: supervise_def t r d lift_poll_def p res)
    qed
  qed
qed


lemma same_verdict_closed:
  "same_verdict a b \<Longrightarrow> env_supervisor a = S_Finished \<and> offload_terminal (env_offload a)
     \<Longrightarrow> env_supervisor b = S_Finished \<and> offload_terminal (env_offload b)"
  by (simp add: same_verdict_def)

text \<open>
  An apply that nobody stops and that returns has closed the job: the supervisor is
  finished, the offload settled and the cleanup terminal, whichever phase failed and
  whatever the poll met; also when its deadline passed.
\<close>

theorem unstopped_apply_closes_the_job:
  "case apply_job ap s of
     None \<Rightarrow> True
   | Some (oc, w) \<Rightarrow>
       if ap_debug ap then True
       else env_supervisor (oc_env oc) = S_Finished \<and> offload_terminal (env_offload (oc_env oc))
         \<and> cleanup_terminal (env_cleanup (oc_env oc))"
proof (cases "apply_body ap s")
  case None
  then show ?thesis by (simp add: apply_job_def)
next
  case (Some res)
  obtain r taken oc w where res: "res = (r, taken, oc, w)" by (metis prod.collapse)
  obtain now w1 where c: "conclude ap (exit_of r) taken (oc, w)
      = finish_apply ap taken (hands_off (exit_of r) (oc_env oc)) (edit_env (settle_exit ap now (exit_of r)) oc, w1)"
    using conclude_finish [of ap "exit_of r" taken "(oc, w)"] by auto
  obtain oc' w' where f: "finish_apply ap taken (hands_off (exit_of r) (oc_env oc))
      (edit_env (settle_exit ap now (exit_of r)) oc, w1) = (oc', w')" by (metis prod.collapse)
  let ?e = "settle_exit ap now (exit_of r) (oc_env oc)"
  have k: "same_verdict ?e (oc_env oc') \<and> (env_supervisor ?e \<noteq> S_Interrupted \<longrightarrow> cleanup_terminal (env_cleanup (oc_env oc')))"
    using finish_apply_keeps [OF f] by simp
  have e: "env_supervisor ?e = S_Finished \<and> offload_terminal (env_offload ?e)" if "\<not> ap_debug ap"
  proof (cases r)
    case (Inl p)
    then show ?thesis
      using that settled_fields(1,2) [where spec = "st_spec (ap_site ap)" and now = now and env = "oc_env oc"]
      by (cases p) (simp_all add: exit_of_def settle_exit_def Let_def)
  next
    case (Inr u)
    have "closed_run (oc_sup oc)"
      using Some Inr by (auto simp: res apply_body_def Let_def split: prod.splits sum.splits dest!: supervise_closes)
    then show ?thesis using Inr by (simp add: exit_of_def settle_exit_def closed_run_def)
  qed
  have "apply_job ap s = Some (oc', w')" using Some c f by (simp add: apply_job_def res)
  then show ?thesis using e k same_verdict_closed [OF conjunct1 [OF k]] by auto
qed

section \<open>A stop while the credential file is not confirmed removed\<close>

lemma stopped_late_fields:
  "env_workload (stopped_late job logfile how env) = env_workload env"
  "env_supervisor (stopped_late job logfile how env) = S_Interrupted"
  "env_reason (stopped_late job logfile how env) = env_reason (stopped_late job [] how env)"
  "env_reason (stopped_late job logfile how env) \<noteq> None"
  by (simp_all add: stopped_late_def split: stop.split)

text \<open>
  C27. A run that is stopped after its launch, while its credential file is not confirmed
  removed, loses its VM but is left as running: the workload is as it was, the
  supervisor interrupted and the cleanup terminal, and the reason still says that the
  job keeps running on the VM.
\<close>

theorem stopped_and_released_job_stays_running:
  assumes "env_workload (oc_env (fst s)) = W_Running"
    and "oc_prepared (fst (conclude ap (Stopped how) False s))"
  shows "let b = oc_env (fst (conclude ap (Stopped how) False s)) in
    env_workload b = W_Running \<and> env_supervisor b = S_Interrupted \<and> \<not> env_done b
    \<and> env_cleanup b \<in> {C_Released, C_Already_Absent, C_Failed}
    \<and> env_reason b = env_reason (stopped_late (st_job (ap_site ap)) [] how (oc_env (fst s)))"
proof -
  obtain now w1 where c: "conclude ap (Stopped how) False s
      = finish_apply ap False (hands_off (Stopped how) (oc_env (fst s))) (edit_env (settle_exit ap now (Stopped how)) (fst s), w1)"
    by (rule conclude_finish)
  obtain oc' w' where f: "finish_apply ap False (hands_off (Stopped how) (oc_env (fst s)))
      (edit_env (settle_exit ap now (Stopped how)) (fst s), w1) = (oc', w')" by (metis prod.collapse)
  let ?e = "settle_exit ap now (Stopped how) (oc_env (fst s))"
  have e: "?e = stopped_late (st_job (ap_site ap)) (st_local_dir (ap_site ap) @ ''/status-poll.log'') how (oc_env (fst s))"
    using assms(1) unfolding settle_exit_def Let_def by simp
  have fields: "env_workload ?e = W_Running" "env_supervisor ?e = S_Interrupted" "env_reason ?e \<noteq> None"
    unfolding e stopped_late_fields(1,2) by (simp_all add: assms(1) stopped_late_fields(4))
  have o: "oc_prepared oc'" using assms(2) unfolding c f by simp
  have "same_verdict ?e (oc_env oc')" using finish_apply_keeps [OF f] by simp
  moreover have "env_cleanup (oc_env oc') \<in> {C_Released, C_Already_Absent, C_Failed} \<and> env_reason (oc_env oc') = env_reason ?e"
    using f
  proof (cases rule: finish_apply_cases)
    case (unconfirmed cause a)
    have "env_reason a = env_reason ?e" using only_hints_fields(8) [OF unconfirmed(3)] by simp
    then have "env_reason (unconfirmed_secret cause a) = env_reason ?e"
      using fields(3) unconfirmed_secret_env(4) [of a cause] by simp
    then show ?thesis using unconfirmed(4) by (simp add: cleaned_def same_advice_def)
  next
    case detached
    then show ?thesis using o by simp
  next
    case (closed a)
    then show ?thesis using o by simp
  qed
  moreover have "env_reason ?e = env_reason (stopped_late (st_job (ap_site ap)) [] how (oc_env (fst s)))"
    unfolding e by (rule stopped_late_fields(3))
  ultimately show ?thesis
    using fields unfolding c f Let_def fst_conv
    by (simp add: same_verdict_def env_done_def workload_terminal_def)
qed

text \<open>A VM that answers nothing, and an apply that prepared the credential channel before its launch.\<close>

definition demo_applier :: "(unit, unit, string list) applier" where
  "demo_applier = \<lparr>ap_site = demo_site, ap_staging = \<lparr>sg_makedirs = (\<lambda>p w. (Inr (), w)), sg_upload = (\<lambda>a b w. (Inr (), w)),
       sg_runtime = [], sg_snapshot = (\<lambda>e. Inr ([], [])), sg_yaml = (\<lambda>t. None), sg_dumps = (\<lambda>v. [])\<rparr>,
     ap_files = [], ap_class = (\<lambda>e. Other_Failure), ap_timeout = None, ap_debug = False, ap_clear = id,
     ap_release_claim = id, ap_spawn_poll = (\<lambda>w. (Inr (), w))\<rparr>"

definition demo_launched :: "(unit, unit) orch \<times> string list" where
  "demo_launched =
     (case snd (provision demo_site demo_start) of
        (oc, w) \<Rightarrow> (edit_env (\<lambda>e. e\<lparr>env_workload := W_Running\<rparr>) (oc\<lparr>oc_prepared := True\<rparr>), w))"

theorem stopped_and_released_job_stays_running_witness:
  "snd (conclude demo_applier (Stopped Ctrl_C) False demo_launched) = []
   \<and> env_workload (oc_env (fst (conclude demo_applier (Stopped Ctrl_C) False demo_launched))) = W_Running"
proof -
  have 1: "env_workload (oc_env (fst demo_launched)) = W_Running" by code_simp
  have 2: "oc_prepared (fst (conclude demo_applier (Stopped Ctrl_C) False demo_launched))" by code_simp
  have 3: "snd (conclude demo_applier (Stopped Ctrl_C) False demo_launched) = []" by code_simp
  show ?thesis using stopped_and_released_job_stays_running [OF 1 2] 3 by (simp only: Let_def simp_thms)
qed

section \<open>The plan gate\<close>


end
