(* ===== verification/Recover.thy ===== *)
theory Recover
  imports Apply Store
begin

text \<open>
  \<open>job status\<close> and \<open>job destroy\<close> of \<open>commands/job.py\<close>: what a later process makes of a
  job from its envelope, the VM's records and the control object.  A command is a
  function on the envelope and the world; it ends in an \<open>answer\<close>, or in an exception
  that leaves it.  Output to the terminal is not modelled.
\<close>

section \<open>What the commands use\<close>

text \<open>
  The poller gives the VM's transport, pydantic and the GET of \<open>control.result\<close>; its spec
  is not used, since the plan is read again (\<open>dk_plan\<close>, and \<open>dk_full_plan\<close> with the
  credentials).  \<open>dk_vm\<close> is this machine's process table.
\<close>

record ('t, 'w) desk =
  dk_poller :: "('t, 'w) poller"
  dk_colab :: "'w colab"
  dk_plan :: "(py_error, plan option) outcome"
  dk_full_plan :: "(py_error, plan option) outcome"
  dk_value_error :: "py_error \<Rightarrow> bool"
  dk_local_dir :: string
  dk_session :: "string \<Rightarrow> 'w \<Rightarrow> session_state option \<times> 'w"
  dk_transport :: "session_state \<Rightarrow> 't"
  dk_remove :: "string \<Rightarrow> 't \<Rightarrow> 'w \<Rightarrow> (py_error, read_status) outcome \<times> 't \<times> 'w"
  dk_forget :: "string \<Rightarrow> 'w \<Rightarrow> (py_error, unit) outcome \<times> 'w"
  dk_kill :: "int \<Rightarrow> 'w \<Rightarrow> 'w"
  dk_identity :: "'w \<Rightarrow> json_obj option \<times> 'w"
  dk_vm :: "'w \<Rightarrow> vm"
  dk_read_env :: "'w \<Rightarrow> (py_error, job_envelope option) outcome \<times> 'w"
  dk_pid_alive :: "int option \<Rightarrow> 'w \<Rightarrow> bool"
  dk_spawn :: "session_state \<Rightarrow> 'w \<Rightarrow> (py_error, int option) outcome \<times> 'w"
  dk_add :: "session_state \<Rightarrow> 'w \<Rightarrow> (py_error, unit) outcome \<times> 'w"
  dk_history :: "string \<Rightarrow> 'w \<Rightarrow> (py_error, json_obj list) outcome \<times> 'w"

abbreviation dk_remote :: "('t, 'w) desk \<Rightarrow> ('t, 'w) remote" where
  "dk_remote dk \<equiv> po_remote (dk_poller dk)"

abbreviation dk_job :: "('t, 'w) desk \<Rightarrow> string" where
  "dk_job dk \<equiv> po_job_id (dk_poller dk)"

datatype answer = No_Record | Answer job_envelope int | Crashed py_error

definition has_session :: "job_envelope \<Rightarrow> bool" where
  "has_session env \<longleftrightarrow> (case env_session env of None \<Rightarrow> False | Some n \<Rightarrow> n \<noteq> [])"

text \<open>\<open>_supervisor_alive\<close>\<close>

definition supervisor_alive :: "('t, 'w) desk \<Rightarrow> 'w \<Rightarrow> bool \<times> 'w" where
  "supervisor_alive dk w =
     (case dk_identity dk w of
        (Some d, w) \<Rightarrow>
          ((case (as_int (jget d ''pid''), as_str (jget d ''starttime''), as_str (jget d ''boot_id'')) of
              (Some pid, Some started, Some boot) \<Rightarrow> alive (dk_vm dk w) pid started boot
            | _ \<Rightarrow> False), w)
      | (None, w) \<Rightarrow> (False, w))"

section \<open>The credential file\<close>

definition scrub_transfer_secret ::
  "('t, 'w) desk \<Rightarrow> 't \<Rightarrow> 'w \<Rightarrow> (bool \<times> string option) \<times> 't \<times> 'w" where
  "scrub_transfer_secret dk t w =
     (case dk_remove dk (channel_path (dk_job dk)) t w of
        (Inl e, t, w) \<Rightarrow> ((False, Some (''removing it failed ('' @ describe_error e @ '')'')), t, w)
      | (Inr status, t, w) \<Rightarrow>
          (if status = Rs_Ok then (True, None) else (False, Some (''removing it returned '' @ status_name status)), t, w))"

section \<open>The release\<close>

definition no_copy_hint :: string where
  "no_copy_hint = ''VM records not copied before release: no local session for this ''
     @ ''job, so the VM'' @ [CHR 0x27] @ ''s files could not be read''"

definition copy_before_release ::
  "('t, 'w) desk \<Rightarrow> 't option \<Rightarrow> job_envelope \<times> 'w \<Rightarrow> job_envelope \<times> 'w" where
  "copy_before_release dk transport = (\<lambda>(env, w).
     if \<not> has_vm env then (env, w)
     else (case transport of
         None \<Rightarrow> (hint no_copy_hint env, w)
       | Some t \<Rightarrow>
           (case copy_vm_records (dk_remote dk) (dk_local_dir dk) (dk_job dk) vm_record_copy_budget t w of
              (h, _, w) \<Rightarrow> (hint h env, w))))"

definition unassigned :: "string \<Rightarrow> string \<Rightarrow> cleanup \<times> string option \<Rightarrow> job_envelope \<Rightarrow> job_envelope" where
  "unassigned failure endpoint outcome env =
     (let env = (if fst outcome = C_Failed then record_failure P_Cleanup env else env) in
      case snd outcome of
        None \<Rightarrow> env
      | Some detail \<Rightarrow>
          if detail = [] then env
          else hint (failure @ '' ('' @ detail @ ''); endpoint '' @ endpoint @ '' may still be billing'') env)"

definition release :: "('t, 'w) desk \<Rightarrow> string \<Rightarrow> job_envelope \<times> 'w \<Rightarrow> job_envelope \<times> 'w" where
  "release dk failure = (\<lambda>(env, w).
     case env_endpoint env of
       None \<Rightarrow> (env\<lparr>env_cleanup := C_Already_Absent\<rparr>, w)
     | Some endpoint \<Rightarrow>
         if endpoint = [] then (env\<lparr>env_cleanup := C_Already_Absent\<rparr>, w)
         else
           (case release_assignment (dk_colab dk) endpoint w of
              (outcome, w) \<Rightarrow>
                (case rm_now (dk_remote dk) w of
                   (at_time, w) \<Rightarrow>
                     (case read_compute_units (dk_colab dk) at_time ''release'' (env\<lparr>env_cleanup := fst outcome\<rparr>) w of
                        (reading, env, w) \<Rightarrow>
                          (unassigned failure endpoint outcome (env\<lparr>env_compute_units_at_release := reading\<rparr>), w)))))"

definition forget_session :: "('t, 'w) desk \<Rightarrow> job_envelope \<times> 'w \<Rightarrow> job_envelope \<times> 'w" where
  "forget_session dk = (\<lambda>(env, w).
     if \<not> has_session env \<or> env_cleanup env = C_Failed then (env, w)
     else (case env_session env of
         None \<Rightarrow> (env, w)
       | Some n \<Rightarrow>
           (case dk_forget dk n w of
              (Inr _, w) \<Rightarrow> (env, w)
            | (Inl e, w) \<Rightarrow>
                (hint (''local session record '' @ n @ '' not removed ('' @ describe_error e @ '')'') env, w))))"

definition stop_daemon :: "('t, 'w) desk \<Rightarrow> session_state option \<Rightarrow> 'w \<Rightarrow> 'w" where
  "stop_daemon dk session w =
     (case Option.bind session ss_keep_alive_pid of None \<Rightarrow> w | Some pid \<Rightarrow> if pid = 0 then w else dk_kill dk pid w)"

definition write_env :: "('t, 'w) desk \<Rightarrow> job_envelope \<times> 'w \<Rightarrow> job_envelope \<times> 'w" where
  "write_env dk = (\<lambda>(env, w). (env, rm_persist (dk_remote dk) env w))"

text \<open>What a forced teardown makes of the verdict; \<open>reason\<close> is used for a job without one.\<close>

definition torn_down :: "string \<Rightarrow> string \<Rightarrow> job_envelope \<Rightarrow> job_envelope" where
  "torn_down reason note_text env =
     (if \<not> workload_terminal (env_workload env) then
        (let e = (case env_reason env of
                None \<Rightarrow> env | Some r \<Rightarrow> if r = [] then env else hint (''before the forced teardown: '' @ r) env);
             e = record_failure P_Cleanup (e\<lparr>env_workload := W_Unknown\<rparr>)
         in e\<lparr>env_reason := Some reason, env_retry_class := Some Do_Not_Retry, env_supervisor := S_Finished\<rparr>)
      else (hint note_text env)\<lparr>env_supervisor := S_Finished\<rparr>)"

definition unconfirmed_because :: "string option \<Rightarrow> string" where
  "unconfirmed_because cause =
     ''transfer credential deletion could not be confirmed''
     @ (case cause of None \<Rightarrow> [] | Some c \<Rightarrow> if c = [] then [] else '' ('' @ c @ '')'')"

text \<open>\<open>_force_release_unconfirmed_secret\<close>, which ends the command with exit code 1.\<close>

definition force_release ::
  "('t, 'w) desk \<Rightarrow> 't option \<Rightarrow> string option \<Rightarrow> job_envelope \<times> 'w \<Rightarrow> answer \<times> 'w" where
  "force_release dk transport cause s =
     (case forget_session dk (release dk ''forced unassign failed'' (copy_before_release dk transport s)) of
        (env, w) \<Rightarrow>
          (let b = unconfirmed_because cause;
               env = torn_down (''forced teardown because '' @ b) (''forced VM teardown because '' @ b) env
           in (Answer env 1, snd (write_env dk (env, w)))))"

section \<open>The runner's result\<close>

text \<open>\<open>_absorb_remote_result\<close>: all of the result or, with an exception, nothing.\<close>

definition absorb_without_plan :: "pydantic \<Rightarrow> json_obj \<Rightarrow> job_envelope \<Rightarrow> (py_error, job_envelope) outcome" where
  "absorb_without_plan pd result env =
     and_then (absorb_provenance result env) (\<lambda>env.
     and_then (parse_workload (jget_or result ''workload'' (JStr ''unknown''))) (\<lambda>wl.
     and_then (pd_run pd \<lparr>raw_exit_code = jget result ''exit_code'', raw_signal = jget result ''signal'',
         raw_exception = jget result ''exception'',
         raw_survivors = JArr (map JInt (env_surviving_descendants env))\<rparr>) (\<lambda>v.
     Inr (with_run v (env\<lparr>env_workload := wl\<rparr>)))))"

definition absorb_remote_result ::
  "('t, 'w) desk \<Rightarrow> json_obj \<Rightarrow> job_envelope \<times> 'w \<Rightarrow> (py_error, job_envelope) outcome \<times> 'w" where
  "absorb_remote_result dk result = (\<lambda>(env, w).
     case dk_plan dk of
       Inl e \<Rightarrow> (Inl e, w)
     | Inr None \<Rightarrow> (absorb_without_plan (po_pydantic (dk_poller dk)) result env, w)
     | Inr (Some p) \<Rightarrow>
         (case rm_now (dk_remote dk) w of
            (now, w) \<Rightarrow> (absorb_result (po_pydantic (dk_poller dk)) now (pl_spec p) result env, w)))"

definition unabsorbed :: "string \<Rightarrow> py_error \<Rightarrow> json_obj \<Rightarrow> string" where
  "unabsorbed what e result =
     what @ '' could not be absorbed ('' @ describe_error e @ ''); raw result: '' @ raw_verdict result"

text \<open>\<open>_read_off_vm_result\<close>: the terminal result, or why the control object gave none.\<close>

definition read_off_vm_result ::
  "('t, 'w) desk \<Rightarrow> 'w \<Rightarrow> (py_error, json_obj option \<times> string option) outcome \<times> 'w" where
  "read_off_vm_result dk w =
     (case dk_full_plan dk of
        Inl e \<Rightarrow>
          if dk_value_error dk e then (Inr (None, Some (''the plan could not be loaded ('' @ err_msg e @ '')'')), w)
          else (Inl e, w)
      | Inr p \<Rightarrow>
          (case Option.bind p (\<lambda>p. ctl_result (sp_control (pl_spec p))) of
             None \<Rightarrow> (Inr (None, None), w)
           | Some ch \<Rightarrow>
               (case fetch_control_result (dk_poller dk) (ch_get_url ch) w of
                  (Inl e, w) \<Rightarrow>
                    (Inr (None, Some (redact_url (describe_error e) (Some (ch_get_url ch)) (url_id (ch_get_url ch)))), w)
                | (Inr d, w) \<Rightarrow>
                    (let v = jget d ''workload'' in
                     if as_list v \<noteq> None \<or> as_obj v \<noteq> None then
                       (Inl (exc ''TypeError'' (''unhashable type: '' @ quoted (type_name v))), w)
                     else if v \<in> set (map JStr terminal_values) then (Inr (Some d, None), w)
                     else (Inr (None, Some (''it holds no terminal result (workload='' @ repr v @ '')'')), w)))))"

text \<open>\<open>_recover_off_vm_result\<close>: a copy that absorbed the result if there is one, and the envelope.\<close>

definition recover_off_vm_result ::
  "('t, 'w) desk \<Rightarrow> job_envelope \<times> 'w \<Rightarrow> (py_error, job_envelope option \<times> job_envelope) outcome \<times> 'w" where
  "recover_off_vm_result dk = (\<lambda>(env, w).
     case read_off_vm_result dk w of
       (Inl e, w) \<Rightarrow> (Inl e, w)
     | (Inr (None, why), w) \<Rightarrow>
         (Inr (None, case why of None \<Rightarrow> env
            | Some p \<Rightarrow> if p = [] then env else hint (''control.result could not be used: '' @ p) env), w)
     | (Inr (Some d, _), w) \<Rightarrow>
         (case absorb_remote_result dk d (env, w) of
            (Inr env', w) \<Rightarrow> (Inr (Some env', env), w)
          | (Inl e, w) \<Rightarrow> (Inr (None, hint (unabsorbed ''control.result'' e d) env), w)))"

definition or_recovered :: "job_envelope option \<times> job_envelope \<Rightarrow> job_envelope" where
  "or_recovered = (\<lambda>(recovered, env). case recovered of None \<Rightarrow> env | Some e \<Rightarrow> e)"

section \<open>Hints of a finished job\<close>

definition stale_markers :: "string list" where
  "stale_markers = [''still billing'', ''left running'', ''left up'']"

definition stale_hint :: "string \<Rightarrow> bool" where
  "stale_hint h \<longleftrightarrow> list_ex (\<lambda>m. py_in m (py_lower h)) stale_markers"

definition first_of_each :: "string list \<Rightarrow> string list" where
  "first_of_each hs = rev (remdups (rev hs))"

definition finalize_hints :: "job_envelope \<Rightarrow> job_envelope" where
  "finalize_hints env =
     env\<lparr>env_hints := first_of_each
       (if env_cleanup env \<in> {C_Released, C_Already_Absent}
        then List.filter (\<lambda>h. \<not> stale_hint h) (env_hints env) else env_hints env)\<rparr>"

section \<open>An orphaned job\<close>

definition status_poll_deadline ::
  "('t, 'w) desk \<Rightarrow> job_envelope \<Rightarrow> (py_error, (rat \<times> string) option) outcome" where
  "status_poll_deadline dk env =
     (case env_started_at env of
        None \<Rightarrow> Inr None
      | Some started \<Rightarrow>
          if started = [] then Inr None
          else (case dk_plan dk of
              Inl e \<Rightarrow> if dk_value_error dk e then Inr None else Inl e
            | Inr None \<Rightarrow> Inr None
            | Inr (Some p) \<Rightarrow>
                Inr (case from_iso started of
                   None \<Rightarrow> None
                 | Some t \<Rightarrow>
                     Some (of_int t / 1000000 + of_int (run_deadline_seconds (pl_spec p)),
                       ''no verdict within '' @ show_int (run_deadline_seconds (pl_spec p)) @ ''s of launch (wall_clock ''
                       @ show_int (bud_wall_clock (sp_budgets (pl_spec p))) @ ''s + '' @ show_int run_deadline_margin @ ''s)''))))"

definition orphan_requester :: string where "orphan_requester = ''job status --poll''"

definition cancelled_orphan :: "string \<Rightarrow> job_envelope \<Rightarrow> job_envelope" where
  "cancelled_orphan now env =
     (let e = record_failure P_Run env in
      e\<lparr>env_retry_class := (case env_retry_class e of None \<Rightarrow> Some Retry_Same | c \<Rightarrow> c),
        env_supervisor := S_Finished, env_finished_at := set_if_unset now (env_finished_at e)\<rparr>)"

definition cancel_orphan ::
  "('t, 'w) desk \<Rightarrow> string \<Rightarrow> 't \<Rightarrow> job_envelope \<times> 'w \<Rightarrow> 't \<times> job_envelope \<times> 'w" where
  "cancel_orphan dk passed t = (\<lambda>(env, w).
     case request_cancel (dk_remote dk) (dk_job dk) orphan_requester t w of
       ((said, confirmed), t, w) \<Rightarrow>
         (case await_runner_result (dk_remote dk) (dk_job dk) runner_stop_wait_seconds t w of
            (r, t, w) \<Rightarrow>
              (case (case r of
                   Inr d \<Rightarrow>
                     (case absorb_remote_result dk d (env, w) of
                        (a, w) \<Rightarrow>
                          (let e = (case a of Inr e \<Rightarrow> e | Inl x \<Rightarrow> hint (unabsorbed ''runner result'' x d) env) in
                           (e\<lparr>env_reason := Some (deadline_reason passed said confirmed orphan_requester (Some d)
                              (env_reason e))\<rparr>, w)))
                 | Inl why \<Rightarrow>
                     (env\<lparr>env_workload := W_Unknown,
                        env_offload := (if offload_terminal (env_offload env) then env_offload env else O_Skipped),
                        env_reason := Some (passed @ ''; '' @ said @ ''; '' @ why)\<rparr>, w)) of
                 (env, w) \<Rightarrow>
                   (case rm_now (dk_remote dk) w of (now, w) \<Rightarrow> (t, cancelled_orphan now env, w)))))"

definition plan_spec_or_none :: "('t, 'w) desk \<Rightarrow> (py_error, job_spec option) outcome" where
  "plan_spec_or_none dk =
     (case dk_plan dk of
        Inl e \<Rightarrow> if dk_value_error dk e then Inr None else Inl e
      | Inr p \<Rightarrow> Inr (map_option pl_spec p))"

definition release_orphaned_job ::
  "('t, 'w) desk \<Rightarrow> session_state \<Rightarrow> 't \<Rightarrow> job_envelope \<times> 'w \<Rightarrow> (py_error, job_envelope) outcome \<times> 'w" where
  "release_orphaned_job dk session t = (\<lambda>(env, w).
     case plan_spec_or_none dk of
       Inl e \<Rightarrow> (Inl e, w)
     | Inr spec \<Rightarrow>
         if keep_vm env spec True then
           (case write_env dk ((record_vm_kept (dk_job dk) env)\<lparr>env_supervisor := S_Finished\<rparr>, w) of
              (env, w) \<Rightarrow> (Inr env, w))
         else
           (case copy_before_release dk (Some t) (env, w) of
              (env, w) \<Rightarrow>
                (case forget_session dk (release dk ''recovery teardown failed'' (env, stop_daemon dk (Some session) w)) of
                   (env, w) \<Rightarrow>
                     (case write_env dk (env\<lparr>env_supervisor := S_Finished,
                         env_offload := (if offload_terminal (env_offload env) then env_offload env else O_Skipped)\<rparr>, w) of
                        (env, w) \<Rightarrow> (Inr env, w)))))"

section \<open>The keep-alive daemon\<close>

definition stop_event :: "json_obj \<Rightarrow> bool" where
  "stop_event e \<longleftrightarrow> jget e ''event_type'' \<in> {JStr ''keep_alive_started'', JStr ''keep_alive_stopped''}"

definition keep_alive_stop_note :: "(py_error, json_obj list) outcome \<Rightarrow> string" where
  "keep_alive_stop_note events =
     (case events of
        Inl e \<Rightarrow> ''its history could not be read: '' @ describe_error e
      | Inr es \<Rightarrow>
          (case List.find stop_event (rev es) of
             None \<Rightarrow> ''it logged no stop reason''
           | Some e \<Rightarrow>
               if jget e ''event_type'' \<noteq> JStr ''keep_alive_stopped'' then ''it logged no stop reason''
               else ''stopped: '' @ py_str (jget e ''reason'')
                 @ (if truthy (jget e ''last_error'') then '', last error '' @ py_str (jget e ''last_error'') else [])))"

definition ensure_keep_alive ::
  "('t, 'w) desk \<Rightarrow> job_envelope \<Rightarrow> session_state \<times> 'w \<Rightarrow> string option \<times> session_state \<times> 'w" where
  "ensure_keep_alive dk env = (\<lambda>(ss, w).
     if env_keep_alive_disabled env \<or> dk_pid_alive dk (ss_keep_alive_pid ss) w then (None, ss, w)
     else
       (case dk_history dk (ss_name ss) w of
          (events, w) \<Rightarrow>
            (let stopped = keep_alive_stop_note events;
                 failed = (\<lambda>e. Some (''keep-alive had died ('' @ stopped @ '') and could not be respawned (''
                   @ describe_error e @ ''); Colab may reclaim the idle VM''))
             in case dk_spawn dk ss w of
                  (Inl e, w) \<Rightarrow> (failed e, ss, w)
                | (Inr pid, w) \<Rightarrow>
                    (let ss = ss\<lparr>ss_keep_alive_pid := pid\<rparr> in
                     case dk_add dk ss w of
                       (Inl e, w) \<Rightarrow> (failed e, ss, w)
                     | (Inr _, w) \<Rightarrow>
                         (Some (''keep-alive had died ('' @ stopped @ ''); respawned as pid '' @ show_opt show_int pid), ss, w)))))"

definition with_hint :: "string option \<Rightarrow> job_envelope \<Rightarrow> job_envelope" where
  "with_hint h env = (case h of None \<Rightarrow> env | Some t \<Rightarrow> if t = [] then env else hint t env)"

end
