(* ===== verification/Commands.thy ===== *)
theory Commands
  imports Recover
begin

text \<open>
  The commands \<open>job status\<close> and \<open>job destroy\<close>: the loop over the VM's records of a job
  whose supervisor may be gone, and the teardown.  \<open>None\<close> is a \<open>status --poll\<close> that
  does not return.
\<close>

section \<open>One look at the VM\<close>

record 't look =
  lk_env :: job_envelope
  lk_session :: session_state
  lk_transport :: 't
  lk_staleness :: staleness

text \<open>What \<open>status\<close> is asked for: \<open>--poll\<close>, the deadline of the job, and whether it is orphaned.\<close>

record request =
  rq_poll :: bool
  rq_deadline :: "(rat \<times> string) option"
  rq_orphaned :: bool

definition past_prefix :: string where "past_prefix = ''past its deadline: ''"

definition past_text :: "string \<Rightarrow> string \<Rightarrow> string" where
  "past_text job description =
     description @ ''; `job status '' @ job @ '' --poll` cancels it and releases the VM, `job destroy ''
     @ job @ ''` stops it now''"

definition cancelled_text :: "string \<Rightarrow> string" where
  "cancelled_text description =
     description @ ''; the job'' @ [CHR 0x27] @ ''s supervisor is gone, so job status --poll cancelled it''"

definition refresh_keep_alive ::
  "('t, 'w) desk \<Rightarrow> 't look \<times> 'w \<Rightarrow> 't look \<times> 'w" where
  "refresh_keep_alive dk = (\<lambda>(lk, w).
     case ensure_keep_alive dk (lk_env lk) (lk_session lk, w) of
       (h, ss, w) \<Rightarrow> (lk\<lparr>lk_env := with_hint h (lk_env lk), lk_session := ss\<rparr>, w))"

definition lost :: "string \<Rightarrow> job_envelope \<Rightarrow> job_envelope" where
  "lost why env =
     (record_failure P_Run (env\<lparr>env_workload := W_Unknown\<rparr>))
       \<lparr>env_reason := Some why, env_retry_class := Some Retry_Same, env_supervisor := S_Finished\<rparr>"

definition dead_runner_text :: "json_obj \<Rightarrow> string" where
  "dead_runner_text d =
     ''runner identity is dead and no result.json was written''
     @ (if d = [] then [] else '' (watchdog: elapsed='' @ py_str (jget d ''elapsed'') @ ''s, ts=''
          @ py_str (jget d ''ts'') @ '')'')
     @ ''; its last output is in runner.log''"

definition finished_if :: "bool \<Rightarrow> job_envelope \<Rightarrow> job_envelope" where
  "finished_if orphaned env = (if orphaned then env\<lparr>env_supervisor := S_Finished\<rparr> else env)"

definition result_seen ::
  "('t, 'w) desk \<Rightarrow> bool \<Rightarrow> json_obj \<Rightarrow> job_envelope \<times> 'w \<Rightarrow> job_envelope \<times> 'w" where
  "result_seen dk orphaned d = (\<lambda>(env, w).
     case absorb_remote_result dk d (env, w) of
       (Inr env', w) \<Rightarrow> (finished_if orphaned env', w)
     | (Inl e, w) \<Rightarrow>
         (finished_if orphaned
            ((record_failure P_Run (env\<lparr>env_workload := W_Unknown\<rparr>))
               \<lparr>env_reason := Some (unabsorbed ''runner result'' e d), env_retry_class := Some Do_Not_Retry,
                env_offload := (if offload_terminal (env_offload env) then env_offload env else O_Skipped)\<rparr>), w))"

text \<open>The end of a job whose runner is not there, after the control object gave nothing.\<close>

definition lost_reason :: "job_envelope \<Rightarrow> remote_kind \<Rightarrow> string option" where
  "lost_reason env kind =
     (case kind of
        Rk_Session_Lost \<Rightarrow> Some (lost_assignment_reason env)
      | Rk_Runner_Dead d \<Rightarrow> Some (dead_runner_text d)
      | Rk_Never_Started \<Rightarrow> Some ''supervisor is gone and no runner identity was recorded''
      | _ \<Rightarrow> None)"

definition gone :: "bool \<Rightarrow> remote_kind \<Rightarrow> bool" where
  "gone orphaned kind =
     (case kind of
        Rk_Session_Lost \<Rightarrow> True | Rk_Runner_Dead d \<Rightarrow> True | Rk_Never_Started \<Rightarrow> orphaned | _ \<Rightarrow> False)"

definition identity_text :: "json_obj \<Rightarrow> string" where
  "identity_text d =
     ''launch.json on the VM has no valid runner identity: ''
     @ repr (JObj (map (\<lambda>k. (k, jget d k)) [''pid'', ''starttime'', ''boot_id'']))"

text \<open>A runner that is still there, or cannot be read.\<close>

definition still_there ::
  "('t, 'w) desk \<Rightarrow> remote_kind \<Rightarrow> 't look \<times> 'w \<Rightarrow> 't look \<times> 'w" where
  "still_there dk kind = (\<lambda>(lk, w).
     case kind of
       Rk_Degraded \<Rightarrow>
         (lk\<lparr>lk_env := (lk_env lk)\<lparr>env_supervisor := S_Degraded,
            env_reason := Some (degraded_reason (dk_remote dk) (lk_transport lk) None @ ''; the job is not known dead'')\<rparr>\<rparr>, w)
     | Rk_Launch_Invalid d \<Rightarrow> (lk\<lparr>lk_env := (lk_env lk)\<lparr>env_reason := Some (identity_text d)\<rparr>\<rparr>, w)
     | Rk_Runner_Alive (Some d) \<Rightarrow>
         if d = [] then (lk, w)
         else
           (case rm_clock (dk_remote dk) w of
              (now, w) \<Rightarrow>
                (case observe_watchdog (lk_staleness lk) d now of
                   (stalled, staleness) \<Rightarrow>
                     (let env = (lk_env lk)\<lparr>env_hints := replace_hint (env_hints (lk_env lk)) watchdog_stalled_prefix stalled\<rparr>;
                          env = (case stalled of None \<Rightarrow> env | Some t \<Rightarrow> env\<lparr>env_reason := Some t\<rparr>)
                      in (lk\<lparr>lk_env := env, lk_staleness := staleness\<rparr>, w))))
     | _ \<Rightarrow> (lk, w))"

text \<open>The runner is not there: the control object is the last place its result may be.\<close>

definition end_of_run ::
  "('t, 'w) desk \<Rightarrow> remote_kind \<Rightarrow> 't look \<times> 'w \<Rightarrow> (py_error, bool \<times> 't look) outcome \<times> 'w" where
  "end_of_run dk kind = (\<lambda>(lk, w).
     case recover_off_vm_result dk (lk_env lk, w) of
       (Inl e, w) \<Rightarrow> (Inl e, w)
     | (Inr (Some env, _), w) \<Rightarrow> (Inr (True, lk\<lparr>lk_env := env\<lparr>env_supervisor := S_Finished\<rparr>\<rparr>), w)
     | (Inr (None, env), w) \<Rightarrow>
         (Inr (True, lk\<lparr>lk_env := (case lost_reason env kind of None \<Rightarrow> env | Some why \<Rightarrow> lost why env)\<rparr>), w))"

text \<open>What the VM's records say; \<open>True\<close> ends the loop.\<close>

definition read_vm ::
  "('t, 'w) desk \<Rightarrow> bool \<Rightarrow> 't look \<times> 'w \<Rightarrow> (py_error, bool \<times> 't look) outcome \<times> 'w" where
  "read_vm dk orphaned = (\<lambda>(lk, w).
     case pull_runner_log (dk_remote dk) (dk_job dk) (lk_transport lk) w of
       (_, t, w) \<Rightarrow>
         (case observe_remote (dk_remote dk) (dk_job dk) t w of
            (kind, t, w) \<Rightarrow>
              (let lk = lk\<lparr>lk_transport := t\<rparr> in
               case kind of
                 Rk_Result d \<Rightarrow>
                   (case result_seen dk orphaned d (lk_env lk, w) of
                      (env, w) \<Rightarrow> (Inr (True, lk\<lparr>lk_env := env\<rparr>), w))
               | _ \<Rightarrow>
                   if gone orphaned kind then end_of_run dk kind (lk, w)
                   else
                     (case still_there dk kind (lk, w) of (lk, w) \<Rightarrow> (Inr (False, lk), w)))))"

definition look_pass ::
  "('t, 'w) desk \<Rightarrow> request \<Rightarrow> 't look \<times> 'w \<Rightarrow> (py_error, bool \<times> 't look) outcome \<times> 'w" where
  "look_pass dk rq = (\<lambda>(lk, w).
     case (case rq_deadline rq of None \<Rightarrow> (None, w)
       | Some (limit, description) \<Rightarrow>
           (case rm_time (dk_remote dk) w of
              (now, w) \<Rightarrow> (if limit < now then Some description else None, w))) of
       (Some description, w) \<Rightarrow>
         if rq_poll rq then
           (let env = (lk_env lk)\<lparr>env_hints := replace_hint (env_hints (lk_env lk)) past_prefix None\<rparr> in
            case cancel_orphan dk (cancelled_text description) (lk_transport lk) (env, w) of
              (t, env, w) \<Rightarrow> (Inr (True, lk\<lparr>lk_env := env, lk_transport := t\<rparr>), w))
         else
           (let env = (lk_env lk)\<lparr>env_hints := replace_hint (env_hints (lk_env lk)) past_prefix
                  (Some (past_text (dk_job dk) description))\<rparr>
            in read_vm dk (rq_orphaned rq) (refresh_keep_alive dk (lk\<lparr>lk_env := env\<rparr>, w)))
     | (None, w) \<Rightarrow> read_vm dk (rq_orphaned rq) (refresh_keep_alive dk (lk, w)))"

partial_function (option) look_loop ::
  "('t, 'w) desk \<Rightarrow> request \<Rightarrow> int \<Rightarrow> 't look \<Rightarrow> 'w \<Rightarrow> ((py_error, 't look) outcome \<times> 'w) option" where
  "look_loop dk rq interval lk w =
     (case look_pass dk rq (lk, w) of
        (r, w) \<Rightarrow>
          (case r of
             Inl e \<Rightarrow> Some (Inl e, w)
           | Inr (stop, lk) \<Rightarrow>
               if stop \<or> \<not> rq_poll rq then Some (Inr lk, w)
               else look_loop dk rq interval lk (rm_sleep (dk_remote dk) (of_int interval) w)))"

section \<open>job status\<close>

definition session_name :: "job_envelope \<Rightarrow> string" where
  "session_name env = (case env_session env of None \<Rightarrow> [] | Some n \<Rightarrow> n)"

definition supervisor_gone :: "bool \<Rightarrow> job_envelope \<Rightarrow> job_envelope" where
  "supervisor_gone alive_now env =
     (if env_supervisor env = S_Running \<and> \<not> alive_now
      then env\<lparr>env_supervisor := S_Interrupted,
        env_reason := Some ''the supervisor process that started this job is gone''\<rparr> else env)"

definition not_consulted :: "string \<Rightarrow> job_envelope \<Rightarrow> string" where
  "not_consulted job env =
     ''the VM was not consulted: ''
     @ (if \<not> has_session env then ''no session is recorded for this job''
        else ''cleanup is already '' @ cleanup_value (env_cleanup env))
     @ (if env_cleanup env = C_Left_Up
        then ''; the VM was left running and may still bill: `mighty-colab sessions` shows it, `job destroy ''
          @ job @ ''` releases it'' else [])"

definition status_end ::
  "('t, 'w) desk \<Rightarrow> bool \<Rightarrow> job_envelope \<times> 'w \<Rightarrow> answer \<times> 'w" where
  "status_end dk consulted = (\<lambda>(env, w).
     (let note_text = not_consulted (dk_job dk) env;
          env = (if \<not> consulted \<and> env_cleanup env \<notin> {C_Released, C_Already_Absent} \<and> note_text \<notin> set (env_hints env)
            then hint note_text env else env)
      in case write_env dk (finalize_hints env, w) of (env, w) \<Rightarrow> (Answer env 0, w)))"

definition end_orphan ::
  "('t, 'w) desk \<Rightarrow> bool \<Rightarrow> 't look \<times> 'w \<Rightarrow> answer \<times> 'w" where
  "end_orphan dk orphaned = (\<lambda>(lk, w).
     if orphaned \<and> workload_terminal (env_workload (lk_env lk)) then
       (case release_orphaned_job dk (lk_session lk) (lk_transport lk) (lk_env lk, w) of
          (Inl e, w) \<Rightarrow> (Crashed e, w)
        | (Inr env, w) \<Rightarrow> status_end dk True (env, w))
     else status_end dk True (write_env dk (lk_env lk, w)))"

text \<open>The VM is reachable: the credential file first, then a job that is over, then the loop.\<close>

definition status_reached ::
  "('t, 'w) desk \<Rightarrow> bool \<Rightarrow> int \<Rightarrow> bool \<Rightarrow> bool \<Rightarrow> session_state \<Rightarrow> job_envelope \<times> 'w \<Rightarrow> (answer \<times> 'w) option" where
  "status_reached dk polling interval orphaned must_scrub session = (\<lambda>(env, w).
     case ensure_keep_alive dk env (session, w) of
       (h, session, w) \<Rightarrow>
         (let env = with_hint h env; t = dk_transport dk session in
          case (if must_scrub then scrub_transfer_secret dk t w else ((True, None), t, w)) of
            ((False, cause), t, w) \<Rightarrow>
              Some (case recover_off_vm_result dk (env, w) of
                 (Inl e, w) \<Rightarrow> (Crashed e, w)
               | (Inr x, w) \<Rightarrow> force_release dk (Some t) cause (or_recovered x, w))
          | ((True, _), t, w) \<Rightarrow>
              if orphaned \<and> workload_terminal (env_workload env) then
                Some (case release_orphaned_job dk session t (env, w) of
                   (Inl e, w) \<Rightarrow> (Crashed e, w)
                 | (Inr env, w) \<Rightarrow> (Answer env 0, w))
              else
                (let lk = \<lparr>lk_env = env, lk_session = session, lk_transport = t, lk_staleness = None\<rparr> in
                 if workload_terminal (env_workload env) then Some (end_orphan dk orphaned (lk, w))
                 else
                   (case (if orphaned then status_poll_deadline dk env else Inr None) of
                      Inl e \<Rightarrow> Some (Crashed e, w)
                    | Inr deadline \<Rightarrow>
                        map_option (\<lambda>(r, w).
                            case r of Inl e \<Rightarrow> (Crashed e, w) | Inr lk \<Rightarrow> end_orphan dk orphaned (lk, w))
                          (look_loop dk \<lparr>rq_poll = polling, rq_deadline = deadline, rq_orphaned = orphaned\<rparr>
                             interval lk w)))))"

definition status ::
  "('t, 'w) desk \<Rightarrow> bool \<Rightarrow> int \<Rightarrow> 'w \<Rightarrow> (answer \<times> 'w) option" where
  "status dk polling interval w =
     (case dk_read_env dk w of
        (Inl e, w) \<Rightarrow> Some (Crashed e, w)
      | (Inr None, w) \<Rightarrow> Some (No_Record, w)
      | (Inr (Some env), w) \<Rightarrow>
          (case supervisor_alive dk w of
             (alive_now, w) \<Rightarrow>
               (let env = supervisor_gone alive_now env;
                    orphaned = (\<not> alive_now \<and> env_supervisor env \<noteq> S_Running);
                    pending = (env_cleanup env \<notin> {C_Released, C_Already_Absent, C_Left_Up});
                    must_scrub = (orphaned \<or> env_cleanup env = C_Failed)
                in if has_session env \<and> pending then
                     (case dk_session dk (session_name env) w of
                        (None, w) \<Rightarrow>
                          if must_scrub then
                            Some (case recover_off_vm_result dk (env, w) of
                               (Inl e, w) \<Rightarrow> (Crashed e, w)
                             | (Inr x, w) \<Rightarrow>
                                 force_release dk None (Some (''no local session record ''
                                   @ repr_str (session_name (or_recovered x))
                                   @ '', so the VM could not be reached'')) (or_recovered x, w))
                          else
                            Some (status_end dk True (hint (''the VM was not consulted: no local session record ''
                              @ repr_str (session_name env) @ '' on this machine'') env, w))
                      | (Some session, w) \<Rightarrow> status_reached dk polling interval orphaned must_scrub session (env, w))
                   else Some (status_end dk False (env, w)))))"

section \<open>job destroy\<close>

fun await_cleanup ::
  "('t, 'w) desk \<Rightarrow> nat \<Rightarrow> 'w \<Rightarrow> job_envelope option \<times> 'w" where
  "await_cleanup dk 0 w = (None, w)"
| "await_cleanup dk (Suc n) w =
     (case dk_read_env dk (rm_sleep (dk_remote dk) (of_int runner_result_poll_seconds) w) of
        (Inl e, w) \<Rightarrow> await_cleanup dk n w
      | (Inr current, w) \<Rightarrow>
          (case current of
             Some env \<Rightarrow>
               if cleanup_terminal (env_cleanup env) then (Some env, w)
               else (case supervisor_alive dk w of
                  (alive_now, w) \<Rightarrow> if alive_now then await_cleanup dk n w else (Some env, w))
           | None \<Rightarrow>
               (case supervisor_alive dk w of
                  (alive_now, w) \<Rightarrow> if alive_now then await_cleanup dk n w else (None, w))))"

definition await_supervisor_cleanup :: "('t, 'w) desk \<Rightarrow> int \<Rightarrow> 'w \<Rightarrow> job_envelope option \<times> 'w" where
  "await_supervisor_cleanup dk wait w = await_cleanup dk (polls_in wait) w"

text \<open>The result that is already on the VM, absorbed if it can be.\<close>

definition reconcile ::
  "('t, 'w) desk \<Rightarrow> 't \<Rightarrow> job_envelope \<times> 'w \<Rightarrow> 't \<times> job_envelope \<times> 'w" where
  "reconcile dk t = (\<lambda>(env, w).
     case rm_read_json (dk_remote dk) (remote_file (dk_job dk) ''result.json'') t w of
       ((d, status1), t, w) \<Rightarrow>
         if status1 = Rs_Ok \<and> obj_of d \<noteq> [] then
           (case absorb_remote_result dk (obj_of d) (env, w) of
              (Inr env', w) \<Rightarrow> (t, env'\<lparr>env_supervisor := S_Finished\<rparr>, w)
            | (Inl e, w) \<Rightarrow>
                (t, hint (''the remote result could not be reconciled before destroy ('' @ describe_error e @ '')'') env, w))
         else if status1 \<notin> {Rs_Ok, Rs_Not_Found} then
           (t, hint (''reading result.json before destroy returned '' @ status_name status1 @ '': ''
              @ degraded_reason (dk_remote dk) t None) env, w)
         else (t, env, w))"

definition destroyed_reason :: "bool \<Rightarrow> string option \<Rightarrow> string option \<Rightarrow> string" where
  "destroyed_reason confirmed said waited =
     (if confirmed then ''VM destroyed after cancellation was requested; remote workload verdict unavailable''
      else ''VM destroyed; cancellation intent and remote workload verdict unavailable''
        @ (case said of None \<Rightarrow> [] | Some t \<Rightarrow> if t = [] then [] else '' ('' @ t @ '')''))
     @ (case waited of None \<Rightarrow> [] | Some t \<Rightarrow> if t = [] then [] else '': '' @ t)"

definition destroyed ::
  "plan option \<Rightarrow> bool \<Rightarrow> string option \<Rightarrow> string option \<Rightarrow> job_envelope \<Rightarrow> job_envelope" where
  "destroyed saved confirmed said waited env =
     (let env = (if \<not> workload_terminal (env_workload env) then
            env\<lparr>env_workload := W_Unknown,
              env_offload := (if offload_terminal (env_offload env) then env_offload env
                else (case saved of None \<Rightarrow> O_Not_Required
                      | Some p \<Rightarrow> if sp_artifacts (pl_spec p) = [] then O_Not_Required else O_Skipped)),
              env_reason := Some (destroyed_reason confirmed said waited),
              env_retry_class := Some Do_Not_Retry\<rparr> else env)
      in finalize_hints (env\<lparr>env_supervisor := S_Finished\<rparr>))"

definition destroy_exit :: "job_envelope \<Rightarrow> int" where
  "destroy_exit env = (if env_cleanup env = C_Failed then 1 else 0)"

definition tear_down ::
  "('t, 'w) desk \<Rightarrow> plan option \<Rightarrow> session_state option \<Rightarrow> 't option \<Rightarrow> bool \<Rightarrow> string option \<Rightarrow> string option
    \<Rightarrow> job_envelope \<times> 'w \<Rightarrow> answer \<times> 'w" where
  "tear_down dk saved session transport confirmed said waited s =
     (case copy_before_release dk transport s of
        (env, w) \<Rightarrow>
          (case forget_session dk (release dk ''unassign failed'' (env, stop_daemon dk session w)) of
             (env, w) \<Rightarrow>
               (let env = destroyed saved confirmed said waited env
                in (Answer env (destroy_exit env), snd (write_env dk (env, w))))))"

text \<open>\<open>--cancel-only\<close>: the VM is kept, but not with a credential file that may be on it.\<close>

definition cancel_only_forced ::
  "('t, 'w) desk \<Rightarrow> session_state option \<Rightarrow> 't option \<Rightarrow> string option \<Rightarrow> job_envelope \<times> 'w \<Rightarrow> answer \<times> 'w" where
  "cancel_only_forced dk session transport cause s =
     (case copy_before_release dk transport s of
        (env, w) \<Rightarrow>
          (case forget_session dk (release dk ''forced unassign failed'' (env, stop_daemon dk session w)) of
             (env, w) \<Rightarrow>
               (let c = show_opt id cause;
                    env = finalize_hints (torn_down (''cancel-only retention overridden because transfer credential ''
                      @ ''deletion could not be confirmed ('' @ c @ '')'')
                      (''forced VM teardown because credential deletion was not confirmed ('' @ c @ '')'') env)
                in (Answer env 1, snd (write_env dk (env, w))))))"

definition cancel_only_kept ::
  "('t, 'w) desk \<Rightarrow> bool \<Rightarrow> string option \<Rightarrow> job_envelope \<times> 'w \<Rightarrow> answer \<times> 'w" where
  "cancel_only_kept dk confirmed said = (\<lambda>(env, w).
     (let terminal = workload_terminal (env_workload env);
          why = (if terminal then
              (case env_reason env of None \<Rightarrow> ''workload already terminal; VM left running''
                 | Some r \<Rightarrow> if r = [] then ''workload already terminal; VM left running'' else r)
            else if confirmed then ''cancel intent written; VM left running''
            else ''cancel intent could not be confirmed (''
              @ (case said of None \<Rightarrow> ''no transport'' | Some t \<Rightarrow> if t = [] then ''no transport'' else t)
              @ ''); VM left running'');
          env = finalize_hints (env\<lparr>env_reason := Some why\<rparr>)
      in (Answer env (if \<not> terminal \<and> \<not> confirmed then 1 else 0), snd (write_env dk (env, w)))))"

text \<open>Before the release: a live supervisor releases by itself, else the runner is waited for.\<close>

definition taken_over :: "int \<Rightarrow> job_envelope option \<Rightarrow> string" where
  "taken_over wait current =
     (case current of
        None \<Rightarrow> ''the running `job apply` did not release the VM within '' @ show_int wait
          @ ''s; destroy took over the release''
      | Some c \<Rightarrow> ''the running `job apply` ended with cleanup='' @ cleanup_value (env_cleanup c)
          @ ''; destroy took over the release'')"

definition supervised_destroy ::
  "('t, 'w) desk \<Rightarrow> int \<Rightarrow> job_envelope \<times> 'w \<Rightarrow> (job_envelope, job_envelope) outcome \<times> 'w" where
  "supervised_destroy dk wait = (\<lambda>(env, w).
     case await_supervisor_cleanup dk wait w of
       (current, w) \<Rightarrow>
         (case (case current of None \<Rightarrow> None
            | Some c \<Rightarrow> if env_cleanup c \<in> {C_Released, C_Already_Absent} then Some c else None) of
            Some c \<Rightarrow> (Inl c, w)
          | None \<Rightarrow>
              (case dk_read_env dk w of
                 (Inr (Some latest), w) \<Rightarrow> (Inr (hint (taken_over wait current) latest), w)
               | (Inr None, w) \<Rightarrow> (Inr (hint (taken_over wait current) env), w)
               | (Inl e, w) \<Rightarrow>
                   (Inr (hint (taken_over wait current) (hint (''latest envelope unreadable ('' @ describe_error e
                      @ ''); releasing from the record read at the start of destroy'') env)), w))))"

definition wait_for_runner ::
  "('t, 'w) desk \<Rightarrow> int \<Rightarrow> 't \<Rightarrow> job_envelope \<times> 'w \<Rightarrow> string option \<times> 't \<times> job_envelope \<times> 'w" where
  "wait_for_runner dk wait t = (\<lambda>(env, w).
     case await_runner_result (dk_remote dk) (dk_job dk) wait t w of
       (Inl why, t, w) \<Rightarrow> (Some why, t, hint why env, w)
     | (Inr d, t, w) \<Rightarrow>
         (case absorb_remote_result dk d (env, w) of
            (Inr env', w) \<Rightarrow> (None, t, env'\<lparr>env_supervisor := S_Finished\<rparr>, w)
          | (Inl e, w) \<Rightarrow> (None, t, hint (unabsorbed ''runner result'' e d) env, w)))"

definition destroy_reached ::
  "('t, 'w) desk \<Rightarrow> plan option \<Rightarrow> session_state option \<Rightarrow> int \<Rightarrow> bool \<Rightarrow> string option \<Rightarrow> 't option
    \<Rightarrow> job_envelope \<times> 'w \<Rightarrow> answer \<times> 'w" where
  "destroy_reached dk saved session wait confirmed said transport = (\<lambda>(env, w).
     case transport of
       Some t \<Rightarrow>
         if \<not> workload_terminal (env_workload env) \<and> confirmed \<and> 0 < wait then
           (case supervisor_alive dk w of
              (True, w) \<Rightarrow>
                (case supervised_destroy dk wait (env, w) of
                   (Inl current, w) \<Rightarrow> (Answer current 0, w)
                 | (Inr env, w) \<Rightarrow> tear_down dk saved session (Some t) confirmed said None (env, w))
            | (False, w) \<Rightarrow>
                (case wait_for_runner dk wait t (env, w) of
                   (waited, t, env, w) \<Rightarrow> tear_down dk saved session (Some t) confirmed said waited (env, w)))
         else tear_down dk saved session (Some t) confirmed said None (env, w)
     | None \<Rightarrow> tear_down dk saved session None confirmed said None (env, w))"

definition open_session ::
  "('t, 'w) desk \<Rightarrow> job_envelope \<times> 'w \<Rightarrow> session_state option \<times> 't option \<times> job_envelope \<times> 'w" where
  "open_session dk = (\<lambda>(env, w).
     case (if has_session env then dk_session dk (session_name env) w else (None, w)) of
       (None, w) \<Rightarrow> (None, None, env, w)
     | (Some ss, w) \<Rightarrow>
         (case reconcile dk (dk_transport dk ss) (env, w) of (t, env, w) \<Rightarrow> (Some ss, Some t, env, w)))"

definition recover_if_running ::
  "('t, 'w) desk \<Rightarrow> job_envelope \<times> 'w \<Rightarrow> (py_error, job_envelope) outcome \<times> 'w" where
  "recover_if_running dk = (\<lambda>(env, w).
     if workload_terminal (env_workload env) then (Inr env, w)
     else (case recover_off_vm_result dk (env, w) of
         (Inl e, w) \<Rightarrow> (Inl e, w)
       | (Inr (Some env', _), w) \<Rightarrow> (Inr (env'\<lparr>env_supervisor := S_Finished\<rparr>), w)
       | (Inr (None, env), w) \<Rightarrow> (Inr env, w)))"

definition scrub_if_reached ::
  "('t, 'w) desk \<Rightarrow> 't option \<Rightarrow> job_envelope \<times> 'w \<Rightarrow> (bool \<times> string option) \<times> 't option \<times> 'w" where
  "scrub_if_reached dk transport = (\<lambda>(env, w).
     case transport of
       None \<Rightarrow>
         ((False, Some (''no local session record '' @ show_opt repr_str (env_session env)
            @ '', so the VM could not be reached'')), None, w)
     | Some t \<Rightarrow> (case scrub_transfer_secret dk t w of (r, t, w) \<Rightarrow> (r, Some t, w)))"

definition request_stop ::
  "('t, 'w) desk \<Rightarrow> 't option \<Rightarrow> job_envelope \<times> 'w \<Rightarrow> string option \<times> bool \<times> 't option \<times> 'w" where
  "request_stop dk transport = (\<lambda>(env, w).
     case transport of
       Some t \<Rightarrow>
         if workload_terminal (env_workload env) then (None, False, Some t, w)
         else (case request_cancel (dk_remote dk) (dk_job dk) ''job destroy'' t w of
             ((said, confirmed), t, w) \<Rightarrow> (Some said, confirmed, Some t, w))
     | None \<Rightarrow> (None, False, None, w))"

definition destroy :: "('t, 'w) desk \<Rightarrow> bool \<Rightarrow> int \<Rightarrow> 'w \<Rightarrow> answer \<times> 'w" where
  "destroy dk cancel_only wait w =
     (case dk_read_env dk w of
        (Inl e, w) \<Rightarrow> (Crashed e, w)
      | (Inr None, w) \<Rightarrow> (No_Record, w)
      | (Inr (Some env), w) \<Rightarrow>
          (case dk_plan dk of
             Inl e \<Rightarrow> (Crashed e, w)
           | Inr saved \<Rightarrow>
               (case open_session dk (env, w) of
                  (session, transport, env, w) \<Rightarrow>
                    (case recover_if_running dk (env, w) of
                       (Inl e, w) \<Rightarrow> (Crashed e, w)
                     | (Inr env, w) \<Rightarrow>
                         (case scrub_if_reached dk transport (env, w) of
                            ((removed, cause), transport, w) \<Rightarrow>
                              if cancel_only \<and> \<not> removed
                              then cancel_only_forced dk session transport cause (env, w)
                              else (case request_stop dk transport (env, w) of
                                  (said, confirmed, transport, w) \<Rightarrow>
                                    if cancel_only then cancel_only_kept dk confirmed said (env, w)
                                    else destroy_reached dk saved session wait confirmed said transport (env, w)))))))"

section \<open>What a teardown leaves\<close>

abbreviation freed :: "cleanup set" where
  "freed \<equiv> {C_Released, C_Already_Absent, C_Failed}"

lemma copy_before_release_hints: "only_hints (fst s) (fst (copy_before_release dk transport s))"
  by (cases s) (auto simp: copy_before_release_def split: option.split prod.split)

lemma forget_session_hints: "only_hints (fst s) (fst (forget_session dk s))"
  by (cases s) (auto simp: forget_session_def split: option.split prod.split sum.split)

lemma unassigned_fields:
  "same_verdict env (unassigned failure endpoint outcome env)"
  "env_cleanup (unassigned failure endpoint outcome env) = env_cleanup env"
  by (auto simp: unassigned_def same_verdict_def Let_def hint_def record_failure_def split: option.split)

lemma release_env:
  "same_verdict (fst s) (fst (release dk failure s)) \<and> env_cleanup (fst (release dk failure s)) \<in> freed"
proof -
  obtain env w where s: "s = (env, w)" by (cases s)
  show ?thesis
  proof (cases "env_endpoint env")
    case None
    then show ?thesis by (simp add: release_def s same_verdict_def)
  next
    case (Some endpoint)
    obtain outcome w1 where r: "release_assignment (dk_colab dk) endpoint w = (outcome, w1)" by (metis prod.collapse)
    obtain at_time w2 where n: "rm_now (dk_remote dk) w1 = (at_time, w2)" by (metis prod.collapse)
    obtain reading env2 w3 where u: "read_compute_units (dk_colab dk) at_time ''release''
        (env\<lparr>env_cleanup := fst outcome\<rparr>) w2 = (reading, env2, w3)" by (metis prod.collapse)
    note h = read_compute_units_env [OF u]
    have v: "same_verdict env (env2\<lparr>env_compute_units_at_release := reading\<rparr>)"
      using same_verdict_hints [OF h] by (simp add: same_verdict_def)
    have c: "env_cleanup env2 = fst outcome" using only_hints_fields(3) [OF h] by simp
    show ?thesis
    proof (cases "endpoint = []")
      case True
      then show ?thesis using Some by (simp add: release_def s same_verdict_def)
    next
      case False
      then have "fst (release dk failure s)
          = unassigned failure endpoint outcome (env2\<lparr>env_compute_units_at_release := reading\<rparr>)"
        by (simp add: release_def s Some r n u)
      then show ?thesis
        using same_verdict_trans [OF v unassigned_fields(1)] release_assignment_cleanup [OF r] c
        by (simp add: s unassigned_fields(2))
    qed
  qed
qed

text \<open>The three steps of every teardown of these commands.\<close>

lemma torn_off:
  "let b = fst (forget_session dk (release dk failure s)) in
     same_verdict (fst s) b \<and> env_cleanup b \<in> freed"
proof -
  note r = release_env [of s dk failure]
  note f = forget_session_hints [of "release dk failure s" dk]
  show ?thesis
    using r only_hints_fields(3) [OF f] same_verdict_trans [OF conjunct1 [OF r] same_verdict_hints [OF f]]
    by (simp add: Let_def)
qed

lemma finalize_hints_fields:
  "env_cleanup (finalize_hints env) = env_cleanup env" "env_workload (finalize_hints env) = env_workload env"
  "env_supervisor (finalize_hints env) = env_supervisor env" "env_offload (finalize_hints env) = env_offload env"
  by (simp_all add: finalize_hints_def)

lemma torn_down_fields:
  "env_cleanup (torn_down reason note_text env) = env_cleanup env"
  "workload_terminal (env_workload (torn_down reason note_text env))"
  "env_supervisor (torn_down reason note_text env) = S_Finished"
  by (auto simp: torn_down_def Let_def hint_def workload_terminal_def split: option.split)

lemma force_release_answer:
  "\<exists>env. fst (force_release dk transport cause s) = Answer env 1 \<and> env_cleanup env \<in> freed
     \<and> workload_terminal (env_workload env) \<and> env_supervisor env = S_Finished"
proof -
  obtain env w where e: "forget_session dk (release dk ''forced unassign failed'' (copy_before_release dk transport s)) = (env, w)"
    by (metis prod.collapse)
  have "env_cleanup env \<in> freed"
    using torn_off [of dk "''forced unassign failed''" "copy_before_release dk transport s"] by (simp add: e Let_def)
  then show ?thesis
    unfolding force_release_def e by (simp add: Let_def torn_down_fields)
qed

lemma destroyed_fields:
  "env_cleanup (destroyed saved confirmed said waited env) = env_cleanup env"
  "workload_terminal (env_workload (destroyed saved confirmed said waited env))"
  "env_supervisor (destroyed saved confirmed said waited env) = S_Finished"
  by (auto simp: destroyed_def Let_def finalize_hints_fields workload_terminal_def)

lemma tear_down_answer:
  "\<exists>env. fst (tear_down dk saved session transport confirmed said waited s) = Answer env (destroy_exit env)
     \<and> env_cleanup env \<in> freed \<and> workload_terminal (env_workload env) \<and> env_supervisor env = S_Finished"
proof -
  obtain env w where c: "copy_before_release dk transport s = (env, w)" by (metis prod.collapse)
  obtain env2 w2 where f: "forget_session dk (release dk ''unassign failed'' (env, stop_daemon dk session w)) = (env2, w2)"
    by (metis prod.collapse)
  have "env_cleanup env2 \<in> freed"
    using torn_off [of dk "''unassign failed''" "(env, stop_daemon dk session w)"] unfolding f by (simp add: Let_def)
  then show ?thesis
    unfolding tear_down_def c prod.case f by (simp add: Let_def destroyed_fields)
qed

lemma supervised_destroy_answer:
  "supervised_destroy dk wait s = (Inl current, w') \<Longrightarrow> env_cleanup current \<in> {C_Released, C_Already_Absent}"
  by (cases s) (auto simp: supervised_destroy_def split: prod.splits option.splits if_splits sum.splits)

text \<open>An answer of \<open>destroy\<close>: the cleanup is over, and the exit code says how.\<close>

definition accounts_for_vm :: "answer \<Rightarrow> bool" where
  "accounts_for_vm a \<longleftrightarrow>
     (case a of
        Answer env exit_code \<Rightarrow> env_cleanup env \<in> freed \<and> exit_code = (if env_cleanup env = C_Failed then 1 else 0)
      | _ \<Rightarrow> True)"

lemma tear_down_accounts: "accounts_for_vm (fst (tear_down dk saved session transport confirmed said waited s))"
  using tear_down_answer [of dk saved session transport confirmed said waited s]
  by (auto simp: accounts_for_vm_def destroy_exit_def)

lemma destroy_reached_accounts:
  "accounts_for_vm (fst (destroy_reached dk saved session wait confirmed said transport s))"
proof -
  obtain env w where s: "s = (env, w)" by (cases s)
  show ?thesis
  proof (cases transport)
    case None
    then show ?thesis by (simp add: destroy_reached_def s tear_down_accounts)
  next
    case (Some t)
    obtain a w1 where a: "supervisor_alive dk w = (a, w1)" by (metis prod.collapse)
    obtain r w2 where d: "supervised_destroy dk wait (env, w1) = (r, w2)" by (metis prod.collapse)
    obtain waited t2 env2 w3 where x: "wait_for_runner dk wait t (env, w1) = (waited, t2, env2, w3)" by (metis prod.collapse)
    show ?thesis
    proof (cases r)
      case (Inl current)
      have "env_cleanup current \<in> {C_Released, C_Already_Absent}"
        by (rule supervised_destroy_answer [OF d [unfolded Inl]])
      then have "accounts_for_vm (Answer current 0)" by (auto simp: accounts_for_vm_def)
      then show ?thesis
        by (cases a) (simp_all add: destroy_reached_def s Some a d Inl x tear_down_accounts)
    next
      case (Inr env')
      then show ?thesis
        by (cases a) (simp_all add: destroy_reached_def s Some a d Inr x tear_down_accounts)
    qed
  qed
qed



section \<open>Status beside a live supervisor\<close>

definition same_vm :: "job_envelope \<Rightarrow> job_envelope \<Rightarrow> bool" where
  "same_vm a b \<longleftrightarrow> env_cleanup b = env_cleanup a \<and> env_endpoint b = env_endpoint a"

lemma same_vm_refl [simp]: "same_vm a a"
  by (simp add: same_vm_def)

lemma same_vm_trans [trans]: "same_vm a b \<Longrightarrow> same_vm b c \<Longrightarrow> same_vm a c"
  by (simp add: same_vm_def)

lemma same_vm_edits [simp]:
  "same_vm a (hint h b) \<longleftrightarrow> same_vm a b" "same_vm a (with_hint x b) \<longleftrightarrow> same_vm a b"
  "same_vm a (lost why b) \<longleftrightarrow> same_vm a b" "same_vm a (finished_if o1 b) \<longleftrightarrow> same_vm a b"
  "same_vm a (finalize_hints b) \<longleftrightarrow> same_vm a b" "same_vm a (record_failure p b) \<longleftrightarrow> same_vm a b"
  "same_vm a (supervisor_gone g b) \<longleftrightarrow> same_vm a b"
  "same_vm a (b\<lparr>env_supervisor := v\<rparr>) \<longleftrightarrow> same_vm a b"
  by (simp_all add: same_vm_def hint_def with_hint_def lost_def finished_if_def finalize_hints_def supervisor_gone_def
      split: option.split)

lemma absorb_provenance_vm: "absorb_provenance result env = Inr env' \<Longrightarrow> same_vm env env'"
  by (auto simp: absorb_provenance_def same_vm_def Let_def and_then_Inr split: if_splits)

lemma absorb_without_plan_vm:
  "absorb_without_plan pd result env = Inr env' \<Longrightarrow> same_vm env env'"
  by (auto simp: absorb_without_plan_def and_then_Inr with_run_def dest!: absorb_provenance_vm)
    (simp add: same_vm_def)

lemma absorb_remote_vm:
  assumes "absorb_remote_result dk result s = (Inr env', w')"
  shows "same_vm (fst s) env'"
proof -
  obtain env w where s: "s = (env, w)" by (cases s)
  show ?thesis
  proof (cases "dk_plan dk")
    case (Inl e)
    then show ?thesis using assms by (simp add: absorb_remote_result_def s)
  next
    case (Inr p)
    show ?thesis
    proof (cases p)
      case None
      then show ?thesis using assms Inr absorb_without_plan_vm by (auto simp: absorb_remote_result_def s)
    next
      case (Some q)
      then obtain now where "absorb_result (po_pydantic (dk_poller dk)) now (pl_spec q) result env = Inr env'"
        using assms Inr by (auto simp: absorb_remote_result_def s split: prod.splits)
      then have "grows env env'" by (rule grows_absorb_result)
      then show ?thesis by (simp add: s grows_def same_job_def same_vm_def)
    qed
  qed
qed

lemma recover_off_vm_vm:
  assumes "recover_off_vm_result dk s = (Inr (recovered, env'), w')"
  shows "same_vm (fst s) env'" "recovered = Some e \<Longrightarrow> same_vm (fst s) e"
proof -
  obtain env w where s: "s = (env, w)" by (cases s)
  show "same_vm (fst s) env'"
    using assms by (auto simp: recover_off_vm_result_def s split: prod.splits sum.splits option.splits if_splits)
  show "same_vm (fst s) e" if "recovered = Some e"
    using assms that absorb_remote_vm [of dk _ "(env, _)" e]
    by (auto simp: recover_off_vm_result_def s split: prod.splits sum.splits option.splits if_splits)
qed

lemma result_seen_vm: "same_vm (fst s) (fst (result_seen dk orphaned d s))"
proof -
  obtain env w where s: "s = (env, w)" by (cases s)
  obtain a w1 where a: "absorb_remote_result dk d (env, w) = (a, w1)" by (metis prod.collapse)
  show ?thesis
  proof (cases a)
    case (Inl e)
    then show ?thesis by (simp add: result_seen_def s a same_vm_def finished_if_def)
  next
    case (Inr env')
    then show ?thesis using absorb_remote_vm [of dk d "(env, w)" env' w1] a by (simp add: result_seen_def s)
  qed
qed

lemma refresh_keep_alive_vm: "same_vm (lk_env (fst s)) (lk_env (fst (refresh_keep_alive dk s)))"
  by (cases s) (simp add: refresh_keep_alive_def split: prod.split)

lemma still_there_vm: "same_vm (lk_env (fst s)) (lk_env (fst (still_there dk kind s)))"
  by (cases s) (auto simp: still_there_def same_vm_def Let_def split: remote_kind.split option.split prod.split)

lemma end_of_run_vm:
  assumes "end_of_run dk kind s = (Inr (stop, lk'), w')"
  shows "same_vm (lk_env (fst s)) (lk_env lk')"
proof -
  obtain lk w where s: "s = (lk, w)" by (cases s)
  obtain r w1 where r: "recover_off_vm_result dk (lk_env lk, w) = (r, w1)" by (metis prod.collapse)
  obtain x env where x: "r = Inr (x, env)" using assms by (cases r) (auto simp: end_of_run_def s r)
  show ?thesis
    using assms recover_off_vm_vm [OF r [unfolded x]]
    by (cases x; cases "lost_reason env kind") (auto simp: end_of_run_def s r x)
qed

lemma read_vm_vm:
  assumes "read_vm dk orphaned s = (Inr (stop, lk'), w')"
  shows "same_vm (lk_env (fst s)) (lk_env lk')"
proof -
  obtain lk w where s: "s = (lk, w)" by (cases s)
  obtain x t w1 where p: "pull_runner_log (dk_remote dk) (dk_job dk) (lk_transport lk) w = (x, t, w1)"
    by (metis prod.collapse)
  obtain kind t2 w2 where k: "observe_remote (dk_remote dk) (dk_job dk) t w1 = (kind, t2, w2)"
    by (metis prod.collapse)
  let ?lk = "lk\<lparr>lk_transport := t2\<rparr>"
  obtain lk3 w3 where st: "still_there dk kind (?lk, w2) = (lk3, w3)" by (metis prod.collapse)
  have 1: "same_vm (lk_env lk) (lk_env lk3)" using still_there_vm [of "(?lk, w2)" dk kind] by (simp add: st)
  show ?thesis
  proof (cases "\<exists>d. kind = Rk_Result d")
    case True
    then obtain d where d: "kind = Rk_Result d" by blast
    obtain env3 w3' where "result_seen dk orphaned d (lk_env lk, w2) = (env3, w3')" by (metis prod.collapse)
    then show ?thesis
      using assms result_seen_vm [of "(lk_env lk, w2)" dk orphaned d] by (auto simp: read_vm_def s p k d)
  next
    case False
    then have "read_vm dk orphaned s
        = (if gone orphaned kind then end_of_run dk kind (?lk, w2) else (Inr (False, lk3), w3))"
      using st by (cases kind) (simp_all add: read_vm_def s p k Let_def)
    then show ?thesis
      using assms 1 end_of_run_vm [of dk kind "(?lk, w2)" stop lk' w'] by (auto simp: s split: if_splits)
  qed
qed

lemma look_pass_vm:
  assumes "rq_deadline rq = None" "look_pass dk rq s = (Inr (stop, lk'), w')"
  shows "same_vm (lk_env (fst s)) (lk_env lk')"
proof -
  obtain lk w where s: "s = (lk, w)" by (cases s)
  have "read_vm dk (rq_orphaned rq) (refresh_keep_alive dk (lk, w)) = (Inr (stop, lk'), w')"
    using assms by (simp add: look_pass_def s)
  from read_vm_vm [OF this] show ?thesis
    using same_vm_trans [OF refresh_keep_alive_vm [of "(lk, w)" dk]] by (simp add: s)
qed

lemma look_loop_vm:
  assumes "look_loop dk rq interval lk w = Some res" "rq_deadline rq = None"
  shows "case res of (r, w') \<Rightarrow> (case r of Inl e \<Rightarrow> True | Inr lk' \<Rightarrow> same_vm (lk_env lk) (lk_env lk'))"
proof -
  have "rq_deadline rq = None \<longrightarrow>
      (case res of (r, w') \<Rightarrow> (case r of Inl e \<Rightarrow> True | Inr lk' \<Rightarrow> same_vm (lk_env lk) (lk_env lk')))"
  proof (rule look_loop.raw_induct [OF _ assms(1)])
    fix f dk rq interval lk w res
    assume IH: "\<And>dk rq interval lk w res. f dk rq interval lk w = Some res \<Longrightarrow> rq_deadline rq = None \<longrightarrow>
        (case res of (r, w') \<Rightarrow> (case r of Inl e \<Rightarrow> True | Inr lk' \<Rightarrow> same_vm (lk_env lk) (lk_env lk')))"
      and body: "(case look_pass dk rq (lk, w) of
        (r, w) \<Rightarrow>
          (case r of
             Inl e \<Rightarrow> Some (Inl e, w)
           | Inr (stop, lk) \<Rightarrow>
               if stop \<or> \<not> rq_poll rq then Some (Inr lk, w)
               else f dk rq interval lk (rm_sleep (dk_remote dk) (of_int interval) w))) = Some res"
    obtain r w1 where p: "look_pass dk rq (lk, w) = (r, w1)" by (metis prod.collapse)
    show "rq_deadline rq = None \<longrightarrow>
        (case res of (r, w') \<Rightarrow> (case r of Inl e \<Rightarrow> True | Inr lk' \<Rightarrow> same_vm (lk_env lk) (lk_env lk')))"
    proof (cases r)
      case (Inl e)
      then show ?thesis using body by (auto simp: p)
    next
      case (Inr x)
      obtain stop lk2 where x: "x = (stop, lk2)" by (cases x)
      show ?thesis
      proof
        assume d: "rq_deadline rq = None"
        have v: "same_vm (lk_env lk) (lk_env lk2)" using look_pass_vm [OF d] p Inr x by fastforce
        show "case res of (r, w') \<Rightarrow> (case r of Inl e \<Rightarrow> True | Inr lk' \<Rightarrow> same_vm (lk_env lk) (lk_env lk'))"
        proof (cases "stop \<or> \<not> rq_poll rq")
          case True
          then show ?thesis using body v by (auto simp: p Inr x)
        next
          case False
          then have "f dk rq interval lk2 (rm_sleep (dk_remote dk) (of_int interval) w1) = Some res"
            using body by (simp add: p Inr x)
          then show ?thesis using IH d same_vm_trans [OF v] by (fastforce split: sum.splits)
        qed
      qed
    qed
  qed
  then show ?thesis using assms(2) by blast
qed


lemma status_end_vm:
  "\<exists>env. fst (status_end dk consulted s) = Answer env 0 \<and> same_vm (fst s) env"
  by (cases s) (auto simp: status_end_def Let_def write_env_def)

text \<open>What an answer says of the VM of a job that is not to be released.\<close>

definition keeps_vm :: "job_envelope \<Rightarrow> answer \<Rightarrow> bool" where
  "keeps_vm env a \<longleftrightarrow>
     (case a of Answer env' exit_code \<Rightarrow> same_vm env env' \<and> exit_code = 0 | No_Record \<Rightarrow> False | Crashed e \<Rightarrow> True)"

lemma status_end_keeps: "same_vm env (fst s) \<Longrightarrow> keeps_vm env (fst (status_end dk consulted s))"
  using status_end_vm [of dk consulted s] same_vm_trans by (auto simp: keeps_vm_def)

lemma end_orphan_keeps:
  "same_vm env (lk_env (fst s)) \<Longrightarrow> keeps_vm env (fst (end_orphan dk False s))"
  using status_end_keeps [of env "write_env dk (lk_env (fst s), snd s)" dk True]
  by (cases s) (simp add: end_orphan_def write_env_def)

lemma status_reached_keeps:
  assumes "status_reached dk polling interval False False session (env, w) = Some (a, w')"
  shows "keeps_vm env a"
proof -
  obtain h ss w1 where h: "ensure_keep_alive dk env (session, w) = (h, ss, w1)" by (metis prod.collapse)
  let ?env = "with_hint h env"
  let ?lk = "\<lparr>lk_env = ?env, lk_session = ss, lk_transport = dk_transport dk ss, lk_staleness = None\<rparr>"
  let ?rq = "\<lparr>rq_poll = polling, rq_deadline = None, rq_orphaned = False\<rparr>"
  have v: "same_vm env ?env" by simp
  show ?thesis
  proof (cases "workload_terminal (env_workload ?env)")
    case True
    then have "a = fst (end_orphan dk False (?lk, w1))"
      using assms by (simp add: status_reached_def h Let_def)
    then show ?thesis using end_orphan_keeps [of env "(?lk, w1)" dk] v by simp
  next
    case False
    then obtain r w2 where l: "look_loop dk ?rq interval ?lk w1 = Some (r, w2)"
      and a: "(a, w') = (case r of Inl e \<Rightarrow> (Crashed e, w2) | Inr lk \<Rightarrow> end_orphan dk False (lk, w2))"
      using assms by (auto simp: status_reached_def h Let_def)
    show ?thesis
    proof (cases r)
      case (Inl e)
      then show ?thesis using a by (simp add: keeps_vm_def)
    next
      case (Inr lk')
      have "same_vm ?env (lk_env lk')" using look_loop_vm [OF l] Inr by simp
      then have "keeps_vm env (fst (end_orphan dk False (lk', w2)))"
        using end_orphan_keeps [of env "(lk', w2)" dk] same_vm_trans [OF v] by simp
      then show ?thesis using a Inr by (metis fst_conv sum.simps(6))
    qed
  qed
qed

text \<open>Only \<open>--poll\<close> may wait without end: a status without it looks once.\<close>

lemma look_once: "\<not> rq_poll rq \<Longrightarrow> look_loop dk rq interval lk w \<noteq> None"
  by (subst look_loop.simps) (simp split: prod.split sum.split)

lemma status_reached_returns:
  assumes "\<not> polling"
  shows "status_reached dk polling interval orphaned must_scrub session (env, w) \<noteq> None"
proof -
  have once: "look_loop dk \<lparr>rq_poll = polling, rq_deadline = d, rq_orphaned = b\<rparr> interval lk w \<noteq> None" for d b lk w
    using assms by (intro look_once) simp
  show ?thesis
    unfolding status_reached_def prod.case Let_def
    by (simp add: once split: prod.split sum.split bool.split option.split del: not_None_eq)
qed

lemma status_returns_unless_polling:
  assumes "\<not> polling"
  shows "status dk polling interval w \<noteq> None"
  unfolding status_def Let_def
  by (simp add: status_reached_returns [OF assms] split: prod.split sum.split option.split del: not_None_eq)


text \<open>
  A status that has to remove the credential file and cannot prove it gone returns at
  once, polling or not: unless the control object makes it raise, the VM is released,
  absent or failed to be released, the verdict is terminal and the exit code is 1.
\<close>

theorem status_releases_an_unproved_secret:
  "case ensure_keep_alive dk env (session, w) of
     (_, session', w1) \<Rightarrow>
       if fst (fst (scrub_transfer_secret dk (dk_transport dk session') w1)) then True
       else
         (case status_reached dk polling interval orphaned True session (env, w) of
            Some (Answer env' exit_code, _) \<Rightarrow>
              env_cleanup env' \<in> {C_Released, C_Already_Absent, C_Failed} \<and> exit_code = 1
              \<and> workload_terminal (env_workload env') \<and> env_supervisor env' = S_Finished
          | Some (Crashed e, _) \<Rightarrow> True
          | _ \<Rightarrow> False)"
proof -
  obtain h ss w1 where h: "ensure_keep_alive dk env (session, w) = (h, ss, w1)" by (metis prod.collapse)
  obtain removed cause t w2 where c: "scrub_transfer_secret dk (dk_transport dk ss) w1 = ((removed, cause), t, w2)"
    by (metis prod.collapse)
  show ?thesis
  proof (cases removed)
    case True
    then show ?thesis by (simp add: h c)
  next
    case False
    obtain r w3 where r: "recover_off_vm_result dk (with_hint h env, w2) = (r, w3)" by (metis prod.collapse)
    have s: "status_reached dk polling interval orphaned True session (env, w)
        = Some (case r of Inl e \<Rightarrow> (Crashed e, w3) | Inr x \<Rightarrow> force_release dk (Some t) cause (or_recovered x, w3))"
      using False by (simp add: status_reached_def h c r Let_def split: sum.split)
    show ?thesis
    proof (cases r)
      case (Inl e)
      then show ?thesis by (simp add: h c s)
    next
      case (Inr x)
      obtain a w4 where a: "force_release dk (Some t) cause (or_recovered x, w3) = (a, w4)" by (metis prod.collapse)
      then show ?thesis
        using force_release_answer [of dk "Some t" cause "(or_recovered x, w3)"] False by (auto simp: h c s Inr)
    qed
  qed
qed

section \<open>Two ends the command line describes otherwise\<close>

text \<open>A plan that cannot be read stops the teardown before the VM is touched.\<close>

lemma unreadable_plan_stops_destroy:
  "dk_read_env dk w = (Inr (Some env), w1) \<Longrightarrow> dk_plan dk = Inl e \<Longrightarrow> destroy dk cancel_only wait w = (Crashed e, w1)"
  by (simp add: destroy_def)

text \<open>
  An orphan that had ended before is released and answered with the hints it had: those
  that say the VM is still billing are kept, since this answer is not finalized.
\<close>

lemma early_release_keeps_hints:
  assumes "release_orphaned_job dk session t (env, w) = (Inr env', w')" "\<not> env_leave_up env"
    and "case plan_spec_or_none dk of Inr (Some spec) \<Rightarrow> sp_on_offload_fail spec \<noteq> Leave_Up | _ \<Rightarrow> True"
  shows "prefix (env_hints env) (env_hints env') \<and> env_cleanup env' \<in> freed"
proof -
  obtain spec where p: "plan_spec_or_none dk = Inr spec"
    using assms(1) by (cases "plan_spec_or_none dk") (auto simp: release_orphaned_job_def)
  have k: "\<not> keep_vm env spec True" using assms(2,3) by (auto simp: keep_vm_def p split: option.splits)
  obtain env1 w1 where c: "copy_before_release dk (Some t) (env, w) = (env1, w1)" by (metis prod.collapse)
  obtain env2 w2 where f: "forget_session dk (release dk ''recovery teardown failed'' (env1, stop_daemon dk (Some session) w1))
      = (env2, w2)" by (metis prod.collapse)
  have "same_verdict env env1" using same_verdict_hints [OF copy_before_release_hints [of "(env, w)" dk "Some t"]] by (simp add: c)
  moreover have "same_verdict env1 env2" "env_cleanup env2 \<in> freed"
    using torn_off [of dk "''recovery teardown failed''" "(env1, stop_daemon dk (Some session) w1)"]
    unfolding f Let_def fst_conv by blast+
  moreover have "env_hints env' = env_hints env2" "env_cleanup env' = env_cleanup env2"
    using assms(1) unfolding release_orphaned_job_def prod.case p sum.case c f write_env_def using k by auto
  ultimately show ?thesis using same_verdict_trans [of env env1 env2] by (simp add: same_verdict_def)
qed

end
