(* ===== verification/Jobs.thy ===== *)
theory Jobs
  imports Store Install "HOL-Library.Multiset"
begin

text \<open>
  \<open>jobs list\<close> and \<open>jobs prune\<close> of \<open>commands/job.py\<close>: the rows shown for the local
  records, and which records are deleted.
\<close>

section \<open>A local record\<close>

text \<open>
  What the store says of one job: its envelope or why it cannot be read, whether a live
  apply holds its lock, and its \<open>apply.log\<close> (\<open>None\<close> when there is none).
\<close>

record job_files =
  jf_id :: string
  jf_read :: "job_envelope option \<times> string option"
  jf_locked :: bool
  jf_log :: "(py_error, string) outcome option"
  jf_log_path :: string

definition apply_log_line_chars :: nat where "apply_log_line_chars = 300"

definition apply_log_note :: "job_files \<Rightarrow> string option" where
  "apply_log_note jf =
     (case jf_log jf of
        Some (Inr content) \<Rightarrow>
          (let lines = List.filter (\<lambda>l. strip l \<noteq> []) (splitlines content) in
           if lines = [] then None
           else (let final = join '' '' (py_words (last lines));
                     final = (if apply_log_line_chars < length final
                       then take apply_log_line_chars final @ '' [... ''
                         @ show_nat (length final - apply_log_line_chars) @ '' characters omitted]''
                       else final)
                 in Some (''apply wrote no envelope; its output is in '' @ jf_log_path jf @ '', ending: '' @ final)))
      | _ \<Rightarrow> None)"

section \<open>The list\<close>

definition or_text :: "string option \<Rightarrow> string \<Rightarrow> string" where
  "or_text x t = (case x of None \<Rightarrow> t | Some s \<Rightarrow> if s = [] then t else s)"

definition job_row :: "job_files \<Rightarrow> json_obj" where
  "job_row jf =
     (case jf_read jf of
        (None, problem) \<Rightarrow>
          [(''job_id'', JStr (jf_id jf)), (''phase'', JNull), (''workload'', JNull), (''offload'', JNull),
           (''cleanup'', JNull), (''done'', JBool False), (''endpoint'', JNull), (''failed_phase'', JNull),
           (''retry_class'', JNull), (''supervisor'', JNull),
           (''reason'', JStr (or_text problem (or_text (apply_log_note jf) ''planned, not applied'')))]
      | (Some e, _) \<Rightarrow>
          [(''job_id'', JStr (jf_id jf)), (''phase'', JStr (phase_value (env_phase e))),
           (''workload'', JStr (workload_value (env_workload e))), (''offload'', JStr (offload_value (env_offload e))),
           (''cleanup'', JStr (cleanup_value (env_cleanup e))), (''done'', JBool (env_done e)),
           (''endpoint'', jopt JStr (env_endpoint e)),
           (''failed_phase'', jopt (\<lambda>p. JStr (phase_value p)) (env_failed_phase e)),
           (''retry_class'', jopt (\<lambda>c. JStr (retry_value c)) (env_retry_class e)),
           (''supervisor'', JStr (supervisor_value (env_supervisor e))), (''reason'', jopt JStr (env_reason e))])"

definition job_list_rows :: "job_files list \<Rightarrow> json_obj list" where
  "job_list_rows jobs = map job_row jobs"

definition list_jobs :: "bool \<Rightarrow> bool \<Rightarrow> job_files list \<Rightarrow> (string, json_obj list) outcome" where
  "list_jobs only_running only_done jobs =
     (if only_running \<and> only_done then Inl ''[colab] --running and --done are mutually exclusive.''
      else Inr (if only_running then List.filter (\<lambda>r. \<not> truthy (jget r ''done'')) (job_list_rows jobs)
        else if only_done then List.filter (\<lambda>r. truthy (jget r ''done'')) (job_list_rows jobs)
        else job_list_rows jobs))"

section \<open>The prune\<close>

text \<open>\<open>Inr\<close> is why a record may be removed, \<open>Inl\<close> why it is skipped.\<close>

definition skip_reason :: "job_envelope \<Rightarrow> string" where
  "skip_reason e =
     (if \<not> env_done e then ''not done -- may still be running; check `job status --poll` first''
      else if env_cleanup e = C_Left_Up then ''cleanup=left_up -- VM deliberately left running, will not prune''
      else if env_cleanup e = C_Failed then ''cleanup=failed -- confirm with `mighty-colab sessions` before pruning by hand''
      else ''cleanup='' @ cleanup_value (env_cleanup e))"

definition prune_verdict :: "job_files \<Rightarrow> (string, string) outcome" where
  "prune_verdict jf =
     (case jf_read jf of
        (_, Some problem) \<Rightarrow> Inl (problem @ '' -- state unknown, will not prune'')
      | (None, None) \<Rightarrow>
          if jf_locked jf then Inl ''a live `job apply` holds its lock, will not prune''
          else if jf_log jf \<noteq> None then
            Inl (or_text (apply_log_note jf) (jf_log_path jf
                @ '' exists but is empty: an `apply --async` may still be in its preflight'')
              @ ''; read it, then delete the job directory by hand'')
          else Inr ''planned, not applied''
      | (Some e, None) \<Rightarrow>
          if env_done e \<and> env_cleanup e \<in> {C_Released, C_Already_Absent}
          then Inr (''done, cleanup='' @ cleanup_value (env_cleanup e))
          else Inl (skip_reason e))"

definition prune_removed :: "job_files list \<Rightarrow> (string \<times> string) list" where
  "prune_removed jobs = concat (map (\<lambda>jf. case prune_verdict jf of Inr r \<Rightarrow> [(jf_id jf, r)] | Inl _ \<Rightarrow> []) jobs)"

definition prune_skipped :: "job_files list \<Rightarrow> (string \<times> string) list" where
  "prune_skipped jobs = concat (map (\<lambda>jf. case prune_verdict jf of Inl r \<Rightarrow> [(jf_id jf, r)] | Inr _ \<Rightarrow> []) jobs)"

text \<open>The deletions, in order; one that fails moves its record to the skipped ones.\<close>

fun delete_jobs ::
  "(string \<Rightarrow> 'w \<Rightarrow> string option \<times> 'w) \<Rightarrow> (string \<times> string) list
    \<Rightarrow> (string \<times> string) list \<times> (string \<times> string) list \<Rightarrow> 'w
    \<Rightarrow> ((string \<times> string) list \<times> (string \<times> string) list) \<times> 'w" where
  "delete_jobs del [] rs w = (rs, w)"
| "delete_jobs del (r # todo) (removed, skipped) w =
     (case del (fst r) w of
        (None, w) \<Rightarrow> delete_jobs del todo (removed, skipped) w
      | (Some failure, w) \<Rightarrow>
          delete_jobs del todo (remove1 r removed, skipped @ [(fst r, ''deletion failed: '' @ failure)]) w)"

definition prune ::
  "(string \<Rightarrow> 'w \<Rightarrow> string option \<times> 'w) \<Rightarrow> bool \<Rightarrow> job_files list \<Rightarrow> 'w
    \<Rightarrow> ((string \<times> string) list \<times> (string \<times> string) list) \<times> 'w" where
  "prune del dry_run jobs w =
     (if dry_run then ((prune_removed jobs, prune_skipped jobs), w)
      else delete_jobs del (prune_removed jobs) (prune_removed jobs, prune_skipped jobs) w)"

section \<open>Every record is reported once, and deleted only when it is safe\<close>

lemma delete_jobs_reports:
  "mset todo \<subseteq># mset removed \<Longrightarrow> delete_jobs del todo (removed, skipped) w = ((removed', skipped'), w') \<Longrightarrow>
     mset (map fst removed' @ map fst skipped') = mset (map fst removed @ map fst skipped)"
proof (induction todo arbitrary: removed skipped w)
  case Nil
  then show ?case by simp
next
  case (Cons r todo)
  obtain d w1 where d: "del (fst r) w = (d, w1)" by (metis prod.collapse)
  have r: "r \<in> set removed" using Cons.prems(1) by (metis insert_subset_eq_iff mset.simps(2) set_mset_mset)
  show ?case
  proof (cases d)
    case None
    have "mset todo \<subseteq># mset removed"
      using Cons.prems(1) by (metis mset.simps(2) subset_mset.dual_order.trans mset_subset_eq_add_right add_mset_add_single add.commute)
    then show ?thesis using Cons.IH Cons.prems(2) by (simp add: d None)
  next
    case (Some failure)
    have sub: "mset todo \<subseteq># mset (remove1 r removed)"
      using Cons.prems(1) by (simp add: insert_subset_eq_iff)
    have "mset (map fst (remove1 r removed)) = mset (map fst removed) - {#fst r#}"
      using r by (simp add: image_mset_Diff)
    then show ?thesis
      using Cons.IH [OF sub, of "skipped @ [(fst r, ''deletion failed: '' @ failure)]" w1] Cons.prems(2) r
      by (simp add: d Some)
  qed
qed

text \<open>The deletions recorded in the order they are made.\<close>

definition recorded :: "(string \<Rightarrow> 'w \<Rightarrow> string option \<times> 'w) \<Rightarrow> string \<Rightarrow> string list \<times> 'w \<Rightarrow> string option \<times> string list \<times> 'w" where
  "recorded del job = (\<lambda>(made, w). case del job w of (r, w) \<Rightarrow> (r, made @ [job], w))"

lemma delete_jobs_made:
  "fst (snd (delete_jobs (recorded del) todo rs (made, w))) = made @ map fst todo"
proof (induction todo arbitrary: rs made w)
  case Nil
  then show ?case by simp
next
  case (Cons r todo)
  obtain removed skipped where rs: "rs = (removed, skipped)" by (cases rs)
  obtain x w1 where d: "del (fst r) w = (x, w1)" by (metis prod.collapse)
  have "recorded del (fst r) (made, w) = (x, made @ [fst r], w1)" by (simp add: recorded_def d)
  then show ?case using Cons.IH by (cases x) (simp_all add: rs)
qed

text \<open>A record that names no VM: never applied and without traces, or done with its VM gone.\<close>

definition safe_to_prune :: "job_files \<Rightarrow> bool" where
  "safe_to_prune jf \<longleftrightarrow>
     (case jf_read jf of
        (Some e, None) \<Rightarrow> env_done e \<and> env_cleanup e \<in> {C_Released, C_Already_Absent}
      | (None, None) \<Rightarrow> \<not> jf_locked jf \<and> jf_log jf = None
      | (_, Some _) \<Rightarrow> False)"

lemma prune_verdict_safe: "(case prune_verdict jf of Inl _ \<Rightarrow> False | Inr _ \<Rightarrow> True) \<longleftrightarrow> safe_to_prune jf"
  by (cases "jf_read jf") (auto simp: prune_verdict_def safe_to_prune_def split: option.splits)

lemma prune_lists:
  "map fst (prune_removed jobs) = map jf_id (List.filter safe_to_prune jobs)"
  "mset (map fst (prune_removed jobs) @ map fst (prune_skipped jobs)) = mset (map jf_id jobs)"
proof (induction jobs)
  case Nil
  { case 1 show ?case by (simp add: prune_removed_def) }
  { case 2 show ?case by (simp add: prune_removed_def prune_skipped_def) }
next
  case (Cons jf jobs)
  note v = prune_verdict_safe [of jf]
  { case 1 show ?case using Cons(1) v by (auto simp: prune_removed_def split: sum.splits) }
  { case 2 show ?case using Cons(2) by (auto simp: prune_removed_def prune_skipped_def split: sum.splits) }
qed

text \<open>
  C21. \<open>jobs prune\<close> deletes exactly the records that name no VM any more, or were never
  applied and hold no trace of an apply, deletes none on a dry run, and reports every
  local record once, whatever the deletions answer.
\<close>

theorem prune_deletes_the_safe_records:
  "let (reports, made, w') = prune (recorded del) dry_run jobs ([], w) in
     made = (if dry_run then [] else map jf_id (List.filter safe_to_prune jobs))
     \<and> mset (map fst (fst reports) @ map fst (snd reports)) = mset (map jf_id jobs)"
proof -
  obtain removed skipped s' where p: "delete_jobs (recorded del) (prune_removed jobs)
      (prune_removed jobs, prune_skipped jobs) ([], w) = ((removed, skipped), s')" by (metis prod.collapse)
  have "mset (map fst removed @ map fst skipped) = mset (map jf_id jobs)"
    using delete_jobs_reports [OF subset_mset.order_refl p] prune_lists(2) by simp
  moreover have "fst s' = map jf_id (List.filter safe_to_prune jobs)"
    using delete_jobs_made [of del "prune_removed jobs" "(prune_removed jobs, prune_skipped jobs)" "[]" w] p prune_lists(1)
    by simp
  ultimately show ?thesis
    using prune_lists(2) [of jobs] by (cases s') (simp add: prune_def p Let_def)
qed

end
