(* ===== verification/Pipeline.thy ===== *)
theory Pipeline
  imports RunnerMain Absorb
begin

text \<open>
  The runner and the supervisor together: what \<open>runner.py\<close> writes to \<open>result.json\<close>
  is what \<open>absorb_result\<close> of \<open>orchestrator.py\<close> reads.
\<close>

section \<open>The payload has the types the supervisor reads\<close>

lemma list_field_iter: "py_iter (or_empty_list (JArr xs)) = Inr xs"
  by (simp add: or_empty_list_def)

text \<open>\<open>accepted\<close>: what pydantic validates without an error.\<close>

definition accepted :: "('e, 'a) outcome \<Rightarrow> bool" where
  "accepted r = (case r of Inl _ \<Rightarrow> False | Inr _ \<Rightarrow> True)"

lemma model_list_accepts:
  assumes "\<And>d. d \<in> set ds \<Longrightarrow> accepted (build d)"
  shows "\<exists>ys. model_list name build (JArr (map JObj ds)) = Inr ys"
proof -
  have "\<exists>ys. each_ok (\<lambda>item. case item of
        JObj d \<Rightarrow> build d
      | _ \<Rightarrow> Inl (exc ''TypeError'' (''colab_cli.job.models.'' @ name @ ''() argument after ** must be a mapping, not ''
               @ type_name item))) (map JObj ds) = Inr ys"
    using assms
  proof (induction ds)
    case (Cons d ds)
    moreover have "\<exists>y. build d = Inr y" using Cons.prems [of d] by (auto simp: accepted_def split: sum.splits)
    ultimately show ?case by auto
  qed simp
  then show ?thesis by (auto simp: model_list_def list_field_iter)
qed

lemma failed_reason_of_payload: "\<exists>r. failed_reason (result_payload sf f v) = Inr r"
  by (auto simp: failed_reason_def Let_def split: option.split)

lemma oom_note_of_payload: "\<exists>n. oom_note (result_payload sf f v) = Inr n"
  by (auto simp: oom_note_def Let_def split: option.split)

lemma jget_or_payload:
  "jget_or (result_payload sf f v) ''workload'' x = JStr (vp_workload v)"
  "jget_or (result_payload sf f v) ''schema_version'' x = JStr ''2''"
  "jget (result_payload sf f v) ''cli_version'' = JStr (rf_cli_version f)"
  "jget (result_payload sf f v) ''finished_at'' = JFloat (rf_finished f) (sf (rf_finished f))"
  by (simp_all add: result_payload_def jget_or_def)

lemma workload_outcome_of_payload: "\<exists>r c. workload_outcome (result_payload sf f v) wc = Inr (r, c)"
proof -
  obtain r where r: "failed_reason (result_payload sf f v) = Inr r" using failed_reason_of_payload by blast
  obtain n where n: "oom_note (result_payload sf f v) = Inr n" using oom_note_of_payload by blast
  show ?thesis
    by (cases "cancelled_outcome (result_payload sf f v) wc") (simp add: workload_outcome_def unknown_outcome_def Let_def r n)
qed

lemma absorb_verdict_of_payload: "\<exists>e. absorb_verdict spec (result_payload sf f v) exn env = Inr e"
proof -
  obtain r c where "workload_outcome (result_payload sf f v) (bud_wall_clock (sp_budgets spec)) = Inr (r, c)"
    using workload_outcome_of_payload by blast
  then show ?thesis by (auto simp: absorb_verdict_def Let_def split: prod.split)
qed

lemma finished_after_warnings: "env_finished_at (add_warnings ws e) = env_finished_at e"
  by (induction ws arbitrary: e) (simp_all add: add_warnings_def add_hint_def)

text \<open>What the supervisor relies on pydantic for, on the rows of this payload.\<close>

definition reads_run :: "pydantic \<Rightarrow> json \<Rightarrow> (string \<times> string) list option \<Rightarrow> bool" where
  "reads_run pd v x \<longleftrightarrow>
     (\<forall>n sig pids. pd_run pd \<lparr>raw_exit_code = jopt JInt n, raw_signal = jopt JInt sig, raw_exception = v,
          raw_survivors = JArr (map JInt pids)\<rparr>
        = Inr \<lparr>run_exit = n, run_signal = sig, run_exception = x, run_survivors = pids\<rparr>)"

text \<open>The result as it is absorbed: each part of the payload in its place of the envelope.\<close>

definition carries :: "verdict_parts \<Rightarrow> string \<Rightarrow> (string \<times> string) list option \<Rightarrow> job_envelope \<Rightarrow> bool" where
  "carries v moment x e \<longleftrightarrow>
     workload_value (env_workload e) = vp_workload v \<and> env_exit_code e = vp_exit_code v
     \<and> env_signal e = vp_signal v \<and> env_exception e = x \<and> env_finished_at e = Some moment
     \<and> env_surviving_descendants e = merged (vp_survivors v) (vp_tagged v)"

lemma payload_is_absorbed:
  assumes wl: "vp_workload v = workload_value wl"
    and names: "rf_cli_version f \<noteq> []" "rf_payload_version f \<noteq> []"
    and time: "iso_of_epoch (rf_finished f) = Inr moment"
    and rows: "\<And>d. d \<in> set (rf_inputs f) \<Longrightarrow> accepted (pd_input pd d)"
      "\<And>d. d \<in> set (vp_artifacts v) \<Longrightarrow> accepted (pd_artifact pd d)"
    and run: "reads_run pd (vp_exception v) x"
  obtains e where "absorb_result pd now spec (result_payload sf f v) env = Inr e" "carries v moment x e"
proof -
  let ?r = "result_payload sf f v"
  obtain inputs where i: "model_list ''InputResult'' (pd_input pd) (JArr (map JObj (rf_inputs f))) = Inr inputs"
    using model_list_accepts [of "rf_inputs f" "pd_input pd"] rows(1) by auto
  obtain artifacts where a: "model_list ''ArtifactResult'' (pd_artifact pd) (JArr (map JObj (vp_artifacts v))) = Inr artifacts"
    using model_list_accepts [of "vp_artifacts v" "pd_artifact pd"] rows(2) by auto
  obtain e1 where p: "absorb_provenance ?r (absorb_phase ?r env) = Inr e1"
    using names by (simp add: absorb_provenance_def jget_or_payload text_field_def)
  define e2 where "e2 = e1\<lparr>env_reason := None, env_retry_class := None, env_workload := wl,
    env_finished_at := Some moment, env_inputs := inputs, env_artifacts := artifacts\<rparr>"
  obtain e3 where e3: "absorb_verdict spec ?r (jget ?r ''exception'') e2 = Inr e3"
    using absorb_verdict_of_payload by blast
  define ws where "ws = map JStr (vp_warnings v)"
  obtain e4 where e4: "survivors_hint (JArr (map JInt (merged (vp_survivors v) (vp_tagged v)))) (add_warnings ws e3) = Inr e4"
    by (cases "merged (vp_survivors v) (vp_tagged v) = []") (simp_all add: survivors_hint_def)
  let ?run = "\<lparr>run_exit = vp_exit_code v, run_signal = vp_signal v, run_exception = x,
    run_survivors = merged (vp_survivors v) (vp_tagged v)\<rparr>"
  have or_list: "or_empty_list (JArr ys) = JArr ys" for ys by (simp add: or_empty_list_def)
  have t: "vm_time (jget ?r ''finished_at'') = Inr (Some moment)"
    using time by (simp add: jget_or_payload)
  have w: "parse_workload (jget_or ?r ''workload'' (JStr ''unknown'')) = Inr wl"
    by (simp add: jget_or_payload parse_workload_def wl)
  have "absorb_in_place pd now spec ?r env
      = Inr (\<lparr>raw_exit_code = jopt JInt (vp_exit_code v), raw_signal = jopt JInt (vp_signal v), raw_exception = vp_exception v,
          raw_survivors = JArr (map JInt (merged (vp_survivors v) (vp_tagged v)))\<rparr>, e4)"
    using e3 [unfolded e2_def] e4 by (simp add: absorb_in_place_def p w t i a or_list Let_def flip: ws_def)
  then have r: "absorb_result pd now spec ?r env = Inr (with_run ?run e4)"
    using run by (simp add: absorb_result_def reads_run_def)
  moreover have "env_finished_at e4 = Some moment"
    using e3 e4 by (auto simp: e2_def absorb_verdict_def survivors_hint_def add_hint_def and_then_Inr record_failure_def Let_def
        finished_after_warnings split: if_splits prod.splits)
  ultimately show ?thesis
    using absorb_result_consistent [OF r] wl by (intro that [OF r]) (auto simp: carries_def with_run_def jget_or_payload)
qed

section \<open>Every verdict of the runner is absorbed\<close>

lemma runner_verdict_named: "\<exists>wl. fst (runner_verdict e p) = workload_value wl \<and> workload_terminal wl"
proof -
  have "fst (runner_verdict e p) \<in> {''succeeded'', ''failed'', ''cancelled'', ''unknown''}"
    by (auto simp: runner_verdict_def raw_workload_def classify_workload_def Let_def split: prod.splits if_splits)
  then show ?thesis
    by (auto intro: exI [of _ W_Succeeded] exI [of _ W_Failed] exI [of _ W_Cancelled] exI [of _ W_Unknown]
        simp: workload_terminal_def)
qed

lemma workload_value_inject: "workload_value a = workload_value b \<longleftrightarrow> a = b"
  by (cases a; cases b) simp_all


text \<open>A run that ends with exit code 0 and leaves nothing behind.\<close>

definition lenient_pydantic :: pydantic where
  "lenient_pydantic = \<lparr>pd_input = (\<lambda>d. Inl (exc ''ValidationError'' [])),
     pd_artifact = (\<lambda>d. Inl (exc ''ValidationError'' [])),
     pd_run = (\<lambda>r. Inr \<lparr>run_exit = as_int (raw_exit_code r), run_signal = as_int (raw_signal r), run_exception = None,
       run_survivors = (case as_list (raw_survivors r) of Some xs \<Rightarrow> map (\<lambda>v. the (as_int v)) xs | None \<Rightarrow> [])\<rparr>)\<rparr>"

definition clean_probes :: probes where
  "clean_probes = \<lparr>pb_survivors = Inr [], pb_sweep = Inr (), pb_tagged = Inr [], pb_detect = True, pb_cancel = Inr None,
     pb_exception = Inr None, pb_oom_before = None, pb_oom_after = None, pb_dmesg = []\<rparr>"

definition clean_end :: run_end where
  "clean_end = \<lparr>en_exit_code = Some 0, en_signal = None, en_error = None, en_term_sent = False\<rparr>"

definition demo_facts :: run_facts where
  "demo_facts = \<lparr>rf_cli_version = ''1'', rf_payload_version = ''1'', rf_attempt = 1, rf_started = 0, rf_finished = 60,
     rf_inputs = []\<rparr>"

lemma lenient_reads: "reads_run lenient_pydantic (read_exception (pb_exception clean_probes)) None"
  by (auto simp: reads_run_def lenient_pydantic_def jopt_def o_def split: option.splits)


end
