(* ===== verification/Closing.thy ===== *)
theory Closing
  imports Apply
begin

text \<open>
  That an apply comes back: \<open>apply\<close> of \<open>commands/job.py\<close> over the poll of
  \<open>orchestrator.py\<close>, on a clock that only the apply's own sleeps need to move.
\<close>

section \<open>The poll and the cancel return\<close>

lemma lift_poll_returns: "(\<And>sp t w. f sp t w \<noteq> None) \<Longrightarrow> lift_poll f t s \<noteq> None"
  by (cases s) (simp add: lift_poll_def)

lemma cancel_returns:
  assumes "ctl_result (sp_control (po_spec po)) = None"
  shows "cancel_after_deadline po passed requester wait s t w \<noteq> None"
  using absorb_or_keep_returns [OF assms]
  by (auto simp: cancel_after_deadline_def finish_without_channel [OF assms] Let_def bind_eq_None_conv iff del: not_None_eq
      split: prod.splits sum.splits)

lemma supervise_returns:
  assumes "st_remote st = slept rm" and "ctl_result (sp_control (st_spec st)) = None"
  shows "supervise st limit started s \<noteq> None"
proof -
  have po: "po_remote (poller_of st) = slept rm" "ctl_result (sp_control (po_spec (poller_of st))) = None"
    using assms by (simp_all add: poller_of_def)
  have polls: "poll (poller_of st) deadline poll_interval sp t w \<noteq> None" for deadline sp t w
  proof -
    obtain k :: nat where "(deadline - snd w) / poll_interval \<le> of_nat k" using real_arch_simple by blast
    then have "deadline - snd w \<le> of_nat k * poll_interval" by (simp add: poll_interval_def field_simps)
    from own_sleeps.poll_loop_returns [OF po _ this] show ?thesis by (simp add: poll_def poll_interval_def)
  qed
  show ?thesis
    by (auto simp: supervise_def bind_eq_None_conv lift_poll_returns polls cancel_returns po iff del: not_None_eq
        split: prod.splits sum.splits option.splits)
qed


text \<open>A VM that answers nothing, on the clock of the apply's own sleeps.\<close>

definition slept_colab :: "(unit \<times> rat) colab" where
  "slept_colab = \<lparr>co_assign = (\<lambda>opts w. (Inr \<lparr>as_accelerator = ''T4'', as_endpoint = ''vm-1'', as_token = ''t'',
       as_url = ''u'', as_variant = ''GPU'', as_shape = ''STANDARD''\<rparr>, w)),
     co_unassign = (\<lambda>e w. (Inr (), w)), co_list = (\<lambda>w. (Inr [], w)),
     co_keep_alive = (\<lambda>e w. (Inr (), w)), co_ccu = (\<lambda>w. (Inr (0, 0, 1), w))\<rparr>"

definition slept_site :: "(unit, unit, unit \<times> rat) site" where
  "slept_site = \<lparr>st_plan = demo_plan_of (default_spec ''job'' ''train.py''), st_colab = slept_colab,
     st_remote = slept idle_remote, st_pydantic = strict_pydantic, st_open = (\<lambda>u n w. (Inr [], w)),
     st_loads = (\<lambda>t. Inr JNull), st_attempts = (\<lambda>t. Inr []), st_float = (\<lambda>r. ''0.0''), st_local_dir = ''/jobs/j'',
     st_event = (\<lambda>p w. w), st_transport = (\<lambda>s w. (Inr (), w)), st_remove = (\<lambda>p t w. (Inr Rs_Ok, t, w)),
     st_connect = (\<lambda>s w. (Inr (), w)), st_execute = (\<lambda>r k n w. (Inr [], r, w)),
     st_restart = (\<lambda>r n w. (Inr (), r, w)), st_stop = (\<lambda>r w. (Inr (), w)),
     st_identity = (\<lambda>r. (None, None)), st_add = (\<lambda>s w. (Inr (), w)), st_drop = (\<lambda>n w. (Inr (), w)),
     st_spawn = (\<lambda>s w. (Inr (Some 7), w)), st_kill = (\<lambda>n w. w), st_micros = (\<lambda>w. (0, w)),
     st_decode = id, st_fiso = (\<lambda>t. None)\<rparr>"

definition slept_applier :: "(unit, unit, unit \<times> rat) applier" where
  "slept_applier = \<lparr>ap_site = slept_site, ap_staging = \<lparr>sg_makedirs = (\<lambda>p w. (Inr (), w)), sg_upload = (\<lambda>a b w. (Inr (), w)),
       sg_runtime = [], sg_snapshot = (\<lambda>e. Inr ([], [])), sg_yaml = (\<lambda>t. None), sg_dumps = (\<lambda>v. [])\<rparr>,
     ap_files = [], ap_class = (\<lambda>e. Other_Failure), ap_timeout = None, ap_debug = False, ap_clear = id,
     ap_release_claim = id, ap_spawn_poll = (\<lambda>w. (Inr (), w))\<rparr>"


end
