(* ===== verification/Sessions.thy ===== *)
theory Sessions
  imports Assignment
begin

text \<open>
  \<open>commands/session.py\<close>: the sessions of the interactive commands, whose VMs the job
  supervisor shares.  \<open>new\<close> and \<open>stop\<close>, the keep-alive daemon and what the listings show
  of its health.  What a command uses beside the Colab API is the record \<open>console\<close>: the
  session file, the daemon, the kernel, the clock and the history.
\<close>

section \<open>The machine a command runs on\<close>

record listed_vm =
  lv_endpoint :: string
  lv_accelerator :: string
  lv_variant :: string
  lv_shape :: string
  lv_token :: string
  lv_url :: string

record 'w console =
  cs_colab :: "'w colab"
  cs_assignments :: "'w \<Rightarrow> (client_error, listed_vm list) outcome \<times> 'w"
  cs_get :: "string \<Rightarrow> 'w \<Rightarrow> session_state option \<times> 'w"
  cs_list :: "'w \<Rightarrow> sessions \<times> 'w"
  cs_add :: "session_state \<Rightarrow> 'w \<Rightarrow> 'w"
  cs_remove :: "string \<Rightarrow> 'w \<Rightarrow> 'w"
  cs_spawn :: "string \<Rightarrow> string \<Rightarrow> 'w \<Rightarrow> (py_error, int) outcome \<times> 'w"
  cs_kill :: "int \<Rightarrow> 'w \<Rightarrow> 'w"
  cs_alive :: "int \<Rightarrow> 'w \<Rightarrow> bool \<times> 'w"
  cs_shutdown :: "session_state \<Rightarrow> 'w \<Rightarrow> 'w"
  cs_now :: "'w \<Rightarrow> string \<times> 'w"
  cs_time :: "'w \<Rightarrow> rat \<times> 'w"
  cs_sleep :: "rat \<Rightarrow> 'w \<Rightarrow> 'w"
  cs_log :: "string \<Rightarrow> string \<Rightarrow> json_obj \<Rightarrow> 'w \<Rightarrow> 'w"

text \<open>How a command ends: it returns, exits with a code and a reason, or an exception leaves it.\<close>

datatype 'a ending = Returned 'a | Exits int string | Client_Raised client_error | Py_Raised py_error

section \<open>What is shown of a session\<close>

definition hardware_label :: "string \<Rightarrow> string" where
  "hardware_label accelerator = (if accelerator = ''NONE'' then ''CPU'' else accelerator)"

definition shape_display_label :: "string \<Rightarrow> string" where
  "shape_display_label shape = (if shape = ''HIGH_RAM'' then ''High-RAM'' else ''Standard'')"

definition format_session_line ::
  "string \<Rightarrow> string \<Rightarrow> string \<Rightarrow> string \<Rightarrow> string option \<Rightarrow> string \<Rightarrow> string" where
  "format_session_line name endpoint accelerator variant status shape =
     join '' | ''
       ([''['' @ name @ ''] '' @ endpoint, ''Hardware: '' @ hardware_label accelerator,
         ''Shape: '' @ shape_display_label shape, ''Variant: '' @ variant]
        @ (case status of None \<Rightarrow> [] | Some s \<Rightarrow> [''Status: '' @ s]))"

definition record_keep_alive_success :: "string \<Rightarrow> session_state \<Rightarrow> session_state" where
  "record_keep_alive_success at_time s = s\<lparr>ss_keep_alive_failures := 0, ss_last_keep_alive_ping := Some at_time\<rparr>"

definition record_keep_alive_failure :: "session_state \<Rightarrow> session_state" where
  "record_keep_alive_failure s = s\<lparr>ss_keep_alive_failures := ss_keep_alive_failures s + 1\<rparr>"

definition degraded_after_failures :: int where "degraded_after_failures = 3"

record keep_alive_info =
  ki_health :: string
  ki_failures :: int
  ki_risk :: string
  ki_age :: "int option"

text \<open>
  \<open>daemon_alive\<close> is what the caller found of the daemon's pid; \<open>fiso\<close> is
  \<open>datetime.fromisoformat\<close>, a time without a zone being UTC, in microseconds like \<open>now\<close>.
\<close>

definition keep_alive_summary :: "fiso \<Rightarrow> session_state \<Rightarrow> bool \<Rightarrow> int \<Rightarrow> keep_alive_info" where
  "keep_alive_summary fiso s daemon_alive now =
     (let failures = max 0 (ss_keep_alive_failures s);
          (health, risk) =
            (if ss_keep_alive_pid s = None then (''disabled'', ''elevated'')
             else if \<not> daemon_alive then (''stopped'', ''elevated'')
             else if degraded_after_failures \<le> failures then (''degraded'', ''elevated'')
             else if failures \<noteq> 0 then
               (''transient_failure'', if ss_last_keep_alive_ping s \<noteq> None then ''normal'' else ''unknown'')
             else if ss_last_keep_alive_ping s = None then (''starting'', ''unknown'')
             else (''healthy'', ''normal''))
      in \<lparr>ki_health = health, ki_failures = failures, ki_risk = risk,
          ki_age = Option.bind (ss_last_keep_alive_ping s) (\<lambda>t.
            map_option (\<lambda>(at_time, _). if now < at_time then 0 else (now - at_time) div 1000000) (fiso t))\<rparr>)"

definition upper_char :: "char \<Rightarrow> char" where
  "upper_char c = (if 97 \<le> code c \<and> code c \<le> 122 then char_of (code c - 32) else c)"

definition py_upper :: "string \<Rightarrow> string" where "py_upper s = map upper_char s"

definition format_keep_alive_summary :: "keep_alive_info \<Rightarrow> string" where
  "format_keep_alive_summary i =
     ''  '' @ join '' | ''
       ([''Keep-alive: '' @ py_upper (ki_health i), ''Consecutive failures: '' @ show_int (ki_failures i)]
        @ (case ki_age i of None \<Rightarrow> [] | Some a \<Rightarrow> [''Last success: '' @ show_int a @ ''s ago''])
        @ [''Retention risk: '' @ py_upper (ki_risk i)])"

definition summary_fields :: "keep_alive_info \<Rightarrow> json_obj" where
  "summary_fields i =
     [(''keep_alive_health'', JStr (ki_health i)), (''keep_alive_consecutive_failures'', JInt (ki_failures i)),
      (''keep_alive_retention_risk'', JStr (ki_risk i))]
     @ (case ki_age i of None \<Rightarrow> [] | Some a \<Rightarrow> [(''keep_alive_last_success_age_seconds'', JInt a)])"

text \<open>One row of \<open>sessions\<close>: what the server lists, and what this machine knows of it.\<close>

definition session_row :: "fiso \<Rightarrow> int \<Rightarrow> listed_vm \<Rightarrow> session_state option \<Rightarrow> bool \<Rightarrow> json_obj" where
  "session_row fiso now a own living =
     [(''name'', JStr (case own of Some s \<Rightarrow> ss_name s | None \<Rightarrow> ''?'')), (''endpoint'', JStr (lv_endpoint a)),
      (''accelerator'', JStr (lv_accelerator a)), (''variant'', JStr (lv_variant a)),
      (''machine_shape'', JStr (lv_shape a))]
     @ (case own of
          None \<Rightarrow> []
        | Some s \<Rightarrow>
            (case (living, ss_keep_alive_pid s) of
               (True, Some pid) \<Rightarrow> [(''keep_alive_pid'', JInt pid)] | _ \<Rightarrow> [])
            @ (case ss_last_keep_alive_ping s of None \<Rightarrow> [] | Some t \<Rightarrow> [(''last_keep_alive_ping'', JStr t)])
            @ summary_fields (keep_alive_summary fiso s living now))"

text \<open>One entry of \<open>status\<close>, for a session of this machine.\<close>

definition status_row :: "fiso \<Rightarrow> int \<Rightarrow> session_state \<Rightarrow> bool \<Rightarrow> json_obj" where
  "status_row fiso now s living =
     [(''name'', JStr (ss_name s)), (''endpoint'', JStr (ss_endpoint s)), (''accelerator'', JStr (ss_accelerator s)),
      (''variant'', JStr (ss_variant s)), (''machine_shape'', JStr (ss_machine_shape s)),
      (''status'', JStr (''LAST-KNOWN-LOCAL '' @ (case ss_running s of
          Some r \<Rightarrow> if r = [] then ''IDLE'' else ''BUSY ('' @ r @ '')'' | None \<Rightarrow> ''IDLE'')))]
     @ (case (living, ss_keep_alive_pid s) of
          (True, Some pid) \<Rightarrow> [(''keep_alive_pid'', JInt pid)] | _ \<Rightarrow> [])
     @ (case ss_last_keep_alive_ping s of None \<Rightarrow> [] | Some t \<Rightarrow> [(''last_keep_alive_ping'', JStr t)])
     @ summary_fields (keep_alive_summary fiso s living now)
     @ (case ss_last_execution s of
          None \<Rightarrow> []
        | Some (file, cell, at_time) \<Rightarrow>
            [(''last_execution_file'', JStr file), (''last_execution_cell'', jopt JStr cell),
             (''last_execution_time'', JStr at_time)])
     @ (case ss_exec_log_path s of
          None \<Rightarrow> [] | Some p \<Rightarrow> if p = [] then [] else [(''exec_log_path'', JStr p)])"

section \<open>new\<close>

definition single_shape :: "string list" where "single_shape = [''L4'', ''V5E1'', ''V6E1'']"

text \<open>\<open>resolve_assign_shape\<close>: whether the high-memory shape is asked for.\<close>

definition resolve_assign_shape :: "string \<Rightarrow> bool \<Rightarrow> bool" where
  "resolve_assign_shape accelerator high_mem \<longleftrightarrow> high_mem \<and> accelerator \<notin> set single_shape"

definition resolve_runtime_options :: "string option \<Rightarrow> string option \<Rightarrow> bool \<Rightarrow> string \<times> string \<times> bool" where
  "resolve_runtime_options gpu tpu high_mem =
     (let (variant, accelerator) =
            (case (tpu, gpu) of
               (Some (c # cs), _) \<Rightarrow> (''TPU'', if py_lower (c # cs) = ''v5e1'' then ''V5E1'' else ''V6E1'')
             | (_, Some (c # cs)) \<Rightarrow>
                 (''GPU'', case map_of gpu_names (py_lower (c # cs)) of Some a \<Rightarrow> a | None \<Rightarrow> ''A100'')
             | _ \<Rightarrow> (''DEFAULT'', ''NONE''))
      in (variant, accelerator, resolve_assign_shape accelerator high_mem))"

definition error_info :: "client_error \<Rightarrow> json_obj" where
  "error_info e =
     [(''status_code'', jopt JInt (ae_status (cl_error e))), (''error_type'', JStr (err_type (ae_error (cl_error e)))),
      (''error'', JStr (take 500 (err_msg (ae_error (cl_error e))))),
      (''response_body'', jopt JStr (response_body_if_json e 1000))]"

text \<open>The session as \<open>new\<close> records it: the accelerator is the one asked for.\<close>

definition created_session :: "string \<Rightarrow> string \<times> string \<times> bool \<Rightarrow> assigned \<Rightarrow> session_state" where
  "created_session name opts a =
     (case opts of (variant, accelerator, high_ram) \<Rightarrow>
        (new_session name (as_token a) (as_url a) (as_endpoint a))
          \<lparr>ss_variant := variant, ss_accelerator := accelerator,
           ss_machine_shape := if high_ram then ''HIGH_RAM'' else ''STANDARD''\<rparr>)"

definition session_created :: "session_state \<Rightarrow> bool \<Rightarrow> json_obj" where
  "session_created s no_keepalive =
     [(''endpoint'', JStr (ss_endpoint s)), (''variant'', JStr (ss_variant s)), (''accelerator'', JStr (ss_accelerator s)),
      (''machine_shape'', JStr (ss_machine_shape s)), (''keep_alive_disabled'', JBool no_keepalive)]"

text \<open>The session is saved before the daemon starts, and again with its pid.\<close>

definition start_session :: "'w console \<Rightarrow> session_state \<Rightarrow> 'w \<Rightarrow> session_state ending \<times> 'w" where
  "start_session cs s w =
     (case cs_spawn cs (ss_endpoint s) (ss_name s) (cs_add cs s w) of
        (Inl e, w) \<Rightarrow> (Py_Raised e, w)
      | (Inr pid, w) \<Rightarrow>
          (let s = s\<lparr>ss_keep_alive_pid := Some pid\<rparr> in
           (Returned s, cs_log cs (ss_name s) ''session_created'' (session_created s False) (cs_add cs s w))))"

definition new_command ::
  "'w console \<Rightarrow> string \<Rightarrow> string option \<Rightarrow> string option \<Rightarrow> bool \<Rightarrow> bool \<Rightarrow> 'w \<Rightarrow> session_state ending \<times> 'w" where
  "new_command cs name gpu tpu high_mem no_keepalive w =
     (let opts = resolve_runtime_options gpu tpu high_mem in
      case co_assign (cs_colab cs) opts w of
        (Inl e, w) \<Rightarrow>
          ((if cl_colab_request_error e \<and> ae_status (cl_error e) = Some 400 \<and> fst (snd opts) \<noteq> ''NONE''
            then Exits 1 ''accelerator_rejected'' else Client_Raised e),
           cs_log cs name ''assign_error''
             (error_info e @ [(''variant'', JStr (fst opts)), (''accelerator'', JStr (fst (snd opts)))]) w)
      | (Inr a, w) \<Rightarrow>
          (let s = created_session name opts a in
           if no_keepalive then
             (let s = s\<lparr>ss_keep_alive_disabled := True\<rparr> in
              (Returned s, cs_log cs name ''session_created'' (session_created s True) (cs_add cs s w)))
           else
             (case co_keep_alive (cs_colab cs) (as_endpoint a) w of
                (Inr _, w) \<Rightarrow>
                  (case cs_now cs w of (at_time, w) \<Rightarrow> start_session cs (record_keep_alive_success at_time s) w)
              | (Inl e, w) \<Rightarrow>
                  if \<not> cl_colab_request_error e then (Client_Raised e, w)
                  else if ae_status (cl_error e) = Some 403 \<and> is_scope_error e then
                    (Exits 1 ''auth_scope_missing'', snd (co_unassign (cs_colab cs) (as_endpoint a) w))
                  else start_session cs (record_keep_alive_failure s) w)))"

section \<open>stop\<close>

definition kill_if :: "'w console \<Rightarrow> int option \<Rightarrow> 'w \<Rightarrow> 'w" where
  "kill_if cs pid w = (case pid of None \<Rightarrow> w | Some p \<Rightarrow> if p = 0 then w else cs_kill cs p w)"

definition stop_command :: "'w console \<Rightarrow> string \<Rightarrow> 'w \<Rightarrow> string ending \<times> 'w" where
  "stop_command cs name w =
     (case cs_get cs name w of
        (None, w) \<Rightarrow> (Returned ''already_stopped'', w)
      | (Some s, w) \<Rightarrow>
          (let w = cs_shutdown cs s (kill_if cs (ss_exec_pid s) (kill_if cs (ss_keep_alive_pid s) w)) in
           case co_unassign (cs_colab cs) (ss_endpoint s) w of
             (Inl e, w) \<Rightarrow> (Exits 1 ''unassign_failed'', w)
           | (Inr _, w) \<Rightarrow>
               (Returned [], cs_log cs name ''session_terminated'' [(''reason'', JStr ''user_requested'')]
                  (cs_remove cs name w))))"

section \<open>The keep-alive daemon\<close>

datatype ka_end = Time_Limit | Session_Not_Found | Endpoint_Mismatch string | Consecutive_4xx

record ka_state =
  ka_iterations :: nat
  ka_4xx :: nat
  ka_error :: "json_obj option"

definition ka_init :: ka_state where
  "ka_init = \<lparr>ka_iterations = 0, ka_4xx = 0, ka_error = None\<rparr>"

definition is_4xx :: "int option \<Rightarrow> bool" where
  "is_4xx status = (case status of Some n \<Rightarrow> 400 \<le> n \<and> n < 500 | None \<Rightarrow> False)"

text \<open>One pass: the record as read, the ping, and the record written back.\<close>

definition ka_ping ::
  "'w console \<Rightarrow> string \<Rightarrow> session_state \<Rightarrow> ka_state \<Rightarrow> 'w \<Rightarrow> ka_end option \<times> ka_state \<times> 'w" where
  "ka_ping cs name s st w =
     (case co_keep_alive (cs_colab cs) (ss_endpoint s) w of
        (Inr _, w) \<Rightarrow>
          (case cs_now cs w of
             (at_time, w) \<Rightarrow>
               (None, st\<lparr>ka_4xx := 0, ka_error := None\<rparr>, cs_add cs (record_keep_alive_success at_time s) w))
      | (Inl e, w) \<Rightarrow>
          (let s = record_keep_alive_failure s; client_side = is_4xx (ae_status (cl_error e));
               seen = ka_4xx st + (if client_side then 1 else 0)
           in (if client_side \<and> 2 \<le> seen then Some Consecutive_4xx else None,
               st\<lparr>ka_4xx := seen, ka_error := Some (error_info e)\<rparr>,
               cs_log cs name ''keep_alive_error''
                 (error_info e @ [(''iteration'', JInt (int (ka_iterations st))), (''consecutive_4xx'', JInt (int seen)),
                    (''consecutive_failures'', JInt (ss_keep_alive_failures s))])
                 (cs_add cs s w))))"

definition ka_pass ::
  "'w console \<Rightarrow> string \<Rightarrow> string \<Rightarrow> ka_state \<Rightarrow> 'w \<Rightarrow> ka_end option \<times> ka_state \<times> 'w" where
  "ka_pass cs endpoint name st w =
     (let st = st\<lparr>ka_iterations := ka_iterations st + 1\<rparr> in
      case cs_get cs name w of
        (None, w) \<Rightarrow> (Some Session_Not_Found, st, w)
      | (Some s, w) \<Rightarrow>
          if ss_endpoint s \<noteq> endpoint then (Some (Endpoint_Mismatch (ss_endpoint s)), st, w)
          else ka_ping cs name s st w)"

definition max_duration :: rat where "max_duration = 24 * 3600"

definition ping_interval :: rat where "ping_interval = 60"

partial_function (option) ka_loop ::
  "'w console \<Rightarrow> string \<Rightarrow> string \<Rightarrow> rat \<Rightarrow> ka_state \<Rightarrow> 'w \<Rightarrow> (ka_end \<times> ka_state \<times> 'w) option" where
  "ka_loop cs endpoint name started st w =
     (case cs_time cs w of
        (now, w) \<Rightarrow>
          if now - started < max_duration then
            (case ka_pass cs endpoint name st w of
               (r, st, w) \<Rightarrow>
                 (case r of
                    Some why \<Rightarrow> Some (why, st, w)
                  | None \<Rightarrow> ka_loop cs endpoint name started st (cs_sleep cs ping_interval w)))
          else Some (Time_Limit, st, w))"

definition end_name :: "ka_end \<Rightarrow> string" where
  "end_name r =
     (case r of
        Time_Limit \<Rightarrow> ''time_limit_reached'' | Session_Not_Found \<Rightarrow> ''session_not_found''
      | Endpoint_Mismatch _ \<Rightarrow> ''endpoint_mismatch'' | Consecutive_4xx \<Rightarrow> ''consecutive_4xx_errors'')"

text \<open>\<open>to_hundredth\<close> is \<open>round(_, 2)\<close> of a duration, as JSON.\<close>

definition stopped_event :: "(rat \<Rightarrow> json) \<Rightarrow> string \<Rightarrow> ka_end \<Rightarrow> ka_state \<Rightarrow> rat \<Rightarrow> json_obj" where
  "stopped_event to_hundredth endpoint r st seconds =
     [(''reason'', JStr (end_name r)), (''iterations'', JInt (int (ka_iterations st))),
      (''duration_seconds'', to_hundredth seconds)]
     @ (case ka_error st of None \<Rightarrow> [] | Some d \<Rightarrow> [(''last_error'', JObj d)])
     @ (case r of
          Endpoint_Mismatch actual \<Rightarrow> [(''expected_endpoint'', JStr endpoint), (''actual_endpoint'', JStr actual)]
        | _ \<Rightarrow> [])"

definition keep_alive ::
  "(rat \<Rightarrow> json) \<Rightarrow> int \<Rightarrow> 'w console \<Rightarrow> string \<Rightarrow> string \<Rightarrow> 'w \<Rightarrow> (ka_end \<times> ka_state \<times> 'w) option" where
  "keep_alive to_hundredth own_pid cs endpoint name w =
     (case cs_time cs (cs_log cs name ''keep_alive_started''
               [(''endpoint'', JStr endpoint), (''pid'', JInt own_pid)] w) of
        (started, w) \<Rightarrow>
          map_option (\<lambda>(r, st, w).
              (case cs_time cs w of
                 (now, w) \<Rightarrow>
                   (r, st, cs_log cs name ''keep_alive_stopped''
                      (stopped_event to_hundredth endpoint r st (now - started)) w)))
            (ka_loop cs endpoint name started ka_init w))"

section \<open>The session file\<close>

text \<open>
  A machine whose session file is \<open>file\<close>: the console reads and writes it, and its other
  calls leave it alone.  Nothing is said of the Colab API, during whose calls another
  process may write the file.
\<close>

definition session_file :: "('w \<Rightarrow> sessions) \<Rightarrow> 'w console \<Rightarrow> bool" where
  "session_file file cs \<longleftrightarrow>
     (\<forall>n w. cs_get cs n w = (map_of (file w) n, w)) \<and> (\<forall>w. cs_list cs w = (file w, w))
     \<and> (\<forall>s w. file (cs_add cs s w) = dict_set (ss_name s) s (file w))
     \<and> (\<forall>n w. file (cs_remove cs n w) = List.filter (\<lambda>(k, _). k \<noteq> n) (file w))
     \<and> (\<forall>e n w. file (snd (cs_spawn cs e n w)) = file w) \<and> (\<forall>p w. file (cs_kill cs p w) = file w)
     \<and> (\<forall>s w. file (cs_shutdown cs s w) = file w) \<and> (\<forall>w. file (snd (cs_now cs w)) = file w)
     \<and> (\<forall>n e d w. file (cs_log cs n e d w) = file w) \<and> (\<forall>p w. file (snd (cs_alive cs p w)) = file w)"

lemma session_fileD:
  assumes "session_file file cs"
  shows "cs_get cs n w = (map_of (file w) n, w)" "cs_list cs w = (file w, w)"
    "file (cs_add cs s w) = dict_set (ss_name s) s (file w)"
    "file (cs_remove cs n w) = List.filter (\<lambda>(k, _). k \<noteq> n) (file w)"
    "cs_spawn cs e n w = (r, w1) \<Longrightarrow> file w1 = file w" "file (cs_kill cs p w) = file w"
    "file (cs_shutdown cs s w) = file w" "cs_now cs w = (t, w1) \<Longrightarrow> file w1 = file w"
    "file (cs_log cs n k d w) = file w" "cs_alive cs p w = (b, w1) \<Longrightarrow> file w1 = file w"
  using assms unfolding session_file_def by (simp_all, metis snd_conv, metis snd_conv, metis snd_conv)

text \<open>The store of \<open>state.py\<close> is such a file, its text being read back as it was written.\<close>

lemma state_store_is_a_session_file:
  assumes "\<And>m. parse (dump m) = Some m" and "\<And>m. \<not> list_all is_space (dump m)"
  defines "file \<equiv> store_list parse"
  shows "map_of (file f) n = store_get parse n f" "file (store_add parse dump s f) = dict_set (ss_name s) s (file f)"
    "file (store_remove parse dump n f) = List.filter (\<lambda>(k, _). k \<noteq> n) (file f)"
proof -
  have dumped: "load_raw parse (dump m) = m" for m
    using assms(1,2) [of m] by (auto simp: load_raw_def)
  have opened: "load_raw parse (opened f) = file f" by (simp add: file_def store_list_def opened_def load_raw_def split: option.split)
  show "map_of (file f) n = store_get parse n f" by (simp add: file_def store_list_def store_get_def split: option.split)
  show "file (store_add parse dump s f) = dict_set (ss_name s) s (file f)"
    using opened by (simp add: store_add_def file_def store_list_def dumped)
  show "file (store_remove parse dump n f) = List.filter (\<lambda>(k, _). k \<noteq> n) (file f)"
  proof (cases "map_of (file f) n")
    case None
    then have "List.filter (\<lambda>(k, _). k \<noteq> n) (file f) = file f" by (auto simp: map_of_eq_None_iff filter_id_conv image_iff)
    moreover have "file (store_remove parse dump n f) = file f"
      using None opened by (simp add: store_remove_def Let_def) (simp add: file_def store_list_def)
    ultimately show ?thesis by simp
  next
    case (Some s)
    then show ?thesis using opened by (simp add: store_remove_def Let_def) (simp add: file_def store_list_def dumped)
  qed
qed

text \<open>No other process writes the file during a call of the API, and only the API's calls bill.\<close>

definition alone :: "('w \<Rightarrow> sessions) \<Rightarrow> 'w console \<Rightarrow> bool" where
  "alone file cs \<longleftrightarrow>
     (\<forall>opts w. file (snd (co_assign (cs_colab cs) opts w)) = file w)
     \<and> (\<forall>e w. file (snd (co_unassign (cs_colab cs) e w)) = file w)
     \<and> (\<forall>e w. file (snd (co_keep_alive (cs_colab cs) e w)) = file w)"

definition console_bills :: "('w \<Rightarrow> string set) \<Rightarrow> 'w console \<Rightarrow> bool" where
  "console_bills held cs \<longleftrightarrow>
     colab_bills held (cs_colab cs)
     \<and> (\<forall>n w. held (snd (cs_get cs n w)) = held w) \<and> (\<forall>s w. held (cs_add cs s w) = held w)
     \<and> (\<forall>n w. held (cs_remove cs n w) = held w) \<and> (\<forall>e n w. held (snd (cs_spawn cs e n w)) = held w)
     \<and> (\<forall>p w. held (cs_kill cs p w) = held w) \<and> (\<forall>s w. held (cs_shutdown cs s w) = held w)
     \<and> (\<forall>w. held (snd (cs_now cs w)) = held w) \<and> (\<forall>n e d w. held (cs_log cs n e d w) = held w)"

lemma aloneD:
  assumes "alone file cs"
  shows "co_assign (cs_colab cs) opts w = (a, w') \<Longrightarrow> file w' = file w"
    "co_unassign (cs_colab cs) e w = (u, w') \<Longrightarrow> file w' = file w"
    "co_keep_alive (cs_colab cs) e w = (k, w') \<Longrightarrow> file w' = file w"
  using assms unfolding alone_def by (metis snd_conv)+

lemma console_billsD:
  assumes "console_bills held cs"
  shows "cs_get cs n w = (x, w') \<Longrightarrow> held w' = held w" "held (cs_add cs s w) = held w" "held (cs_remove cs n w) = held w"
    "cs_spawn cs e n w = (r, w') \<Longrightarrow> held w' = held w" "held (cs_kill cs p w) = held w" "held (cs_shutdown cs s w) = held w"
    "cs_now cs w = (t, w') \<Longrightarrow> held w' = held w" "held (cs_log cs n k d w) = held w"
  using assms unfolding console_bills_def by (simp_all, (metis snd_conv)+)

lemma console_colab: "console_bills held cs \<Longrightarrow> colab_bills held (cs_colab cs)"
  by (simp add: console_bills_def)

section \<open>What new keeps of the VM it was given\<close>

text \<open>A started session is on file and bills; a daemon that does not start leaves it on file.\<close>

lemma start_session_keeps:
  assumes f: "session_file file cs" and b: "console_bills held cs" and r: "start_session cs s w = (r, w')"
  shows "held w' = held w"
    "case r of Returned t \<Rightarrow> ss_endpoint t = ss_endpoint s \<and> map_of (file w') (ss_name s) = Some t
     | _ \<Rightarrow> map_of (file w') (ss_name s) = Some s"
proof -
  note fd = session_fileD [OF f] and bd = console_billsD [OF b]
  obtain p w1 where sp: "cs_spawn cs (ss_endpoint s) (ss_name s) (cs_add cs s w) = (p, w1)" by (metis prod.collapse)
  have w1: "file w1 = dict_set (ss_name s) s (file w)" "held w1 = held w"
    using fd(5) [OF sp] bd(4) [OF sp] by (simp_all add: fd(3) bd(2))
  let ?t = "\<lambda>pid. s\<lparr>ss_keep_alive_pid := Some pid\<rparr>"
  have e: "(r, w') = (case p of Inl e \<Rightarrow> (Py_Raised e, w1)
      | Inr pid \<Rightarrow> (Returned (?t pid), cs_log cs (ss_name s) ''session_created'' (session_created (?t pid) False) (cs_add cs (?t pid) w1)))"
    unfolding r [symmetric] start_session_def sp by (simp add: Let_def split: sum.split)
  show "held w' = held w"
    using e w1(2) by (cases p) (simp_all add: bd(2,8))
  show "case r of Returned t \<Rightarrow> ss_endpoint t = ss_endpoint s \<and> map_of (file w') (ss_name s) = Some t
     | _ \<Rightarrow> map_of (file w') (ss_name s) = Some s"
    using e w1(1) by (cases p) (simp_all add: fd(3,9))
qed

lemma created_fields [simp]:
  "ss_name (created_session name opts a) = name" "ss_endpoint (created_session name opts a) = as_endpoint a"
  by (simp_all add: created_session_def new_session_def split: prod.split)

lemma recorded_fields [simp]:
  "ss_name (record_keep_alive_success t s) = ss_name s" "ss_endpoint (record_keep_alive_success t s) = ss_endpoint s"
  "ss_name (record_keep_alive_failure s) = ss_name s" "ss_endpoint (record_keep_alive_failure s) = ss_endpoint s"
  by (simp_all add: record_keep_alive_success_def record_keep_alive_failure_def)


text \<open>A machine of its session file and the VMs that bill; \<open>ping\<close> is what a keep-alive call answers and does.\<close>

definition demo_colab :: "(string \<Rightarrow> sessions \<times> string list \<Rightarrow> (client_error, unit) outcome \<times> sessions \<times> string list)
    \<Rightarrow> (sessions \<times> string list) colab" where
  "demo_colab ping = \<lparr>co_assign = (\<lambda>opts (f, h). (Inr \<lparr>as_accelerator = ''T4'', as_endpoint = ''vm-1'', as_token = ''t'',
       as_url = ''u'', as_variant = ''GPU'', as_shape = ''STANDARD''\<rparr>, f, ''vm-1'' # h)),
     co_unassign = (\<lambda>e (f, h). (Inr (), f, List.filter (\<lambda>x. x \<noteq> e) h)),
     co_list = (\<lambda>(f, h). (Inr (map (\<lambda>e. \<lparr>asg_endpoint = Some e, asg_proxy = None\<rparr>) h), f, h)),
     co_keep_alive = ping, co_ccu = (\<lambda>w. (Inr (0, 0, 1), w))\<rparr>"

definition demo_console :: "(string \<Rightarrow> sessions \<times> string list \<Rightarrow> (client_error, unit) outcome \<times> sessions \<times> string list)
    \<Rightarrow> (sessions \<times> string list) console" where
  "demo_console ping = \<lparr>cs_colab = demo_colab ping, cs_assignments = (\<lambda>w. (Inr [], w)),
     cs_get = (\<lambda>n (f, h). (map_of f n, f, h)), cs_list = (\<lambda>(f, h). (f, f, h)),
     cs_add = (\<lambda>s (f, h). (dict_set (ss_name s) s f, h)),
     cs_remove = (\<lambda>n (f, h). (List.filter (\<lambda>(k, _). k \<noteq> n) f, h)),
     cs_spawn = (\<lambda>e n w. (Inr 7, w)), cs_kill = (\<lambda>p w. w), cs_alive = (\<lambda>p w. (True, w)), cs_shutdown = (\<lambda>s w. w),
     cs_now = (\<lambda>w. (''2026-01-01T00:00:00+00:00'', w)), cs_time = (\<lambda>w. (0, w)), cs_sleep = (\<lambda>d w. w),
     cs_log = (\<lambda>n k d w. w)\<rparr>"

lemma demo_file: "session_file fst (demo_console ping)"
  by (simp add: session_file_def demo_console_def split: prod.split)

lemma demo_alone: "(\<And>e w. fst (snd (ping e w)) = fst w) \<Longrightarrow> alone fst (demo_console ping)"
  by (simp add: alone_def demo_console_def demo_colab_def split: prod.split)

lemma demo_bills: "(\<And>e w. snd (snd (ping e w)) = snd w) \<Longrightarrow> console_bills (set \<circ> snd) (demo_console ping)"
  by (auto simp: console_bills_def colab_bills_def keeps_def demo_console_def demo_colab_def image_image split: prod.split)

abbreviation answered :: "string \<Rightarrow> 'v \<Rightarrow> (client_error, unit) outcome \<times> 'v" where
  "answered \<equiv> \<lambda>e w. (Inr (), w)"

lemma demo_answered:
  "session_file fst (demo_console answered)" "alone fst (demo_console answered)" "console_bills (set \<circ> snd) (demo_console answered)"
  by (simp_all add: demo_file demo_alone demo_bills)


text \<open>
  C33. A keep-alive ping that fails without an answer of the server, such as a lost
  connection, ends \<open>new\<close> with the exception: the VM it was just given bills, and no
  session of this machine names it.
\<close>

theorem new_forgets_an_unreachable_vm:
  assumes "session_file file cs" and "alone file cs" and "console_bills held cs"
    and "co_assign (cs_colab cs) (resolve_runtime_options gpu tpu high_mem) w = (Inr a, w1)"
    and "co_keep_alive (cs_colab cs) (as_endpoint a) w1 = (Inl e, w2)" and "\<not> cl_colab_request_error e"
  shows "case new_command cs name gpu tpu high_mem False w of
     (r, w') \<Rightarrow> r = Client_Raised e \<and> as_endpoint a \<in> held w' \<and> file w' = file w"
  using aloneD(1) [OF assms(2,4)] aloneD(3) [OF assms(2,5)] assms(6)
    colab_billsD(1) [OF console_colab [OF assms(3)] assms(4)] colab_billsD(5) [OF console_colab [OF assms(3)] assms(5)]
  by (simp add: new_command_def assms(4,5) Let_def)

definition lost_connection :: client_error where
  "lost_connection = \<lparr>cl_error = \<lparr>ae_not_found = False, ae_timeout = False, ae_connection = True, ae_status = None,
       ae_error = \<lparr>err_type = ''ConnectionError'', err_msg = []\<rparr>\<rparr>,
     cl_body = None, cl_content_type = None, cl_requests_error = True, cl_too_many = False, cl_colab_request_error = False\<rparr>"

abbreviation unreachable :: "string \<Rightarrow> 'v \<Rightarrow> (client_error, unit) outcome \<times> 'v" where
  "unreachable \<equiv> \<lambda>e w. (Inl lost_connection, w)"

lemma demo_unreachable:
  "session_file fst (demo_console unreachable)" "alone fst (demo_console unreachable)"
  "console_bills (set \<circ> snd) (demo_console unreachable)"
  by (simp_all add: demo_file demo_alone demo_bills)

theorem new_forgets_an_unreachable_vm_witness:
  "case new_command (demo_console unreachable) ''s'' None None False False ([], []) of
     (r, f, h) \<Rightarrow> r = Client_Raised lost_connection \<and> ''vm-1'' \<in> set h \<and> f = []"
proof -
  let ?a = "\<lparr>as_accelerator = ''T4'', as_endpoint = ''vm-1'', as_token = ''t'', as_url = ''u'', as_variant = ''GPU'',
    as_shape = ''STANDARD''\<rparr>"
  have a: "co_assign (cs_colab (demo_console unreachable)) opts ([], []) = (Inr ?a, [], [''vm-1''])" for opts
    by (simp add: demo_console_def demo_colab_def)
  have k: "co_keep_alive (cs_colab (demo_console unreachable)) (as_endpoint ?a) ([], [''vm-1'']) = (Inl lost_connection, [], [''vm-1''])"
    by (simp add: demo_console_def demo_colab_def)
  have n: "\<not> cl_colab_request_error lost_connection" by (simp add: lost_connection_def)
  show ?thesis
    using new_forgets_an_unreachable_vm [OF demo_unreachable a k n, where name = "''s''" and gpu = None and tpu = None
        and high_mem = False]
    by (auto split: prod.splits)
qed

section \<open>stop\<close>

text \<open>
  C31. \<open>stop\<close> forgets no VM that may still bill: a record it removed named a VM that was
  released, and a release that fails leaves the file as it was, with exit code 1.
\<close>

theorem stop_forgets_only_released:
  assumes "session_file file cs" and "alone file cs" and "console_bills held cs"
  shows "case stop_command cs name w of
     (Returned t, w') \<Rightarrow>
       (case map_of (file w) name of
          None \<Rightarrow> t = ''already_stopped'' \<and> file w' = file w
        | Some s \<Rightarrow> ss_endpoint s \<notin> held w' \<and> file w' = List.filter (\<lambda>(k, _). k \<noteq> name) (file w))
   | (Exits n reason, w') \<Rightarrow> n = 1 \<and> file w' = file w \<and> held w' \<subseteq> held w
   | _ \<Rightarrow> False"
proof -
  note fd = session_fileD [OF assms(1)] and bd = console_billsD [OF assms(3)]
  have keep: "file (kill_if cs p w) = file w" "held (kill_if cs p w) = held w" for p w
    by (simp_all add: kill_if_def fd(6) bd(5) split: option.split)
  show ?thesis
  proof (cases "map_of (file w) name")
    case None
    then show ?thesis by (simp add: stop_command_def fd(1))
  next
    case (Some s)
    let ?w = "cs_shutdown cs s (kill_if cs (ss_exec_pid s) (kill_if cs (ss_keep_alive_pid s) w))"
    obtain u w1 where u: "co_unassign (cs_colab cs) (ss_endpoint s) ?w = (u, w1)" by (metis prod.collapse)
    have f: "file w1 = file w" using aloneD(2) [OF assms(2) u] by (simp add: fd(7) keep)
    have h: "held w1 \<subseteq> (case u of Inl _ \<Rightarrow> held w | Inr _ \<Rightarrow> held w - {ss_endpoint s})"
      using colab_billsD(2) [OF console_colab [OF assms(3)] u] by (cases u) (simp_all add: bd(6) keep)
    show ?thesis
      using f h Some by (cases u) (auto simp: stop_command_def fd(1) u Let_def fd(4,9) bd(3,8))
  qed
qed

theorem stop_forgets_only_released_witness:
  "case stop_command (demo_console answered) ''s''
       ([(''s'', new_session ''s'' ''t'' ''u'' ''vm-1'')], [''vm-1'', ''vm-2'']) of
     (Returned t, f, h) \<Rightarrow> ''vm-1'' \<notin> set h \<and> f = []
   | _ \<Rightarrow> False"
proof -
  let ?w = "([(''s'', new_session ''s'' ''t'' ''u'' ''vm-1'')], [''vm-1'', ''vm-2''])"
  let ?r = "stop_command (demo_console answered) ''s'' ?w"
  have "case fst ?r of Returned t \<Rightarrow> True | _ \<Rightarrow> False" by code_simp
  moreover have "ss_endpoint (new_session ''s'' ''t'' ''u'' ''vm-1'') = ''vm-1''" by (simp add: new_session_def)
  ultimately show ?thesis
    using stop_forgets_only_released [OF demo_answered, where name = "''s''" and w = ?w]
    by (cases ?r; cases "fst ?r") auto
qed

section \<open>The daemon writes back what it read\<close>


text \<open>The session is stopped by another process while the ping is under way.\<close>

abbreviation stopped_meanwhile :: "string \<Rightarrow> sessions \<times> string list \<Rightarrow> (client_error, unit) outcome \<times> sessions \<times> string list" where
  "stopped_meanwhile \<equiv> \<lambda>e (f, h). (Inr (), [], List.filter (\<lambda>x. x \<noteq> e) h)"


section \<open>The daemon ends\<close>

text \<open>
  The console on a clock that only the daemon's own sleeps move, beside any machine:
  the slowest of the clocks that go forward.
\<close>

definition slept_colab_calls :: "'w colab \<Rightarrow> ('w \<times> rat) colab" where
  "slept_colab_calls co = \<lparr>co_assign = (\<lambda>opts. beside (co_assign co opts)), co_unassign = (\<lambda>e. beside (co_unassign co e)),
     co_list = beside (co_list co), co_keep_alive = (\<lambda>e. beside (co_keep_alive co e)), co_ccu = beside (co_ccu co)\<rparr>"

definition slept_console :: "'w console \<Rightarrow> ('w \<times> rat) console" where
  "slept_console cs = \<lparr>cs_colab = slept_colab_calls (cs_colab cs), cs_assignments = beside (cs_assignments cs),
     cs_get = (\<lambda>n. beside (cs_get cs n)), cs_list = beside (cs_list cs),
     cs_add = (\<lambda>s (w, m). (cs_add cs s w, m)), cs_remove = (\<lambda>n (w, m). (cs_remove cs n w, m)),
     cs_spawn = (\<lambda>e n. beside (cs_spawn cs e n)), cs_kill = (\<lambda>p (w, m). (cs_kill cs p w, m)),
     cs_alive = (\<lambda>p. beside (cs_alive cs p)), cs_shutdown = (\<lambda>s (w, m). (cs_shutdown cs s w, m)),
     cs_now = beside (cs_now cs), cs_time = (\<lambda>(w, m). (m, w, m)), cs_sleep = (\<lambda>d (w, m). (cs_sleep cs d w, m + d)),
     cs_log = (\<lambda>n k d (w, m). (cs_log cs n k d w, m))\<rparr>"

lemma slept_pass:
  assumes "ka_pass (slept_console cs) endpoint name st (w, m) = (r, st', w', m')"
  shows "m' = m \<and> ka_iterations st' = ka_iterations st + 1"
proof -
  obtain x w1 where g: "cs_get cs name w = (x, w1)" by (metis prod.collapse)
  show ?thesis
  proof (cases x)
    case None
    then show ?thesis using assms by (auto simp: ka_pass_def slept_console_def beside_def g)
  next
    case (Some s)
    obtain k w2 where k: "co_keep_alive (cs_colab cs) (ss_endpoint s) w1 = (k, w2)" by (metis prod.collapse)
    obtain t w3 where n: "cs_now cs w2 = (t, w3)" by (metis prod.collapse)
    show ?thesis
      using assms Some
      by (cases k) (auto simp: ka_pass_def ka_ping_def slept_console_def slept_colab_calls_def beside_def g k n Let_def
          split: if_splits)
  qed
qed

lemma ka_loop_returns:
  "m - started = of_nat (ka_iterations st) * ping_interval \<Longrightarrow> ka_iterations st + k = 1440 \<Longrightarrow>
     case ka_loop (slept_console cs) endpoint name started st (w, m) of
       None \<Rightarrow> False | Some (r, st', _) \<Rightarrow> ka_iterations st' \<le> 1440"
proof (induction k arbitrary: m st w)
  case 0
  then have "\<not> m - started < max_duration" by (simp add: max_duration_def ping_interval_def)
  then show ?case using 0 by (subst ka_loop.simps) (simp add: slept_console_def)
next
  case (Suc k)
  obtain r st1 w1 m1 where p: "ka_pass (slept_console cs) endpoint name st (w, m) = (r, st1, w1, m1)" by (metis prod.collapse)
  have m1: "m1 = m" "ka_iterations st1 = ka_iterations st + 1" using slept_pass [OF p] by simp_all
  have sleep: "cs_sleep (slept_console cs) ping_interval (w1, m) = (cs_sleep cs ping_interval w1, m + ping_interval)"
    by (simp add: slept_console_def)
  have t: "cs_time (slept_console cs) (w, m) = (m, w, m)" by (simp add: slept_console_def)
  have "case ka_loop (slept_console cs) endpoint name started st1 (cs_sleep cs ping_interval w1, m + ping_interval) of
      None \<Rightarrow> False | Some (r, st', _) \<Rightarrow> ka_iterations st' \<le> 1440"
    by (rule Suc.IH) (use Suc.prems m1 in \<open>simp_all add: algebra_simps\<close>)
  then show ?case
    using Suc.prems m1 by (subst ka_loop.simps) (cases r; simp add: t p sleep)
qed

text \<open>
  C32. The keep-alive daemon ends, within 1440 pings, whatever the API answers and whatever
  becomes of its session, even if the clock moves by nothing but its own sleeps.
\<close>

theorem daemon_ends:
  "case keep_alive to_hundredth own_pid (slept_console cs) endpoint name w of
     None \<Rightarrow> False
   | Some (r, st, _) \<Rightarrow> ka_iterations st \<le> 1440"
proof -
  obtain v m where w: "w = (v, m)" by (cases w)
  let ?w = "cs_log cs name ''keep_alive_started'' [(''endpoint'', JStr endpoint), (''pid'', JInt own_pid)] v"
  have "case ka_loop (slept_console cs) endpoint name m ka_init (?w, m) of
      None \<Rightarrow> False | Some (r, st, _) \<Rightarrow> ka_iterations st \<le> 1440"
    by (rule ka_loop_returns [where k = 1440]) (simp_all add: ka_init_def)
  then show ?thesis
    by (auto simp: keep_alive_def w split: option.splits prod.splits) (auto simp: slept_console_def)
qed

end
