(* ===== verification/Adopt.thy ===== *)
theory Adopt
  imports Sessions
begin

text \<open>
  Which sessions this machine tracks: \<open>commands/adopt.py\<close>, and of \<open>common.py\<close> the
  reconciliation of the session file with the VMs the server lists.  The text of an
  \<open>Exits\<close> abbreviates the message that is printed.
\<close>

section \<open>adopt\<close>

definition find_by_endpoint :: "sessions \<Rightarrow> string \<Rightarrow> session_state option" where
  "find_by_endpoint m endpoint = find (\<lambda>s. ss_endpoint s = endpoint) (map snd m)"

definition has_proxy_info :: "listed_vm \<Rightarrow> bool" where
  "has_proxy_info a \<longleftrightarrow> lv_token a \<noteq> [] \<and> lv_url a \<noteq> []"

definition session_from_assignment :: "listed_vm \<Rightarrow> string \<Rightarrow> session_state" where
  "session_from_assignment a name =
     (new_session name (lv_token a) (lv_url a) (lv_endpoint a))
       \<lparr>ss_variant := lv_variant a, ss_accelerator := lv_accelerator a, ss_machine_shape := lv_shape a\<rparr>"

text \<open>Adopt never releases the VM: it did not create it.\<close>

definition preflight_keep_alive :: "'w console \<Rightarrow> session_state \<Rightarrow> 'w \<Rightarrow> session_state ending \<times> 'w" where
  "preflight_keep_alive cs s w =
     (case co_keep_alive (cs_colab cs) (ss_endpoint s) w of
        (Inr _, w) \<Rightarrow> (case cs_now cs w of (at_time, w) \<Rightarrow> (Returned (record_keep_alive_success at_time s), w))
      | (Inl e, w) \<Rightarrow>
          ((if \<not> cl_colab_request_error e then Client_Raised e
            else if ae_status (cl_error e) = Some 403 \<and> is_scope_error e then Exits 1 ''auth_scope_missing''
            else Returned (record_keep_alive_failure s)), w))"

text \<open>The daemon of a session, if one is wanted: pinged and saved first.\<close>

definition with_daemon :: "'w console \<Rightarrow> bool \<Rightarrow> session_state \<Rightarrow> 'w \<Rightarrow> session_state ending \<times> 'w" where
  "with_daemon cs wanted s w =
     (if \<not> wanted then (Returned s, w)
      else
        (case preflight_keep_alive cs s w of
           (Returned s, w) \<Rightarrow>
             (case cs_spawn cs (ss_endpoint s) (ss_name s) (cs_add cs s w) of
                (Inl e, w) \<Rightarrow> (Py_Raised e, w)
              | (Inr pid, w) \<Rightarrow> (Returned (s\<lparr>ss_keep_alive_pid := Some pid\<rparr>), w))
         | r \<Rightarrow> r))"

definition save_with :: "'w console \<Rightarrow> bool \<Rightarrow> string \<Rightarrow> (session_state \<Rightarrow> json_obj) \<Rightarrow> session_state \<Rightarrow> 'w \<Rightarrow> string ending \<times> 'w" where
  "save_with cs wanted event details s w =
     (case with_daemon cs wanted s w of
        (Returned s, w) \<Rightarrow> (Returned event, cs_log cs (ss_name s) event (details s) (cs_add cs s w))
      | (Exits n r, w) \<Rightarrow> (Exits n r, w)
      | (Client_Raised e, w) \<Rightarrow> (Client_Raised e, w)
      | (Py_Raised e, w) \<Rightarrow> (Py_Raised e, w))"

definition refreshed :: "listed_vm \<Rightarrow> session_state \<Rightarrow> session_state" where
  "refreshed a s =
     s\<lparr>ss_token := lv_token a, ss_url := lv_url a, ss_variant := lv_variant a, ss_accelerator := lv_accelerator a\<rparr>"

definition has_pid :: "session_state \<Rightarrow> bool" where
  "has_pid s = (case ss_keep_alive_pid s of None \<Rightarrow> False | Some p \<Rightarrow> p \<noteq> 0)"

definition listed_as :: "listed_vm list \<Rightarrow> string \<Rightarrow> listed_vm option" where
  "listed_as as endpoint = find (\<lambda>a. lv_endpoint a = endpoint) as"

definition refresh_endpoint :: "'w console \<Rightarrow> session_state \<Rightarrow> bool \<Rightarrow> 'w \<Rightarrow> string ending \<times> 'w" where
  "refresh_endpoint cs s keep w =
     (case cs_assignments cs w of
        (Inl e, w) \<Rightarrow> (Client_Raised e, w)
      | (Inr as, w) \<Rightarrow>
          (case listed_as as (ss_endpoint s) of
             None \<Rightarrow> (Exits 1 ''no longer active'', w)
           | Some a \<Rightarrow>
               if \<not> has_proxy_info a then (Exits 1 ''cannot be refreshed'', w)
               else save_with cs (keep \<and> \<not> has_pid s) ''session_refreshed''
                      (\<lambda>s. [(''endpoint'', JStr (ss_endpoint s))]) (refreshed a s) w))"

definition adopted_event :: "bool \<Rightarrow> session_state \<Rightarrow> json_obj" where
  "adopted_event keep s = [(''endpoint'', JStr (ss_endpoint s)), (''keep_alive'', JBool keep)]"

definition adopt_endpoint :: "'w console \<Rightarrow> string \<Rightarrow> string option \<Rightarrow> bool \<Rightarrow> 'w \<Rightarrow> string ending \<times> 'w" where
  "adopt_endpoint cs endpoint name keep w =
     (case cs_list cs w of
        (m, w) \<Rightarrow>
          (let session_name = (case name of None \<Rightarrow> endpoint | Some n \<Rightarrow> if n = [] then endpoint else n) in
           case find_by_endpoint m endpoint of
             Some s \<Rightarrow>
               if ss_name s = session_name then refresh_endpoint cs s keep w
               else (Returned ''nothing to do'', w)
           | None \<Rightarrow>
               if map_of m session_name \<noteq> None then (Exits 1 ''name taken'', w)
               else
                 (case cs_assignments cs w of
                    (Inl e, w) \<Rightarrow> (Client_Raised e, w)
                  | (Inr as, w) \<Rightarrow>
                      (case listed_as as endpoint of
                         None \<Rightarrow> (Exits 1 ''No active assignment'', w)
                       | Some a \<Rightarrow>
                           if \<not> has_proxy_info a then (Exits 1 ''cannot be adopted'', w)
                           else save_with cs keep ''session_adopted'' (adopted_event keep)
                                  (session_from_assignment a session_name) w))))"

text \<open>\<open>known\<close> is the session file as it was read before the server was asked.\<close>

fun adopt_each :: "'w console \<Rightarrow> bool \<Rightarrow> sessions \<Rightarrow> listed_vm list \<Rightarrow> nat \<Rightarrow> 'w \<Rightarrow> nat ending \<times> 'w" where
  "adopt_each cs keep known [] n w = (Returned n, w)"
| "adopt_each cs keep known (a # as) n w =
     (if map_of known (lv_endpoint a) \<noteq> None \<or> \<not> has_proxy_info a then adopt_each cs keep known as n w
      else
        (case save_with cs keep ''session_adopted'' (adopted_event keep) (session_from_assignment a (lv_endpoint a)) w of
           (Returned _, w) \<Rightarrow> adopt_each cs keep known as (n + 1) w
         | (Exits c r, w) \<Rightarrow> (Exits c r, w)
         | (Client_Raised e, w) \<Rightarrow> (Client_Raised e, w)
         | (Py_Raised e, w) \<Rightarrow> (Py_Raised e, w)))"

definition adopt_all_orphans :: "'w console \<Rightarrow> bool \<Rightarrow> 'w \<Rightarrow> nat ending \<times> 'w" where
  "adopt_all_orphans cs keep w =
     (case cs_list cs w of
        (known, w) \<Rightarrow>
          (case cs_assignments cs w of
             (Inl e, w) \<Rightarrow> (Client_Raised e, w)
           | (Inr as, w) \<Rightarrow>
               adopt_each cs keep known (List.filter (\<lambda>a. find_by_endpoint known (lv_endpoint a) = None) as) 0 w))"

definition adopt_command :: "'w console \<Rightarrow> string option \<Rightarrow> bool \<Rightarrow> string option \<Rightarrow> bool \<Rightarrow> 'w \<Rightarrow> string ending \<times> 'w" where
  "adopt_command cs endpoint orphanage name keep w =
     (case endpoint of
        Some (c # e) \<Rightarrow>
          if orphanage then (Exits 2 ''Provide either ENDPOINT or --orphanage, not both'', w)
          else adopt_endpoint cs (c # e) name keep w
      | _ \<Rightarrow>
          if orphanage then
            (case adopt_all_orphans cs keep w of
               (Returned n, w) \<Rightarrow> (Returned (show_nat n), w)
             | (Exits n r, w) \<Rightarrow> (Exits n r, w)
             | (Client_Raised e, w) \<Rightarrow> (Client_Raised e, w)
             | (Py_Raised e, w) \<Rightarrow> (Py_Raised e, w))
          else (Exits 2 ''Provide an ENDPOINT to adopt, or use --orphanage to adopt all'', w))"

section \<open>The file and the server\<close>

text \<open>
  \<open>prune_session\<close>: the record goes only when the server does not list its VM; one it
  lists gets the listed token and address.  \<open>True\<close> is a removal.
\<close>

definition drop_session_record :: "'w console \<Rightarrow> string \<Rightarrow> session_state option \<Rightarrow> 'w \<Rightarrow> bool \<times> 'w" where
  "drop_session_record cs name s w =
     (True, cs_log cs name ''session_terminated'' [(''reason'', JStr ''pruned'')]
        (cs_remove cs name (kill_if cs (Option.bind s ss_keep_alive_pid) w)))"

definition prune_session :: "'w console \<Rightarrow> bool \<Rightarrow> string \<Rightarrow> 'w \<Rightarrow> bool \<times> 'w" where
  "prune_session cs confirmed_absent name w =
     (case cs_get cs name w of
        (s, w) \<Rightarrow>
          (case (s, confirmed_absent) of
             (Some s', False) \<Rightarrow>
               (case cs_assignments cs w of
                  (Inl e, w) \<Rightarrow> (False, w)
                | (Inr as, w) \<Rightarrow>
                    (case listed_as as (ss_endpoint s') of
                       Some a \<Rightarrow>
                         (False, if lv_token a \<noteq> ss_token s' \<or> lv_url a \<noteq> ss_url s'
                            then cs_add cs (s'\<lparr>ss_token := lv_token a, ss_url := lv_url a\<rparr>) w else w)
                     | None \<Rightarrow> drop_session_record cs name s w))
           | _ \<Rightarrow> drop_session_record cs name s w))"

fun prune_stale :: "'w console \<Rightarrow> string list \<Rightarrow> sessions \<Rightarrow> sessions \<Rightarrow> 'w \<Rightarrow> sessions \<times> 'w" where
  "prune_stale cs active [] remaining w = (remaining, w)"
| "prune_stale cs active ((name, s) # m) remaining w =
     (if ss_endpoint s \<in> set active then prune_stale cs active m remaining w
      else prune_stale cs active m (List.filter (\<lambda>(k, _). k \<noteq> name) remaining) (snd (prune_session cs True name w)))"

text \<open>\<open>sync_sessions\<close> of a process that has not read the sessions yet; \<open>unauthenticated\<close> says which failures are of the login.\<close>

definition sync_sessions ::
  "'w console \<Rightarrow> (client_error \<Rightarrow> bool) \<Rightarrow> 'w \<Rightarrow> (client_error, sessions \<times> listed_vm list) outcome \<times> 'w" where
  "sync_sessions cs unauthenticated w =
     (case cs_list cs w of
        (m, w) \<Rightarrow>
          (case cs_assignments cs w of
             (Inl e, w) \<Rightarrow> (if m = [] \<and> unauthenticated e then Inr ([], []) else Inl e, w)
           | (Inr as, w) \<Rightarrow>
               (case prune_stale cs (map lv_endpoint as) m m w of (remaining, w) \<Rightarrow> (Inr (remaining, as), w))))"

definition no_sessions_text :: string where
  "no_sessions_text = ''No active sessions found. Create one with '' @ [CHR 0x27] @ ''colab new'' @ [CHR 0x27] @ ''.''"

definition resolve_session ::
  "'w console \<Rightarrow> (client_error \<Rightarrow> bool) \<Rightarrow> string option \<Rightarrow> 'w \<Rightarrow> string ending \<times> 'w" where
  "resolve_session cs unauthenticated name w =
     (case name of
        Some (c # s) \<Rightarrow> (Returned (c # s), w)
      | _ \<Rightarrow>
          (case cs_list cs w of
             (m, w) \<Rightarrow>
               if m = [] then (Exits 1 no_sessions_text, w)
               else
                 (case sync_sessions cs unauthenticated w of
                    (Inl e, w) \<Rightarrow> (Client_Raised e, w)
                  | (Inr (remaining, _), w) \<Rightarrow>
                      ((case map fst remaining of
                          [] \<Rightarrow> Exits 1 no_sessions_text
                        | [n] \<Rightarrow> Returned n
                        | names \<Rightarrow> Exits 1 (''Multiple active sessions found. Specify one with -s: '' @ join '', '' names)), w))))"

text \<open>\<open>sessions\<close>: a row for each VM the server lists.\<close>

fun session_rows :: "'w console \<Rightarrow> fiso \<Rightarrow> int \<Rightarrow> sessions \<Rightarrow> listed_vm list \<Rightarrow> 'w \<Rightarrow> json_obj list \<times> 'w" where
  "session_rows cs fiso now m [] w = ([], w)"
| "session_rows cs fiso now m (a # as) w =
     (let own = find_by_endpoint (rev m) (lv_endpoint a) in
      case (case Option.bind own ss_keep_alive_pid of
              None \<Rightarrow> (False, w) | Some pid \<Rightarrow> if pid = 0 then (False, w) else cs_alive cs pid w) of
        (living, w) \<Rightarrow>
          (case session_rows cs fiso now m as w of
             (rows, w) \<Rightarrow> (session_row fiso now a own living # rows, w)))"

definition sessions_command ::
  "'w console \<Rightarrow> (client_error \<Rightarrow> bool) \<Rightarrow> fiso \<Rightarrow> int \<Rightarrow> 'w \<Rightarrow> (client_error, json_obj list) outcome \<times> 'w" where
  "sessions_command cs unauthenticated fiso now w =
     (case sync_sessions cs unauthenticated w of
        (Inl e, w) \<Rightarrow> (Inl e, w)
      | (Inr (m, as), w) \<Rightarrow> (case session_rows cs fiso now m as w of (rows, w) \<Rightarrow> (Inr rows, w)))"

section \<open>Adopting rebinds no name\<close>

definition listed_alone :: "('w \<Rightarrow> sessions) \<Rightarrow> 'w console \<Rightarrow> bool" where
  "listed_alone file cs \<longleftrightarrow> alone file cs \<and> (\<forall>w. file (snd (cs_assignments cs w)) = file w)"

definition keyed :: "sessions \<Rightarrow> bool" where
  "keyed m \<longleftrightarrow> distinct (map fst m) \<and> list_all (\<lambda>(k, s). ss_name s = k) m"

text \<open>Every name that is bound stays bound to its VM.\<close>

definition same_bindings :: "sessions \<Rightarrow> sessions \<Rightarrow> bool" where
  "same_bindings f f' \<longleftrightarrow>
     (\<forall>n. case map_of f n of
        None \<Rightarrow> True
      | Some s \<Rightarrow> (case map_of f' n of None \<Rightarrow> False | Some t \<Rightarrow> ss_endpoint t = ss_endpoint s))"

definition binds_only :: "session_state \<Rightarrow> sessions \<Rightarrow> sessions \<Rightarrow> bool" where
  "binds_only s f f' \<longleftrightarrow>
     (\<forall>n. map_of f' n = map_of f n
        \<or> n = ss_name s \<and> (case map_of f' n of None \<Rightarrow> False | Some t \<Rightarrow> ss_endpoint t = ss_endpoint s))"

lemma binds_only_refl [simp]: "binds_only s f f"
  by (simp add: binds_only_def)

lemma binds_only_set:
  "binds_only s f f' \<Longrightarrow> n = ss_name s \<Longrightarrow> ss_endpoint t = ss_endpoint s \<Longrightarrow> binds_only s f (dict_set n t f')"
  by (auto simp: binds_only_def)

lemma binds_same:
  assumes "binds_only s f f'"
    and "case map_of f (ss_name s) of None \<Rightarrow> True | Some t \<Rightarrow> ss_endpoint t = ss_endpoint s"
  shows "same_bindings f f'"
  unfolding same_bindings_def
proof
  fix n
  show "case map_of f n of None \<Rightarrow> True
      | Some s \<Rightarrow> (case map_of f' n of None \<Rightarrow> False | Some t \<Rightarrow> ss_endpoint t = ss_endpoint s)"
  proof (cases "map_of f' n = map_of f n")
    case False
    then have "n = ss_name s" "case map_of f' n of None \<Rightarrow> False | Some t \<Rightarrow> ss_endpoint t = ss_endpoint s"
      using assms(1) unfolding binds_only_def by blast+
    then show ?thesis using assms(2) by (simp split: option.splits)
  qed (simp split: option.split)
qed

lemma same_bindings_refl [simp]: "same_bindings f f"
  by (simp add: same_bindings_def split: option.split)

lemma with_daemon_binds:
  assumes f: "session_file file cs" and a: "alone file cs" and r: "with_daemon cs wanted s w = (r, w')"
  shows "binds_only s (file w) (file w')
    \<and> (case r of Returned t \<Rightarrow> ss_name t = ss_name s \<and> ss_endpoint t = ss_endpoint s | _ \<Rightarrow> True)"
proof (cases wanted)
  case False
  then show ?thesis using r by (auto simp: with_daemon_def)
next
  case True
  obtain k w1 where k: "co_keep_alive (cs_colab cs) (ss_endpoint s) w = (k, w1)" by (metis prod.collapse)
  obtain t w2 where n: "cs_now cs w1 = (t, w2)" by (metis prod.collapse)
  have keep: "file w1 = file w" "file w2 = file w"
    using aloneD(3) [OF a k] session_fileD(8) [OF f n] by simp_all
  obtain p w3 where p: "preflight_keep_alive cs s w = (p, w3)" by (metis prod.collapse)
  have w3: "file w3 = file w"
    and t: "case p of Returned t \<Rightarrow> ss_name t = ss_name s \<and> ss_endpoint t = ss_endpoint s | _ \<Rightarrow> True"
    using p keep by (auto simp: preflight_keep_alive_def k n split: sum.splits if_splits)
  show ?thesis
  proof (cases p)
    case (Returned t)
    obtain q w4 where q: "cs_spawn cs (ss_endpoint t) (ss_name t) (cs_add cs t w3) = (q, w4)" by (metis prod.collapse)
    have "binds_only s (file w) (file w4)"
      unfolding session_fileD(5) [OF f q] session_fileD(3) [OF f] w3
      using t Returned by (intro binds_only_set) simp_all
    then show ?thesis
      using r True t Returned by (cases q) (auto simp: with_daemon_def p q)
  qed (use r True w3 in \<open>auto simp: with_daemon_def p\<close>)
qed

lemma save_with_binds:
  assumes f: "session_file file cs" and a: "alone file cs" and r: "save_with cs wanted event details s w = (r, w')"
  shows "binds_only s (file w) (file w')"
proof -
  obtain p w1 where p: "with_daemon cs wanted s w = (p, w1)" by (metis prod.collapse)
  note b = with_daemon_binds [OF f a p]
  show ?thesis
  proof (cases p)
    case (Returned t)
    then have "w' = cs_log cs (ss_name t) event (details t) (cs_add cs t w1)" using r by (simp add: save_with_def p)
    then show ?thesis using b Returned by (simp add: session_fileD(3,9) [OF f] binds_only_set)
  qed (use r b in \<open>simp_all add: save_with_def p\<close>)
qed

lemma keyed_map_of:
  assumes "keyed m" "find_by_endpoint m endpoint = Some s"
  shows "map_of m (ss_name s) = Some s \<and> ss_endpoint s = endpoint"
proof -
  have "s \<in> snd ` set m" "ss_endpoint s = endpoint"
    using assms(2) by (auto simp: find_by_endpoint_def find_Some_iff)
  moreover from this obtain k where "(k, s) \<in> set m" by auto
  ultimately show ?thesis using assms(1) by (auto simp: keyed_def list_all_iff intro!: map_of_is_SomeI)
qed

lemma refreshed_fields [simp]: "ss_name (refreshed a s) = ss_name s" "ss_endpoint (refreshed a s) = ss_endpoint s"
  by (simp_all add: refreshed_def)

lemma from_assignment_fields [simp]:
  "ss_name (session_from_assignment a n) = n" "ss_endpoint (session_from_assignment a n) = lv_endpoint a"
  by (simp_all add: session_from_assignment_def new_session_def)

lemma same_bindings_add:
  assumes "same_bindings known f" "binds_only s f f'" "map_of known (ss_name s) = None"
  shows "same_bindings known f'"
  unfolding same_bindings_def
proof
  fix n
  have "n = ss_name s \<or> map_of f' n = map_of f n" using assms(2) by (auto simp: binds_only_def)
  then show "case map_of known n of None \<Rightarrow> True
      | Some s \<Rightarrow> (case map_of f' n of None \<Rightarrow> False | Some t \<Rightarrow> ss_endpoint t = ss_endpoint s)"
    using assms(1) [unfolded same_bindings_def, THEN spec, of n] assms(3) by (cases "map_of known n") auto
qed

lemma adopt_each_binds:
  assumes "session_file file cs" "alone file cs"
  shows "same_bindings known (file w) \<Longrightarrow> adopt_each cs keep known as n w = (r, w') \<Longrightarrow> same_bindings known (file w')"
proof (induction as arbitrary: n w)
  case Nil
  then show ?case by simp
next
  case (Cons a as)
  show ?case
  proof (cases "map_of known (lv_endpoint a) \<noteq> None \<or> \<not> has_proxy_info a")
    case True
    then show ?thesis using Cons by auto
  next
    case False
    obtain p w1 where p: "save_with cs keep ''session_adopted'' (adopted_event keep) (session_from_assignment a (lv_endpoint a)) w
        = (p, w1)" by (metis prod.collapse)
    have b: "same_bindings known (file w1)"
      using same_bindings_add [OF Cons.prems(1) save_with_binds [OF assms p]] False by simp
    show ?thesis using Cons.IH [OF b] Cons.prems(2) False b p by (cases p) auto
  qed
qed

text \<open>
  C35. \<open>adopt\<close>, of one VM or of all orphans, with or without a daemon and however it ends,
  rebinds no name: every session that was on file is still there and names the VM it
  named.
\<close>

theorem adopt_rebinds_nothing:
  assumes "session_file file cs" and "listed_alone file cs" and "keyed (file w)"
  shows "same_bindings (file w) (file (snd (adopt_command cs endpoint orphanage name keep w)))"
proof -
  note f = assms(1) and fd = session_fileD [OF assms(1)]
  have a: "alone file cs" and l: "\<And>x w' w. cs_assignments cs w = (x, w') \<Longrightarrow> file w' = file w"
    using assms(2) by (auto simp: listed_alone_def) (metis snd_conv)
  have one: "same_bindings (file w) (file (snd (adopt_endpoint cs e name keep w)))" for e
  proof -
    let ?n = "case name of None \<Rightarrow> e | Some n \<Rightarrow> if n = [] then e else n"
    obtain x w1 where x: "cs_assignments cs w = (x, w1)" by (metis prod.collapse)
    note w1 = l [OF x]
    show ?thesis
    proof (cases "find_by_endpoint (file w) e")
      case (Some s)
      note s = keyed_map_of [OF assms(3) Some]
      have "same_bindings (file w) (file (snd (refresh_endpoint cs s keep w)))"
      proof (cases x)
        case (Inl err)
        then show ?thesis by (simp add: refresh_endpoint_def x w1)
      next
        case (Inr as)
        have "same_bindings (file w1) (file (snd (save_with cs g ev d (refreshed v s) w1)))" for g ev d v
          using s w1 by (intro binds_same [OF save_with_binds [OF f a prod.collapse [symmetric]]]) simp
        then show ?thesis using w1 by (simp add: refresh_endpoint_def x Inr split: option.split)
      qed
      then show ?thesis by (simp add: adopt_endpoint_def fd(2) Let_def Some)
    next
      case None
      show ?thesis
      proof (cases "map_of (file w) ?n = None \<and> (case x of Inl _ \<Rightarrow> False | Inr as \<Rightarrow> True)")
        case False
        then show ?thesis
          using w1 by (cases x) (auto simp: adopt_endpoint_def fd(2) Let_def None x)
      next
        case True
        then obtain as where as: "x = Inr as" by (cases x) auto
        have "same_bindings (file w1) (file (snd (save_with cs g ev d (session_from_assignment v ?n) w1)))" for g ev d v
          using True w1 by (intro binds_same [OF save_with_binds [OF f a prod.collapse [symmetric]]]) simp
        then show ?thesis using w1 True
          by (simp add: adopt_endpoint_def fd(2) Let_def None x as split: option.split)
      qed
    qed
  qed
  have all: "same_bindings (file w) (file (snd (adopt_all_orphans cs keep w)))"
  proof -
    obtain x w1 where x: "cs_assignments cs w = (x, w1)" by (metis prod.collapse)
    show ?thesis
      using adopt_each_binds [OF f a _ prod.collapse [symmetric], of "file w" w1] l [OF x]
      by (cases x) (simp_all add: adopt_all_orphans_def fd(2) x)
  qed
  obtain r w' where r: "adopt_all_orphans cs keep w = (r, w')" by (metis prod.collapse)
  have "snd (adopt_command cs endpoint orphanage name keep w) \<in> {w, w'} \<union> (\<lambda>e. snd (adopt_endpoint cs e name keep w)) ` UNIV"
    by (cases r) (auto simp: adopt_command_def r split: option.split list.split)
  then show ?thesis using one all r by auto
qed

text \<open>A second VM is listed, and adopted under a name of its own.\<close>

definition listing_console :: "(sessions \<times> string list) console" where
  "listing_console = (demo_console answered)\<lparr>cs_assignments := (\<lambda>w. (Inr [\<lparr>lv_endpoint = ''vm-2'', lv_accelerator = ''T4'',
     lv_variant = ''GPU'', lv_shape = ''STANDARD'', lv_token = ''t2'', lv_url = ''u2''\<rparr>], w))\<rparr>"

lemma listing_console: "session_file fst listing_console" "listed_alone fst listing_console"
  by (simp_all add: listing_console_def session_file_def listed_alone_def alone_def demo_console_def demo_colab_def split: prod.split)

definition one_session :: "sessions \<times> string list" where
  "one_session = ([(''s'', new_session ''s'' ''t'' ''u'' ''vm-1'')], [''vm-1'', ''vm-2''])"

lemma one_session_keyed: "keyed (fst one_session)"
  by (simp add: keyed_def one_session_def new_session_def)

theorem adopt_rebinds_nothing_witness:
  "map (ss_endpoint \<circ> snd) (fst (snd (adopt_command listing_console None True None True one_session))) = [''vm-1'', ''vm-2'']
   \<and> same_bindings (fst one_session) (fst (snd (adopt_command listing_console None True None True one_session)))"
proof
  show "map (ss_endpoint \<circ> snd) (fst (snd (adopt_command listing_console None True None True one_session))) = [''vm-1'', ''vm-2'']"
    by code_simp
  show "same_bindings (fst one_session) (fst (snd (adopt_command listing_console None True None True one_session)))"
    by (rule adopt_rebinds_nothing [OF listing_console one_session_keyed])
qed

section \<open>A sync forgets exactly the VMs that are not listed\<close>

lemma prune_stale_file:
  assumes f: "session_file file cs"
  shows "prune_stale cs active m rest w = (rest', w') \<Longrightarrow>
    (let stale = fst ` set (List.filter (\<lambda>(k, s). ss_endpoint s \<notin> set active) m) in
     rest' = List.filter (\<lambda>e. fst e \<notin> stale) rest \<and> file w' = List.filter (\<lambda>e. fst e \<notin> stale) (file w))"
proof (induction m arbitrary: rest w)
  case Nil
  then show ?case by (simp add: split_beta)
next
  case (Cons e m)
  obtain name s where e: "e = (name, s)" by (cases e)
  note fd = session_fileD [OF f]
  have p: "file (snd (prune_session cs True name w)) = List.filter (\<lambda>(k, _). k \<noteq> name) (file w)"
    by (simp add: prune_session_def drop_session_record_def fd kill_if_def split: option.split)
  show ?case
  proof (cases "ss_endpoint s \<in> set active")
    case True
    then show ?thesis using Cons by (simp add: e)
  next
    case False
    then have "prune_stale cs active m (List.filter (\<lambda>(k, _). k \<noteq> name) rest) (snd (prune_session cs True name w)) = (rest', w')"
      using Cons.prems by (simp add: e)
    from Cons.IH [OF this] show ?thesis using False
      by (simp add: e p Let_def split_beta conj_commute)
  qed
qed

lemma stale_names:
  assumes "distinct (map fst m)"
  shows "List.filter (\<lambda>e. fst e \<notin> fst ` set (List.filter (\<lambda>(k, s). \<not> P s) m)) m = List.filter (\<lambda>(k, s). P s) m"
proof (rule filter_cong [OF refl])
  fix e assume e: "e \<in> set m"
  obtain k t where k: "e = (k, t)" by (cases e)
  have same: "u = t" if "(k, u) \<in> set m" for u
    by (rule eq_key_imp_eq_value [OF assms that]) (use e k in simp)
  have "k \<in> fst ` set (List.filter (\<lambda>(k, s). \<not> P s) m) \<longleftrightarrow> (\<exists>u. (k, u) \<in> set m \<and> \<not> P u)"
    by (auto simp: image_def)
  also have "\<dots> \<longleftrightarrow> \<not> P t" using same e unfolding k by blast
  finally show "(fst e \<notin> fst ` set (List.filter (\<lambda>(k, s). \<not> P s) m)) = (case e of (k, s) \<Rightarrow> P s)"
    by (simp add: k)
qed

text \<open>
  C36. A sync removes from the session file exactly the sessions whose VM a completed
  listing does not hold, in the order of the file, and what it returns is the file; one
  that cannot list the VMs removes nothing.
\<close>

theorem sync_forgets_the_unlisted:
  assumes "session_file file cs" and "listed_alone file cs" and "keyed (file w)"
  shows "case sync_sessions cs unauthenticated w of
     (Inl e, w') \<Rightarrow> file w' = file w
   | (Inr (m, as), w') \<Rightarrow>
       m = file w' \<and> file w' = List.filter (\<lambda>(k, s). ss_endpoint s \<in> set (map lv_endpoint as)) (file w)"
proof -
  note fd = session_fileD [OF assms(1)]
  obtain x w1 where x: "cs_assignments cs w = (x, w1)" by (metis prod.collapse)
  have w1: "file w1 = file w" using assms(2) x by (auto simp: listed_alone_def) (metis snd_conv)
  show ?thesis
  proof (cases x)
    case (Inl e)
    then show ?thesis using w1 by (simp add: sync_sessions_def fd(2) x)
  next
    case (Inr as)
    obtain rest w2 where p: "prune_stale cs (map lv_endpoint as) (file w) (file w) w1 = (rest, w2)" by (metis prod.collapse)
    have "distinct (map fst (file w))" using assms(3) by (simp add: keyed_def)
    note stale_names [OF this, of "\<lambda>s. ss_endpoint s \<in> set (map lv_endpoint as)"]
    then show ?thesis
      using prune_stale_file [OF assms(1) p] w1 by (simp add: sync_sessions_def fd(2) x Inr p Let_def)
  qed
qed

theorem sync_forgets_the_unlisted_witness:
  "case sync_sessions listing_console (\<lambda>e. False) one_session of
     (Inl e, w') \<Rightarrow> False
   | (Inr (m, as), w') \<Rightarrow> m = [] \<and> fst w' = []"
proof -
  have 1: "case sync_sessions listing_console (\<lambda>e. False) one_session of (Inl e, w') \<Rightarrow> False
      | (Inr (m, as), w') \<Rightarrow> map lv_endpoint as = [''vm-2'']" by code_simp
  have 2: "map (ss_endpoint \<circ> snd) (fst one_session) = [''vm-1'']" by code_simp
  then obtain s where 3: "fst one_session = [s]" "ss_endpoint (snd s) = ''vm-1''" by (auto simp: map_eq_Cons_conv)
  show ?thesis
    using sync_forgets_the_unlisted [OF listing_console one_session_keyed, of "\<lambda>e. False"] 1 3
    by (auto split: prod.splits sum.splits)
qed

end
