(* ===== verification/Mcp.thy ===== *)
theory Mcp
  imports Absorb Jobs Sessions
begin

text \<open>
  \<open>mcp_server.py\<close>, first half: the commands as MCP tools, what a call hands to a command
  and what it gives back.  The command objects of click are records of what the server reads
  of them.  The envelopes are those the commands themselves build: their rows are
  objects and their lists hold texts where they are joined.
\<close>

section \<open>The commands that are exposed\<close>

text \<open>
  \<open>pm_default\<close> is the default when it is a plain value and null otherwise, \<open>pm_get_default\<close> what
  \<open>get_default\<close> computes, and \<open>pm_convert\<close> the conversion of the parameter's type.
\<close>

record click_param =
  pm_name :: string
  pm_required :: bool
  pm_array :: bool
  pm_type :: string
  pm_choices :: "string list"
  pm_help :: string
  pm_convert :: "json \<Rightarrow> (string, json) outcome"
  pm_default :: json
  pm_get_default :: json

record click_command =
  cm_name :: string
  cm_hidden :: bool
  cm_params :: "click_param list"
  cm_help :: string

text \<open>A command of the top level: one of its own, or a group with its subcommands.\<close>

datatype entry = Leaf click_command | Group bool "(string \<times> click_command) list"

definition excluded_commands :: "string list" where
  "excluded_commands = [''ssh'', ''repl'', ''console'', ''edit'', ''drivemount'', ''mcp'', ''help'', ''pay'', ''job_apply'']"

definition entry_hidden :: "entry \<Rightarrow> bool" where
  "entry_hidden x = (case x of Leaf c \<Rightarrow> cm_hidden c | Group h _ \<Rightarrow> h)"

definition is_exposable :: "string \<Rightarrow> entry \<Rightarrow> bool" where
  "is_exposable name x \<longleftrightarrow> name \<notin> set excluded_commands \<and> \<not> entry_hidden x"

definition flat_group :: "string \<Rightarrow> (string \<times> click_command) list \<Rightarrow> (string \<times> click_command) list" where
  "flat_group name subs =
     List.filter (\<lambda>(flat, c). flat \<notin> set excluded_commands \<and> \<not> cm_hidden c)
       (map (\<lambda>(sub, c). (name @ ''_'' @ sub, c)) (sort_key fst subs))"

text \<open>A group without subcommands counts as a command of its own, which the caller gives as a leaf.\<close>

definition iter_exposable :: "(string \<times> entry) list \<Rightarrow> (string \<times> click_command) list" where
  "iter_exposable cmds =
     concat (map (\<lambda>(name, x).
         if \<not> is_exposable name x then []
         else (case x of Leaf c \<Rightarrow> [(name, c)] | Group _ subs \<Rightarrow> flat_group name subs))
       (sort_key fst cmds))"

definition command_params :: "click_command \<Rightarrow> click_param list" where
  "command_params c =
     List.filter (\<lambda>p. pm_name p \<noteq> [] \<and> pm_name p \<noteq> ''help'' \<and> \<not> (cm_name c = ''log'' \<and> pm_name p = ''follow'')) (cm_params c)"

definition scalar_type :: "click_param \<Rightarrow> string" where
  "scalar_type p =
     (if pm_type p = ''boolean'' then ''boolean'' else if pm_type p = ''integer'' then ''integer''
      else if pm_type p = ''float'' then ''number'' else ''string'')"

definition param_schema :: "click_param \<Rightarrow> json_obj" where
  "param_schema p =
     (let choices = (if pm_choices p = [] then [] else [(''enum'', JArr (map JStr (pm_choices p)))]) in
      (if pm_array p then [(''type'', JStr ''array''), (''items'', JObj ([(''type'', JStr (scalar_type p))] @ choices))]
       else [(''type'', JStr (scalar_type p))] @ choices)
      @ (if pm_help p = [] then [] else [(''description'', JStr (pm_help p))])
      @ (if pm_default p = JNull then [] else [(''default'', pm_default p)]))"

record tool =
  tl_name :: string
  tl_description :: string
  tl_schema :: json_obj

definition tool_of :: "string \<Rightarrow> string \<times> click_command \<Rightarrow> tool" where
  "tool_of app_version = (\<lambda>(name, c).
     (let required = map pm_name (List.filter pm_required (command_params c)) in
      \<lparr>tl_name = name,
       tl_description = (if name = ''version'' then ''Version: '' @ app_version else cm_help c),
       tl_schema = [(''type'', JStr ''object''),
           (''properties'', JObj (map (\<lambda>p. (pm_name p, JObj (param_schema p))) (command_params c)))]
         @ (if required = [] then [] else [(''required'', JArr (map JStr (sort required)))])\<rparr>))"

definition build_tools :: "string \<Rightarrow> (string \<times> entry) list \<Rightarrow> tool list" where
  "build_tools app_version cmds = map (tool_of app_version) (iter_exposable cmds)"

section \<open>A call\<close>

text \<open>The value of one parameter, or the name that is missing.\<close>

definition kwarg_of :: "json_obj \<Rightarrow> click_param \<Rightarrow> (string, json option \<times> string list) outcome" where
  "kwarg_of arguments p =
     (if jhas arguments (pm_name p) then
        (let v = jget arguments (pm_name p) in
         and_then
           (if pm_array p then
              (case py_iter v of
                 Inl e \<Rightarrow> Inl (err_type e @ '': '' @ err_msg e)
               | Inr vs \<Rightarrow> and_then (each_ok (pm_convert p) vs) (\<lambda>xs. Inr (JArr xs)))
            else pm_convert p v)
           (\<lambda>x. Inr (Some x, [])))
      else if pm_required p then Inr (None, [pm_name p])
      else Inr (Some (pm_get_default p), []))"

text \<open>Each parameter's value and the missing names; a conversion that fails ends it at once.\<close>

fun kwargs_each :: "json_obj \<Rightarrow> click_param list \<Rightarrow> (string, json_obj \<times> string list) outcome" where
  "kwargs_each arguments [] = Inr ([], [])"
| "kwargs_each arguments (p # ps) =
     and_then (kwarg_of arguments p) (\<lambda>(x, missing).
       and_then (kwargs_each arguments ps) (\<lambda>(kwargs, rest).
         Inr ((case x of None \<Rightarrow> kwargs | Some v \<Rightarrow> (pm_name p, v) # kwargs), missing @ rest)))"

definition build_kwargs :: "click_command \<Rightarrow> json_obj \<Rightarrow> (string, json_obj) outcome" where
  "build_kwargs c arguments =
     and_then (kwargs_each arguments (command_params c)) (\<lambda>(kwargs, missing).
       if missing = [] then Inr kwargs
       else Inl (''Missing required argument(s): '' @ join '', '' (sort missing)))"

text \<open>\<open>s.split(c, 1)[0]\<close>\<close>

definition before_char :: "char \<Rightarrow> string \<Rightarrow> string" where
  "before_char c s = takeWhile (\<lambda>x. x \<noteq> c) s"

definition envelope_keys :: "string list" where
  "envelope_keys = [''schema_version'', ''command'', ''status'', ''exit_code'']"

definition envelope_of_line :: "(string \<Rightarrow> (py_error, json) outcome) \<Rightarrow> string \<Rightarrow> string \<Rightarrow> json_obj option" where
  "envelope_of_line loads cmd l =
     (if \<not> prefix ''{'' (strip l) then None
      else (case loads (strip l) of
          Inr (JObj d) \<Rightarrow>
            if list_all (jhas d) envelope_keys \<and> before_char CHR '' '' (py_str (jget_or d ''command'' (JStr []))) = cmd
            then Some d else None
        | _ \<Rightarrow> None))"

text \<open>The last line that is an envelope of this tool, and the other lines that are not blank.\<close>

fun last_envelope ::
  "(string \<Rightarrow> (py_error, json) outcome) \<Rightarrow> string \<Rightarrow> string list \<Rightarrow> json_obj option \<times> string list" where
  "last_envelope loads cmd [] = (None, [])"
| "last_envelope loads cmd (l # ls) =
     (case last_envelope loads cmd ls of
        (Some d, others) \<Rightarrow> (Some d, (if strip l = [] then others else l # others))
      | (None, others) \<Rightarrow>
          (case envelope_of_line loads cmd l of
             Some d \<Rightarrow> (Some d, others)
           | None \<Rightarrow> (None, if strip l = [] then others else l # others)))"

definition parse_envelope ::
  "(string \<Rightarrow> (py_error, json) outcome) \<Rightarrow> string \<Rightarrow> string \<Rightarrow> json_obj option \<times> string list" where
  "parse_envelope loads out tool_name = last_envelope loads (before_char CHR ''_'' tool_name) (splitlines out)"

section \<open>The rendering of an envelope\<close>

definition objects_of :: "json \<Rightarrow> json_obj list" where
  "objects_of v = (case as_list v of Some xs \<Rightarrow> map (\<lambda>x. case as_obj x of Some d \<Rightarrow> d | None \<Rightarrow> []) xs | None \<Rightarrow> [])"

text \<open>A field of an output that is a text, or a list of texts to be joined.\<close>

definition joined_text :: "string \<Rightarrow> json \<Rightarrow> string" where
  "joined_text sep v = (case as_list v of Some xs \<Rightarrow> join sep (map py_str xs) | None \<Rightarrow> py_str v)"

definition output_text :: "json_obj \<Rightarrow> string option" where
  "output_text d =
     (let kind = jget d ''output_type'' in
      if kind = JStr ''stream'' then Some (joined_text [] (jget_or d ''text'' (JStr [])))
      else if kind = JStr ''execute_result'' \<or> kind = JStr ''display_data'' then
        (let plain = (case as_obj (jget d ''data'') of Some data \<Rightarrow> jget data ''text/plain'' | None \<Rightarrow> JNull) in
         if plain = JNull then None else Some (joined_text [] plain))
      else if kind = JStr ''error'' then
        Some (if truthy (jget d ''traceback'') then joined_text [CHR 0x0A] (jget d ''traceback'')
              else py_str (jget d ''ename'') @ '': '' @ py_str (jget d ''evalue''))
      else None)"

definition render_outputs :: "json \<Rightarrow> string list" where
  "render_outputs outputs =
     map (rstrip (\<lambda>c. c = CHR 0x0A))
       (List.filter (\<lambda>l. l \<noteq> []) (concat (map (\<lambda>d. case output_text d of None \<Rightarrow> [] | Some t \<Rightarrow> [t]) (objects_of outputs))))"

definition field_text :: "json_obj \<Rightarrow> string \<Rightarrow> string" where
  "field_text d k = py_str (jget d k)"

definition diagnostic_line :: "json_obj \<Rightarrow> string" where
  "diagnostic_line d =
     py_upper (py_str (jget_or d ''severity'' (JStr []))) @ '' '' @ field_text d ''code'' @ '': '' @ field_text d ''message''"

definition job_line :: "json_obj \<Rightarrow> string" where
  "job_line d =
     field_text d ''job_id'' @ ''  '' @ field_text d ''workload'' @ ''/'' @ field_text d ''offload'' @ ''/'' @ field_text d ''cleanup''
     @ (if truthy (jget d ''reason'') then ''  ('' @ field_text d ''reason'' @ '')'' else [])"

definition pruned_line :: "string \<Rightarrow> json_obj \<Rightarrow> string" where
  "pruned_line key d = key @ '': '' @ field_text d ''job_id'' @ ''  ('' @ field_text d ''reason'' @ '')''"

definition session_text :: "json_obj \<Rightarrow> string" where
  "session_text d =
     rstrip is_space (field_text d ''name'' @ ''  '' @ field_text d ''endpoint'' @ ''  '' @ field_text d ''accelerator'' @ ''  ''
       @ (if truthy (jget d ''status'') then field_text d ''status'' else []))"

text \<open>\<open>human\<close> is \<open>_human\<close> of the job, or its JSON where pydantic refuses it.\<close>

definition envelope_lines :: "(json_obj \<Rightarrow> string) \<Rightarrow> json_obj \<Rightarrow> string list" where
  "envelope_lines human d =
     (case as_obj (jget d ''job'') of Some j \<Rightarrow> [human j] | None \<Rightarrow> [])
     @ concat (map (\<lambda>b. render_outputs (jget b ''outputs'')) (objects_of (jget d ''blocks'')))
     @ render_outputs (jget d ''outputs'')
     @ map diagnostic_line (objects_of (jget d ''diagnostics''))
     @ map job_line (objects_of (jget d ''jobs''))
     @ concat (map (\<lambda>key. map (pruned_line key) (objects_of (jget d key))) [''removed'', ''skipped''])
     @ map session_text (objects_of (jget d ''sessions''))
     @ (if truthy (jget d ''content'') then [field_text d ''content''] else [])"

definition own_fields :: "json_obj \<Rightarrow> string list" where
  "own_fields d =
     map (\<lambda>(k, v). k @ '': '' @ py_str v)
       (List.filter (\<lambda>(k, v). k \<notin> {''schema_version'', ''cli_version'', ''command'', ''status'', ''exit_code'', ''message''}
          \<and> v \<notin> {JNull, JArr [], JObj []}) d)"

definition render_envelope :: "(json_obj \<Rightarrow> string) \<Rightarrow> json_obj \<Rightarrow> string" where
  "render_envelope human d =
     (let lines = (if envelope_lines human d = [] then own_fields d else envelope_lines human d);
          lines = (if truthy (jget d ''message'') \<and> field_text d ''message'' \<notin> set lines
            then lines @ [field_text d ''message''] else lines)
      in join [CHR 0x0A] (List.filter (\<lambda>l. l \<noteq> []) lines))"

text \<open>How the callback ended, and what it wrote: the text without ANSI sequences, stripped.\<close>

datatype tool_end = Tool_Ok | Tool_Exit "int option" | Tool_Usage string | Tool_Raised py_error

record tool_run =
  tr_end :: tool_end
  tr_out :: string
  tr_err :: string

record tool_outcome =
  to_ok :: bool
  to_text :: string
  to_structured :: "json_obj option"

definition run_failure :: "tool_end \<Rightarrow> string" where
  "run_failure e =
     (case e of Tool_Usage m \<Rightarrow> m | Tool_Raised x \<Rightarrow> err_type x @ '': '' @ err_msg x | _ \<Rightarrow> [])"

definition run_ok :: "tool_end \<Rightarrow> bool" where
  "run_ok e = (case e of Tool_Ok \<Rightarrow> True | Tool_Exit n \<Rightarrow> n \<in> {None, Some 0} | _ \<Rightarrow> False)"

definition run_exit_code :: "tool_end \<Rightarrow> int option" where
  "run_exit_code e = (case e of Tool_Exit n \<Rightarrow> n | _ \<Rightarrow> None)"

definition tool_outcome_of ::
  "(string \<Rightarrow> (py_error, json) outcome) \<Rightarrow> (json_obj \<Rightarrow> string) \<Rightarrow> bool \<Rightarrow> string \<Rightarrow> tool_run \<Rightarrow> tool_outcome" where
  "tool_outcome_of loads human json_mode name r =
     (let (structured, stray) = (if json_mode then parse_envelope loads (tr_out r) name else (None, []));
          failure = run_failure (tr_end r);
          parts = (case structured of
              None \<Rightarrow> [tr_out r] @ (if json_mode then [tr_err r] else []) @ [failure]
            | Some d \<Rightarrow> [tr_err r, join [CHR 0x0A] stray, render_envelope human d, failure]);
          ok = (run_ok (tr_end r) \<and> (case structured of
              None \<Rightarrow> True | Some d \<Rightarrow> jget d ''exit_code'' = JNull \<or> eq_int (jget d ''exit_code'') 0));
          all_text = join [CHR 0x0A] (List.filter (\<lambda>t. t \<noteq> []) parts)
      in \<lparr>to_ok = ok,
          to_text = (if all_text = [] \<and> \<not> ok
            then ''[exit code '' @ show_opt show_int (run_exit_code (tr_end r)) @ '']'' else all_text),
          to_structured = structured\<rparr>)"

text \<open>\<open>invoke\<close> runs the callback with the arguments it is given.\<close>

definition run_tool ::
  "(string \<Rightarrow> (py_error, json) outcome) \<Rightarrow> (json_obj \<Rightarrow> string) \<Rightarrow> string list \<Rightarrow> (json_obj \<Rightarrow> 'w \<Rightarrow> tool_run \<times> 'w)
    \<Rightarrow> string \<Rightarrow> click_command \<Rightarrow> json_obj \<Rightarrow> 'w \<Rightarrow> tool_outcome \<times> 'w" where
  "run_tool loads human json_capable invoke name c arguments w =
     (let json_mode = before_char CHR ''_'' name \<in> set json_capable in
      case build_kwargs c arguments of
        Inl m \<Rightarrow> (tool_outcome_of loads human json_mode name \<lparr>tr_end = Tool_Usage m, tr_out = [], tr_err = []\<rparr>, w)
      | Inr kwargs \<Rightarrow> (case invoke kwargs w of (r, w) \<Rightarrow> (tool_outcome_of loads human json_mode name r, w)))"

section \<open>What the tools promise\<close>

definition all_given :: "json_obj \<Rightarrow> click_param list \<Rightarrow> bool" where
  "all_given arguments ps \<longleftrightarrow> list_all (\<lambda>p. jhas arguments (pm_name p) \<or> \<not> pm_required p) ps"

lemma kwarg_of_cases:
  assumes "kwarg_of arguments p = Inr (x, missing)"
  shows "(\<exists>v. x = Some v) \<and> missing = [] \<and> (jhas arguments (pm_name p) \<or> \<not> pm_required p)
    \<or> x = None \<and> missing \<noteq> []"
  using assms by (auto simp: kwarg_of_def and_then_Inr Let_def split: if_splits)

lemma kwargs_each_complete:
  "kwargs_each arguments ps = Inr (kwargs, []) \<Longrightarrow> all_given arguments ps \<and> map fst kwargs = map pm_name ps"
proof (induction ps arbitrary: kwargs)
  case (Cons p ps)
  then obtain x kw where "kwarg_of arguments p = Inr (x, [])" "kwargs_each arguments ps = Inr (kw, [])"
    "kwargs = (case x of None \<Rightarrow> kw | Some v \<Rightarrow> (pm_name p, v) # kw)"
    by (auto simp: and_then_Inr)
  then show ?case using kwarg_of_cases [of arguments p x "[]"] Cons.IH [of kw] by (auto simp: all_given_def)
qed (simp add: all_given_def)

lemma build_kwargs_complete:
  assumes "build_kwargs c arguments = Inr kwargs"
  shows "all_given arguments (command_params c)" "map fst kwargs = map pm_name (command_params c)"
proof -
  from assms have "kwargs_each arguments (command_params c) = Inr (kwargs, [])"
    by (auto simp: build_kwargs_def and_then_Inr split: if_splits prod.splits)
  then show "all_given arguments (command_params c)" "map fst kwargs = map pm_name (command_params c)"
    using kwargs_each_complete by blast+
qed

lemma usage_is_not_ok: "\<not> to_ok (tool_outcome_of loads human json_mode name \<lparr>tr_end = Tool_Usage m, tr_out = printed, tr_err = said\<rparr>)"
  by (simp add: tool_outcome_of_def run_ok_def Let_def split: prod.splits)

text \<open>
  C39. A tool call never runs a command with an argument it requires missing: the call then
  fails without running the callback.  When the callback does run, it gets one value for
  each of the command's parameters, in their order, and never one for an excluded
  parameter such as \<open>log --follow\<close>.
\<close>

theorem tool_runs_with_every_parameter:
  "(\<exists>kwargs. map fst kwargs = map pm_name (command_params c)
      \<and> all_given arguments (command_params c)
      \<and> snd (run_tool loads human capable invoke name c arguments w) = snd (invoke kwargs w))
   \<or> (snd (run_tool loads human capable invoke name c arguments w) = w
      \<and> \<not> to_ok (fst (run_tool loads human capable invoke name c arguments w)))"
proof (cases "build_kwargs c arguments")
  case (Inl m)
  then show ?thesis by (simp add: run_tool_def Let_def usage_is_not_ok)
next
  case (Inr kwargs)
  have "snd (run_tool loads human capable invoke name c arguments w) = snd (invoke kwargs w)"
    by (simp add: run_tool_def Inr Let_def split: prod.splits)
  then show ?thesis using build_kwargs_complete [OF Inr] by blast
qed

text \<open>What is exposed: nothing excluded and nothing hidden, in particular not \<open>job apply\<close>, which blocks.\<close>

lemma exposed_names:
  assumes "(name, c) \<in> set (iter_exposable cmds)"
  shows "name \<notin> set excluded_commands \<and> \<not> cm_hidden c"
proof -
  from assms obtain n x where "is_exposable n x"
    "(name, c) \<in> set (case x of Leaf c \<Rightarrow> [(n, c)] | Group _ subs \<Rightarrow> flat_group n subs)"
    by (auto simp: iter_exposable_def split: if_splits)
  then show ?thesis by (cases x) (auto simp: is_exposable_def entry_hidden_def flat_group_def)
qed

lemma build_tools_exposes:
  assumes "t \<in> set (build_tools v cmds)"
  shows "tl_name t \<notin> set excluded_commands"
  using assms exposed_names by (auto simp: build_tools_def tool_of_def Let_def)

end
