(* ===== verification/Resources.thy ===== *)
theory Resources
  imports Mcp
begin

text \<open>
  The resources of \<open>mcp_server.py\<close>: the URIs of the local job records, what a read of one
  returns, and the watches that notify a client of a job's end and of new jobs.
\<close>

section \<open>URIs\<close>

text \<open>\<open>s.partition(sep)\<close> for a separator of any length.\<close>

fun partition_str :: "string \<Rightarrow> string \<Rightarrow> string \<times> bool \<times> string" where
  "partition_str sep [] = ([], sep = [], [])"
| "partition_str sep (c # s) =
     (if prefix sep (c # s) then ([], True, drop (length sep) (c # s))
      else (case partition_str sep s of (a, found, b) \<Rightarrow> (c # a, found, b)))"

definition job_uri_prefix :: string where "job_uri_prefix = ''job://''"
definition job_logs_suffix :: string where "job_logs_suffix = ''/logs''"
definition job_files_infix :: string where "job_files_infix = ''/files/''"

definition job_uri :: "string \<Rightarrow> string" where "job_uri job = job_uri_prefix @ job"
definition job_logs_uri :: "string \<Rightarrow> string" where "job_logs_uri job = job_uri job @ job_logs_suffix"
definition job_file_uri :: "string \<Rightarrow> string \<Rightarrow> string" where
  "job_file_uri job name = job_uri job @ job_files_infix @ name"

definition some_text :: "string \<Rightarrow> string option" where
  "some_text s = (if s = [] then None else Some s)"

definition job_id_from_uri :: "string \<Rightarrow> string option" where
  "job_id_from_uri uri =
     (if \<not> prefix job_uri_prefix uri then None else some_text (drop (length job_uri_prefix) uri))"

text \<open>The slice between the prefix and the suffix, empty where they overlap.\<close>

definition job_id_from_logs_uri :: "string \<Rightarrow> string option" where
  "job_id_from_logs_uri uri =
     (if \<not> prefix job_uri_prefix uri \<or> \<not> suffix job_logs_suffix uri then None
      else some_text (drop (length job_uri_prefix) (take (length uri - length job_logs_suffix) uri)))"

definition job_file_from_uri :: "string \<Rightarrow> (string \<times> string) option" where
  "job_file_from_uri uri =
     (if \<not> prefix job_uri_prefix uri \<or> \<not> py_in job_files_infix uri then None
      else (case partition_str job_files_infix (drop (length job_uri_prefix) uri) of
          (job, _, name) \<Rightarrow> if job = [] \<or> name = [] then None else Some (job, name)))"

definition list_uris :: "string list" where
  "list_uris = [''jobs://'', ''jobs://running'', ''jobs://done'']"

text \<open>What \<open>on_read_resource\<close> takes a URI for.\<close>

datatype resource = List_Of string | File_Of string string | Logs_Of string | Job_Of string | Bad_Logs | No_Resource

definition resource_of :: "string \<Rightarrow> resource" where
  "resource_of uri =
     (if uri \<in> set list_uris then List_Of uri
      else (case job_file_from_uri uri of
          Some (job, name) \<Rightarrow> File_Of job name
        | None \<Rightarrow>
            if suffix job_logs_suffix uri then
              (case job_id_from_logs_uri uri of Some job \<Rightarrow> Logs_Of job | None \<Rightarrow> Bad_Logs)
            else (case job_id_from_uri uri of Some job \<Rightarrow> Job_Of job | None \<Rightarrow> No_Resource)))"

fun uri_of :: "resource \<Rightarrow> string" where
  "uri_of (List_Of uri) = uri"
| "uri_of (File_Of job name) = job_file_uri job name"
| "uri_of (Logs_Of job) = job_logs_uri job"
| "uri_of (Job_Of job) = job_uri job"
| "uri_of Bad_Logs = job_uri_prefix"
| "uri_of No_Resource = []"

section \<open>The local records\<close>

text \<open>
  The local disk as the server reads it: the entries of a directory with whether each is
  a regular file (\<open>None\<close> for what is no directory), whether a path exists, and the bytes of
  a file; \<open>fs_root\<close> is the directory of the store, \<open>fs_jobs\<close> the jobs it lists, \<open>fs_envelope\<close> what
  an envelope reads as, and \<open>fs_problem\<close> the same with what is wrong with it as a text.
\<close>

record disk =
  fs_root :: string
  fs_entries :: "string \<Rightarrow> (string \<times> bool) list option"
  fs_exists :: "string \<Rightarrow> bool"
  fs_bytes :: "string \<Rightarrow> (py_error, string) outcome"
  fs_jobs :: "string list"
  fs_envelope :: "string \<Rightarrow> (py_error, job_envelope option) outcome"
  fs_problem :: "string \<Rightarrow> job_envelope option \<times> string option"

text \<open>\<open>base / name\<close> of \<open>pathlib\<close>: an absolute name replaces the base.\<close>

definition under_path :: "string \<Rightarrow> string \<Rightarrow> string" where
  "under_path base name = (if prefix ''/'' name then name else base @ ''/'' @ name)"

definition store_dir :: "disk \<Rightarrow> string \<Rightarrow> string" where
  "store_dir fs job = under_path (fs_root fs) job"

definition shown_file :: "string \<Rightarrow> bool" where
  "shown_file name \<longleftrightarrow>
     name \<notin> {''envelope.json'', ''runner.log'', ''apply.lock''} \<and> \<not> prefix ''.'' name
     \<and> \<not> prefix ''.mighty-colab-secret-tmp-'' name \<and> \<not> suffix ''.mighty-colab-secrets.json'' name"

definition job_record_files :: "disk \<Rightarrow> string \<Rightarrow> string list" where
  "job_record_files fs job =
     (case fs_entries fs (store_dir fs job) of
        None \<Rightarrow> []
      | Some entries \<Rightarrow> sort (map fst (List.filter (\<lambda>(name, is_file). is_file \<and> shown_file name) entries)))"

text \<open>\<open>Path(name).suffix\<close>\<close>

definition path_suffix :: "string \<Rightarrow> string" where
  "path_suffix name =
     (let ext = rev (takeWhile (\<lambda>c. c \<noteq> CHR ''.'') (rev name)) in
      if length ext + 1 < length name \<and> ext \<noteq> [] then CHR ''.'' # ext else [])"

definition file_mime :: "string \<Rightarrow> string" where
  "file_mime name =
     (if path_suffix name = ''.json'' then ''application/json''
      else if path_suffix name = ''.jsonl'' then ''application/x-ndjson'' else ''text/plain'')"

record listed =
  ls_uri :: string
  ls_name :: string
  ls_description :: string
  ls_mime :: string

definition job_status_text :: "job_envelope option \<times> string option \<Rightarrow> string" where
  "job_status_text r =
     (case r of
        (_, Some unreadable) \<Rightarrow> unreadable
      | (None, None) \<Rightarrow> ''planned, not applied''
      | (Some e, None) \<Rightarrow> if env_done e then ''done'' else ''running'')"

definition job_resources :: "disk \<Rightarrow> string \<Rightarrow> listed list" where
  "job_resources fs job =
     [\<lparr>ls_uri = job_uri job, ls_name = job,
        ls_description = ''mighty-colab job ('' @ job_status_text (fs_problem fs job) @ '')'', ls_mime = ''application/json''\<rparr>,
      \<lparr>ls_uri = job_logs_uri job, ls_name = job @ '' (logs)'',
        ls_description = ''Locally synced runner.log for this job (pulled on every ''
          @ ''healthy poll tick while apply/status --poll is active)'', ls_mime = ''text/plain''\<rparr>]
     @ map (\<lambda>name. \<lparr>ls_uri = job_file_uri job name, ls_name = job @ ''/'' @ name,
          ls_description = ''Local job record '' @ name, ls_mime = file_mime name\<rparr>) (job_record_files fs job)"

definition list_resources :: "listed list" where
  "list_resources =
     [\<lparr>ls_uri = ''jobs://'', ls_name = ''jobs'',
        ls_description = ''All local job records (same rows as `mighty-colab jobs list --json`)'', ls_mime = ''application/json''\<rparr>,
      \<lparr>ls_uri = ''jobs://running'', ls_name = ''jobs (running)'',
        ls_description = ''Local job records not yet done (same rows as `mighty-colab jobs list --running --json`)'',
        ls_mime = ''application/json''\<rparr>,
      \<lparr>ls_uri = ''jobs://done'', ls_name = ''jobs (done)'',
        ls_description = ''Local job records that have finished (same rows as `mighty-colab jobs list --done --json`)'',
        ls_mime = ''application/json''\<rparr>]"

definition list_job_resources :: "disk \<Rightarrow> listed list" where
  "list_job_resources fs = list_resources @ concat (map (job_resources fs) (fs_jobs fs))"

section \<open>Reading a resource\<close>

definition quoted_job :: "string \<Rightarrow> string" where
  "quoted_job job = ''no envelope for job '' @ repr_str job @ '' -- planned but never applied, or the job_id doesn'' @ [CHR 39] @ ''t exist''"

definition value_error :: "string \<Rightarrow> py_error" where
  "value_error m = \<lparr>err_type = ''ValueError'', err_msg = m\<rparr>"

text \<open>The text of a read: \<open>dump\<close> is \<open>model_dump_json\<close>, \<open>rows\<close> the rows as JSON
  text, \<open>strict\<close> the decoding of UTF-8 and \<open>decode\<close> the one with replacements.\<close>

definition read_jobs_list :: "(json_obj list \<Rightarrow> string) \<Rightarrow> job_files list \<Rightarrow> string \<Rightarrow> string" where
  "read_jobs_list rows jobs uri =
     rows (if uri = ''jobs://running'' then List.filter (\<lambda>r. \<not> truthy (jget r ''done'')) (job_list_rows jobs)
       else if uri = ''jobs://done'' then List.filter (\<lambda>r. truthy (jget r ''done'')) (job_list_rows jobs)
       else job_list_rows jobs)"

definition read_job :: "(job_envelope \<Rightarrow> string) \<Rightarrow> disk \<Rightarrow> string \<Rightarrow> (py_error, string) outcome" where
  "read_job dump fs job =
     and_then (fs_envelope fs job) (\<lambda>e. case e of None \<Rightarrow> Inl (value_error (quoted_job job)) | Some env \<Rightarrow> Inr (dump env))"

definition read_job_logs :: "(string \<Rightarrow> (py_error, string) outcome) \<Rightarrow> disk \<Rightarrow> string \<Rightarrow> (py_error, string) outcome" where
  "read_job_logs strict fs job =
     and_then (fs_envelope fs job) (\<lambda>e.
       if e = None \<and> \<not> fs_exists fs (store_dir fs job) then Inl (value_error (quoted_job job))
       else if fs_exists fs (store_dir fs job @ ''/runner.log'')
       then and_then (fs_bytes fs (store_dir fs job @ ''/runner.log'')) strict
       else Inr [])"

definition read_job_file :: "(string \<Rightarrow> string) \<Rightarrow> disk \<Rightarrow> string \<Rightarrow> string \<Rightarrow> (py_error, string) outcome" where
  "read_job_file decode fs job name =
     (if name \<notin> set (job_record_files fs job)
      then Inl (value_error (''job '' @ repr_str job @ '' has no record file '' @ repr_str name))
      else and_then (fs_bytes fs (under_path (store_dir fs job) name)) (\<lambda>b. Inr (decode b)))"

definition read_resource ::
  "(json_obj list \<Rightarrow> string) \<Rightarrow> (job_envelope \<Rightarrow> string) \<Rightarrow> (string \<Rightarrow> (py_error, string) outcome)
    \<Rightarrow> (string \<Rightarrow> string) \<Rightarrow> disk \<Rightarrow> job_files list \<Rightarrow> string \<Rightarrow> (py_error, string) outcome" where
  "read_resource rows dump strict decode fs jobs uri =
     (case resource_of uri of
        List_Of u \<Rightarrow> Inr (read_jobs_list rows jobs u)
      | File_Of job name \<Rightarrow> read_job_file decode fs job name
      | Logs_Of job \<Rightarrow> read_job_logs strict fs job
      | Job_Of job \<Rightarrow> read_job dump fs job
      | Bad_Logs \<Rightarrow> Inl (value_error (''not a job://<id>/logs resource: '' @ uri))
      | No_Resource \<Rightarrow> Inl (value_error (''not a job:// resource: '' @ uri)))"

section \<open>Watches\<close>

text \<open>What a subscription does: nothing, or a watch from the workload it found.\<close>

datatype subscription = Declined | Watch string bool

definition subscribe :: "disk \<Rightarrow> string \<Rightarrow> (py_error, subscription) outcome" where
  "subscribe fs uri =
     (if uri \<in> set list_uris \<or> suffix job_logs_suffix uri \<or> job_file_from_uri uri \<noteq> None then Inr Declined
      else (case job_id_from_uri uri of
          None \<Rightarrow> Inl (value_error (''not a job:// resource: '' @ uri))
        | Some job \<Rightarrow>
            and_then (fs_envelope fs job) (\<lambda>e. Inr (case e of
                None \<Rightarrow> Watch job False
              | Some env \<Rightarrow> if env_done env then Declined else Watch job (env_workload env \<noteq> W_Pending)))))"

text \<open>
  One tick of a watch: the envelope as read (\<open>None\<close> when there is none or it cannot be
  read) and whether a notification can be sent.  It gives whether one was sent, and
  whether the watch goes on and has notified the start.
\<close>

definition watch_tick :: "bool \<Rightarrow> job_envelope option \<Rightarrow> bool \<Rightarrow> bool \<times> bool option" where
  "watch_tick notified e delivered =
     (case e of
        None \<Rightarrow> (False, Some notified)
      | Some env \<Rightarrow>
          if env_done env then (delivered, None)
          else if \<not> notified \<and> env_workload env \<noteq> W_Pending then
            (if delivered then (True, Some True) else (False, None))
          else (False, Some notified))"

text \<open>The watch over its ticks: the states of the job it notified, and whether it still runs.\<close>

inductive watch_reach :: "bool \<Rightarrow> job_envelope list \<Rightarrow> bool option \<Rightarrow> bool" for start where
  watch_begins: "watch_reach start [] (Some start)"
| watch_ticks: "watch_reach start sent (Some notified) \<Longrightarrow> watch_tick notified e delivered = (now_sent, nxt) \<Longrightarrow>
     watch_reach start (if now_sent then sent @ [the e] else sent) nxt"

text \<open>The watch of the job list: a change of the set of jobs is notified once.\<close>

definition list_tick :: "string list \<Rightarrow> string list option \<Rightarrow> bool \<Rightarrow> bool \<times> string list option" where
  "list_tick known current delivered =
     (case current of
        None \<Rightarrow> (False, Some known)
      | Some c \<Rightarrow>
          if set c = set known then (False, Some known)
          else if delivered then (True, Some c) else (False, None))"

section \<open>What the resources promise\<close>

text \<open>A separator is found at its first occurrence.\<close>

lemma partition_str_first:
  assumes "sep = seps @ [x]" "\<not> py_in sep (a @ seps)"
  shows "partition_str sep (a @ sep @ b) = (a, True, b)"
  using assms(2)
proof (induction a)
  case Nil
  then show ?case using assms(1) by (cases seps) auto
next
  case (Cons c a)
  have "\<not> prefix sep (c # a @ sep @ b)"
  proof
    assume "prefix sep (c # a @ sep @ b)"
    moreover have "prefix (c # a @ seps) (c # a @ sep @ b)" by (simp add: assms(1))
    ultimately have "prefix sep (c # a @ seps)"
      by (rule prefix_length_prefix) (simp add: assms(1))
    with Cons.prems show False by simp
  qed
  then show ?case using Cons by simp
qed

lemma sublist_count: "sublist xs ys \<Longrightarrow> count_list xs c \<le> count_list ys c"
  by (auto simp: sublist_def)

text \<open>A job id without a slash has no infix across its end.\<close>

lemma no_infix:
  assumes "CHR ''/'' \<notin> set job"
  shows "\<not> py_in job_files_infix (job @ ''/files'')"
proof
  assume "py_in job_files_infix (job @ ''/files'')"
  then have "count_list job_files_infix CHR ''/'' \<le> count_list (job @ ''/files'') CHR ''/''"
    by (intro sublist_count) (simp add: py_in_sublist)
  moreover have "count_list job CHR ''/'' = 0" using assms by (simp add: count_list_0_iff)
  ultimately show False by (simp add: job_files_infix_def)
qed

lemma file_uri_parsed:
  assumes "job \<noteq> []" "name \<noteq> []" "\<not> py_in job_files_infix (job @ ''/files'')"
  shows "job_file_from_uri (job_file_uri job name) = Some (job, name)"
proof -
  have "partition_str job_files_infix (job @ job_files_infix @ name) = (job, True, name)"
    by (rule partition_str_first [OF _ assms(3)]) (simp add: job_files_infix_def)
  moreover have "py_in job_files_infix (job_file_uri job name)"
    by (simp add: py_in_sublist job_file_uri_def sublist_def) (metis append_assoc)
  ultimately show ?thesis using assms by (simp add: job_file_from_uri_def job_file_uri_def job_uri_def)
qed

lemma not_list_uri: "job_uri job \<notin> set list_uris"
  by (simp add: list_uris_def job_uri_def job_uri_prefix_def)

lemma partition_str_none:
  "sep \<noteq> [] \<Longrightarrow> \<not> py_in sep s \<Longrightarrow> partition_str sep s = (s, False, [])"
  by (induction s) auto

text \<open>Without two slashes after the prefix there is no file in the URI.\<close>

lemma no_file_parsed:
  assumes "count_list s CHR ''/'' < 2"
  shows "job_file_from_uri (job_uri s) = None"
proof -
  have "\<not> py_in job_files_infix s"
  proof
    assume "py_in job_files_infix s"
    then have "count_list job_files_infix CHR ''/'' \<le> count_list s CHR ''/''"
      by (intro sublist_count) (simp add: py_in_sublist)
    with assms show False by (simp add: job_files_infix_def)
  qed
  then have "partition_str job_files_infix s = (s, False, [])"
    by (intro partition_str_none) (simp_all add: job_files_infix_def)
  then show ?thesis by (simp add: job_file_from_uri_def job_uri_def)
qed

lemma slash_free_count: "CHR ''/'' \<notin> set job \<Longrightarrow> count_list job CHR ''/'' = 0"
  by (simp add: count_list_0_iff)

lemma logs_suffix_only:
  assumes "CHR ''/'' \<notin> set job" "suffix job_logs_suffix (job_uri job)"
  shows "job = ''logs''"
proof -
  from assms(2) consider "suffix job_logs_suffix job"
    | us where "job_logs_suffix = us @ job" "suffix us job_uri_prefix"
    by (auto simp: job_uri_def suffix_append)
  then show ?thesis
  proof cases
    case 1
    with assms(1) show ?thesis by (auto simp: suffix_def job_logs_suffix_def)
  next
    case 2
    then obtain vs where us: "us = CHR ''/'' # vs"
      using assms(1) by (cases us) (auto simp: job_logs_suffix_def)
    from 2(2) us have "us \<in> {''/'', ''//''}"
      by (auto simp: job_uri_prefix_def suffix_def Cons_eq_append_conv)
    with 2(1) show ?thesis by (auto simp: job_logs_suffix_def)
  qed
qed

text \<open>The job ids whose resources have URIs of their own.\<close>

definition plain_job :: "string \<Rightarrow> bool" where
  "plain_job job \<longleftrightarrow> job \<noteq> [] \<and> CHR ''/'' \<notin> set job \<and> job \<noteq> ''logs''"

fun addressable :: "resource \<Rightarrow> bool" where
  "addressable (List_Of uri) \<longleftrightarrow> uri \<in> set list_uris"
| "addressable (File_Of job name) \<longleftrightarrow> plain_job job \<and> name \<noteq> []"
| "addressable (Logs_Of job) \<longleftrightarrow> plain_job job"
| "addressable (Job_Of job) \<longleftrightarrow> plain_job job"
| "addressable Bad_Logs \<longleftrightarrow> False"
| "addressable No_Resource \<longleftrightarrow> False"

lemma job_uri_resolves:
  assumes "plain_job job"
  shows "resource_of (job_uri job) = Job_Of job"
proof -
  have "job_file_from_uri (job_uri job) = None"
    using assms by (intro no_file_parsed) (simp add: plain_job_def slash_free_count)
  moreover have "\<not> suffix job_logs_suffix (job_uri job)"
    using assms logs_suffix_only by (auto simp: plain_job_def)
  moreover have "job_id_from_uri (job_uri job) = Some job"
    using assms by (simp add: job_id_from_uri_def job_uri_def some_text_def plain_job_def)
  ultimately show ?thesis by (simp add: resource_of_def not_list_uri)
qed

lemma logs_uri_resolves:
  assumes "plain_job job"
  shows "resource_of (job_logs_uri job) = Logs_Of job"
proof -
  have u: "job_logs_uri job = job_uri (job @ job_logs_suffix)" by (simp add: job_logs_uri_def job_uri_def)
  have "job_file_from_uri (job_logs_uri job) = None"
    using assms unfolding u by (intro no_file_parsed) (simp add: plain_job_def slash_free_count job_logs_suffix_def)
  moreover have "suffix job_logs_suffix (job_logs_uri job)" by (simp add: job_logs_uri_def suffix_def)
  moreover have "job_id_from_logs_uri (job_logs_uri job) = Some job"
    using assms by (simp add: job_id_from_logs_uri_def job_logs_uri_def job_uri_def some_text_def plain_job_def suffix_def)
  ultimately show ?thesis using not_list_uri [of "job @ job_logs_suffix"] by (simp add: resource_of_def u [symmetric])
qed

lemma file_uri_resolves:
  assumes "job \<noteq> []" "name \<noteq> []" "\<not> py_in job_files_infix (job @ ''/files'')"
  shows "resource_of (job_file_uri job name) = File_Of job name"
proof -
  have "job_file_uri job name \<notin> set list_uris"
    using not_list_uri [of "job @ job_files_infix @ name"] by (simp add: job_file_uri_def job_uri_def)
  then show ?thesis using file_uri_parsed [OF assms] by (simp add: resource_of_def)
qed

lemma plain_file_uri_resolves:
  "plain_job job \<Longrightarrow> name \<noteq> [] \<Longrightarrow> resource_of (job_file_uri job name) = File_Of job name"
  by (rule file_uri_resolves) (simp_all add: plain_job_def no_infix)

lemma list_uri_resolves: "uri \<in> set list_uris \<Longrightarrow> resource_of uri = List_Of uri"
  by (simp add: resource_of_def)

lemmas resolves = list_uri_resolves job_uri_resolves logs_uri_resolves plain_file_uri_resolves



lemma listed_member:
  assumes "fs_entries fs (store_dir fs job) = Some entries" "(name, True) \<in> set entries" "shown_file name"
  shows "name \<in> set (job_record_files fs job)"
  using assms by (force simp: job_record_files_def)

text \<open>
  C40. What a client can read is not confined to the store: \<open>job_dir\<close> joins the job id of
  the URI to the root unchecked, so \<open>job://<directory>/files/<name>\<close> with an absolute
  directory returns the bytes of any regular file of that directory whose name is not
  one the server hides, whatever the root is and whether or not there is such a job.
\<close>

theorem absolute_job_id_reads_outside_the_store:
  assumes "prefix ''/'' directory" "\<not> py_in job_files_infix (directory @ ''/files'')"
    and "fs_entries fs directory = Some entries" "(name, True) \<in> set entries"
    and "shown_file name" "name \<noteq> []" "\<not> prefix ''/'' name"
    and "fs_bytes fs (directory @ ''/'' @ name) = Inr b"
  shows "read_resource rows dump strict decode fs jobs (job_file_uri directory name) = Inr (decode b)"
proof -
  have d: "store_dir fs directory = directory" and "directory \<noteq> []"
    using assms(1) by (auto simp: store_dir_def under_path_def)
  then have "resource_of (job_file_uri directory name) = File_Of directory name"
    by (intro file_uri_resolves assms)
  moreover have "name \<in> set (job_record_files fs directory)"
    using assms by (intro listed_member) (simp_all add: d)
  ultimately show ?thesis
    using assms by (simp add: read_resource_def read_job_file_def d under_path_def)
qed

definition etc_disk :: disk where
  "etc_disk = \<lparr>fs_root = ''/home/u/.config/jobs'',
     fs_entries = (\<lambda>d. if d = ''/etc'' then Some [(''passwd'', True)] else None),
     fs_exists = (\<lambda>p. p = ''/etc/passwd''), fs_bytes = (\<lambda>p. Inr ''root:x:0:0''), fs_jobs = [],
     fs_envelope = (\<lambda>job. Inr None), fs_problem = (\<lambda>job. (None, None))\<rparr>"

theorem absolute_job_id_reads_outside_the_store_witness:
  "read_resource (\<lambda>rows. []) (\<lambda>e. []) Inr (\<lambda>b. b) etc_disk [] ''job:///etc/files/passwd'' = Inr ''root:x:0:0''"
proof -
  have "read_resource (\<lambda>rows. []) (\<lambda>e. []) Inr (\<lambda>b. b) etc_disk [] (job_file_uri ''/etc'' ''passwd'') = Inr ''root:x:0:0''"
    by (rule absolute_job_id_reads_outside_the_store [where entries = "[(''passwd'', True)]"])
      (simp_all add: etc_disk_def job_files_infix_def shown_file_def suffix_def)
  then show ?thesis by (simp add: job_file_uri_def job_uri_def job_uri_prefix_def job_files_infix_def)
qed

section \<open>The watches\<close>

text \<open>The notifications of a watch: none, one for the start, one for the end, or both in order.\<close>

definition watch_log :: "bool \<Rightarrow> job_envelope list \<Rightarrow> bool option \<Rightarrow> bool" where
  "watch_log start sent w \<longleftrightarrow>
     (let started = (\<lambda>e. \<not> env_done e \<and> env_workload e \<noteq> W_Pending) in
      (sent = [] \<and> w \<in> {None, Some start})
      \<or> (\<exists>e. sent = [e] \<and> env_done e \<and> w = None)
      \<or> (\<exists>e. sent = [e] \<and> \<not> start \<and> started e \<and> w \<in> {None, Some True})
      \<or> (\<exists>e d. sent = [e, d] \<and> \<not> start \<and> started e \<and> env_done d \<and> w = None))"

lemma watch_tick_log:
  assumes "watch_log start sent (Some notified)" "watch_tick notified e delivered = (now_sent, nxt)"
  shows "watch_log start (if now_sent then sent @ [the e] else sent) nxt"
  using assms by (auto simp: watch_log_def watch_tick_def split: option.splits if_splits)

lemma watch_reach_log: "watch_reach start sent w \<Longrightarrow> watch_log start sent w"
proof (induction rule: watch_reach.induct)
  case watch_begins
  then show ?case by (simp add: watch_log_def)
next
  case (watch_ticks sent notified e delivered now_sent nxt)
  show ?case by (rule watch_tick_log [OF watch_ticks.IH watch_ticks.hyps(2)])
qed

lemma subscribe_watches:
  assumes "subscribe fs uri = Inr (Watch job start)"
  shows "\<exists>e. fs_envelope fs job = Inr e
     \<and> (case e of None \<Rightarrow> \<not> start | Some env \<Rightarrow> \<not> env_done env \<and> start = (env_workload env \<noteq> W_Pending))"
  using assms by (auto simp: subscribe_def and_then_Inr split: if_splits option.splits)

text \<open>
  C38. A subscription to a job notifies each change once: at most one notice of a start and
  at most one of the end, the end last and with it the end of the watch; no notice of a
  start when the job had left \<open>pending\<close> before the subscription, and no watch at all
  for a job that was already done.
\<close>

theorem watch_notifies_each_change_once:
  assumes "subscribe fs uri = Inr (Watch job start)" "watch_reach start sent w"
  shows "length (List.filter env_done sent) \<le> 1
    \<and> length (List.filter (\<lambda>e. \<not> env_done e) sent) \<le> (if start then 0 else 1)
    \<and> list_all (\<lambda>e. env_workload e \<noteq> W_Pending) (List.filter (\<lambda>e. \<not> env_done e) sent)
    \<and> sent = List.filter (\<lambda>e. \<not> env_done e) sent @ List.filter env_done sent
    \<and> (if w = None then True else \<not> list_ex env_done sent)
    \<and> (case fs_envelope fs job of
         Inr (Some env) \<Rightarrow> \<not> env_done env \<and> start = (env_workload env \<noteq> W_Pending)
       | _ \<Rightarrow> \<not> start)"
proof -
  have "watch_log start sent w" using assms(2) by (rule watch_reach_log)
  moreover obtain e where "fs_envelope fs job = Inr e"
    "case e of None \<Rightarrow> \<not> start | Some env \<Rightarrow> \<not> env_done env \<and> start = (env_workload env \<noteq> W_Pending)"
    using subscribe_watches [OF assms(1)] by blast
  ultimately show ?thesis by (auto simp: watch_log_def Let_def split: option.splits)
qed

definition demo_pending :: job_envelope where
  "demo_pending = new_envelope ''1'' ''1'' ''j''"

definition demo_started :: job_envelope where
  "demo_started = demo_pending\<lparr>env_workload := W_Running\<rparr>"

definition pending_disk :: disk where
  "pending_disk = etc_disk\<lparr>fs_envelope := (\<lambda>job. Inr (Some demo_pending))\<rparr>"

lemma demo_envelopes:
  "\<not> env_done demo_pending" "env_workload demo_pending = W_Pending"
  "\<not> env_done demo_started" "env_workload demo_started = W_Running" "env_done demo_done"
  by code_simp+

lemma demo_subscription: "subscribe pending_disk ''job://j'' = Inr (Watch ''j'' False)"
proof -
  have "job_file_from_uri ''job://j'' = None" "job_id_from_uri ''job://j'' = Some ''j''"
    "''job://j'' \<notin> set list_uris" "\<not> suffix job_logs_suffix ''job://j''"
    by code_simp+
  then show ?thesis by (simp add: subscribe_def pending_disk_def demo_envelopes)
qed

lemma demo_watch: "watch_reach False [demo_started, demo_done] None"
proof -
  have "watch_reach False (if True then [] @ [the (Some demo_started)] else []) (Some True)"
    by (rule watch_ticks [OF watch_begins, where delivered = True]) (simp add: watch_tick_def demo_envelopes)
  then have "watch_reach False [demo_started] (Some True)" by simp
  then have "watch_reach False (if True then [demo_started] @ [the (Some demo_done)] else [demo_started]) None"
    by (rule watch_ticks [where delivered = True]) (simp add: watch_tick_def demo_envelopes)
  then show ?thesis by simp
qed

theorem watch_notifies_each_change_once_witness:
  "length (List.filter env_done [demo_started, demo_done]) \<le> 1
    \<and> list_all (\<lambda>e. env_workload e \<noteq> W_Pending) (List.filter (\<lambda>e. \<not> env_done e) [demo_started, demo_done])"
  using watch_notifies_each_change_once [OF demo_subscription demo_watch] by blast

end
