(* ===== verification/Spec2Isabelle.thy ===== *)
theory Spec2Isabelle
  imports Install State Sha256 UrlId Contents Transport Supervision RunnerMain IsoTime Absorb Poll Expiry Bundle Planner SpecHash
    Launch Commands Jobs Pipeline Closing Adopt Resources
begin

text \<open>
  The job supervisor of mighty-colab: what \<open>mighty-colab job plan\<close>, \<open>apply\<close>, \<open>status\<close>,
  \<open>destroy\<close> and \<open>jobs\<close> do to run a script on a rented VM, to bring its result back, and
  to release the VM, with the program that runs on the VM; the session commands that share
  its VMs and its session file; and the MCP server through which an agent uses them.

  \<^bold>\<open>The program.\<close>  A spec is checked and hashed into a plan (\<open>planner.py\<close>,
  \<open>spec_io.py\<close>), which is stored in two files, one without credentials (\<open>store.py\<close>).
  \<open>job apply\<close> (\<open>commands/job.py\<close>) checks the plan again, claims the job and drives the
  phases of \<open>Orchestrator\<close> (\<open>orchestrator.py\<close>): it assigns a VM, installs, restarts and
  verifies through the VM's kernel, uploads the payload (\<open>payload_bundle.py\<close> over
  \<open>transport.py\<close> over \<open>contents.py\<close>), launches \<open>runner.py\<close> there, polls the files the
  runner writes, absorbs \<open>result.json\<close> into the envelope (\<open>verdict.py\<close>) and cleans up.
  On the VM the runner stages the inputs, starts the script, waits, stops it on a cancel
  or at its deadline, uploads the artifacts and writes the result; \<open>watchdog.py\<close>, its
  sibling, reports that it lives and stops the script when it does not.  The two share
  only files, so a later \<open>job status\<close> or \<open>job destroy\<close> can take over.  \<open>new\<close>, \<open>stop\<close>,
  \<open>sessions\<close> and \<open>adopt\<close> keep the session file in step with the VMs by hand, and a daemon
  pings each VM.  \<open>mcp_server.py\<close> offers the commands as tools and the job records as
  resources, and notifies a client of what becomes of a job.

  \<^bold>\<open>Theories.\<close>
  \<^item> \<open>Prelude\<close>, \<open>PyValue\<close>, \<open>Url\<close>, \<open>IsoTime\<close>, \<open>Sha256\<close>: Python's strings, JSON values,
    \<open>urlsplit\<close>, ISO times and SHA-256, as far as the sources use them; errors are
    values (\<open>Inl\<close> of an outcome), an exception its class name and text.
  \<^item> \<open>Redact\<close> (\<open>redact.py\<close>), \<open>Models\<close> (\<open>models.py\<close>), \<open>Verdict\<close> (\<open>verdict.py\<close>),
    \<open>Install\<close> (\<open>install.py\<close>), \<open>State\<close> (\<open>state.py\<close>), \<open>Ident\<close> (\<open>ident.py\<close>),
    \<open>Contents\<close> (\<open>contents.py\<close>), \<open>Transport\<close> (\<open>transport.py\<close>), \<open>Store\<close> (\<open>store.py\<close>),
    \<open>Bundle\<close> (\<open>payload_bundle.py\<close>), \<open>Planner\<close> (\<open>planner.py\<close>), \<open>Netpolicy\<close>
    (\<open>netpolicy.py\<close> and the probe of \<open>spec_io.py\<close>), \<open>Watchdog\<close> (\<open>watchdog.py\<close>): one
    module each, a definition per function under the function's name.
  \<^item> \<open>UrlId\<close>, \<open>UrlMarker\<close>, \<open>Expiry\<close>, \<open>SpecHash\<close>: the parts of \<open>spec_io.py\<close>: identities of
    URLs, the marker that stands for a redacted one, the life of a signature, and the
    hashes that bind a plan.
  \<^item> \<open>Runner\<close> and \<open>RunnerMain\<close>: \<open>runner.py\<close>; transfers and command line, then \<open>main\<close>, its
    loop as the relation \<open>wait_reach\<close> over passes.
  \<^item> \<open>Supervision\<close> (the module functions of \<open>orchestrator.py\<close>), \<open>Absorb\<close>
    (\<open>absorb_result\<close>), \<open>Poll\<close> (\<open>poll\<close> and the methods it ends in), \<open>Phases\<close> (the other
    methods of \<open>Orchestrator\<close>, from \<open>provision\<close> to \<open>cleanup\<close>) and \<open>Assignment\<close> (what
    provisioning and cleanup do to the VM).
  \<^item> \<open>Apply\<close>, \<open>Recover\<close>, \<open>Commands\<close>, \<open>Jobs\<close>: \<open>commands/job.py\<close>; apply with all its ends,
    the helpers of a later process, \<open>status\<close> and \<open>destroy\<close>, \<open>jobs list\<close> and \<open>prune\<close>.
  \<^item> \<open>Sessions\<close> and \<open>Adopt\<close>: \<open>commands/session.py\<close> (\<open>new\<close>, \<open>stop\<close>, the keep-alive daemon as the
    loop \<open>ka_loop\<close>, the rows of \<open>sessions\<close> and \<open>status\<close>), \<open>commands/adopt.py\<close>, and the sync,
    pruning and resolution of sessions in \<open>common.py\<close>.
  \<^item> \<open>Mcp\<close> and \<open>Resources\<close>: \<open>mcp_server.py\<close>; tools and their calls, then the URIs, the reads and
    the watches, a watch over its ticks as the relation \<open>watch_reach\<close>.
  \<^item> \<open>Launch\<close>, \<open>Pipeline\<close>, \<open>Closing\<close>: the seams.  The command line the supervisor
    builds is the one the runner parses; the result the runner writes is one the
    supervisor absorbs; and apply, over poll and phases, returns.

  \<^bold>\<open>State and operations.\<close>  Objects are records (\<open>job_envelope\<close>, \<open>sup\<close> and \<open>orch\<close> for
  \<open>Orchestrator\<close>, \<open>look\<close> for one \<open>status\<close>), and a method is a function that returns
  the updated record.  What the sources call outside themselves is a record of
  functions over an abstract world \<open>'w\<close> that every call threads: \<open>colab\<close> the Colab API,
  \<open>remote\<close> the transport and the clock as the supervisor sees them, \<open>site\<close> the machine
  an apply runs on, \<open>desk\<close> that of a later command, \<open>console\<close> that of a session command,
  \<open>disk\<close> what the MCP server reads, \<open>runner_env\<close> the VM of the runner,
  \<open>staging\<close> the uploads, \<open>pydantic\<close> the validation of rows.  A theorem without
  hypothesis on such a record holds whatever the service, the VM, the clock and the
  disk answer.  \<open>Transport\<close> is itself one \<open>remote\<close> (\<open>transport_remote\<close>).

  \<^bold>\<open>What the lemmas show.\<close>
  \<^item> VMs are not lost: what provisioning leaves assigned is named in the envelope, what
    cleanup reports released is not assigned, release outcomes say only what the server
    said, and every end of apply, status and destroy settles the cleanup.
  \<^item> A job is not declared lost without proof (\<open>Transport\<close>, \<open>Supervision\<close>; the locales
    \<open>job_reader\<close> and \<open>remote_observer\<close> state the law of a reader, once).
  \<^item> Verdicts: the runner's from the exit and the probes, the envelope's from the
    result, and that the two agree.
  \<^item> Credentials: redaction, references instead of URLs, the channel uploaded last, the
    VM given up when the channel may still be there, no request to a private address.
  \<^item> Plans: the hashes bind, the stored plan reads back, a plan without errors was
    checked for what it needs, apply accepts exactly what was planned.
  \<^item> Stopping: each signal at most once and in order, in the watchdog and the runner.
  \<^item> Sessions: \<open>new\<close> records the VM it returns with, \<open>stop\<close> forgets only what was released,
    \<open>adopt\<close> rebinds no name, a sync forgets what is not listed; and where this fails: a ping
    that is lost before the save, and the daemon that writes back an old record.
  \<^item> The server: URIs read back, a tool runs with every parameter or not at all, a watch
    notifies each change once; and that a job id is not confined to the store.
  \<^item> Termination: poll, apply and the daemon return (\<open>Poll\<close>, locale \<open>forward_clock\<close>; \<open>Closing\<close>;
    \<open>Sessions\<close>).

  \<^bold>\<open>Bounds and loops.\<close>  Every loop of the sources with a bound is a structural
  recursion over that bound: retries of a read, the candidates of an assignment, the
  redirects of a request, the waits for a result.  Loops without one are
  \<open>partial_function (option)\<close>, where \<open>None\<close> is not returning (\<open>poll_loop\<close>, \<open>look_loop\<close>,
  \<open>finish_without_result\<close>, \<open>ka_loop\<close>); no fuel is used.  Python's integers are \<open>int\<close>; SHA-256 works
  on 32-bit words.

  \<^bold>\<open>Conventions.\<close>  Times and floats are exact rationals and their text a parameter
  where it matters.  Strings are lists of the code points below 256.  A
  \<open>KeyboardInterrupt\<close> or a signal is an explicit way out (\<open>exit\<close>) from any state of the
  object.  The recursion limit of the interpreter and failures of the local disk, where
  the sources do not handle them, are not modelled.

  \<^bold>\<open>Not modelled.\<close>  The parsing of options by typer and everything that is printed or
  logged; the start of processes (\<open>subprocess\<close>, \<open>fork\<close>) and their signal handlers;
  atomic writes, directory listings and deletions of the local disk beyond the files
  that \<open>Store\<close> names; parsing of YAML and JSON and pydantic's own validation, which are
  parameters; \<open>shim.py\<close>, which runs the script inside its own interpreter; \<open>exec\<close>, \<open>run\<close>,
  \<open>repl\<close>, \<open>console\<close>, \<open>ssh\<close>, the copying of files, \<open>restart-kernel\<close> and \<open>url\<close>, which pass what a
  person types to the kernel or the Contents API; OAuth; the event loop of the MCP server
  and the introspection of click; and the vendored kernel client, whose calls are
  parameters of \<open>site\<close>.
\<close>

end
